(* ===== verification/Prelude.thy ===== *)
theory Prelude
  imports Main "HOL-Library.Word"
begin

text \<open>
  What every component of the model shares: the machine integers of the Rust sources and their
  checked, saturating and narrowing operations, results with early return, and the little-endian
  byte encoding of integers. The collection \<open>word_nat\<close> holds the facts that move an operation
  on words to the natural numbers; \<open>result_simps\<close> holds the facts that take a chain of early
  returns apart.
\<close>

named_theorems word_nat
named_theorems result_simps

section \<open>Machine integers\<close>

type_synonym u8 = "8 word"
type_synonym u16 = "16 word"
type_synonym u32 = "32 word"
type_synonym u64 = "64 word"
type_synonym u128 = "128 word"

text \<open>Rust's \<open>checked_add\<close>, \<open>checked_sub\<close>, \<open>checked_mul\<close>, \<open>saturating_add\<close>,
  \<open>saturating_sub\<close> and the fallible narrowing \<open>try_from\<close>.\<close>

definition checked_add :: "'a::len word \<Rightarrow> 'a word \<Rightarrow> 'a word option" where
  "checked_add a b = (if unat a + unat b < 2 ^ LENGTH('a) then Some (a + b) else None)"

definition checked_sub :: "'a::len word \<Rightarrow> 'a word \<Rightarrow> 'a word option" where
  "checked_sub a b = (if b \<le> a then Some (a - b) else None)"

definition checked_mul :: "'a::len word \<Rightarrow> 'a word \<Rightarrow> 'a word option" where
  "checked_mul a b = (if unat a * unat b < 2 ^ LENGTH('a) then Some (a * b) else None)"

definition saturating_add :: "'a::len word \<Rightarrow> 'a word \<Rightarrow> 'a word" where
  "saturating_add a b = (if unat a + unat b < 2 ^ LENGTH('a) then a + b else - 1)"

definition saturating_sub :: "'a::len word \<Rightarrow> 'a word \<Rightarrow> 'a word" where
  "saturating_sub a b = (if b \<le> a then a - b else 0)"

definition try_narrow :: "'a::len word \<Rightarrow> 'b::len word option" where
  "try_narrow a = (if unat a < 2 ^ LENGTH('b) then Some (ucast a) else None)"

lemma unat_add_small [word_nat]:
  "unat (a::'a::len word) + unat b < 2 ^ LENGTH('a) \<Longrightarrow> unat (a + b) = unat a + unat b"
  by (simp add: unat_add_lem)

lemma unat_mult_small [word_nat]:
  "unat (a::'a::len word) * unat b < 2 ^ LENGTH('a) \<Longrightarrow> unat (a * b) = unat a * unat b"
  by (simp add: unat_mult_lem)

lemma unat_sub_le [word_nat]: "b \<le> a \<Longrightarrow> unat ((a::'a::len word) - b) = unat a - unat b"
  by (rule unat_sub)

lemma unat_ucast_up [word_nat]:
  "unat (a::'a::len word) < 2 ^ LENGTH('b) \<Longrightarrow> unat (ucast a :: 'b::len word) = unat a"
  by (simp add: unsigned_ucast_eq take_bit_nat_eq_self)

lemma unat_less_pow: "unat (a::'a::len word) < 2 ^ LENGTH('a)"
  by (rule unsigned_less)

lemma unat_bounds [simp]:
  "unat (a::u16) < 65536" "unat (b::u64) < 18446744073709551616"
  "unat (c::u128) < 340282366920938463463374607431768211456" "unat (d::u8) < 256"
  using unat_less_pow [of a] unat_less_pow [of b] unat_less_pow [of c] unat_less_pow [of d] by simp_all

lemma unat_le_bounds [simp]:
  "unat (a::u16) \<le> 65535" "unat (b::u64) \<le> 18446744073709551615"
  "unat (c::u128) \<le> 340282366920938463463374607431768211455" "unat (d::u8) \<le> 255"
  using unat_bounds(1) [of a] unat_bounds(2) [of b] unat_bounds(3) [of c] unat_bounds(4) [of d] by linarith+

lemma unat_ucast_64_128 [simp]: "unat (ucast (a::u64) :: u128) = unat a"
  and unat_ucast_16_128 [simp]: "unat (ucast (b::u16) :: u128) = unat b"
proof -
  show "unat (ucast a :: u128) = unat a"
    by (rule unat_ucast_up) (rule order.strict_trans [OF unat_less_pow], simp)
  show "unat (ucast b :: u128) = unat b"
    by (rule unat_ucast_up) (rule order.strict_trans [OF unat_less_pow], simp)
qed

lemma checked_add_Some [result_simps]:
  "checked_add a b = Some c \<longleftrightarrow>
     unat a + unat b < 2 ^ LENGTH('a) \<and> c = a + b" for a b :: "'a::len word"
  by (auto simp: checked_add_def)

lemma checked_add_unat: "checked_add a b = Some c \<Longrightarrow> unat c = unat a + unat b"
  by (auto simp: result_simps word_nat)

lemma checked_sub_Some [result_simps]: "checked_sub a b = Some c \<longleftrightarrow> b \<le> a \<and> c = a - b"
  by (auto simp: checked_sub_def)

lemma checked_mul_Some [result_simps]:
  "checked_mul a b = Some c \<longleftrightarrow>
     unat a * unat b < 2 ^ LENGTH('a) \<and> c = a * b" for a b :: "'a::len word"
  by (auto simp: checked_mul_def)

lemma checked_mul_None:
  "checked_mul a b = None \<longleftrightarrow> 2 ^ LENGTH('a) \<le> unat a * unat b" for a b :: "'a::len word"
  by (auto simp: checked_mul_def)

lemma unat_saturating_add [word_nat]:
  "unat (saturating_add a b) = min (2 ^ LENGTH('a) - 1) (unat a + unat b)"
  for a b :: "'a::len word"
  by (auto simp: saturating_add_def unat_add_small unsigned_minus_1_eq_mask mask_eq_exp_minus_1)

lemma unat_saturating_sub [word_nat]: "unat (saturating_sub a b) = unat a - unat b"
  by (auto simp: saturating_sub_def unat_sub_le word_le_nat_alt)

lemma try_narrow_unat: "try_narrow a = Some b \<Longrightarrow> unat b = unat a"
  by (auto simp: try_narrow_def word_nat split: if_splits)

lemma word_eq_unatI: "unat a = unat b \<Longrightarrow> a = b"
  by (simp add: word_unat_eq_iff)

lemma unat_of_nat_eq: "n < 2 ^ LENGTH('a) \<Longrightarrow> unat (of_nat n :: 'a::len word) = n"
  by (simp add: unat_of_nat take_bit_nat_eq_self)

section \<open>Results and early return\<close>

text \<open>A fallible Rust function returns \<open>'e + 'a\<close>, the error on the left; the question mark
  operator is \<open>and_then\<close>, and a guarded early return is \<open>ensure\<close>.\<close>

fun and_then :: "'e + 'a \<Rightarrow> ('a \<Rightarrow> 'e + 'b) \<Rightarrow> 'e + 'b" where
  "and_then (Inl e) f = Inl e"
| "and_then (Inr x) f = f x"

definition ensure :: "bool \<Rightarrow> 'e \<Rightarrow> 'e + unit" where
  "ensure c e = (if c then Inr () else Inl e)"

fun ok_or :: "'a option \<Rightarrow> 'e \<Rightarrow> 'e + 'a" where
  "ok_or None e = Inl e"
| "ok_or (Some x) e = Inr x"

fun map_err :: "('e \<Rightarrow> 'f) \<Rightarrow> 'e + 'a \<Rightarrow> 'f + 'a" where
  "map_err g (Inl e) = Inl (g e)"
| "map_err g (Inr x) = Inr x"

lemma and_then_Inr [result_simps]:
  "and_then r f = Inr y \<longleftrightarrow> (\<exists>x. r = Inr x \<and> f x = Inr y)"
  by (cases r) auto

lemma Inr_and_then: "Inr y = and_then r f \<longleftrightarrow> (\<exists>x. r = Inr x \<and> f x = Inr y)"
  by (cases r) auto

lemma and_then_Inl [result_simps]:
  "and_then r f = Inl e \<longleftrightarrow> r = Inl e \<or> (\<exists>x. r = Inr x \<and> f x = Inl e)"
  by (cases r) auto

lemma ensure_Inr [result_simps]: "ensure c e = Inr u \<longleftrightarrow> c"
  by (simp add: ensure_def)

lemma ensure_Inl [result_simps]: "ensure c e = Inl e' \<longleftrightarrow> \<not> c \<and> e' = e"
  by (auto simp: ensure_def)

lemma ensure_simps [simp]: "ensure True e = Inr ()" "ensure False e = Inl e"
  by (simp_all add: ensure_def)

lemma ok_or_Inr [result_simps]: "ok_or r e = Inr x \<longleftrightarrow> r = Some x"
  by (cases r) auto

lemma ok_or_Inl [result_simps]: "ok_or r e = Inl e' \<longleftrightarrow> r = None \<and> e' = e"
  by (cases r) auto

lemma map_err_Inr [result_simps]: "map_err g r = Inr x \<longleftrightarrow> r = Inr x"
  by (cases r) auto

lemma map_err_Inl [result_simps]: "map_err g r = Inl e \<longleftrightarrow> (\<exists>e'. r = Inl e' \<and> e = g e')"
  by (cases r) auto

text \<open>A fallible map collected into a result: the first error ends it.\<close>

fun try_map :: "('a \<Rightarrow> 'e + 'b) \<Rightarrow> 'a list \<Rightarrow> 'e + 'b list" where
  "try_map f [] = Inr []"
| "try_map f (x # xs) = and_then (f x) (\<lambda>y. and_then (try_map f xs) (\<lambda>ys. Inr (y # ys)))"

lemma try_map_Inr: "try_map f xs = Inr ys \<longleftrightarrow> list_all2 (\<lambda>x y. f x = Inr y) xs ys"
  by (induction xs arbitrary: ys) (auto simp: result_simps list_all2_Cons1)

lemma try_map_length: "try_map f xs = Inr ys \<Longrightarrow> length ys = length xs"
  by (auto simp: try_map_Inr dest: list_all2_lengthD)

lemma try_map_nth: "try_map f xs = Inr ys \<Longrightarrow> i < length xs \<Longrightarrow> f (xs ! i) = Inr (ys ! i)"
  by (auto simp: try_map_Inr list_all2_conv_all_nth)

lemma try_map_mem: "try_map f xs = Inr ys \<Longrightarrow> y \<in> set ys \<Longrightarrow> \<exists>x\<in>set xs. f x = Inr y"
  by (induction xs arbitrary: ys) (auto simp: result_simps)

lemma try_map_image: "try_map f xs = Inr ys \<Longrightarrow> x \<in> set xs \<Longrightarrow> \<exists>y\<in>set ys. f x = Inr y"
  by (induction xs arbitrary: ys) (auto simp: result_simps)

section \<open>Little-endian bytes\<close>

fun le_nat :: "nat \<Rightarrow> nat \<Rightarrow> u8 list" where
  "le_nat 0 x = []"
| "le_nat (Suc n) x = of_nat (x mod 256) # le_nat n (x div 256)"

fun of_le_nat :: "u8 list \<Rightarrow> nat" where
  "of_le_nat [] = 0"
| "of_le_nat (b # bs) = unat b + 256 * of_le_nat bs"

definition to_le_bytes :: "'a::len word \<Rightarrow> u8 list" where
  "to_le_bytes w = le_nat (LENGTH('a) div 8) (unat w)"

definition from_le_bytes :: "u8 list \<Rightarrow> 'a::len word" where
  "from_le_bytes bs = of_nat (of_le_nat bs)"

lemma length_le_nat [simp]: "length (le_nat n x) = n"
  by (induction n arbitrary: x) auto

lemma unat_of_nat_mod [simp]: "unat (of_nat (x mod 256) :: u8) = x mod 256"
  by (simp add: unat_of_nat)

lemma of_le_nat_le_nat: "x < 256 ^ n \<Longrightarrow> of_le_nat (le_nat n x) = x"
proof (induction n arbitrary: x)
  case 0
  then show ?case by simp
next
  case (Suc n)
  from Suc.prems have "x div 256 < 256 ^ n"
    by (simp add: div_less_iff_less_mult mult.commute)
  with Suc.IH show ?case by simp
qed

lemma le_nat_of_le_nat: "le_nat (length bs) (of_le_nat bs) = bs"
proof (induction bs)
  case Nil
  then show ?case by simp
next
  case (Cons b bs)
  have "unat b < 256" by simp
  then have "(unat b + 256 * of_le_nat bs) mod 256 = unat b"
    and "(unat b + 256 * of_le_nat bs) div 256 = of_le_nat bs"
    by (simp_all add: div_add1_eq)
  with Cons.IH show ?case by simp
qed

lemma of_le_nat_bound: "of_le_nat bs < 256 ^ length bs"
proof (induction bs)
  case Nil
  then show ?case by simp
next
  case (Cons b bs)
  have "unat b + 256 * of_le_nat bs < 256 * Suc (of_le_nat bs)" by simp
  also have "\<dots> \<le> 256 * 256 ^ length bs" using Cons.IH by (intro mult_le_mono2) simp
  finally show ?case by simp
qed

lemma length_to_le_bytes [simp]: "length (to_le_bytes (w::'a::len word)) = LENGTH('a) div 8"
  by (simp add: to_le_bytes_def)

lemma pow256: "(256::nat) ^ n = 2 ^ (8 * n)"
  by (simp add: power_mult)

lemma from_to_le_bytes:
  "8 dvd LENGTH('a::len) \<Longrightarrow> from_le_bytes (to_le_bytes (w::'a word)) = w"
  using unat_less_pow [of w]
  by (simp add: from_le_bytes_def to_le_bytes_def of_le_nat_le_nat pow256)

lemma to_from_le_bytes:
  assumes "8 dvd LENGTH('a::len)" "length bs = LENGTH('a) div 8"
  shows "to_le_bytes (from_le_bytes bs :: 'a word) = bs"
proof -
  have "of_le_nat bs < 2 ^ LENGTH('a)"
    using of_le_nat_bound [of bs] assms by (simp add: pow256)
  then have "unat (of_nat (of_le_nat bs) :: 'a word) = of_le_nat bs"
    by (simp add: unat_of_nat take_bit_nat_eq_self)
  then show ?thesis
    using le_nat_of_le_nat [of bs] assms by (simp add: to_le_bytes_def from_le_bytes_def)
qed

lemma le_bytes_round_trip [simp]:
  "from_le_bytes (to_le_bytes (a::u64)) = a" "from_le_bytes (to_le_bytes (b::u16)) = b"
  by (simp_all add: from_to_le_bytes)

end
