(* ===== verification/SolanaRuntime.thy ===== *)
theory SolanaRuntime
  imports Prelude
begin

text \<open>
  The part of the Solana runtime both on-chain programs of the repository see: program errors,
  accounts in one store addressed by key, the account slots of an instruction, and cross-program
  instructions. Account slots are references into the store, so two slots with the same key share
  lamports and data, as the runtime's reference-counted cells do.
\<close>

type_synonym address = "u8 list"

datatype program_error = Custom u32 | NotEnoughAccountKeys | Panicked | External nat

record account =
  lamports :: u64
  data :: "u8 list"
  owned_by :: address

type_synonym world = "address \<Rightarrow> account"

record account_info =
  key :: address
  is_signer :: bool

text \<open>A cross-program instruction: the program, its account metas (key, signer, writable) and
  its data.\<close>

record instruction =
  ix_program_id :: address
  ix_accounts :: "(address \<times> bool \<times> bool) list"
  ix_data :: "u8 list"

text \<open>The shared-cell lamport updates: \<open>-=\<close> and \<open>+=\<close> panic on overflow, since the program is
  built with \<open>overflow-checks\<close>. The second reads the cell the first has written.\<close>

definition sub_lamports :: "world \<Rightarrow> address \<Rightarrow> u64 \<Rightarrow> program_error + world" where
  "sub_lamports w k amount =
     and_then (ok_or (checked_sub (lamports (w k)) amount) Panicked) (\<lambda>l.
     Inr (w(k := (w k)\<lparr>lamports := l\<rparr>)))"

definition add_lamports :: "world \<Rightarrow> address \<Rightarrow> u64 \<Rightarrow> program_error + world" where
  "add_lamports w k amount =
     and_then (ok_or (checked_add (lamports (w k)) amount) Panicked) (\<lambda>l.
     Inr (w(k := (w k)\<lparr>lamports := l\<rparr>)))"

end
