(* ===== verification/LendingInterface.thy ===== *)
theory LendingInterface
  imports SolanaRuntime "HOL-Library.Monad_Syntax"
begin

text \<open>
  The wire format of the fixture lending protocol (\<open>interface/src/lib.rs\<close>): the account records
  \<open>Market\<close> and \<open>Position\<close>, the instruction set, the error codes, the host-side reference risk
  arithmetic, and the Borsh encoding that \<open>derive(BorshSerialize, BorshDeserialize)\<close> gives these
  types: the fields in declaration order, integers little-endian at their width, byte arrays raw,
  an enum as the index of its variant in one byte followed by the variant's fields.
\<close>

section \<open>Constants and data\<close>

abbreviation LAMPORTS_PER_SOL :: u128 where "LAMPORTS_PER_SOL \<equiv> 1000000000"
abbreviation BPS_DENOMINATOR :: u128 where "BPS_DENOMINATOR \<equiv> 10000"
abbreviation HEALTH_SCALE :: u64 where "HEALTH_SCALE \<equiv> 1000000"
abbreviation HEALTH_INFINITE :: u64 where "HEALTH_INFINITE \<equiv> - 1"
abbreviation COLLATERAL_DECIMALS :: u8 where "COLLATERAL_DECIMALS \<equiv> 9"
abbreviation DEBT_DECIMALS :: u8 where "DEBT_DECIMALS \<equiv> 6"
abbreviation DEBT_PRICE_MICRO_USD :: u64 where "DEBT_PRICE_MICRO_USD \<equiv> 1000000"
abbreviation ACCOUNT_TAG_MARKET :: u8 where "ACCOUNT_TAG_MARKET \<equiv> 1"
abbreviation ACCOUNT_TAG_POSITION :: u8 where "ACCOUNT_TAG_POSITION \<equiv> 2"
abbreviation MARKET_LEN :: nat where "MARKET_LEN \<equiv> 86"
abbreviation POSITION_LEN :: nat where "POSITION_LEN \<equiv> 110"

text \<open>\<open>b"vault"\<close>.\<close>

abbreviation VAULT_SEED :: "u8 list" where "VAULT_SEED \<equiv> [118, 97, 117, 108, 116]"

record Market =
  m_tag :: u8
  m_version :: u8
  m_authority :: address
  m_vault :: address
  m_collateral_price :: u64
  m_liquidation_threshold_bps :: u16
  m_max_ltv_bps :: u16
  m_position_count :: u64

record Position =
  p_tag :: u8
  p_version :: u8
  p_owner :: address
  p_market :: address
  p_collateral_amount :: u64
  p_debt_amount :: u64
  p_collateral_price :: u64
  p_liquidation_threshold_bps :: u16
  p_max_ltv_bps :: u16
  p_health_factor :: u64
  p_last_update_slot :: u64

datatype LendingInstruction =
    InitializeMarket (im_price: u64) (im_threshold: u16) (im_ltv: u16)
  | CreatePosition
  | DepositCollateral u64
  | Borrow u64
  | Repay u64
  | WithdrawCollateral u64
  | Liquidate u64
  | RefreshPosition
  | SetPrice u64

datatype LendingError =
    MathOverflow | InvalidAccountData | InvalidAccountOwner | MissingSignature
  | AlreadyInitialized | UninitializedAccount | MarketMismatch | OwnerMismatch
  | InsufficientCollateral | LtvExceeded | PositionHealthy | InsufficientVaultBalance
  | RepayExceedsDebt | InvalidVault | InvalidPrice

section \<open>Error codes\<close>

fun error_code :: "LendingError \<Rightarrow> u32" where
  "error_code MathOverflow = 0"
| "error_code InvalidAccountData = 1"
| "error_code InvalidAccountOwner = 2"
| "error_code MissingSignature = 3"
| "error_code AlreadyInitialized = 4"
| "error_code UninitializedAccount = 5"
| "error_code MarketMismatch = 6"
| "error_code OwnerMismatch = 7"
| "error_code InsufficientCollateral = 8"
| "error_code LtvExceeded = 9"
| "error_code PositionHealthy = 10"
| "error_code InsufficientVaultBalance = 11"
| "error_code RepayExceedsDebt = 12"
| "error_code InvalidVault = 13"
| "error_code InvalidPrice = 14"

definition from_code :: "u32 \<Rightarrow> LendingError option" where
  "from_code code =
     (if code = 0 then Some MathOverflow
      else if code = 1 then Some InvalidAccountData
      else if code = 2 then Some InvalidAccountOwner
      else if code = 3 then Some MissingSignature
      else if code = 4 then Some AlreadyInitialized
      else if code = 5 then Some UninitializedAccount
      else if code = 6 then Some MarketMismatch
      else if code = 7 then Some OwnerMismatch
      else if code = 8 then Some InsufficientCollateral
      else if code = 9 then Some LtvExceeded
      else if code = 10 then Some PositionHealthy
      else if code = 11 then Some InsufficientVaultBalance
      else if code = 12 then Some RepayExceedsDebt
      else if code = 13 then Some InvalidVault
      else if code = 14 then Some InvalidPrice
      else None)"

fun error_name :: "LendingError \<Rightarrow> string" where
  "error_name MathOverflow = ''MathOverflow''"
| "error_name InvalidAccountData = ''InvalidAccountData''"
| "error_name InvalidAccountOwner = ''InvalidAccountOwner''"
| "error_name MissingSignature = ''MissingSignature''"
| "error_name AlreadyInitialized = ''AlreadyInitialized''"
| "error_name UninitializedAccount = ''UninitializedAccount''"
| "error_name MarketMismatch = ''MarketMismatch''"
| "error_name OwnerMismatch = ''OwnerMismatch''"
| "error_name InsufficientCollateral = ''InsufficientCollateral''"
| "error_name LtvExceeded = ''LtvExceeded''"
| "error_name PositionHealthy = ''PositionHealthy''"
| "error_name InsufficientVaultBalance = ''InsufficientVaultBalance''"
| "error_name RepayExceedsDebt = ''RepayExceedsDebt''"
| "error_name InvalidVault = ''InvalidVault''"
| "error_name InvalidPrice = ''InvalidPrice''"

lemma from_code_code [simp]: "from_code (error_code e) = Some e"
  by (cases e) (simp_all add: from_code_def)

lemma code_from_code: "from_code c = Some e \<Longrightarrow> error_code e = c"
  by (auto simp: from_code_def split: if_splits)

lemma error_code_inject [simp]: "error_code e = error_code e' \<longleftrightarrow> e = e'"
  by (metis from_code_code option.inject)

section \<open>Borsh encoding\<close>

definition market_to_vec :: "Market \<Rightarrow> u8 list" where
  "market_to_vec m =
     [m_tag m, m_version m] @ m_authority m @ m_vault m
     @ to_le_bytes (m_collateral_price m)
     @ to_le_bytes (m_liquidation_threshold_bps m) @ to_le_bytes (m_max_ltv_bps m)
     @ to_le_bytes (m_position_count m)"

definition position_to_vec :: "Position \<Rightarrow> u8 list" where
  "position_to_vec p =
     [p_tag p, p_version p] @ p_owner p @ p_market p
     @ to_le_bytes (p_collateral_amount p) @ to_le_bytes (p_debt_amount p)
     @ to_le_bytes (p_collateral_price p)
     @ to_le_bytes (p_liquidation_threshold_bps p) @ to_le_bytes (p_max_ltv_bps p)
     @ to_le_bytes (p_health_factor p) @ to_le_bytes (p_last_update_slot p)"

fun instruction_to_vec :: "LendingInstruction \<Rightarrow> u8 list" where
  "instruction_to_vec (InitializeMarket price thr ltv) =
     0 # to_le_bytes price @ to_le_bytes thr @ to_le_bytes ltv"
| "instruction_to_vec CreatePosition = [1]"
| "instruction_to_vec (DepositCollateral a) = 2 # to_le_bytes a"
| "instruction_to_vec (Borrow a) = 3 # to_le_bytes a"
| "instruction_to_vec (Repay a) = 4 # to_le_bytes a"
| "instruction_to_vec (WithdrawCollateral a) = 5 # to_le_bytes a"
| "instruction_to_vec (Liquidate a) = 6 # to_le_bytes a"
| "instruction_to_vec RefreshPosition = [7]"
| "instruction_to_vec (SetPrice a) = 8 # to_le_bytes a"

text \<open>Readers take their bytes from the front and return the rest; they fail on a short input.\<close>

definition read_bytes :: "nat \<Rightarrow> u8 list \<Rightarrow> (u8 list \<times> u8 list) option" where
  "read_bytes n bs = (if length bs < n then None else Some (take n bs, drop n bs))"

definition read_u8 :: "u8 list \<Rightarrow> (u8 \<times> u8 list) option" where
  "read_u8 bs = (case bs of [] \<Rightarrow> None | b # r \<Rightarrow> Some (b, r))"

definition read_u16 :: "u8 list \<Rightarrow> (u16 \<times> u8 list) option" where
  "read_u16 bs = map_option (\<lambda>(b, r). (from_le_bytes b, r)) (read_bytes 2 bs)"

definition read_u64 :: "u8 list \<Rightarrow> (u64 \<times> u8 list) option" where
  "read_u64 bs = map_option (\<lambda>(b, r). (from_le_bytes b, r)) (read_bytes 8 bs)"

definition market_deserialize :: "u8 list \<Rightarrow> (Market \<times> u8 list) option" where
  "market_deserialize bs = do {
     (tag, bs) \<leftarrow> read_u8 bs;
     (version, bs) \<leftarrow> read_u8 bs;
     (authority, bs) \<leftarrow> read_bytes 32 bs;
     (vault, bs) \<leftarrow> read_bytes 32 bs;
     (price, bs) \<leftarrow> read_u64 bs;
     (thr, bs) \<leftarrow> read_u16 bs;
     (ltv, bs) \<leftarrow> read_u16 bs;
     (count, bs) \<leftarrow> read_u64 bs;
     Some (\<lparr>m_tag = tag, m_version = version, m_authority = authority, m_vault = vault,
       m_collateral_price = price, m_liquidation_threshold_bps = thr, m_max_ltv_bps = ltv,
       m_position_count = count\<rparr>, bs)
   }"

definition position_deserialize :: "u8 list \<Rightarrow> (Position \<times> u8 list) option" where
  "position_deserialize bs = do {
     (tag, bs) \<leftarrow> read_u8 bs;
     (version, bs) \<leftarrow> read_u8 bs;
     (owner, bs) \<leftarrow> read_bytes 32 bs;
     (market, bs) \<leftarrow> read_bytes 32 bs;
     (collateral, bs) \<leftarrow> read_u64 bs;
     (debt, bs) \<leftarrow> read_u64 bs;
     (price, bs) \<leftarrow> read_u64 bs;
     (thr, bs) \<leftarrow> read_u16 bs;
     (ltv, bs) \<leftarrow> read_u16 bs;
     (health, bs) \<leftarrow> read_u64 bs;
     (slot, bs) \<leftarrow> read_u64 bs;
     Some (\<lparr>p_tag = tag, p_version = version, p_owner = owner, p_market = market,
       p_collateral_amount = collateral, p_debt_amount = debt, p_collateral_price = price,
       p_liquidation_threshold_bps = thr, p_max_ltv_bps = ltv, p_health_factor = health,
       p_last_update_slot = slot\<rparr>, bs)
   }"

definition instruction_deserialize :: "u8 list \<Rightarrow> (LendingInstruction \<times> u8 list) option" where
  "instruction_deserialize bs = do {
     (variant, bs) \<leftarrow> read_u8 bs;
     if variant = 0 then do {
       (price, bs) \<leftarrow> read_u64 bs;
       (thr, bs) \<leftarrow> read_u16 bs;
       (ltv, bs) \<leftarrow> read_u16 bs;
       Some (InitializeMarket price thr ltv, bs) }
     else if variant = 1 then Some (CreatePosition, bs)
     else if variant = 2 then map_option (\<lambda>(a, r). (DepositCollateral a, r)) (read_u64 bs)
     else if variant = 3 then map_option (\<lambda>(a, r). (Borrow a, r)) (read_u64 bs)
     else if variant = 4 then map_option (\<lambda>(a, r). (Repay a, r)) (read_u64 bs)
     else if variant = 5 then map_option (\<lambda>(a, r). (WithdrawCollateral a, r)) (read_u64 bs)
     else if variant = 6 then map_option (\<lambda>(a, r). (Liquidate a, r)) (read_u64 bs)
     else if variant = 7 then Some (RefreshPosition, bs)
     else if variant = 8 then map_option (\<lambda>(a, r). (SetPrice a, r)) (read_u64 bs)
     else None
   }"

text \<open>\<open>try_from_slice\<close> succeeds only when the reader has used up the whole slice.\<close>

definition try_from_slice :: "(u8 list \<Rightarrow> ('a \<times> u8 list) option) \<Rightarrow> u8 list \<Rightarrow> 'a option" where
  "try_from_slice rd bs = (case rd bs of Some (x, []) \<Rightarrow> Some x | _ \<Rightarrow> None)"

definition wf_market :: "Market \<Rightarrow> bool" where
  "wf_market m \<longleftrightarrow> length (m_authority m) = 32 \<and> length (m_vault m) = 32"

definition wf_position :: "Position \<Rightarrow> bool" where
  "wf_position p \<longleftrightarrow> length (p_owner p) = 32 \<and> length (p_market p) = 32"

lemma read_bytes_append: "length xs = n \<Longrightarrow> read_bytes n (xs @ ys) = Some (xs, ys)"
  by (simp add: read_bytes_def)

lemma read_simps [simp]:
  "read_u8 (b # bs) = Some (b, bs)"
  "read_u16 (to_le_bytes v @ bs) = Some (v, bs)"
  "read_u64 (to_le_bytes w @ bs) = Some (w, bs)"
  by (simp_all add: read_u8_def read_u16_def read_u64_def read_bytes_append)

lemma read_simps_end [simp]:
  "read_u16 (to_le_bytes v) = Some (v, [])"
  "read_u64 (to_le_bytes w) = Some (w, [])"
  using read_simps(2) [of v "[]"] read_simps(3) [of w "[]"] by simp_all

lemma read_bytes_Some: "read_bytes n bs = Some (a, r) \<longleftrightarrow> bs = a @ r \<and> length a = n"
  by (auto simp: read_bytes_def)

lemma read_u8_Some: "read_u8 bs = Some (a, r) \<longleftrightarrow> bs = a # r"
  by (auto simp: read_u8_def split: list.splits)

lemma read_u16_Some: "read_u16 bs = Some (a, r) \<longleftrightarrow> bs = to_le_bytes a @ r"
proof
  show "bs = to_le_bytes a @ r" if "read_u16 bs = Some (a, r)"
    using that by (auto simp: read_u16_def read_bytes_Some to_from_le_bytes)
qed simp

lemma read_u64_Some: "read_u64 bs = Some (a, r) \<longleftrightarrow> bs = to_le_bytes a @ r"
proof
  show "bs = to_le_bytes a @ r" if "read_u64 bs = Some (a, r)"
    using that by (auto simp: read_u64_def read_bytes_Some to_from_le_bytes)
qed simp

lemmas read_Some = read_bytes_Some read_u8_Some read_u16_Some read_u64_Some

lemma try_from_slice_Some: "try_from_slice rd bs = Some x \<longleftrightarrow> rd bs = Some (x, [])"
  by (auto simp: try_from_slice_def split: option.splits list.splits)

lemma market_deserialize_to_vec:
  "wf_market m \<Longrightarrow> market_deserialize (market_to_vec m @ r) = Some (m, r)"
  by (simp add: market_deserialize_def market_to_vec_def wf_market_def read_bytes_append)

lemma position_deserialize_to_vec:
  "wf_position p \<Longrightarrow> position_deserialize (position_to_vec p @ r) = Some (p, r)"
  by (simp add: position_deserialize_def position_to_vec_def wf_position_def read_bytes_append)

lemma market_deserialize_Some:
  "market_deserialize bs = Some (m, r) \<Longrightarrow> bs = market_to_vec m @ r \<and> wf_market m"
  by (auto simp: market_deserialize_def market_to_vec_def wf_market_def read_Some
      Option.bind_eq_Some_conv)

lemma position_deserialize_Some:
  "position_deserialize bs = Some (p, r) \<Longrightarrow> bs = position_to_vec p @ r \<and> wf_position p"
  by (auto simp: position_deserialize_def position_to_vec_def wf_position_def read_Some
      Option.bind_eq_Some_conv)

lemma instruction_deserialize_to_vec:
  "instruction_deserialize (instruction_to_vec i) = Some (i, [])"
  by (cases i) (simp_all add: instruction_deserialize_def)

lemma instruction_deserialize_Some:
  "instruction_deserialize bs = Some (i, r) \<Longrightarrow> bs = instruction_to_vec i @ r"
  by (auto simp: instruction_deserialize_def read_Some Option.bind_eq_Some_conv split: if_splits)

lemma length_market_to_vec: "wf_market m \<Longrightarrow> length (market_to_vec m) = MARKET_LEN"
  by (simp add: market_to_vec_def wf_market_def)

lemma length_position_to_vec: "wf_position p \<Longrightarrow> length (position_to_vec p) = POSITION_LEN"
  by (simp add: position_to_vec_def wf_position_def)

section \<open>The codec interface\<close>

text \<open>What a client that keeps a record in an account relies on: a fixed width, a reader that
  takes back exactly what the writer wrote, and no other byte string with the same reading.\<close>

locale account_codec =
  fixes enc :: "'a \<Rightarrow> u8 list"
    and dec :: "u8 list \<Rightarrow> ('a \<times> u8 list) option"
    and width :: nat
    and wf :: "'a \<Rightarrow> bool"
  assumes dec_enc: "wf x \<Longrightarrow> dec (enc x @ r) = Some (x, r)"
    and dec_Some: "dec bs = Some (x, r) \<Longrightarrow> bs = enc x @ r \<and> wf x"
    and length_enc: "wf x \<Longrightarrow> length (enc x) = width"
begin

lemma slice_enc: "wf x \<Longrightarrow> try_from_slice dec (enc x) = Some x"
  using dec_enc [of x "[]"] by (simp add: try_from_slice_Some)

lemma slice_Some: "try_from_slice dec bs = Some x \<longleftrightarrow> bs = enc x \<and> wf x"
proof
  show "bs = enc x \<and> wf x" if "try_from_slice dec bs = Some x"
    using dec_Some [of bs x "[]"] that by (simp add: try_from_slice_Some)
  show "try_from_slice dec bs = Some x" if "bs = enc x \<and> wf x"
    using that slice_enc [of x] by simp
qed

lemma load_after_store:
  assumes "wf x" "width \<le> length old"
  shows "try_from_slice dec (take width (enc x @ drop (length (enc x)) old)) = Some x"
  using assms by (simp add: length_enc slice_enc)

lemma store_keeps_length:
  assumes "wf x" "width \<le> length old"
  shows "length (enc x @ drop (length (enc x)) old) = length old"
  using assms by (simp add: length_enc)

lemma enc_inject: "wf x \<Longrightarrow> wf y \<Longrightarrow> enc x = enc y \<Longrightarrow> x = y"
  by (metis option.inject slice_enc)

end

interpretation market_codec: account_codec market_to_vec market_deserialize MARKET_LEN wf_market
proof unfold_locales
qed (rule market_deserialize_to_vec market_deserialize_Some length_market_to_vec, assumption)+

interpretation position_codec:
  account_codec position_to_vec position_deserialize POSITION_LEN wf_position
proof unfold_locales
qed (rule position_deserialize_to_vec position_deserialize_Some length_position_to_vec, assumption)+

section \<open>Reference risk arithmetic\<close>

text \<open>\<open>10u128.checked_pow(decimals)\<close>.\<close>

definition checked_pow10 :: "u8 \<Rightarrow> u128 option" where
  "checked_pow10 decimals =
     (if (10::nat) ^ unat decimals < 2 ^ 128 then Some (of_nat (10 ^ unat decimals)) else None)"

definition value_micro_usd :: "u64 \<Rightarrow> u8 \<Rightarrow> u64 \<Rightarrow> u128" where
  "value_micro_usd amount decimals price_micro_usd =
     (case checked_pow10 decimals of
        None \<Rightarrow> 0
      | Some scale \<Rightarrow> ucast amount * ucast price_micro_usd div scale)"

definition reference_collateral_value :: "u64 \<Rightarrow> u64 \<Rightarrow> u128" where
  "reference_collateral_value collateral_lamports price =
     value_micro_usd collateral_lamports COLLATERAL_DECIMALS price"

definition reference_debt_value :: "u64 \<Rightarrow> u128" where
  "reference_debt_value debt_amount =
     value_micro_usd debt_amount DEBT_DECIMALS DEBT_PRICE_MICRO_USD"

definition reference_adjusted_collateral :: "u64 \<Rightarrow> u64 \<Rightarrow> u16 \<Rightarrow> u128" where
  "reference_adjusted_collateral collateral_lamports price bps =
     reference_collateral_value collateral_lamports price * ucast bps div BPS_DENOMINATOR"

definition reference_health_factor :: "u64 \<Rightarrow> u64 \<Rightarrow> u64 \<Rightarrow> u16 \<Rightarrow> u64" where
  "reference_health_factor collateral_lamports debt price liquidation_threshold_bps =
     (if debt = 0 then HEALTH_INFINITE
      else let adjusted =
             reference_adjusted_collateral collateral_lamports price liquidation_threshold_bps
           in case try_narrow (adjusted * ucast HEALTH_SCALE div ucast debt) of
                Some h \<Rightarrow> h
              | None \<Rightarrow> HEALTH_INFINITE)"

definition reference_is_liquidatable :: "u64 \<Rightarrow> bool" where
  "reference_is_liquidatable health \<longleftrightarrow> health < HEALTH_SCALE"

subsection \<open>The specification on natural numbers\<close>

text \<open>Exact, unbounded arithmetic; every machine computation below is proved equal to it, which
  is also the proof that no intermediate value leaves 128 bits.\<close>

definition spec_value :: "nat \<Rightarrow> nat \<Rightarrow> nat" where
  "spec_value c p = c * p div 10 ^ 9"

definition spec_adjusted :: "nat \<Rightarrow> nat \<Rightarrow> nat" where
  "spec_adjusted v bps = v * bps div 10 ^ 4"

definition spec_health :: "nat \<Rightarrow> nat \<Rightarrow> nat" where
  "spec_health adj d = (if d = 0 then 2 ^ 64 - 1 else min (2 ^ 64 - 1) (adj * 10 ^ 6 div d))"

lemma u64_product_bound: "unat (a::u64) * unat (b::u64) < 2 ^ 128"
proof -
  have "unat a * unat b \<le> (2 ^ 64 - 1) * (2 ^ 64 - 1)"
    using unat_le_bounds(2) [of a] unat_le_bounds(2) [of b] by (intro mult_le_mono) simp_all
  then show ?thesis by simp
qed

lemma spec_value_bound: "spec_value (unat (c::u64)) (unat (p::u64)) \<le> 2 ^ 128 div 10 ^ 9"
  unfolding spec_value_def by (intro div_le_mono less_imp_le u64_product_bound)

lemma value_times_bps_bound:
  assumes "v \<le> 2 ^ 128 div 10 ^ 9" shows "v * unat (b::u16) < 2 ^ 128"
proof -
  have "v * unat b \<le> (2 ^ 128 div 10 ^ 9) * 65535"
    using assms unat_le_bounds(1) [of b] by (intro mult_le_mono) simp_all
  then show ?thesis by simp
qed

lemma spec_adjusted_scaled_bound:
  assumes "v \<le> 2 ^ 128 div 10 ^ 9" shows "spec_adjusted v (unat (b::u16)) * 10 ^ 6 < 2 ^ 128"
proof -
  have "v * unat b \<le> (2 ^ 128 div 10 ^ 9) * 65535"
    using assms unat_le_bounds(1) [of b] by (intro mult_le_mono) simp_all
  then have "spec_adjusted v (unat b) \<le> (2 ^ 128 div 10 ^ 9) * 65535 div 10 ^ 4"
    unfolding spec_adjusted_def by (intro div_le_mono)
  then show ?thesis by simp
qed

lemma unat_reference_value:
  "unat (reference_collateral_value c p) = spec_value (unat c) (unat p)"
  using u64_product_bound [of c p]
  by (simp add: reference_collateral_value_def value_micro_usd_def checked_pow10_def
      spec_value_def unat_div_distrib unat_mult_small)

lemma unat_reference_adjusted:
  "unat (reference_adjusted_collateral c p b) = spec_adjusted (spec_value (unat c) (unat p)) (unat b)"
  using value_times_bps_bound [OF spec_value_bound, of c p b]
  by (simp add: reference_adjusted_collateral_def spec_adjusted_def unat_div_distrib
      unat_mult_small unat_reference_value)

lemma unat_narrow_or_max:
  "unat (case try_narrow (q::u128) of Some h \<Rightarrow> h | None \<Rightarrow> (- 1 :: u64)) = min (2 ^ 64 - 1) (unat q)"
  by (auto simp: try_narrow_def unat_ucast_up unsigned_minus_1_eq_mask mask_eq_exp_minus_1)

lemma unat_reference_health:
  "unat (reference_health_factor c d p t) =
     spec_health (spec_adjusted (spec_value (unat c) (unat p)) (unat t)) (unat d)"
proof (cases "d = 0")
  case True
  then show ?thesis
    by (simp add: reference_health_factor_def spec_health_def unsigned_minus_1_eq_mask
        mask_eq_exp_minus_1)
next
  case False
  then have "unat d \<noteq> 0" by (simp add: unat_eq_0)
  moreover have "unat (reference_adjusted_collateral c p t * ucast HEALTH_SCALE :: u128) =
      spec_adjusted (spec_value (unat c) (unat p)) (unat t) * 10 ^ 6"
    using spec_adjusted_scaled_bound [OF spec_value_bound, of c p t]
    by (simp add: unat_mult_small unat_reference_adjusted)
  ultimately show ?thesis using False
    by (simp add: reference_health_factor_def spec_health_def Let_def unat_narrow_or_max
        unat_div_distrib)
qed

lemma reference_debt_is_identity: "unat (reference_debt_value d) = unat d"
  using u64_product_bound [of d DEBT_PRICE_MICRO_USD]
  by (simp add: reference_debt_value_def value_micro_usd_def checked_pow10_def
      unat_div_distrib unat_mult_small)

end
