(* ===== verification/LendingMath.thy ===== *)
theory LendingMath
  imports LendingInterface
begin

text \<open>
  The on-chain risk arithmetic (\<open>programs/fixture-lending/src/math.rs\<close>) in both builds. The cargo
  features \<open>v1\<close> and \<open>v2\<close> are the type \<open>build\<close>; only \<open>collateral_value\<close> depends on it. The locale
  \<open>valuation\<close> is the interface between the feature-gated valuation and everything computed from
  it: both builds interpret it, so totality and the closed form of every later quantity are proved
  once.
\<close>

datatype build = V1 | V2

fun collateral_value :: "build \<Rightarrow> u64 \<Rightarrow> u64 \<Rightarrow> LendingError + u128" where
  "collateral_value V1 collateral_lamports price =
     ok_or (map_option (\<lambda>scaled. scaled div LAMPORTS_PER_SOL)
              (checked_mul (ucast collateral_lamports) (ucast price))) MathOverflow"
| "collateral_value V2 collateral_lamports price =
     (let whole_sol = ucast collateral_lamports div LAMPORTS_PER_SOL
      in ok_or (checked_mul whole_sol (ucast price)) MathOverflow)"

definition adjusted_collateral :: "build \<Rightarrow> u64 \<Rightarrow> u64 \<Rightarrow> u16 \<Rightarrow> LendingError + u128" where
  "adjusted_collateral b collateral_lamports price bps =
     and_then (collateral_value b collateral_lamports price) (\<lambda>v.
     ok_or (map_option (\<lambda>scaled. scaled div BPS_DENOMINATOR) (checked_mul v (ucast bps)))
       MathOverflow)"

definition health_factor :: "build \<Rightarrow> u64 \<Rightarrow> u64 \<Rightarrow> u64 \<Rightarrow> u16 \<Rightarrow> LendingError + u64" where
  "health_factor b collateral_lamports debt price liquidation_threshold_bps =
     (if debt = 0 then Inr HEALTH_INFINITE
      else
        and_then (adjusted_collateral b collateral_lamports price liquidation_threshold_bps)
          (\<lambda>adjusted.
        and_then (ok_or (checked_mul adjusted (ucast HEALTH_SCALE)) MathOverflow) (\<lambda>scaled.
        Inr (case try_narrow (scaled div ucast debt) of
               Some h \<Rightarrow> h
             | None \<Rightarrow> HEALTH_INFINITE))))"

definition borrow_capacity :: "build \<Rightarrow> u64 \<Rightarrow> u64 \<Rightarrow> u16 \<Rightarrow> LendingError + u128" where
  "borrow_capacity b collateral_lamports price max_ltv_bps =
     adjusted_collateral b collateral_lamports price max_ltv_bps"

definition usd_to_lamports :: "u128 \<Rightarrow> u64 \<Rightarrow> LendingError + u64" where
  "usd_to_lamports usd price =
     (if price = 0 then Inl InvalidPrice
      else
        and_then (ok_or (checked_mul usd LAMPORTS_PER_SOL) MathOverflow) (\<lambda>product.
        ok_or (try_narrow (product div ucast price)) MathOverflow))"

definition is_liquidatable :: "u64 \<Rightarrow> bool" where
  "is_liquidatable health \<longleftrightarrow> health < HEALTH_SCALE"

section \<open>The specification of the second build\<close>

definition spec_value_v2 :: "nat \<Rightarrow> nat \<Rightarrow> nat" where
  "spec_value_v2 c p = (c div 10 ^ 9) * p"

lemma spec_value_split: "spec_value c p = spec_value_v2 c p + (c mod 10 ^ 9) * p div 10 ^ 9"
proof -
  have "c * p = (c mod 10 ^ 9) * p + (c div 10 ^ 9 * p) * 10 ^ 9"
    by (metis (no_types, lifting) add.commute add_mult_distrib div_mult_mod_eq mult.assoc
        mult.commute)
  then show ?thesis by (simp add: spec_value_def spec_value_v2_def)
qed

lemma spec_value_v2_le: "spec_value_v2 c p \<le> spec_value c p"
  by (simp add: spec_value_split)

lemma spec_value_mono: "c \<le> c' \<Longrightarrow> spec_value c p \<le> spec_value c' p"
  by (simp add: spec_value_def div_le_mono)

lemma spec_value_v2_mono: "c \<le> c' \<Longrightarrow> spec_value_v2 c p \<le> spec_value_v2 c' p"
  by (simp add: spec_value_v2_def div_le_mono)

lemma spec_adjusted_mono: "v \<le> v' \<Longrightarrow> spec_adjusted v bps \<le> spec_adjusted v' bps"
  by (simp add: spec_adjusted_def div_le_mono)

lemma spec_health_mono: "a \<le> a' \<Longrightarrow> spec_health a d \<le> spec_health a' d"
  by (simp add: spec_health_def div_le_mono min.coboundedI2 min.mono)

lemma spec_health_le: "spec_health a d \<le> 2 ^ 64 - 1"
  by (simp add: spec_health_def)

section \<open>The valuation interface\<close>

locale valuation =
  fixes b :: build and value_of :: "nat \<Rightarrow> nat \<Rightarrow> nat"
  assumes valued: "\<exists>v. collateral_value b c p = Inr v \<and> unat v = value_of (unat c) (unat p)"
    and value_le: "value_of x y \<le> spec_value x y"
    and value_mono: "x \<le> x' \<Longrightarrow> value_of x y \<le> value_of x' y"
begin

lemma value_bound: "value_of (unat (c::u64)) (unat (p::u64)) \<le> 2 ^ 128 div 10 ^ 9"
  using value_le spec_value_bound order.trans by blast

lemma adjusted_total:
  "\<exists>a. adjusted_collateral b c p bps = Inr a \<and>
       unat a = spec_adjusted (value_of (unat c) (unat p)) (unat bps)"
proof -
  obtain v where v: "collateral_value b c p = Inr v" "unat v = value_of (unat c) (unat p)"
    using valued by blast
  have "unat v * unat bps < 2 ^ 128"
    using value_times_bps_bound [OF value_bound [of c p]] v(2) by simp
  with v show ?thesis
    by (simp add: adjusted_collateral_def checked_mul_def unat_div_distrib unat_mult_small
        spec_adjusted_def)
qed

lemma health_total:
  "\<exists>h. health_factor b c d p t = Inr h \<and>
       unat h = spec_health (spec_adjusted (value_of (unat c) (unat p)) (unat t)) (unat d)"
proof (cases "d = 0")
  case True
  then show ?thesis
    by (simp add: health_factor_def spec_health_def unsigned_minus_1_eq_mask mask_eq_exp_minus_1)
next
  case False
  obtain a where a: "adjusted_collateral b c p t = Inr a"
    "unat a = spec_adjusted (value_of (unat c) (unat p)) (unat t)"
    using adjusted_total by blast
  have "unat a * 10 ^ 6 < 2 ^ 128"
    using spec_adjusted_scaled_bound [OF value_bound [of c p]] a(2) by simp
  with a False show ?thesis
    by (simp add: health_factor_def checked_mul_def unat_narrow_or_max unat_div_distrib
        unat_mult_small spec_health_def unat_eq_0)
qed

lemma capacity_total:
  "\<exists>a. borrow_capacity b c p bps = Inr a \<and>
       unat a = spec_adjusted (value_of (unat c) (unat p)) (unat bps)"
  unfolding borrow_capacity_def by (rule adjusted_total)

lemma health_eq:
  "health_factor b c d p t = Inr h \<longleftrightarrow>
     unat h = spec_health (spec_adjusted (value_of (unat c) (unat p)) (unat t)) (unat d)"
  using health_total [of c d p t] by (auto simp: word_unat_eq_iff)

lemma capacity_eq:
  "borrow_capacity b c p bps = Inr a \<longleftrightarrow>
     unat a = spec_adjusted (value_of (unat c) (unat p)) (unat bps)"
  using capacity_total [of c p bps] by (auto simp: word_unat_eq_iff)

lemma health_no_error: "health_factor b c d p t \<noteq> Inl e"
  using health_total [of c d p t] by auto

lemma capacity_no_error: "borrow_capacity b c p bps \<noteq> Inl e"
  using capacity_total [of c p bps] by auto

lemma health_mono:
  assumes "c \<le> c'" "health_factor b c d p t = Inr h" "health_factor b c' d p t = Inr h'"
  shows "h \<le> h'"
  using assms value_mono [of "unat c" "unat c'" "unat p"]
  by (simp add: health_eq word_le_nat_alt spec_health_mono spec_adjusted_mono)

end

lemma collateral_value_V1:
  "\<exists>v. collateral_value V1 c p = Inr v \<and> unat v = spec_value (unat c) (unat p)"
  using u64_product_bound [of c p]
  by (simp add: checked_mul_def spec_value_def unat_div_distrib unat_mult_small)

lemma collateral_value_V2:
  "\<exists>v. collateral_value V2 c p = Inr v \<and> unat v = spec_value_v2 (unat c) (unat p)"
proof -
  have "(unat c div 10 ^ 9) * unat p \<le> unat c * unat p" by (intro mult_le_mono1) simp
  also have "\<dots> < 2 ^ 128" by (rule u64_product_bound)
  finally show ?thesis
    by (simp add: checked_mul_def spec_value_v2_def unat_div_distrib unat_mult_small)
qed

interpretation v1: valuation V1 spec_value
  by unfold_locales (simp_all only: collateral_value_V1 spec_value_mono order.refl)

interpretation v2: valuation V2 spec_value_v2
  by unfold_locales (simp_all only: collateral_value_V2 spec_value_v2_le spec_value_v2_mono)

section \<open>Facts the processor uses, for either build\<close>

lemma health_factor_total: "\<exists>h. health_factor b c d p t = Inr h"
  by (cases b) (use v1.health_total v2.health_total in blast)+

lemma borrow_capacity_total: "\<exists>a. borrow_capacity b c p bps = Inr a"
  by (cases b) (use v1.capacity_total v2.capacity_total in blast)+

lemma health_zero_debt: "health_factor b c 0 p t = Inr HEALTH_INFINITE"
  by (simp add: health_factor_def)

lemma v2_health_le:
  assumes "health_factor V1 c d p t = Inr h1" "health_factor V2 c d p t = Inr h2"
  shows "h2 \<le> h1"
  using assms
  by (simp add: v1.health_eq v2.health_eq word_le_nat_alt spec_health_mono spec_adjusted_mono
      spec_value_v2_le)

lemma v2_capacity_le:
  assumes "borrow_capacity V1 c p t = Inr a1" "borrow_capacity V2 c p t = Inr a2"
  shows "a2 \<le> a1"
  using assms
  by (simp add: v1.capacity_eq v2.capacity_eq word_le_nat_alt spec_adjusted_mono spec_value_v2_le)

text \<open>The closed forms: \<open>value_of\<close> is the build's valuation on natural numbers, \<open>capacity_of\<close> and
  \<open>health_of\<close> the borrow limit and the health factor computed from it.\<close>

definition value_of :: "build \<Rightarrow> nat \<Rightarrow> nat \<Rightarrow> nat" where
  "value_of b = (case b of V1 \<Rightarrow> spec_value | V2 \<Rightarrow> spec_value_v2)"

definition capacity_of :: "build \<Rightarrow> u64 \<Rightarrow> u64 \<Rightarrow> u16 \<Rightarrow> nat" where
  "capacity_of b c p bps = spec_adjusted (value_of b (unat c) (unat p)) (unat bps)"

definition health_of :: "build \<Rightarrow> u64 \<Rightarrow> u64 \<Rightarrow> u64 \<Rightarrow> u16 \<Rightarrow> nat" where
  "health_of b c d p t = spec_health (spec_adjusted (value_of b (unat c) (unat p)) (unat t)) (unat d)"

lemma value_of_valuation: "valuation b (value_of b)"
  by (cases b) (simp_all add: value_of_def v1.valuation_axioms v2.valuation_axioms)

lemma unat_health_of [simp]: "unat (of_nat (health_of b c d p t) :: u64) = health_of b c d p t"
proof (rule unat_of_nat_eq)
  have "health_of b c d p t \<le> 2 ^ 64 - 1" unfolding health_of_def by (rule spec_health_le)
  then show "health_of b c d p t < 2 ^ LENGTH(64)" by simp
qed

lemma health_factor_eq: "health_factor b c d p t = Inr (of_nat (health_of b c d p t))"
  using valuation.health_eq [OF value_of_valuation] unat_health_of
  by (simp add: health_of_def)

lemma unat_capacity_of [simp]:
  "unat (of_nat (capacity_of b c p bps) :: u128) = capacity_of b c p bps"
proof (rule unat_of_nat_eq)
  obtain a where "unat (a::u128) = capacity_of b c p bps"
    using valuation.capacity_total [OF value_of_valuation] unfolding capacity_of_def by blast
  then show "capacity_of b c p bps < 2 ^ LENGTH(128)" using unat_less_pow [of a] by simp
qed

lemma borrow_capacity_eq: "borrow_capacity b c p bps = Inr (of_nat (capacity_of b c p bps))"
  using valuation.capacity_eq [OF value_of_valuation] unat_capacity_of
  by (simp add: capacity_of_def)

lemma capacity_of_V2_le: "capacity_of V2 c p bps \<le> capacity_of V1 c p bps"
  by (simp add: capacity_of_def value_of_def spec_adjusted_mono spec_value_v2_le)

lemma health_of_V2_le: "health_of V2 c d p t \<le> health_of V1 c d p t"
  by (simp add: health_of_def value_of_def spec_health_mono spec_adjusted_mono spec_value_v2_le)

lemma health_of_zero_debt: "health_of b c 0 p t = 2 ^ 64 - 1"
  by (simp add: health_of_def spec_health_def)

lemma is_liquidatable_health: "is_liquidatable (of_nat (health_of b c d p t)) \<longleftrightarrow> health_of b c d p t < 10 ^ 6"
  by (simp add: is_liquidatable_def word_less_nat_alt)

lemma usd_to_lamports_Inr:
  "usd_to_lamports usd price = Inr l \<longleftrightarrow>
     price \<noteq> 0 \<and> unat usd * 10 ^ 9 < 2 ^ 128 \<and> unat usd * 10 ^ 9 div unat price < 2 ^ 64 \<and>
     unat l = unat usd * 10 ^ 9 div unat price"
proof (cases "price = 0 \<or> \<not> unat usd * 10 ^ 9 < 2 ^ 128")
  case True
  then show ?thesis by (auto simp: usd_to_lamports_def checked_mul_def)
next
  case False
  then have "unat (usd * LAMPORTS_PER_SOL div ucast price) = unat usd * 10 ^ 9 div unat price"
    by (simp add: unat_div_distrib unat_mult_small)
  with False show ?thesis
    by (auto simp: usd_to_lamports_def checked_mul_def try_narrow_def unat_ucast_up
        word_unat_eq_iff)
qed

end
