(* ===== verification/LendingProcessor.thy ===== *)
theory LendingProcessor
  imports LendingMath SolanaRuntime
begin

text \<open>
  The on-chain instruction handlers (\<open>programs/fixture-lending/src/processor.rs\<close>, \<open>error.rs\<close>,
  \<open>lib.rs\<close>). The accounts an instruction names are references into one store \<open>world\<close> from
  addresses to accounts, so that two account slots with the same key share lamports and data, as
  the runtime's reference-counted cells do. A handler returns the store it leaves behind or the
  error it returns; the runtime discards every change of a failed instruction, so an error carries
  no store. What the program calls but this repository does not contain is the parameter
  \<open>runtime\<close>: the derived vault address, the clock and rent sysvars and the System Program transfer.
\<close>

definition to_program_error :: "LendingError \<Rightarrow> program_error" where
  "to_program_error e = Custom (error_code e)"

definition or_program_err :: "LendingError + 'a \<Rightarrow> program_error + 'a" where
  "or_program_err r = map_err to_program_error r"

record runtime =
  find_program_address :: "u8 list list \<Rightarrow> address \<Rightarrow> address \<times> u8"
  clock_slot :: "program_error + u64"
  rent_minimum_balance :: "program_error + (nat \<Rightarrow> u64)"
  invoke_system_transfer ::
    "world \<Rightarrow> account_info \<Rightarrow> account_info \<Rightarrow> account_info \<Rightarrow> u64 \<Rightarrow> program_error + world"

section \<open>Account helpers\<close>

definition owned_by_program :: "world \<Rightarrow> account_info \<Rightarrow> address \<Rightarrow> program_error + unit" where
  "owned_by_program w info program_id =
     ensure (owned_by (w (key info)) = program_id) (to_program_error InvalidAccountOwner)"

definition require_signer :: "account_info \<Rightarrow> program_error + unit" where
  "require_signer info = ensure (is_signer info) (to_program_error MissingSignature)"

definition load_market :: "world \<Rightarrow> account_info \<Rightarrow> address \<Rightarrow> program_error + Market" where
  "load_market w info program_id =
     and_then (owned_by_program w info program_id) (\<lambda>_.
     let bytes = data (w (key info)) in
     and_then (ensure (\<not> length bytes < MARKET_LEN) (to_program_error InvalidAccountData)) (\<lambda>_.
     and_then (ok_or (try_from_slice market_deserialize (take MARKET_LEN bytes))
                 (to_program_error InvalidAccountData)) (\<lambda>market.
     and_then (ensure (m_tag market = ACCOUNT_TAG_MARKET)
                 (to_program_error UninitializedAccount)) (\<lambda>_.
     Inr market))))"

definition store_bytes :: "world \<Rightarrow> account_info \<Rightarrow> u8 list \<Rightarrow> program_error + world" where
  "store_bytes w info bytes =
     (let old = data (w (key info)) in
      and_then (ensure (\<not> length old < length bytes) (to_program_error InvalidAccountData)) (\<lambda>_.
      Inr (w(key info := (w (key info))\<lparr>data := bytes @ drop (length bytes) old\<rparr>))))"

definition store_market :: "world \<Rightarrow> account_info \<Rightarrow> Market \<Rightarrow> program_error + world" where
  "store_market w info market = store_bytes w info (market_to_vec market)"

definition load_position ::
  "world \<Rightarrow> account_info \<Rightarrow> address \<Rightarrow> address \<Rightarrow> program_error + Position" where
  "load_position w info program_id market_key =
     and_then (owned_by_program w info program_id) (\<lambda>_.
     let bytes = data (w (key info)) in
     and_then (ensure (\<not> length bytes < POSITION_LEN) (to_program_error InvalidAccountData)) (\<lambda>_.
     and_then (ok_or (try_from_slice position_deserialize (take POSITION_LEN bytes))
                 (to_program_error InvalidAccountData)) (\<lambda>position.
     and_then (ensure (p_tag position = ACCOUNT_TAG_POSITION)
                 (to_program_error UninitializedAccount)) (\<lambda>_.
     and_then (ensure (p_market position = market_key) (to_program_error MarketMismatch)) (\<lambda>_.
     Inr position)))))"

definition store_position :: "world \<Rightarrow> account_info \<Rightarrow> Position \<Rightarrow> program_error + world" where
  "store_position w info position = store_bytes w info (position_to_vec position)"

definition check_vault ::
  "world \<Rightarrow> account_info \<Rightarrow> Market \<Rightarrow> address \<Rightarrow> program_error + unit" where
  "check_vault w vault market program_id =
     and_then (ensure (key vault = m_vault market) (to_program_error InvalidVault)) (\<lambda>_.
     map_err (\<lambda>_. to_program_error InvalidVault) (owned_by_program w vault program_id))"

definition refresh ::
  "build \<Rightarrow> runtime \<Rightarrow> Position \<Rightarrow> Market \<Rightarrow> program_error + Position" where
  "refresh b rt position market =
     (let position = position\<lparr>p_collateral_price := m_collateral_price market,
            p_liquidation_threshold_bps := m_liquidation_threshold_bps market,
            p_max_ltv_bps := m_max_ltv_bps market\<rparr> in
      and_then (or_program_err (health_factor b (p_collateral_amount position)
                  (p_debt_amount position) (p_collateral_price position)
                  (p_liquidation_threshold_bps position))) (\<lambda>h.
      and_then (clock_slot rt) (\<lambda>slot.
      Inr (position\<lparr>p_health_factor := h, p_last_update_slot := slot\<rparr>))))"

section \<open>Handlers\<close>

fun initialize_market ::
  "runtime \<Rightarrow> address \<Rightarrow> world \<Rightarrow> account_info list \<Rightarrow> u64 \<Rightarrow> u16 \<Rightarrow> u16 \<Rightarrow> program_error + world"
where
  "initialize_market rt program_id w (market_info # authority # _)
       collateral_price liquidation_threshold_bps max_ltv_bps =
     and_then (require_signer authority) (\<lambda>_.
     and_then (owned_by_program w market_info program_id) (\<lambda>_.
     and_then (ensure (collateral_price \<noteq> 0) (to_program_error InvalidPrice)) (\<lambda>_.
     let bytes = data (w (key market_info)) in
     and_then (ensure (\<not> length bytes < MARKET_LEN) (to_program_error InvalidAccountData)) (\<lambda>_.
     and_then (ensure (bytes ! 0 = 0) (to_program_error AlreadyInitialized)) (\<lambda>_.
     store_market w market_info
       \<lparr>m_tag = ACCOUNT_TAG_MARKET, m_version = 1, m_authority = key authority,
        m_vault = fst (find_program_address rt [VAULT_SEED, key market_info] program_id),
        m_collateral_price = collateral_price,
        m_liquidation_threshold_bps = liquidation_threshold_bps,
        m_max_ltv_bps = max_ltv_bps, m_position_count = 0\<rparr>)))))"
| "initialize_market rt program_id w _ _ _ _ = Inl NotEnoughAccountKeys"

fun create_position ::
  "build \<Rightarrow> runtime \<Rightarrow> address \<Rightarrow> world \<Rightarrow> account_info list \<Rightarrow> program_error + world" where
  "create_position b rt program_id w (position_info # market_info # owner # _) =
     and_then (require_signer owner) (\<lambda>_.
     and_then (owned_by_program w position_info program_id) (\<lambda>_.
     and_then (load_market w market_info program_id) (\<lambda>market.
     let bytes = data (w (key position_info)) in
     and_then (ensure (\<not> length bytes < POSITION_LEN) (to_program_error InvalidAccountData)) (\<lambda>_.
     and_then (ensure (bytes ! 0 = 0) (to_program_error AlreadyInitialized)) (\<lambda>_.
     and_then (refresh b rt
       \<lparr>p_tag = ACCOUNT_TAG_POSITION, p_version = 1, p_owner = key owner,
        p_market = key market_info, p_collateral_amount = 0, p_debt_amount = 0,
        p_collateral_price = m_collateral_price market,
        p_liquidation_threshold_bps = m_liquidation_threshold_bps market,
        p_max_ltv_bps = m_max_ltv_bps market, p_health_factor = 0, p_last_update_slot = 0\<rparr>
       market) (\<lambda>position.
     and_then (store_position w position_info position) (\<lambda>w.
     store_market w market_info
       (market\<lparr>m_position_count := saturating_add (m_position_count market) 1\<rparr>))))))))"
| "create_position b rt program_id w _ = Inl NotEnoughAccountKeys"

fun deposit_collateral ::
  "build \<Rightarrow> runtime \<Rightarrow> address \<Rightarrow> world \<Rightarrow> account_info list \<Rightarrow> u64 \<Rightarrow> program_error + world" where
  "deposit_collateral b rt program_id w
       (position_info # market_info # vault # owner # system_program # _) amount =
     and_then (require_signer owner) (\<lambda>_.
     and_then (load_market w market_info program_id) (\<lambda>market.
     and_then (check_vault w vault market program_id) (\<lambda>_.
     and_then (load_position w position_info program_id (key market_info)) (\<lambda>position.
     and_then (ensure (p_owner position = key owner) (to_program_error OwnerMismatch)) (\<lambda>_.
     and_then (invoke_system_transfer rt w owner vault system_program amount) (\<lambda>w.
     and_then (ok_or (checked_add (p_collateral_amount position) amount)
                 (to_program_error MathOverflow)) (\<lambda>collateral.
     and_then (refresh b rt (position\<lparr>p_collateral_amount := collateral\<rparr>) market) (\<lambda>position.
     store_position w position_info position))))))))"
| "deposit_collateral b rt program_id w _ _ = Inl NotEnoughAccountKeys"

fun borrow ::
  "build \<Rightarrow> runtime \<Rightarrow> address \<Rightarrow> world \<Rightarrow> account_info list \<Rightarrow> u64 \<Rightarrow> program_error + world" where
  "borrow b rt program_id w (position_info # market_info # owner # _) amount =
     and_then (require_signer owner) (\<lambda>_.
     and_then (load_market w market_info program_id) (\<lambda>market.
     and_then (load_position w position_info program_id (key market_info)) (\<lambda>position.
     and_then (ensure (p_owner position = key owner) (to_program_error OwnerMismatch)) (\<lambda>_.
     and_then (ok_or (checked_add (p_debt_amount position) amount)
                 (to_program_error MathOverflow)) (\<lambda>new_debt.
     and_then (or_program_err (borrow_capacity b (p_collateral_amount position)
                 (m_collateral_price market) (m_max_ltv_bps market))) (\<lambda>capacity.
     and_then (ensure (\<not> capacity < ucast new_debt) (to_program_error LtvExceeded)) (\<lambda>_.
     and_then (refresh b rt (position\<lparr>p_debt_amount := new_debt\<rparr>) market) (\<lambda>position.
     store_position w position_info position))))))))"
| "borrow b rt program_id w _ _ = Inl NotEnoughAccountKeys"

fun repay ::
  "build \<Rightarrow> runtime \<Rightarrow> address \<Rightarrow> world \<Rightarrow> account_info list \<Rightarrow> u64 \<Rightarrow> program_error + world" where
  "repay b rt program_id w (position_info # market_info # owner # _) amount =
     and_then (require_signer owner) (\<lambda>_.
     and_then (load_market w market_info program_id) (\<lambda>market.
     and_then (load_position w position_info program_id (key market_info)) (\<lambda>position.
     and_then (ensure (p_owner position = key owner) (to_program_error OwnerMismatch)) (\<lambda>_.
     and_then (ensure (\<not> p_debt_amount position < amount)
                 (to_program_error RepayExceedsDebt)) (\<lambda>_.
     and_then (refresh b rt
                 (position\<lparr>p_debt_amount := p_debt_amount position - amount\<rparr>) market) (\<lambda>position.
     store_position w position_info position))))))"
| "repay b rt program_id w _ _ = Inl NotEnoughAccountKeys"

fun withdraw_collateral ::
  "build \<Rightarrow> runtime \<Rightarrow> address \<Rightarrow> world \<Rightarrow> account_info list \<Rightarrow> u64 \<Rightarrow> program_error + world" where
  "withdraw_collateral b rt program_id w (position_info # market_info # vault # owner # _) amount =
     and_then (require_signer owner) (\<lambda>_.
     and_then (load_market w market_info program_id) (\<lambda>market.
     and_then (check_vault w vault market program_id) (\<lambda>_.
     and_then (load_position w position_info program_id (key market_info)) (\<lambda>position.
     and_then (ensure (p_owner position = key owner) (to_program_error OwnerMismatch)) (\<lambda>_.
     and_then (ensure (\<not> p_collateral_amount position < amount)
                 (to_program_error InsufficientCollateral)) (\<lambda>_.
     let remaining = p_collateral_amount position - amount in
     and_then (or_program_err (borrow_capacity b remaining (m_collateral_price market)
                 (m_max_ltv_bps market))) (\<lambda>capacity.
     and_then (ensure (\<not> capacity < ucast (p_debt_amount position))
                 (to_program_error LtvExceeded)) (\<lambda>_.
     and_then (rent_minimum_balance rt) (\<lambda>minimum_balance.
     let rent_floor = minimum_balance (length (data (w (key vault)))) in
     and_then (ensure (\<not> lamports (w (key vault)) < saturating_add rent_floor amount)
                 (to_program_error InsufficientVaultBalance)) (\<lambda>_.
     and_then (sub_lamports w (key vault) amount) (\<lambda>w.
     and_then (add_lamports w (key owner) amount) (\<lambda>w.
     and_then (refresh b rt (position\<lparr>p_collateral_amount := remaining\<rparr>) market) (\<lambda>position.
     store_position w position_info position)))))))))))))"
| "withdraw_collateral b rt program_id w _ _ = Inl NotEnoughAccountKeys"

abbreviation LIQUIDATION_BONUS_BPS :: u128 where "LIQUIDATION_BONUS_BPS \<equiv> 10500"

text \<open>The collateral a liquidation seizes: the repaid amount plus the bonus at the market price,
  capped by what the position holds.\<close>

definition seized_collateral :: "u64 \<Rightarrow> u64 \<Rightarrow> u64 \<Rightarrow> program_error + u64" where
  "seized_collateral collateral_amount repay_amount price =
     and_then (ok_or (checked_mul (ucast repay_amount) LIQUIDATION_BONUS_BPS)
                 (to_program_error MathOverflow)) (\<lambda>scaled.
     let seize_usd = scaled div 10000 in
     and_then (or_program_err (usd_to_lamports seize_usd price)) (\<lambda>seize_lamports.
     Inr (if collateral_amount < seize_lamports then collateral_amount else seize_lamports)))"

fun liquidate ::
  "build \<Rightarrow> runtime \<Rightarrow> address \<Rightarrow> world \<Rightarrow> account_info list \<Rightarrow> u64 \<Rightarrow> program_error + world" where
  "liquidate b rt program_id w (position_info # market_info # vault # liquidator # _) repay_amount =
     and_then (require_signer liquidator) (\<lambda>_.
     and_then (load_market w market_info program_id) (\<lambda>market.
     and_then (check_vault w vault market program_id) (\<lambda>_.
     and_then (load_position w position_info program_id (key market_info)) (\<lambda>position.
     and_then (or_program_err (health_factor b (p_collateral_amount position)
                 (p_debt_amount position) (m_collateral_price market)
                 (m_liquidation_threshold_bps market))) (\<lambda>health.
     and_then (ensure (is_liquidatable health) (to_program_error PositionHealthy)) (\<lambda>_.
     and_then (ensure (\<not> p_debt_amount position < repay_amount)
                 (to_program_error RepayExceedsDebt)) (\<lambda>_.
     and_then (seized_collateral (p_collateral_amount position) repay_amount
                 (m_collateral_price market)) (\<lambda>seize_lamports.
     and_then (rent_minimum_balance rt) (\<lambda>minimum_balance.
     let rent_floor = minimum_balance (length (data (w (key vault)))) in
     and_then (ensure (\<not> lamports (w (key vault)) < saturating_add rent_floor seize_lamports)
                 (to_program_error InsufficientVaultBalance)) (\<lambda>_.
     and_then (sub_lamports w (key vault) seize_lamports) (\<lambda>w.
     and_then (add_lamports w (key liquidator) seize_lamports) (\<lambda>w.
     and_then (refresh b rt
                 (position\<lparr>p_collateral_amount := p_collateral_amount position - seize_lamports,
                           p_debt_amount := p_debt_amount position - repay_amount\<rparr>) market)
       (\<lambda>position.
     store_position w position_info position)))))))))))))"
| "liquidate b rt program_id w _ _ = Inl NotEnoughAccountKeys"

fun refresh_position ::
  "build \<Rightarrow> runtime \<Rightarrow> address \<Rightarrow> world \<Rightarrow> account_info list \<Rightarrow> program_error + world" where
  "refresh_position b rt program_id w (position_info # market_info # _) =
     and_then (load_market w market_info program_id) (\<lambda>market.
     and_then (load_position w position_info program_id (key market_info)) (\<lambda>position.
     and_then (refresh b rt position market) (\<lambda>position.
     store_position w position_info position)))"
| "refresh_position b rt program_id w _ = Inl NotEnoughAccountKeys"

fun set_price ::
  "address \<Rightarrow> world \<Rightarrow> account_info list \<Rightarrow> u64 \<Rightarrow> program_error + world" where
  "set_price program_id w (market_info # authority # _) price =
     and_then (require_signer authority) (\<lambda>_.
     and_then (load_market w market_info program_id) (\<lambda>market.
     and_then (ensure (m_authority market = key authority) (to_program_error OwnerMismatch)) (\<lambda>_.
     and_then (ensure (price \<noteq> 0) (to_program_error InvalidPrice)) (\<lambda>_.
     store_market w market_info (market\<lparr>m_collateral_price := price\<rparr>)))))"
| "set_price program_id w _ _ = Inl NotEnoughAccountKeys"

fun dispatch ::
  "build \<Rightarrow> runtime \<Rightarrow> address \<Rightarrow> world \<Rightarrow> account_info list \<Rightarrow> LendingInstruction
     \<Rightarrow> program_error + world" where
  "dispatch b rt program_id w accounts (InitializeMarket price threshold ltv) =
     initialize_market rt program_id w accounts price threshold ltv"
| "dispatch b rt program_id w accounts CreatePosition =
     create_position b rt program_id w accounts"
| "dispatch b rt program_id w accounts (DepositCollateral amount) =
     deposit_collateral b rt program_id w accounts amount"
| "dispatch b rt program_id w accounts (Borrow amount) =
     borrow b rt program_id w accounts amount"
| "dispatch b rt program_id w accounts (Repay amount) =
     repay b rt program_id w accounts amount"
| "dispatch b rt program_id w accounts (WithdrawCollateral amount) =
     withdraw_collateral b rt program_id w accounts amount"
| "dispatch b rt program_id w accounts (Liquidate repay_amount) =
     liquidate b rt program_id w accounts repay_amount"
| "dispatch b rt program_id w accounts RefreshPosition =
     refresh_position b rt program_id w accounts"
| "dispatch b rt program_id w accounts (SetPrice price) =
     set_price program_id w accounts price"

definition process_instruction ::
  "build \<Rightarrow> runtime \<Rightarrow> address \<Rightarrow> world \<Rightarrow> account_info list \<Rightarrow> u8 list \<Rightarrow> program_error + world" where
  "process_instruction b rt program_id w accounts bytes =
     and_then (ok_or (try_from_slice instruction_deserialize bytes)
                 (to_program_error InvalidAccountData)) (\<lambda>instruction.
     dispatch b rt program_id w accounts instruction)"

lemma process_encoded:
  "process_instruction b rt pid w accs (instruction_to_vec i) = dispatch b rt pid w accs i"
proof -
  have "try_from_slice instruction_deserialize (instruction_to_vec i) = Some i"
    by (simp add: try_from_slice_Some instruction_deserialize_to_vec del: instruction_to_vec.simps)
  then show ?thesis by (simp add: process_instruction_def del: instruction_to_vec.simps)
qed

end
