(* ===== verification/LendingSafety.thy ===== *)
theory LendingSafety
  imports LendingProcessor
begin

text \<open>
  What the lending handlers guarantee. The predicates \<open>holds_market\<close> and \<open>holds_position\<close> say what
  an account's bytes mean; loading succeeds exactly on them and storing establishes them. Each
  handler's success is characterised by one lemma (\<open>borrow_Inr\<close> and its siblings) on which every
  safety property rests, and the cached-health invariant is preserved by every instruction.
\<close>

section \<open>Accounts as records\<close>

definition holds_market :: "address \<Rightarrow> world \<Rightarrow> address \<Rightarrow> Market \<Rightarrow> bool" where
  "holds_market pid w k m \<longleftrightarrow>
     owned_by (w k) = pid \<and> MARKET_LEN \<le> length (data (w k)) \<and>
     take MARKET_LEN (data (w k)) = market_to_vec m \<and> wf_market m \<and> m_tag m = ACCOUNT_TAG_MARKET"

definition holds_position :: "address \<Rightarrow> world \<Rightarrow> address \<Rightarrow> Position \<Rightarrow> bool" where
  "holds_position pid w k p \<longleftrightarrow>
     owned_by (w k) = pid \<and> POSITION_LEN \<le> length (data (w k)) \<and>
     take POSITION_LEN (data (w k)) = position_to_vec p \<and> wf_position p \<and>
     p_tag p = ACCOUNT_TAG_POSITION"

definition put_data :: "world \<Rightarrow> address \<Rightarrow> u8 list \<Rightarrow> world" where
  "put_data w k bs = w(k := (w k)\<lparr>data := bs @ drop (length bs) (data (w k))\<rparr>)"

definition put_lamports :: "world \<Rightarrow> address \<Rightarrow> u64 \<Rightarrow> world" where
  "put_lamports w k l = w(k := (w k)\<lparr>lamports := l\<rparr>)"

lemma load_market_Inr [result_simps]:
  "load_market w info pid = Inr m \<longleftrightarrow> holds_market pid w (key info) m"
  by (auto simp: load_market_def owned_by_program_def holds_market_def Let_def result_simps
      market_codec.slice_Some)

lemma load_position_Inr [result_simps]:
  "load_position w info pid mk = Inr p \<longleftrightarrow> holds_position pid w (key info) p \<and> p_market p = mk"
  by (auto simp: load_position_def owned_by_program_def holds_position_def Let_def result_simps
      position_codec.slice_Some)

lemma store_bytes_Inr [result_simps]:
  "store_bytes w info bs = Inr w' \<longleftrightarrow>
     length bs \<le> length (data (w (key info))) \<and> w' = put_data w (key info) bs"
  by (auto simp: store_bytes_def put_data_def Let_def result_simps)

lemma sub_lamports_Inr:
  "sub_lamports w k a = Inr w' \<longleftrightarrow>
     a \<le> lamports (w k) \<and> w' = put_lamports w k (lamports (w k) - a)"
  by (auto simp: sub_lamports_def put_lamports_def result_simps)

lemma add_lamports_Inr:
  "add_lamports w k a = Inr w' \<longleftrightarrow>
     unat (lamports (w k)) + unat a < 2 ^ 64 \<and> w' = put_lamports w k (lamports (w k) + a)"
  by (auto simp: add_lamports_def put_lamports_def result_simps)

lemma check_vault_Inr [result_simps]:
  "check_vault w vault m pid = Inr u \<longleftrightarrow>
     key vault = m_vault m \<and> owned_by (w (key vault)) = pid"
  by (auto simp: check_vault_def owned_by_program_def result_simps)

lemma signer_owned_Inr [result_simps]:
  "require_signer info = Inr u \<longleftrightarrow> is_signer info"
  "owned_by_program w info pid = Inr u \<longleftrightarrow> owned_by (w (key info)) = pid"
  by (auto simp: require_signer_def owned_by_program_def result_simps)

lemma or_program_err_Inr [result_simps]: "or_program_err r = Inr x \<longleftrightarrow> r = Inr x"
  by (simp add: or_program_err_def result_simps)

lemma or_program_err_simps [simp]:
  "or_program_err (Inr x) = Inr x" "or_program_err (Inl e) = Inl (to_program_error e)"
  by (simp_all add: or_program_err_def)

lemma holds_position_unique: "holds_position pid w k p \<Longrightarrow> holds_position pid w k q \<Longrightarrow> p = q"
  by (auto simp: holds_position_def intro: position_codec.enc_inject)

lemma holds_market_unique: "holds_market pid w k m \<Longrightarrow> holds_market pid w k n \<Longrightarrow> m = n"
  by (auto simp: holds_market_def intro: market_codec.enc_inject)

text \<open>An account is never both: the first byte is the tag.\<close>

lemma hd_market: "holds_market pid w k m \<Longrightarrow> data (w k) ! 0 = ACCOUNT_TAG_MARKET"
  by (metis (no_types, lifting) append_Cons holds_market_def market_to_vec_def nth_Cons_0
      nth_take zero_less_numeral)

lemma hd_position: "holds_position pid w k p \<Longrightarrow> data (w k) ! 0 = ACCOUNT_TAG_POSITION"
  by (metis (no_types, lifting) append_Cons holds_position_def position_to_vec_def nth_Cons_0
      nth_take zero_less_numeral)

lemma market_not_position: "holds_market pid w k m \<Longrightarrow> \<not> holds_position pid w k p"
  using hd_market [of pid w k m] hd_position [of pid w k p] by auto

section \<open>Writing and reading back\<close>

lemma put_data_other [simp]: "k' \<noteq> k \<Longrightarrow> put_data w k bs k' = w k'"
  and put_data_owner [simp]: "owned_by (put_data w k bs k') = owned_by (w k')"
  and put_data_lamports [simp]: "lamports (put_data w k bs k') = lamports (w k')"
  by (simp_all add: put_data_def)

lemma put_lamports_other [simp]: "k' \<noteq> k \<Longrightarrow> put_lamports w k l k' = w k'"
  and put_lamports_owner [simp]: "owned_by (put_lamports w k l k') = owned_by (w k')"
  and put_lamports_data [simp]: "data (put_lamports w k l k') = data (w k')"
  and put_lamports_same [simp]: "lamports (put_lamports w k l k) = l"
  by (simp_all add: put_lamports_def)

lemma holds_put_lamports [simp]:
  "holds_position pid (put_lamports w k l) k' p = holds_position pid w k' p"
  "holds_market pid (put_lamports w k l) k' m = holds_market pid w k' m"
  by (simp_all add: holds_position_def holds_market_def)

lemma holds_put_other [simp]:
  "k' \<noteq> k \<Longrightarrow> holds_position pid (put_data w k bs) k' p = holds_position pid w k' p"
  "k' \<noteq> k \<Longrightarrow> holds_market pid (put_data w k bs) k' m = holds_market pid w k' m"
  by (simp_all add: holds_position_def holds_market_def)

lemma holds_put_position:
  assumes "owned_by (w k) = pid" "POSITION_LEN \<le> length (data (w k))"
    and "wf_position p" "p_tag p = ACCOUNT_TAG_POSITION"
  shows "holds_position pid (put_data w k (position_to_vec p)) k q \<longleftrightarrow> q = p"
proof -
  have "holds_position pid (put_data w k (position_to_vec p)) k p"
    using assms length_position_to_vec [OF assms(3)] by (simp add: holds_position_def put_data_def)
  then show ?thesis using holds_position_unique by blast
qed

lemma holds_put_market:
  assumes "owned_by (w k) = pid" "MARKET_LEN \<le> length (data (w k))"
    and "wf_market m" "m_tag m = ACCOUNT_TAG_MARKET"
  shows "holds_market pid (put_data w k (market_to_vec m)) k n \<longleftrightarrow> n = m"
proof -
  have "holds_market pid (put_data w k (market_to_vec m)) k m"
    using assms length_market_to_vec [OF assms(3)] by (simp add: holds_market_def put_data_def)
  then show ?thesis using holds_market_unique by blast
qed

section \<open>Refreshing\<close>

text \<open>The position after \<open>refresh\<close> at slot \<open>s\<close>: the market's terms and the recomputed health.\<close>

definition refreshed :: "build \<Rightarrow> Position \<Rightarrow> Market \<Rightarrow> u64 \<Rightarrow> Position" where
  "refreshed b p m s = p\<lparr>p_collateral_price := m_collateral_price m,
     p_liquidation_threshold_bps := m_liquidation_threshold_bps m,
     p_max_ltv_bps := m_max_ltv_bps m,
     p_health_factor := of_nat (health_of b (p_collateral_amount p) (p_debt_amount p)
       (m_collateral_price m) (m_liquidation_threshold_bps m)),
     p_last_update_slot := s\<rparr>"

text \<open>The cached metric is the build's health factor of the position's own fields.\<close>

definition health_cached :: "build \<Rightarrow> Position \<Rightarrow> bool" where
  "health_cached b p \<longleftrightarrow>
     health_factor b (p_collateral_amount p) (p_debt_amount p) (p_collateral_price p)
       (p_liquidation_threshold_bps p) = Inr (p_health_factor p)"

text \<open>The snapshot in the position is the market's current one.\<close>

definition priced_at :: "Market \<Rightarrow> Position \<Rightarrow> bool" where
  "priced_at m p \<longleftrightarrow>
     p_collateral_price p = m_collateral_price m \<and>
     p_liquidation_threshold_bps p = m_liquidation_threshold_bps m \<and>
     p_max_ltv_bps p = m_max_ltv_bps m"

lemma refresh_eq: "refresh b rt p m = and_then (clock_slot rt) (\<lambda>s. Inr (refreshed b p m s))"
  by (simp add: refresh_def refreshed_def Let_def or_program_err_def health_factor_eq)

lemma refresh_Inr [result_simps]:
  "refresh b rt p m = Inr p' \<longleftrightarrow> (\<exists>s. clock_slot rt = Inr s \<and> p' = refreshed b p m s)"
  by (auto simp: refresh_eq result_simps)

lemma refreshed_simps [simp]:
  "p_tag (refreshed b p m s) = p_tag p" "p_version (refreshed b p m s) = p_version p"
  "p_owner (refreshed b p m s) = p_owner p" "p_market (refreshed b p m s) = p_market p"
  "p_collateral_amount (refreshed b p m s) = p_collateral_amount p"
  "p_debt_amount (refreshed b p m s) = p_debt_amount p"
  "p_last_update_slot (refreshed b p m s) = s"
  "wf_position (refreshed b p m s) = wf_position p" "priced_at m (refreshed b p m s)"
  "health_cached b (refreshed b p m s)"
  by (simp_all add: refreshed_def wf_position_def priced_at_def health_cached_def health_factor_eq)

lemma wf_position_update [simp]:
  "wf_position (p\<lparr>p_collateral_amount := c\<rparr>) = wf_position p"
  "wf_position (p\<lparr>p_debt_amount := d\<rparr>) = wf_position p"
  by (simp_all add: wf_position_def)

lemma wf_market_update [simp]:
  "wf_market (m\<lparr>m_collateral_price := c\<rparr>) = wf_market m"
  "wf_market (m\<lparr>m_position_count := d\<rparr>) = wf_market m"
  by (simp_all add: wf_market_def)

lemma holds_position_wf [simp, intro]: "holds_position pid w k p \<Longrightarrow> wf_position p"
  by (simp add: holds_position_def)

lemma holds_market_wf [simp, intro]: "holds_market pid w k m \<Longrightarrow> wf_market m"
  by (simp add: holds_market_def)

lemma store_position_held [result_simps]:
  "holds_position pid w (key info) p \<Longrightarrow> wf_position q \<Longrightarrow>
     store_position w info q = Inr w' \<longleftrightarrow> w' = put_data w (key info) (position_to_vec q)"
  by (auto simp: store_position_def result_simps length_position_to_vec holds_position_def)

lemma store_market_held [result_simps]:
  "holds_market pid w (key info) m \<Longrightarrow> wf_market n \<Longrightarrow>
     store_market w info n = Inr w' \<longleftrightarrow> w' = put_data w (key info) (market_to_vec n)"
  by (auto simp: store_market_def result_simps length_market_to_vec holds_market_def)

lemma load_held:
  "holds_market pid w (key info) m \<Longrightarrow> load_market w info pid = Inr m"
  "holds_position pid w (key info) p \<Longrightarrow>
     load_position w info pid mk =
       (if p_market p = mk then Inr p else Inl (to_program_error MarketMismatch))"
   apply (simp add: load_market_Inr)
  apply (auto simp: load_position_Inr)
  apply (auto simp: load_position_def owned_by_program_def holds_position_def Let_def
      position_codec.slice_Some [THEN iffD2] ensure_def)
  done

section \<open>When a handler succeeds\<close>

lemma store_refreshed [result_simps]:
  assumes "holds_position pid w (key info) p" "wf_position q"
  shows "store_position w info (refreshed b q m s) = Inr w' \<longleftrightarrow>
     w' = put_data w (key info) (position_to_vec (refreshed b q m s))"
  using assms by (simp add: store_position_held)

lemma borrow_Inr:
  assumes m: "holds_market pid w (key mi) m" and p: "holds_position pid w (key pi) p"
  shows "borrow b rt pid w (pi # mi # ow # rest) amount = Inr w' \<longleftrightarrow>
     is_signer ow \<and> p_market p = key mi \<and> p_owner p = key ow \<and>
     unat (p_debt_amount p) + unat amount < 2 ^ 64 \<and>
     unat (p_debt_amount p) + unat amount \<le>
       capacity_of b (p_collateral_amount p) (m_collateral_price m) (m_max_ltv_bps m) \<and>
     (\<exists>s. clock_slot rt = Inr s \<and>
        w' = put_data w (key pi)
          (position_to_vec (refreshed b (p\<lparr>p_debt_amount := p_debt_amount p + amount\<rparr>) m s)))"
  using p by (auto simp: load_held(1) [OF m] load_held(2) [OF p] result_simps borrow_capacity_eq
      store_refreshed [OF p] not_less word_le_nat_alt unat_add_small or_program_err_def)

lemma repay_Inr:
  assumes m: "holds_market pid w (key mi) m" and p: "holds_position pid w (key pi) p"
  shows "repay b rt pid w (pi # mi # ow # rest) amount = Inr w' \<longleftrightarrow>
     is_signer ow \<and> p_market p = key mi \<and> p_owner p = key ow \<and> amount \<le> p_debt_amount p \<and>
     (\<exists>s. clock_slot rt = Inr s \<and>
        w' = put_data w (key pi)
          (position_to_vec (refreshed b (p\<lparr>p_debt_amount := p_debt_amount p - amount\<rparr>) m s)))"
  using p by (auto simp: load_held(1) [OF m] load_held(2) [OF p] result_simps
      store_refreshed [OF p] not_less)

lemma refresh_position_Inr:
  assumes m: "holds_market pid w (key mi) m" and p: "holds_position pid w (key pi) p"
  shows "refresh_position b rt pid w (pi # mi # rest) = Inr w' \<longleftrightarrow>
     p_market p = key mi \<and>
     (\<exists>s. clock_slot rt = Inr s \<and>
        w' = put_data w (key pi) (position_to_vec (refreshed b p m s)))"
  using p by (auto simp: load_held(1) [OF m] load_held(2) [OF p] result_simps
      store_refreshed [OF p])

text \<open>Moving lamports out of the vault: what \<open>-=\<close> followed by \<open>+=\<close> leaves, also when the two
  accounts are the same cell.\<close>

definition move_lamports :: "world \<Rightarrow> address \<Rightarrow> address \<Rightarrow> u64 \<Rightarrow> world" where
  "move_lamports w from to a =
     (let w = put_lamports w from (lamports (w from) - a)
      in put_lamports w to (lamports (w to) + a))"

lemma holds_move_lamports [simp]:
  "holds_position pid (move_lamports w f t a) k p = holds_position pid w k p"
  "holds_market pid (move_lamports w f t a) k m = holds_market pid w k m"
  "data (move_lamports w f t a k) = data (w k)"
  "owned_by (move_lamports w f t a k) = owned_by (w k)"
  by (simp_all add: move_lamports_def Let_def)

lemma sub_add_lamports [result_simps]:
  "(\<exists>w1. sub_lamports w v a = Inr w1 \<and> (\<exists>w2. add_lamports w1 r a = Inr w2 \<and> P w2)) \<longleftrightarrow>
     a \<le> lamports (w v) \<and> (v = r \<or> unat (lamports (w r)) + unat a < 2 ^ 64) \<and>
     P (move_lamports w v r a)"
proof (cases "v = r")
  case True
  have "unat (lamports (w v) - a) + unat a < 2 ^ 64" if "a \<le> lamports (w v)"
    using that unat_less_pow [of "lamports (w v)"] by (simp add: unat_sub_le word_le_nat_alt)
  with True show ?thesis
    by (auto simp: sub_lamports_Inr add_lamports_Inr move_lamports_def Let_def)
next
  case False
  then show ?thesis by (auto simp: sub_lamports_Inr add_lamports_Inr move_lamports_def Let_def)
qed

lemma floor_covers: "saturating_add f a \<le> l \<Longrightarrow> a \<le> (l::u64)"
proof -
  assume "saturating_add f a \<le> l"
  then have "min (2 ^ 64 - 1) (unat f + unat a) \<le> unat l"
    by (simp add: word_le_nat_alt unat_saturating_add)
  moreover have "unat a \<le> 2 ^ 64 - 1" by simp
  ultimately have "unat a \<le> unat l" by linarith
  then show "a \<le> l" by (simp add: word_le_nat_alt)
qed

lemma withdraw_Inr:
  assumes m: "holds_market pid w (key mi) m" and p: "holds_position pid w (key pi) p"
  shows "withdraw_collateral b rt pid w (pi # mi # va # ow # rest) amount = Inr w' \<longleftrightarrow>
     is_signer ow \<and> key va = m_vault m \<and> owned_by (w (key va)) = pid \<and>
     p_market p = key mi \<and> p_owner p = key ow \<and> amount \<le> p_collateral_amount p \<and>
     unat (p_debt_amount p) \<le> capacity_of b (p_collateral_amount p - amount)
        (m_collateral_price m) (m_max_ltv_bps m) \<and>
     (\<exists>rent. rent_minimum_balance rt = Inr rent \<and>
        saturating_add (rent (length (data (w (key va))))) amount \<le> lamports (w (key va))) \<and>
     (key va = key ow \<or> unat (lamports (w (key ow))) + unat amount < 2 ^ 64) \<and>
     (\<exists>s. clock_slot rt = Inr s \<and>
        w' = put_data (move_lamports w (key va) (key ow) amount) (key pi)
          (position_to_vec (refreshed b
             (p\<lparr>p_collateral_amount := p_collateral_amount p - amount\<rparr>) m s)))"
  (is "?L \<longleftrightarrow> ?R")
proof -
  let ?w = "move_lamports w (key va) (key ow) amount"
  have q: "holds_position pid ?w (key pi) p" using p by simp
  show ?thesis using p
    by (auto simp: load_held(1) [OF m] load_held(2) [OF p] result_simps borrow_capacity_eq
        floor_covers store_refreshed [OF q] Let_def or_program_err_def not_less
        word_le_nat_alt [of "ucast d" for d])
qed

lemma move_lamports_amounts:
  assumes "a \<le> lamports (w v)" "v = r \<or> unat (lamports (w r)) + unat a < 2 ^ 64"
  shows "k \<noteq> v \<Longrightarrow> k \<noteq> r \<Longrightarrow> lamports (move_lamports w v r a k) = lamports (w k)"
    and "v \<noteq> r \<Longrightarrow> unat (lamports (move_lamports w v r a v)) + unat a = unat (lamports (w v))"
    and "v \<noteq> r \<Longrightarrow> unat (lamports (move_lamports w v r a r)) = unat (lamports (w r)) + unat a"
    and "v = r \<Longrightarrow> lamports (move_lamports w v r a v) = lamports (w v)"
  using assms
  by (simp_all add: move_lamports_def Let_def unat_sub_le unat_add_small word_le_nat_alt)

text \<open>What the balance check leaves in the vault.\<close>

lemma floor_left:
  assumes "saturating_add f a \<le> l" "l \<noteq> - 1" shows "unat f + unat a \<le> unat (l::u64)"
proof -
  have "min (2 ^ 64 - 1) (unat f + unat a) \<le> unat l"
    using assms(1) by (simp add: word_le_nat_alt unat_saturating_add)
  moreover have "unat l \<noteq> 2 ^ 64 - 1"
    using assms(2) by (simp add: word_unat_eq_iff unsigned_minus_1_eq_mask mask_eq_exp_minus_1)
  moreover have "unat l < 2 ^ 64" by simp
  ultimately show ?thesis by linarith
qed

text \<open>The collateral a liquidation seizes, on natural numbers: 105 percent of the repaid debt at the
  market price, at most what the position holds.\<close>

definition seize_usd_of :: "u64 \<Rightarrow> nat" where
  "seize_usd_of repay_amount = unat repay_amount * 10500 div 10000"

definition seize_of :: "u64 \<Rightarrow> u64 \<Rightarrow> u64 \<Rightarrow> u64" where
  "seize_of collateral repay_amount price =
     (let l = seize_usd_of repay_amount * 10 ^ 9 div unat price
      in if unat collateral < l then collateral else of_nat l)"

lemma seize_of_le: "seize_of c r p \<le> c"
proof (cases "unat c < seize_usd_of r * 10 ^ 9 div unat p")
  case False
  then have le: "seize_usd_of r * 10 ^ 9 div unat p \<le> unat c" by simp
  moreover have "seize_usd_of r * 10 ^ 9 div unat p < 2 ^ LENGTH(64)"
    using le_less_trans [OF le unat_less_pow] by simp
  ultimately show ?thesis by (simp add: seize_of_def word_le_nat_alt unat_of_nat_eq)
qed (simp add: seize_of_def)

lemma unat_seize_of:
  "seize_usd_of r * 10 ^ 9 div unat p < 2 ^ 64 \<Longrightarrow>
     unat (seize_of c r p) = min (unat c) (seize_usd_of r * 10 ^ 9 div unat p)"
  by (simp add: seize_of_def Let_def unat_of_nat_eq)

lemma seized_collateral_Inr [result_simps]:
  "seized_collateral c r p = Inr l \<longleftrightarrow>
     p \<noteq> 0 \<and> seize_usd_of r * 10 ^ 9 div unat p < 2 ^ 64 \<and> l = seize_of c r p"
proof -
  have "unat r < 2 ^ 64" by simp
  then have "unat r \<le> 2 ^ 64" by (rule less_imp_le)
  then have "unat r * 10500 \<le> 2 ^ 64 * 10500" by (rule mult_le_mono1)
  then have r: "unat r * 10500 < 2 ^ 128" by (rule le_less_trans) simp
  have "seize_usd_of r \<le> unat r * 10500" by (simp add: seize_usd_of_def)
  then have "seize_usd_of r * 10 ^ 9 \<le> 2 ^ 64 * 10500 * 10 ^ 9"
    using \<open>unat r * 10500 \<le> 2 ^ 64 * 10500\<close> by (intro mult_le_mono1) (rule le_trans)
  then have s: "seize_usd_of r * 10 ^ 9 < 2 ^ 128" by (rule le_less_trans) simp
  have x: "unat ((ucast r * 10500 :: u128) div 10000) = seize_usd_of r"
    using r by (simp add: unat_div_distrib unat_mult_small seize_usd_of_def)
  have "checked_mul (ucast r * 10500 div 10000) LAMPORTS_PER_SOL =
      Some ((ucast r * 10500 div 10000) * LAMPORTS_PER_SOL)"
    using s by (simp only: checked_mul_def x) simp
  moreover have q: "unat ((ucast r * 10500 div 10000) * LAMPORTS_PER_SOL div ucast p) =
      seize_usd_of r * 10 ^ 9 div unat p"
    using s by (simp only: unat_div_distrib unat_ucast_64_128) (simp add: unat_mult_small x)
  moreover have "ucast ((ucast r * 10500 div 10000) * LAMPORTS_PER_SOL div ucast p :: u128) =
      (of_nat (seize_usd_of r * 10 ^ 9 div unat p) :: u64)"
    if "seize_usd_of r * 10 ^ 9 div unat p < 2 ^ 64"
    using that q by (intro word_eq_unatI) (simp add: unat_ucast_up unat_of_nat_eq)
  moreover have "checked_mul (ucast r) (10500::u128) = Some (ucast r * 10500)"
    using r by (simp add: checked_mul_def)
  ultimately have u: "seized_collateral c r p =
      (if p = 0 then Inl (to_program_error InvalidPrice)
       else if seize_usd_of r * 10 ^ 9 div unat p < 2 ^ 64
         then (let l = of_nat (seize_usd_of r * 10 ^ 9 div unat p) in
               Inr (if c < l then c else l))
       else Inl (to_program_error MathOverflow))"
    by (simp add: seized_collateral_def usd_to_lamports_def try_narrow_def Let_def)
  show ?thesis
    by (auto simp: u seize_of_def Let_def word_less_nat_alt unat_of_nat_eq split: if_splits)
qed

lemma liquidate_Inr:
  fixes amount :: u64
  assumes m: "holds_market pid w (key mi) m" and p: "holds_position pid w (key pi) p"
  defines "sz \<equiv> seize_of (p_collateral_amount p) amount (m_collateral_price m)"
  shows "liquidate b rt pid w (pi # mi # va # lq # rest) amount = Inr w' \<longleftrightarrow>
     is_signer lq \<and> key va = m_vault m \<and> owned_by (w (key va)) = pid \<and>
     p_market p = key mi \<and>
     health_of b (p_collateral_amount p) (p_debt_amount p) (m_collateral_price m)
       (m_liquidation_threshold_bps m) < 10 ^ 6 \<and>
     amount \<le> p_debt_amount p \<and> m_collateral_price m \<noteq> 0 \<and>
     seize_usd_of amount * 10 ^ 9 div unat (m_collateral_price m) < 2 ^ 64 \<and>
     (\<exists>rent. rent_minimum_balance rt = Inr rent \<and>
        saturating_add (rent (length (data (w (key va))))) sz \<le> lamports (w (key va))) \<and>
     (key va = key lq \<or> unat (lamports (w (key lq))) + unat sz < 2 ^ 64) \<and>
     (\<exists>s. clock_slot rt = Inr s \<and>
        w' = put_data (move_lamports w (key va) (key lq) sz) (key pi)
          (position_to_vec (refreshed b
             (p\<lparr>p_collateral_amount := p_collateral_amount p - sz,
                p_debt_amount := p_debt_amount p - amount\<rparr>) m s)))"
  (is "?L \<longleftrightarrow> ?R")
proof -
  let ?w = "move_lamports w (key va) (key lq) sz"
  have q: "holds_position pid ?w (key pi) p" using p by simp
  show ?thesis using p
    by (auto simp: load_held(1) [OF m] load_held(2) [OF p] result_simps health_factor_eq
        is_liquidatable_health floor_covers store_refreshed [OF q] Let_def not_less sz_def
        [symmetric])
qed

text \<open>What the System Program transfer is documented to do: it needs the sender's signature and
  funds, moves the lamports and touches nothing else.\<close>

definition system_transfer_law :: "runtime \<Rightarrow> bool" where
  "system_transfer_law rt \<longleftrightarrow>
     (\<forall>w from to sys a w'. invoke_system_transfer rt w from to sys a = Inr w' \<longrightarrow>
        is_signer from \<and> a \<le> lamports (w (key from)) \<and>
        (key from = key to \<or> unat (lamports (w (key to))) + unat a < 2 ^ 64) \<and>
        w' = move_lamports w (key from) (key to) a)"

lemma deposit_Inr:
  assumes law: "system_transfer_law rt"
    and m: "holds_market pid w (key mi) m" and p: "holds_position pid w (key pi) p"
    and ok: "deposit_collateral b rt pid w (pi # mi # va # ow # sys # rest) amount = Inr w'"
  shows "is_signer ow \<and> key va = m_vault m \<and> owned_by (w (key va)) = pid \<and>
     p_market p = key mi \<and> p_owner p = key ow \<and> amount \<le> lamports (w (key ow)) \<and>
     (key ow = key va \<or> unat (lamports (w (key va))) + unat amount < 2 ^ 64) \<and>
     unat (p_collateral_amount p) + unat amount < 2 ^ 64 \<and>
     (\<exists>s. clock_slot rt = Inr s \<and>
        w' = put_data (move_lamports w (key ow) (key va) amount) (key pi)
          (position_to_vec (refreshed b
             (p\<lparr>p_collateral_amount := p_collateral_amount p + amount\<rparr>) m s)))"
proof -
  let ?w = "move_lamports w (key ow) (key va) amount"
  have q: "holds_position pid ?w (key pi) p" using p by simp
  have tr: "\<And>w1. invoke_system_transfer rt w ow va sys amount = Inr w1 \<Longrightarrow>
      amount \<le> lamports (w (key ow)) \<and>
      (key ow = key va \<or> unat (lamports (w (key va))) + unat amount < 2 ^ 64) \<and> w1 = ?w"
    using law unfolding system_transfer_law_def by blast
  show ?thesis using p ok
    by (auto simp: load_held(1) [OF m] load_held(2) [OF p] result_simps store_refreshed [OF q]
        split: if_splits dest!: tr)
qed

lemma set_price_Inr:
  assumes m: "holds_market pid w (key mi) m"
  shows "set_price pid w (mi # au # rest) price = Inr w' \<longleftrightarrow>
     is_signer au \<and> m_authority m = key au \<and> price \<noteq> 0 \<and>
     w' = put_data w (key mi) (market_to_vec (m\<lparr>m_collateral_price := price\<rparr>))"
  using m by (auto simp: load_held(1) [OF m] result_simps store_market_held [OF m])

definition new_market ::
  "runtime \<Rightarrow> address \<Rightarrow> account_info \<Rightarrow> account_info \<Rightarrow> u64 \<Rightarrow> u16 \<Rightarrow> u16 \<Rightarrow> Market" where
  "new_market rt pid mi au price thr ltv =
     \<lparr>m_tag = ACCOUNT_TAG_MARKET, m_version = 1, m_authority = key au,
      m_vault = fst (find_program_address rt [VAULT_SEED, key mi] pid), m_collateral_price = price,
      m_liquidation_threshold_bps = thr, m_max_ltv_bps = ltv, m_position_count = 0\<rparr>"

lemma initialize_market_Inr:
  "initialize_market rt pid w (mi # au # rest) price thr ltv = Inr w' \<longleftrightarrow>
     is_signer au \<and> owned_by (w (key mi)) = pid \<and> price \<noteq> 0 \<and>
     MARKET_LEN \<le> length (data (w (key mi))) \<and> data (w (key mi)) ! 0 = 0 \<and>
     length (market_to_vec (new_market rt pid mi au price thr ltv)) \<le> length (data (w (key mi))) \<and>
     w' = put_data w (key mi) (market_to_vec (new_market rt pid mi au price thr ltv))"
  by (auto simp: result_simps Let_def store_market_def new_market_def not_less)

definition new_position :: "account_info \<Rightarrow> account_info \<Rightarrow> Market \<Rightarrow> Position" where
  "new_position mi ow m =
     \<lparr>p_tag = ACCOUNT_TAG_POSITION, p_version = 1, p_owner = key ow, p_market = key mi,
      p_collateral_amount = 0, p_debt_amount = 0, p_collateral_price = m_collateral_price m,
      p_liquidation_threshold_bps = m_liquidation_threshold_bps m,
      p_max_ltv_bps = m_max_ltv_bps m, p_health_factor = 0, p_last_update_slot = 0\<rparr>"

lemma create_position_Inr:
  assumes m: "holds_market pid w (key mi) m"
    and wf: "length (key mi) = 32" "length (key ow) = 32"
  shows "create_position b rt pid w (pi # mi # ow # rest) = Inr w' \<longleftrightarrow>
     is_signer ow \<and> owned_by (w (key pi)) = pid \<and>
     POSITION_LEN \<le> length (data (w (key pi))) \<and> data (w (key pi)) ! 0 = 0 \<and>
     (\<exists>s. clock_slot rt = Inr s \<and>
        w' = put_data
          (put_data w (key pi) (position_to_vec (refreshed b (new_position mi ow m) m s)))
          (key mi)
          (market_to_vec (m\<lparr>m_position_count := saturating_add (m_position_count m) 1\<rparr>)))"
proof -
  have wfp: "wf_position (refreshed b (new_position mi ow m) m s)" for s
    using wf by (simp add: wf_position_def new_position_def)
  have mh: "holds_market pid
      (put_data w (key pi) (position_to_vec (refreshed b (new_position mi ow m) m s))) (key mi) m"
    if "data (w (key pi)) ! 0 = 0" for s
  proof -
    have "key mi \<noteq> key pi" using hd_market [OF m] that by auto
    then show ?thesis using m by simp
  qed
  show ?thesis
    using m mh
    by (auto simp: load_held(1) [OF m] result_simps Let_def store_position_def not_less
        length_position_to_vec [OF wfp] store_market_held [OF mh] new_position_def [symmetric])
qed

end
