(* ===== verification/LendingInvariant.thy ===== *)
theory LendingInvariant
  imports LendingSafety
begin

text \<open>
  The invariant of the lending program's accounts and its preservation by every instruction and
  by every run. A run interleaves instructions of the program, failed ones leaving the store as it
  was, with steps of the rest of the chain, which the runtime's ownership rule keeps away from the
  data of the program's accounts.
\<close>

section \<open>What a successful handler has read\<close>

fun_cases borrow_InrE: "borrow b rt pid w accs a = Inr w'"
  and repay_InrE: "repay b rt pid w accs a = Inr w'"
  and withdraw_InrE: "withdraw_collateral b rt pid w accs a = Inr w'"
  and liquidate_InrE: "liquidate b rt pid w accs a = Inr w'"
  and deposit_InrE: "deposit_collateral b rt pid w accs a = Inr w'"
  and refresh_position_InrE: "refresh_position b rt pid w accs = Inr w'"
  and create_position_InrE: "create_position b rt pid w accs = Inr w'"
  and set_price_InrE: "set_price pid w accs a = Inr w'"
  and initialize_market_InrE: "initialize_market rt pid w accs price thr ltv = Inr w'"

lemma borrow_reads: "borrow b rt pid w accs a = Inr w' \<Longrightarrow>
    \<exists>pi mi ow rest m p. accs = pi # mi # ow # rest \<and>
      holds_market pid w (key mi) m \<and> holds_position pid w (key pi) p"
  by (erule borrow_InrE) (auto simp: Inr_and_then and_then_Inr load_market_Inr load_position_Inr)

lemma repay_reads: "repay b rt pid w accs a = Inr w' \<Longrightarrow>
    \<exists>pi mi ow rest m p. accs = pi # mi # ow # rest \<and>
      holds_market pid w (key mi) m \<and> holds_position pid w (key pi) p"
  by (erule repay_InrE) (auto simp: Inr_and_then and_then_Inr load_market_Inr load_position_Inr)

lemma withdraw_reads: "withdraw_collateral b rt pid w accs a = Inr w' \<Longrightarrow>
    \<exists>pi mi va ow rest m p. accs = pi # mi # va # ow # rest \<and>
      holds_market pid w (key mi) m \<and> holds_position pid w (key pi) p"
  by (erule withdraw_InrE) (auto simp: Inr_and_then and_then_Inr load_market_Inr load_position_Inr)

lemma liquidate_reads: "liquidate b rt pid w accs a = Inr w' \<Longrightarrow>
    \<exists>pi mi va lq rest m p. accs = pi # mi # va # lq # rest \<and>
      holds_market pid w (key mi) m \<and> holds_position pid w (key pi) p"
  by (erule liquidate_InrE) (auto simp: Inr_and_then and_then_Inr load_market_Inr load_position_Inr)

lemma deposit_reads: "deposit_collateral b rt pid w accs a = Inr w' \<Longrightarrow>
    \<exists>pi mi va ow sys rest m p. accs = pi # mi # va # ow # sys # rest \<and>
      holds_market pid w (key mi) m \<and> holds_position pid w (key pi) p"
  by (erule deposit_InrE) (auto simp: Inr_and_then and_then_Inr load_market_Inr load_position_Inr)

lemma refresh_reads: "refresh_position b rt pid w accs = Inr w' \<Longrightarrow>
    \<exists>pi mi rest m p. accs = pi # mi # rest \<and>
      holds_market pid w (key mi) m \<and> holds_position pid w (key pi) p"
  by (erule refresh_position_InrE) (auto simp: Inr_and_then and_then_Inr load_market_Inr load_position_Inr)

lemma create_reads: "create_position b rt pid w accs = Inr w' \<Longrightarrow>
    \<exists>pi mi ow rest m. accs = pi # mi # ow # rest \<and> holds_market pid w (key mi) m"
  by (erule create_position_InrE) (auto simp: Inr_and_then and_then_Inr load_market_Inr)

lemma set_price_reads: "set_price pid w accs a = Inr w' \<Longrightarrow>
    \<exists>mi au rest m. accs = mi # au # rest \<and> holds_market pid w (key mi) m"
  by (erule set_price_InrE) (auto simp: Inr_and_then and_then_Inr load_market_Inr)

lemma initialize_reads: "initialize_market rt pid w accs price thr ltv = Inr w' \<Longrightarrow>
    \<exists>mi au rest. accs = mi # au # rest"
  by (erule initialize_market_InrE) auto

section \<open>The invariant\<close>

definition ledger_inv :: "build \<Rightarrow> address \<Rightarrow> world \<Rightarrow> bool" where
  "ledger_inv b pid w \<longleftrightarrow>
     (\<forall>k p. holds_position pid w k p \<longrightarrow> health_cached b p) \<and>
     (\<forall>k m. holds_market pid w k m \<longrightarrow> m_collateral_price m \<noteq> 0)"

lemma ledger_invD:
  "ledger_inv b pid w \<Longrightarrow> holds_position pid w k p \<Longrightarrow> health_cached b p"
  "ledger_inv b pid w \<Longrightarrow> holds_market pid w k m \<Longrightarrow> m_collateral_price m \<noteq> 0"
  by (auto simp: ledger_inv_def)

lemma ledger_inv_move [simp]:
  "ledger_inv b pid (move_lamports w f t a) = ledger_inv b pid w"
  by (simp add: ledger_inv_def)

lemma ledger_inv_put_position:
  assumes "ledger_inv b pid w" "owned_by (w k) = pid" "POSITION_LEN \<le> length (data (w k))"
    and q: "wf_position q" "p_tag q = ACCOUNT_TAG_POSITION" "health_cached b q"
  shows "ledger_inv b pid (put_data w k (position_to_vec q))"
proof -
  let ?w = "put_data w k (position_to_vec q)"
  have at: "holds_position pid ?w k x \<longleftrightarrow> x = q" for x
    using holds_put_position assms by blast
  then have "\<not> holds_market pid ?w k m" for m using market_not_position by blast
  with at assms show ?thesis
    unfolding ledger_inv_def by (metis holds_put_other)
qed

lemma ledger_inv_put_market:
  assumes "ledger_inv b pid w" "owned_by (w k) = pid" "MARKET_LEN \<le> length (data (w k))"
    and m: "wf_market m" "m_tag m = ACCOUNT_TAG_MARKET" "m_collateral_price m \<noteq> 0"
  shows "ledger_inv b pid (put_data w k (market_to_vec m))"
proof -
  let ?w = "put_data w k (market_to_vec m)"
  have at: "holds_market pid ?w k x \<longleftrightarrow> x = m" for x
    using holds_put_market assms by blast
  then have "\<not> holds_position pid ?w k p" for p using market_not_position by blast
  with at assms show ?thesis
    unfolding ledger_inv_def by (metis holds_put_other)
qed

lemma ledger_inv_refreshed:
  assumes "ledger_inv b pid w" and p: "holds_position pid w k p"
    and "wf_position q" "p_tag q = ACCOUNT_TAG_POSITION"
  shows "ledger_inv b pid (put_data w k (position_to_vec (refreshed b q m s)))"
  using assms by (intro ledger_inv_put_position) (simp_all add: holds_position_def)

text \<open>What the runtime guarantees of the addresses it hands out: 32 bytes.\<close>

definition addresses_ok :: "runtime \<Rightarrow> account_info list \<Rightarrow> bool" where
  "addresses_ok rt accs \<longleftrightarrow>
     (\<forall>i\<in>set accs. length (key i) = 32) \<and>
     (\<forall>seeds pid. length (fst (find_program_address rt seeds pid)) = 32)"

lemma holds_tag: "holds_position pid w k p \<Longrightarrow> p_tag p = ACCOUNT_TAG_POSITION"
  "holds_market pid w k m \<Longrightarrow> m_tag m = ACCOUNT_TAG_MARKET"
  by (simp_all add: holds_position_def holds_market_def)

lemma holds_size:
  "holds_position pid w k p \<Longrightarrow> owned_by (w k) = pid \<and> POSITION_LEN \<le> length (data (w k))"
  "holds_market pid w k m \<Longrightarrow> owned_by (w k) = pid \<and> MARKET_LEN \<le> length (data (w k))"
  by (simp_all add: holds_position_def holds_market_def)

lemma borrow_inv:
  assumes "ledger_inv b pid w" "borrow b rt pid w accs a = Inr w'" shows "ledger_inv b pid w'"
  using assms borrow_reads [OF assms(2)]
  by (auto simp: borrow_Inr holds_tag intro!: ledger_inv_refreshed simp del: borrow.simps)

lemma repay_inv:
  assumes "ledger_inv b pid w" "repay b rt pid w accs a = Inr w'" shows "ledger_inv b pid w'"
  using assms repay_reads [OF assms(2)]
  by (auto simp: repay_Inr holds_tag intro!: ledger_inv_refreshed simp del: repay.simps)

lemma refresh_inv:
  assumes "ledger_inv b pid w" "refresh_position b rt pid w accs = Inr w'"
  shows "ledger_inv b pid w'"
  using assms refresh_reads [OF assms(2)]
  by (auto simp: refresh_position_Inr holds_tag intro!: ledger_inv_refreshed
      simp del: refresh_position.simps)

lemma withdraw_inv:
  assumes "ledger_inv b pid w" "withdraw_collateral b rt pid w accs a = Inr w'"
  shows "ledger_inv b pid w'"
  using assms withdraw_reads [OF assms(2)]
  by (auto simp: withdraw_Inr holds_tag intro!: ledger_inv_refreshed
      simp del: withdraw_collateral.simps)

lemma liquidate_inv:
  assumes "ledger_inv b pid w" "liquidate b rt pid w accs a = Inr w'"
  shows "ledger_inv b pid w'"
  using assms liquidate_reads [OF assms(2)]
  by (auto simp: liquidate_Inr holds_tag intro!: ledger_inv_refreshed simp del: liquidate.simps)

lemma deposit_inv:
  assumes "system_transfer_law rt" "ledger_inv b pid w"
    and ok: "deposit_collateral b rt pid w accs a = Inr w'"
  shows "ledger_inv b pid w'"
proof -
  obtain pi mi va ow sys rest m p where accs: "accs = pi # mi # va # ow # sys # rest"
    and m: "holds_market pid w (key mi) m" and p: "holds_position pid w (key pi) p"
    using deposit_reads [OF ok] by blast
  from deposit_Inr [OF assms(1) m p ok [unfolded accs]] assms(2) p show ?thesis
    by (auto simp: holds_tag intro!: ledger_inv_refreshed)
qed

lemma set_price_inv:
  assumes "ledger_inv b pid w" "set_price pid w accs a = Inr w'" shows "ledger_inv b pid w'"
proof -
  obtain mi au rest m where accs: "accs = mi # au # rest" and m: "holds_market pid w (key mi) m"
    using set_price_reads [OF assms(2)] by blast
  from assms set_price_Inr [OF m] show ?thesis unfolding accs
    by (auto simp: holds_tag(2) [OF m] holds_size(2) [OF m] holds_market_wf [OF m]
        intro!: ledger_inv_put_market simp del: set_price.simps)
qed

lemma initialize_inv:
  assumes "addresses_ok rt accs" "ledger_inv b pid w"
    and "initialize_market rt pid w accs price thr ltv = Inr w'"
  shows "ledger_inv b pid w'"
proof -
  obtain mi au rest where accs: "accs = mi # au # rest"
    using initialize_reads [OF assms(3)] by blast
  have "wf_market (new_market rt pid mi au price thr ltv)"
    using assms(1) by (simp add: accs addresses_ok_def wf_market_def new_market_def)
  with assms(2,3) show ?thesis unfolding accs initialize_market_Inr
    by (auto simp: new_market_def intro!: ledger_inv_put_market)
qed

lemma create_inv:
  assumes "addresses_ok rt accs" "ledger_inv b pid w"
    and ok: "create_position b rt pid w accs = Inr w'"
  shows "ledger_inv b pid w'"
proof -
  obtain pi mi ow rest m where accs: "accs = pi # mi # ow # rest"
    and m: "holds_market pid w (key mi) m"
    using create_reads [OF ok] by blast
  have len: "length (key mi) = 32" "length (key ow) = 32"
    using assms(1) by (simp_all add: accs addresses_ok_def)
  from ok obtain s where pi: "owned_by (w (key pi)) = pid" "POSITION_LEN \<le> length (data (w (key pi)))"
      "data (w (key pi)) ! 0 = 0"
    and w': "w' = put_data (put_data w (key pi)
        (position_to_vec (refreshed b (new_position mi ow m) m s))) (key mi)
        (market_to_vec (m\<lparr>m_position_count := saturating_add (m_position_count m) 1\<rparr>))"
    unfolding accs create_position_Inr [OF m len] by blast
  have "wf_position (refreshed b (new_position mi ow m) m s)"
    using len by (simp add: wf_position_def new_position_def)
  then have "ledger_inv b pid (put_data w (key pi)
      (position_to_vec (refreshed b (new_position mi ow m) m s)))"
    using assms(2) pi by (intro ledger_inv_put_position) (simp_all add: new_position_def)
  moreover have "key mi \<noteq> key pi" using hd_market [OF m] pi by auto
  moreover have "m_collateral_price m \<noteq> 0" using ledger_invD(2) [OF assms(2) m] .
  ultimately show ?thesis unfolding w'
    using holds_size(2) [OF m] holds_tag(2) [OF m] holds_market_wf [OF m]
    by (intro ledger_inv_put_market) simp_all
qed

lemma dispatch_inv:
  assumes "system_transfer_law rt" "addresses_ok rt accs" "ledger_inv b pid w"
    and "dispatch b rt pid w accs i = Inr w'"
  shows "ledger_inv b pid w'"
  using assms
  by (cases i) (auto simp del: borrow.simps repay.simps withdraw_collateral.simps liquidate.simps
      deposit_collateral.simps refresh_position.simps create_position.simps set_price.simps
      initialize_market.simps intro: borrow_inv repay_inv refresh_inv withdraw_inv liquidate_inv
      deposit_inv set_price_inv initialize_inv create_inv)

section \<open>Runs\<close>

text \<open>Between two instructions of the program the rest of the chain may move lamports, change
  accounts the program does not own, and hand the program accounts whose data is zeroed.\<close>

definition foreign_step :: "address \<Rightarrow> world \<Rightarrow> world \<Rightarrow> bool" where
  "foreign_step pid w w' \<longleftrightarrow>
     (\<forall>k. owned_by (w' k) = pid \<longrightarrow>
        (owned_by (w k) = pid \<and> data (w' k) = data (w k)) \<or>
        (owned_by (w k) \<noteq> pid \<and> (\<forall>b\<in>set (data (w' k)). b = 0)))"

inductive lending_run :: "build \<Rightarrow> runtime \<Rightarrow> address \<Rightarrow> world \<Rightarrow> world \<Rightarrow> bool"
  for b rt pid where
  run_refl: "lending_run b rt pid w w"
| run_instruction: "lending_run b rt pid w u \<Longrightarrow> addresses_ok rt accs \<Longrightarrow>
     process_instruction b rt pid u accs bytes = Inr v \<Longrightarrow> lending_run b rt pid w v"
| run_failed: "lending_run b rt pid w u \<Longrightarrow>
     process_instruction b rt pid u accs bytes = Inl e \<Longrightarrow> lending_run b rt pid w u"
| run_foreign: "lending_run b rt pid w u \<Longrightarrow> foreign_step pid u v \<Longrightarrow> lending_run b rt pid w v"

lemma foreign_step_inv:
  assumes "foreign_step pid w w'" "ledger_inv b pid w" shows "ledger_inv b pid w'"
proof -
  have zero: "(\<forall>x\<in>set bs. x = 0) \<Longrightarrow> bs \<noteq> [] \<Longrightarrow> bs ! 0 = 0" for bs :: "u8 list"
    by (cases bs) auto
  have same: "data (w' k) = data (w k) \<and> owned_by (w k) = pid"
    if "owned_by (w' k) = pid" "MARKET_LEN \<le> length (data (w' k))" "data (w' k) ! 0 \<noteq> 0" for k
  proof -
    have "data (w' k) \<noteq> []" using that(2) by auto
    then show ?thesis using assms(1) that zero unfolding foreign_step_def by blast
  qed
  have "holds_position pid w' k p \<Longrightarrow> holds_position pid w k p" for k p
    using hd_position [of pid w' k p] same [of k] by (auto simp: holds_position_def)
  moreover have "holds_market pid w' k m \<Longrightarrow> holds_market pid w k m" for k m
    using hd_market [of pid w' k m] same [of k] by (auto simp: holds_market_def)
  ultimately show ?thesis using assms(2) unfolding ledger_inv_def by blast
qed

lemma lending_run_inv:
  assumes "system_transfer_law rt" "lending_run b rt pid w v" "ledger_inv b pid w"
  shows "ledger_inv b pid v"
  using assms(2,3)
proof (induction rule: lending_run.induct)
  case (run_instruction w u accs bytes v)
  then show ?case using dispatch_inv [OF assms(1)]
    by (auto simp: process_instruction_def result_simps simp del: dispatch.simps)
qed (auto intro: foreign_step_inv)

end
