(* ===== verification/LendingExample.thy ===== *)
theory LendingExample
  imports LendingInvariant
begin

text \<open>
  A concrete deployment for the witnesses: one market at 100 dollars per SOL with a funded vault,
  one position of 99.5 SOL, and a runtime whose System Program transfer satisfies the documented
  law. Nothing here models code.
\<close>

definition ex_pid :: address where "ex_pid = replicate 32 7"
definition ex_market_key :: address where "ex_market_key = replicate 32 1"
definition ex_position_key :: address where "ex_position_key = replicate 32 2"
definition ex_vault_key :: address where "ex_vault_key = replicate 32 3"
definition ex_owner_key :: address where "ex_owner_key = replicate 32 4"
definition ex_liquidator_key :: address where "ex_liquidator_key = replicate 32 5"

lemmas ex_keys = ex_pid_def ex_market_key_def ex_position_key_def ex_vault_key_def
  ex_owner_key_def ex_liquidator_key_def

definition ex_market :: Market where
  "ex_market = \<lparr>m_tag = 1, m_version = 1, m_authority = ex_owner_key, m_vault = ex_vault_key,
     m_collateral_price = 100000000, m_liquidation_threshold_bps = 8000, m_max_ltv_bps = 7500,
     m_position_count = 1\<rparr>"

definition ex_position :: "build \<Rightarrow> u64 \<Rightarrow> Position" where
  "ex_position b debt = refreshed b
     \<lparr>p_tag = 2, p_version = 1, p_owner = ex_owner_key, p_market = ex_market_key,
      p_collateral_amount = 99500000000, p_debt_amount = debt, p_collateral_price = 0,
      p_liquidation_threshold_bps = 0, p_max_ltv_bps = 0, p_health_factor = 0,
      p_last_update_slot = 0\<rparr> ex_market 3"

definition ex_world :: "build \<Rightarrow> u64 \<Rightarrow> world" where
  "ex_world b debt k =
     (if k = ex_market_key then \<lparr>lamports = 1000000, data = market_to_vec ex_market, owned_by = ex_pid\<rparr>
      else if k = ex_position_key
        then \<lparr>lamports = 1000000, data = position_to_vec (ex_position b debt), owned_by = ex_pid\<rparr>
      else if k = ex_vault_key then \<lparr>lamports = 100000000000, data = [], owned_by = ex_pid\<rparr>
      else \<lparr>lamports = 5000000000, data = [], owned_by = []\<rparr>)"

definition ex_runtime :: runtime where
  "ex_runtime = \<lparr>find_program_address = (\<lambda>_ _. (ex_vault_key, 255)), clock_slot = Inr 5,
     rent_minimum_balance = Inr (\<lambda>_. 890880),
     invoke_system_transfer = (\<lambda>w from to sys a.
       if is_signer from \<and> a \<le> lamports (w (key from)) \<and>
          (key from = key to \<or> unat (lamports (w (key to))) + unat a < 2 ^ 64)
       then Inr (move_lamports w (key from) (key to) a) else Inl (External 1))\<rparr>"

definition ex_info :: "address \<Rightarrow> bool \<Rightarrow> account_info" where
  "ex_info k s = \<lparr>key = k, is_signer = s\<rparr>"

lemma ex_runtime_law: "system_transfer_law ex_runtime"
  by (auto simp: system_transfer_law_def ex_runtime_def split: if_splits)

lemma ex_runtime_simps [simp]:
  "clock_slot ex_runtime = Inr 5" "rent_minimum_balance ex_runtime = Inr (\<lambda>_. 890880)"
  by (simp_all add: ex_runtime_def)

lemma ex_info_simps [simp]: "key (ex_info k s) = k" "is_signer (ex_info k s) = s"
  by (simp_all add: ex_info_def)

lemma ex_keys_distinct [simp]:
  "ex_position_key \<noteq> ex_market_key" "ex_vault_key \<noteq> ex_market_key" "ex_vault_key \<noteq> ex_position_key"
  "ex_owner_key \<noteq> ex_market_key" "ex_owner_key \<noteq> ex_position_key" "ex_owner_key \<noteq> ex_vault_key"
  "ex_liquidator_key \<noteq> ex_market_key" "ex_liquidator_key \<noteq> ex_position_key"
  "ex_liquidator_key \<noteq> ex_vault_key" "ex_pid \<noteq> []"
  "length ex_owner_key = 32" "length ex_vault_key = 32" "length ex_market_key = 32"
  by (simp_all add: ex_keys)

lemma ex_wf: "wf_market ex_market" "wf_position (ex_position b d)"
  by (simp_all add: wf_market_def wf_position_def ex_market_def ex_position_def)

lemma ex_position_simps [simp]:
  "p_owner (ex_position b d) = ex_owner_key" "p_market (ex_position b d) = ex_market_key"
  "p_collateral_amount (ex_position b d) = 99500000000" "p_debt_amount (ex_position b d) = d"
  by (simp_all add: ex_position_def)

lemma ex_market_simps [simp]:
  "m_collateral_price ex_market = 100000000" "m_max_ltv_bps ex_market = 7500"
  "m_liquidation_threshold_bps ex_market = 8000" "m_vault ex_market = ex_vault_key"
  "m_authority ex_market = ex_owner_key"
  by (simp_all add: ex_market_def)

lemma ex_holds [simp]:
  "holds_market ex_pid (ex_world b d) ex_market_key m \<longleftrightarrow> m = ex_market"
  "holds_position ex_pid (ex_world b d) ex_position_key p \<longleftrightarrow> p = ex_position b d"
proof -
  have "holds_market ex_pid (ex_world b d) ex_market_key ex_market"
    using length_market_to_vec [OF ex_wf(1)] ex_wf(1)
    by (simp add: holds_market_def ex_world_def) (simp add: ex_market_def)
  then show "holds_market ex_pid (ex_world b d) ex_market_key m \<longleftrightarrow> m = ex_market"
    using holds_market_unique by blast
  have "holds_position ex_pid (ex_world b d) ex_position_key (ex_position b d)"
    using length_position_to_vec [OF ex_wf(2)] ex_wf(2)
    by (simp add: holds_position_def ex_world_def) (simp add: ex_position_def)
  then show "holds_position ex_pid (ex_world b d) ex_position_key p \<longleftrightarrow> p = ex_position b d"
    using holds_position_unique by blast
qed

lemma ex_vault [simp]:
  "owned_by (ex_world b d ex_vault_key) = ex_pid" "data (ex_world b d ex_vault_key) = []"
  "lamports (ex_world b d ex_vault_key) = 100000000000"
  "lamports (ex_world b d ex_owner_key) = 5000000000"
  "lamports (ex_world b d ex_liquidator_key) = 5000000000"
  by (simp_all add: ex_world_def)

lemma ex_ledger_inv: "ledger_inv b ex_pid (ex_world b d)"
proof -
  have *: "k = ex_market_key \<or> k = ex_position_key"
    if "owned_by (ex_world b d k) = ex_pid" "86 \<le> length (data (ex_world b d k))" for k
    using that by (auto simp: ex_world_def split: if_splits)
  show ?thesis unfolding ledger_inv_def
  proof (intro conjI allI impI)
    fix k p assume h: "holds_position ex_pid (ex_world b d) k p"
    have "\<not> holds_position ex_pid (ex_world b d) ex_market_key p"
      by (rule market_not_position [of _ _ _ ex_market]) simp
    with h * [of k] have "k = ex_position_key" by (auto simp: holds_position_def)
    with h have "p = ex_position b d" by simp
    then show "health_cached b p" by (simp add: ex_position_def)
  next
    fix k m assume h: "holds_market ex_pid (ex_world b d) k m"
    have "\<not> holds_position ex_pid (ex_world b d) k (ex_position b d)"
      using h by (rule market_not_position)
    with h * [of k] have "k = ex_market_key" by (auto simp: holds_market_def)
    with h have "m = ex_market" by simp
    then show "m_collateral_price m \<noteq> 0" by simp
  qed
qed

lemma ex_values [simp]:
  "capacity_of V1 99500000000 100000000 7500 = 7462500000"
  "capacity_of V2 99500000000 100000000 7500 = 7425000000"
  "health_of V1 99500000000 7930000000 100000000 8000 = 1003783"
  "health_of V2 99500000000 7930000000 100000000 8000 = 998738"
  by (simp_all add: capacity_of_def health_of_def value_of_def spec_value_def spec_value_v2_def
      spec_adjusted_def spec_health_def)

lemma ex_borrow: "\<exists>w'. borrow V1 ex_runtime ex_pid (ex_world V1 7000000000)
    [ex_info ex_position_key False, ex_info ex_market_key False, ex_info ex_owner_key True]
    400000000 = Inr w'"
  using borrow_Inr [of ex_pid "ex_world V1 7000000000" "ex_info ex_market_key False" ex_market
      "ex_info ex_position_key False" "ex_position V1 7000000000"]
  by (simp del: borrow.simps)

lemmas ex_world_market = ex_holds(1) [of b d ex_market for b d, simplified]
lemmas ex_world_position = ex_holds(2) [of b d "ex_position b d" for b d, simplified]

lemma ex_borrow_V2: "\<exists>w'. borrow V2 ex_runtime ex_pid (ex_world V1 7000000000)
    [ex_info ex_position_key False, ex_info ex_market_key False, ex_info ex_owner_key True]
    400000000 = Inr w'"
  using borrow_Inr [of ex_pid "ex_world V1 7000000000" "ex_info ex_market_key False" ex_market
      "ex_info ex_position_key False" "ex_position V1 7000000000"]
  by (simp del: borrow.simps)

lemma ex_withdraw: "\<exists>w'. withdraw_collateral b ex_runtime ex_pid (ex_world V1 7000000000)
    [ex_info ex_position_key False, ex_info ex_market_key False, ex_info ex_vault_key False,
     ex_info ex_owner_key True] 1000000000 = Inr w'"
proof -
  have "saturating_add 890880 (1000000000 :: u64) \<le> 100000000000"
    by (simp add: saturating_add_def)
  moreover have "7000000000 \<le> capacity_of b 98500000000 100000000 7500"
    by (cases b) (simp_all add: capacity_of_def value_of_def spec_value_def spec_value_v2_def
        spec_adjusted_def)
  ultimately show ?thesis
    using withdraw_Inr [of ex_pid "ex_world V1 7000000000" "ex_info ex_market_key False" ex_market
        "ex_info ex_position_key False" "ex_position V1 7000000000"]
    by (simp del: withdraw_collateral.simps)
qed

lemma ex_liquidate: "\<exists>w'. liquidate V1 ex_runtime ex_pid (ex_world V1 8000000000)
    [ex_info ex_position_key False, ex_info ex_market_key False, ex_info ex_vault_key False,
     ex_info ex_liquidator_key True] 1000000000 = Inr w'"
proof -
  have "saturating_add 890880 (10500000000 :: u64) \<le> 100000000000"
    by (simp add: saturating_add_def)
  moreover have "health_of V1 99500000000 8000000000 100000000 8000 < 10 ^ 6"
    by (simp add: health_of_def value_of_def spec_value_def spec_adjusted_def spec_health_def)
  ultimately show ?thesis
    using liquidate_Inr [of ex_pid "ex_world V1 8000000000" "ex_info ex_market_key False" ex_market
        "ex_info ex_position_key False" "ex_position V1 8000000000"]
    by (simp add: seize_of_def seize_usd_of_def Let_def del: liquidate.simps)
qed

lemma ex_deposit: "\<exists>w'. deposit_collateral V1 ex_runtime ex_pid (ex_world V1 7000000000)
    [ex_info ex_position_key False, ex_info ex_market_key False, ex_info ex_vault_key False,
     ex_info ex_owner_key True, ex_info [] False] 1000000000 = Inr w'"
proof -
  let ?w = "ex_world V1 7000000000"
  have m: "holds_market ex_pid ?w (key (ex_info ex_market_key False)) ex_market"
    and p: "holds_position ex_pid ?w (key (ex_info ex_position_key False))
      (ex_position V1 7000000000)" by simp_all
  have q: "holds_position ex_pid (move_lamports ?w ex_owner_key ex_vault_key 1000000000)
      (key (ex_info ex_position_key False)) (ex_position V1 7000000000)" by simp
  have "require_signer (ex_info ex_owner_key True) = Inr ()"
    "check_vault ?w (ex_info ex_vault_key False) ex_market ex_pid = Inr ()"
    by (simp_all add: signer_owned_Inr check_vault_Inr)
  moreover have "invoke_system_transfer ex_runtime ?w (ex_info ex_owner_key True)
      (ex_info ex_vault_key False) (ex_info [] False) 1000000000 =
      Inr (move_lamports ?w ex_owner_key ex_vault_key 1000000000)"
    by (simp add: ex_runtime_def)
  ultimately show ?thesis
    using ex_wf(2) [of V1 7000000000]
    by (simp add: load_held(1) [OF m] load_held(2) [OF p] checked_add_def refresh_eq
        store_refreshed [OF q])
qed

lemma ex_set_price: "\<exists>w'. set_price ex_pid (ex_world V1 7000000000)
    [ex_info ex_market_key False, ex_info ex_owner_key True] 50000000 = Inr w'"
  using set_price_Inr [of ex_pid "ex_world V1 7000000000" "ex_info ex_market_key False" ex_market]
  by (simp del: set_price.simps)

end
