(* ===== verification/LendingProperties.thy ===== *)
theory LendingProperties
  imports LendingExample
begin

text \<open>
  The properties of the lending program: what each instruction guarantees when it succeeds, the
  invariant over runs, the exact relation between the two builds, and the wire format.
\<close>

section \<open>The invariant over runs\<close>

text \<open>C1. In every store a run of the program can reach, every position account caches exactly the
  health factor of its own amounts at the price and threshold it records, and no market has price
  zero, whatever instructions, failures and foreign steps the run interleaves.\<close>

theorem cached_health_is_live:
  assumes "system_transfer_law rt" "ledger_inv b pid w" "lending_run b rt pid w v"
  shows "(\<forall>k p. holds_position pid v k p \<longrightarrow>
            health_factor b (p_collateral_amount p) (p_debt_amount p) (p_collateral_price p)
              (p_liquidation_threshold_bps p) = Inr (p_health_factor p)) \<and>
         (\<forall>k m. holds_market pid v k m \<longrightarrow> m_collateral_price m \<noteq> 0)"
  using lending_run_inv [OF assms(1,3,2)] by (simp add: ledger_inv_def health_cached_def)

lemma ex_addresses: "addresses_ok ex_runtime
    [ex_info ex_position_key False, ex_info ex_market_key False, ex_info ex_owner_key True]"
  by (simp add: addresses_ok_def ex_runtime_def) (simp add: ex_keys)

lemma ex_run: "\<exists>v. lending_run V1 ex_runtime ex_pid (ex_world V1 7000000000) v \<and>
    process_instruction V1 ex_runtime ex_pid (ex_world V1 7000000000)
      [ex_info ex_position_key False, ex_info ex_market_key False, ex_info ex_owner_key True]
      (instruction_to_vec (Borrow 400000000)) = Inr v"
proof -
  obtain v where "process_instruction V1 ex_runtime ex_pid (ex_world V1 7000000000)
      [ex_info ex_position_key False, ex_info ex_market_key False, ex_info ex_owner_key True]
      (instruction_to_vec (Borrow 400000000)) = Inr v"
    using ex_borrow by (auto simp: process_encoded simp del: borrow.simps instruction_to_vec.simps)
  then show ?thesis using run_instruction [OF run_refl ex_addresses] by blast
qed

theorem cached_health_is_live_witness:
  "\<exists>v. lending_run V1 ex_runtime ex_pid (ex_world V1 7000000000) v \<and>
     (\<forall>k p. holds_position ex_pid v k p \<longrightarrow>
        health_factor V1 (p_collateral_amount p) (p_debt_amount p) (p_collateral_price p)
          (p_liquidation_threshold_bps p) = Inr (p_health_factor p))"
proof -
  obtain v where v: "lending_run V1 ex_runtime ex_pid (ex_world V1 7000000000) v"
    using ex_run by blast
  from cached_health_is_live [OF ex_runtime_law ex_ledger_inv v] v show ?thesis by blast
qed

section \<open>Instructions\<close>

text \<open>C4. A successful borrow was signed by the position's recorded owner, adds exactly the
  requested amount to the debt, leaves the collateral alone, keeps the debt within the market's
  borrow limit, refreshes the position at the market's current terms and changes no other
  account.\<close>

theorem borrow_safe:
  assumes "borrow b rt pid w (pi # mi # ow # rest) amount = Inr w'"
  shows "\<exists>m p q. holds_market pid w (key mi) m \<and> holds_position pid w (key pi) p \<and>
      holds_position pid w' (key pi) q \<and> is_signer ow \<and> p_owner p = key ow \<and>
      p_owner q = p_owner p \<and> p_market q = key mi \<and>
      unat (p_debt_amount q) = unat (p_debt_amount p) + unat amount \<and>
      p_collateral_amount q = p_collateral_amount p \<and>
      unat (p_debt_amount q) \<le>
        capacity_of b (p_collateral_amount q) (m_collateral_price m) (m_max_ltv_bps m) \<and>
      priced_at m q \<and> health_cached b q \<and> (\<forall>k. k \<noteq> key pi \<longrightarrow> w' k = w k)"
proof -
  obtain m p where m: "holds_market pid w (key mi) m" and p: "holds_position pid w (key pi) p"
    using borrow_reads [OF assms] by blast
  from assms obtain s where c: "is_signer ow" "p_market p = key mi" "p_owner p = key ow"
      "unat (p_debt_amount p) + unat amount < 2 ^ 64"
      "unat (p_debt_amount p) + unat amount
        \<le> capacity_of b (p_collateral_amount p) (m_collateral_price m) (m_max_ltv_bps m)"
    and w': "w' = put_data w (key pi) (position_to_vec
        (refreshed b (p\<lparr>p_debt_amount := p_debt_amount p + amount\<rparr>) m s))"
    unfolding borrow_Inr [OF m p] by blast
  let ?q = "refreshed b (p\<lparr>p_debt_amount := p_debt_amount p + amount\<rparr>) m s"
  have "holds_position pid w' (key pi) ?q"
    unfolding w' using p holds_tag(1) [OF p] holds_size(1) [OF p] holds_position_wf [OF p]
    by (subst holds_put_position) simp_all
  with m p c w' show ?thesis
    by (intro exI [of _ m] exI [of _ p] exI [of _ ?q]) (simp add: unat_add_small)
qed

theorem borrow_safe_witness:
  "\<exists>w' m p q. borrow V1 ex_runtime ex_pid (ex_world V1 7000000000)
      [ex_info ex_position_key False, ex_info ex_market_key False, ex_info ex_owner_key True]
      400000000 = Inr w' \<and>
    holds_market ex_pid (ex_world V1 7000000000) ex_market_key m \<and>
    holds_position ex_pid (ex_world V1 7000000000) ex_position_key p \<and>
    holds_position ex_pid w' ex_position_key q \<and>
    unat (p_debt_amount q) = unat (p_debt_amount p) + unat (400000000 :: u64)"
proof -
  obtain w' where w': "borrow V1 ex_runtime ex_pid (ex_world V1 7000000000)
      [ex_info ex_position_key False, ex_info ex_market_key False, ex_info ex_owner_key True]
      400000000 = Inr w'"
    using ex_borrow by blast
  from borrow_safe [OF w'] w' show ?thesis unfolding ex_info_simps by blast
qed

text \<open>C2. A successful withdrawal was signed by the position's owner, takes exactly the requested
  amount out of the position's collateral and moves exactly that amount of lamports from the
  market's vault to the owner (the vault's loss is the owner's gain, and nobody else's balance
  changes), leaves the debt alone and within the borrow limit of the remaining collateral, and
  keeps the vault at its rent floor (unless the vault holds the largest representable balance, where
  the saturating sum of the check hides the difference).\<close>

theorem withdraw_safe:
  assumes "withdraw_collateral b rt pid w (pi # mi # va # ow # rest) amount = Inr w'"
  shows "\<exists>m p q rent. holds_market pid w (key mi) m \<and> holds_position pid w (key pi) p \<and>
      holds_position pid w' (key pi) q \<and> is_signer ow \<and> p_owner p = key ow \<and>
      key va = m_vault m \<and> rent_minimum_balance rt = Inr rent \<and>
      unat (p_collateral_amount q) + unat amount = unat (p_collateral_amount p) \<and>
      p_debt_amount q = p_debt_amount p \<and>
      unat (p_debt_amount q) \<le>
        capacity_of b (p_collateral_amount q) (m_collateral_price m) (m_max_ltv_bps m) \<and>
      (\<forall>k. k \<noteq> key va \<longrightarrow> k \<noteq> key ow \<longrightarrow> lamports (w' k) = lamports (w k)) \<and>
      (key va \<noteq> key ow \<longrightarrow>
        unat (lamports (w' (key va))) + unat amount = unat (lamports (w (key va))) \<and>
        unat (lamports (w' (key ow))) = unat (lamports (w (key ow))) + unat amount \<and>
        (lamports (w (key va)) \<noteq> - 1 \<longrightarrow>
          rent (length (data (w (key va)))) \<le> lamports (w' (key va)))) \<and>
      (key va = key ow \<longrightarrow> lamports (w' (key va)) = lamports (w (key va)))"
proof -
  obtain m p where m: "holds_market pid w (key mi) m" and p: "holds_position pid w (key pi) p"
    using withdraw_reads [OF assms] by blast
  from assms obtain s rent where c: "is_signer ow" "key va = m_vault m" "p_market p = key mi"
      "p_owner p = key ow" "amount \<le> p_collateral_amount p"
      "unat (p_debt_amount p) \<le> capacity_of b (p_collateral_amount p - amount)
         (m_collateral_price m) (m_max_ltv_bps m)"
    and rent: "rent_minimum_balance rt = Inr rent"
      "saturating_add (rent (length (data (w (key va))))) amount \<le> lamports (w (key va))"
    and room: "key va = key ow \<or> unat (lamports (w (key ow))) + unat amount < 2 ^ 64"
    and w': "w' = put_data (move_lamports w (key va) (key ow) amount) (key pi) (position_to_vec
        (refreshed b (p\<lparr>p_collateral_amount := p_collateral_amount p - amount\<rparr>) m s))"
    unfolding withdraw_Inr [OF m p] by blast
  let ?q = "refreshed b (p\<lparr>p_collateral_amount := p_collateral_amount p - amount\<rparr>) m s"
  have q: "holds_position pid w' (key pi) ?q"
    unfolding w' using p holds_tag(1) [OF p] holds_size(1) [OF p] holds_position_wf [OF p]
    by (subst holds_put_position) simp_all
  have coll: "unat (p_collateral_amount ?q) + unat amount = unat (p_collateral_amount p)"
    using c(5) by (simp add: unat_sub_le word_le_nat_alt)
  note mv = move_lamports_amounts [OF floor_covers [OF rent(2)] room]
  have floor: "rent (length (data (w (key va)))) \<le> lamports (w' (key va))"
    if "key va \<noteq> key ow" "lamports (w (key va)) \<noteq> - 1"
    using that mv(2) floor_left [OF rent(2)] by (simp add: w' word_le_nat_alt)
  show ?thesis
    by (intro exI [of _ m] exI [of _ p] exI [of _ ?q] exI [of _ rent])
      (use m p q c rent coll mv floor in \<open>simp add: w'\<close>)
qed

theorem withdraw_safe_witness:
  "\<exists>w' q. withdraw_collateral V1 ex_runtime ex_pid (ex_world V1 7000000000)
      [ex_info ex_position_key False, ex_info ex_market_key False, ex_info ex_vault_key False,
       ex_info ex_owner_key True] 1000000000 = Inr w' \<and>
    holds_position ex_pid w' ex_position_key q \<and>
    unat (p_collateral_amount q) + unat (1000000000 :: u64) = 99500000000"
proof -
  obtain w' where w': "withdraw_collateral V1 ex_runtime ex_pid (ex_world V1 7000000000)
      [ex_info ex_position_key False, ex_info ex_market_key False, ex_info ex_vault_key False,
       ex_info ex_owner_key True] 1000000000 = Inr w'"
    using ex_withdraw by blast
  from withdraw_safe [OF w'] obtain p q where
    "holds_position ex_pid (ex_world V1 7000000000) ex_position_key p"
    "holds_position ex_pid w' ex_position_key q"
    "unat (p_collateral_amount q) + unat (1000000000 :: u64) = unat (p_collateral_amount p)"
    unfolding ex_info_simps by blast
  with w' show ?thesis by (intro exI [of _ w'] exI [of _ q]) simp
qed

text \<open>C3. A successful liquidation needs only a signing liquidator, but the position was unhealthy at
  the market's current price; it takes exactly the repaid amount off the debt, seizes exactly the
  collateral worth 105 percent of it (rounded down, capped by the collateral the position holds),
  and moves exactly that many lamports from the market's vault to the liquidator.\<close>

theorem liquidate_safe:
  assumes "liquidate b rt pid w (pi # mi # va # lq # rest) repay_amount = Inr w'"
  shows "\<exists>m p q (seized::u64). holds_market pid w (key mi) m \<and> holds_position pid w (key pi) p \<and>
      holds_position pid w' (key pi) q \<and> is_signer lq \<and> key va = m_vault m \<and>
      health_of b (p_collateral_amount p) (p_debt_amount p) (m_collateral_price m)
        (m_liquidation_threshold_bps m) < 10 ^ 6 \<and>
      unat (p_debt_amount q) + unat repay_amount = unat (p_debt_amount p) \<and>
      unat seized = min (unat (p_collateral_amount p))
        (unat repay_amount * 10500 div 10000 * 10 ^ 9 div unat (m_collateral_price m)) \<and>
      unat (p_collateral_amount q) + unat seized = unat (p_collateral_amount p) \<and>
      p_owner q = p_owner p \<and> health_cached b q \<and> priced_at m q \<and>
      (\<forall>k. k \<noteq> key va \<longrightarrow> k \<noteq> key lq \<longrightarrow> lamports (w' k) = lamports (w k)) \<and>
      (key va \<noteq> key lq \<longrightarrow>
        unat (lamports (w' (key va))) + unat seized = unat (lamports (w (key va))) \<and>
        unat (lamports (w' (key lq))) = unat (lamports (w (key lq))) + unat seized)"
proof -
  obtain m p where m: "holds_market pid w (key mi) m" and p: "holds_position pid w (key pi) p"
    using liquidate_reads [OF assms] by blast
  define z where "z = seize_of (p_collateral_amount p) repay_amount (m_collateral_price m)"
  define q where "q s = refreshed b (p\<lparr>p_collateral_amount := p_collateral_amount p - z,
      p_debt_amount := p_debt_amount p - repay_amount\<rparr>) m s" for s
  from assms obtain s rent where c: "is_signer lq" "key va = m_vault m" "p_market p = key mi"
      "health_of b (p_collateral_amount p) (p_debt_amount p) (m_collateral_price m)
        (m_liquidation_threshold_bps m) < 10 ^ 6" "repay_amount \<le> p_debt_amount p"
    and fits: "seize_usd_of repay_amount * 10 ^ 9 div unat (m_collateral_price m) < 2 ^ 64"
    and rent: "saturating_add (rent (length (data (w (key va))))) z \<le> lamports (w (key va))"
    and room: "key va = key lq \<or> unat (lamports (w (key lq))) + unat z < 2 ^ 64"
    and w': "w' = put_data (move_lamports w (key va) (key lq) z) (key pi) (position_to_vec (q s))"
    unfolding liquidate_Inr [OF m p] z_def [symmetric] q_def [symmetric] by blast
  have q: "holds_position pid w' (key pi) (q s)"
    unfolding w' using p holds_tag(1) [OF p] holds_size(1) [OF p] holds_position_wf [OF p]
    by (subst holds_put_position) (simp_all add: q_def)
  have zc: "z \<le> p_collateral_amount p" unfolding z_def by (rule seize_of_le)
  have amounts: "unat (p_collateral_amount (q s)) + unat z = unat (p_collateral_amount p)"
    "unat (p_debt_amount (q s)) + unat repay_amount = unat (p_debt_amount p)"
    using c(5) zc by (simp_all add: q_def unat_sub_le word_le_nat_alt)
  have z: "unat z = min (unat (p_collateral_amount p))
      (unat repay_amount * 10500 div 10000 * 10 ^ 9 div unat (m_collateral_price m))"
    unfolding z_def unat_seize_of [OF fits] by (simp only: seize_usd_of_def)
  have rest: "p_owner (q s) = p_owner p" "health_cached b (q s)" "priced_at m (q s)"
    by (simp_all add: q_def)
  have lam: "lamports (w' k) = lamports (move_lamports w (key va) (key lq) z k)" for k
    by (simp add: w')
  note mv = move_lamports_amounts [OF floor_covers [OF rent] room, folded lam]
  show ?thesis
    by (rule exI [of _ m], rule exI [of _ p], rule exI [of _ "q s"], rule exI [of _ z],
        intro conjI allI impI) (fact m p q c amounts z rest | rule mv, assumption+)+
qed

theorem liquidate_safe_witness:
  "\<exists>w' q. liquidate V1 ex_runtime ex_pid (ex_world V1 8000000000)
      [ex_info ex_position_key False, ex_info ex_market_key False, ex_info ex_vault_key False,
       ex_info ex_liquidator_key True] 1000000000 = Inr w' \<and>
    holds_position ex_pid w' ex_position_key q \<and>
    unat (p_debt_amount q) + unat (1000000000 :: u64) = 8000000000"
proof -
  obtain w' where w': "liquidate V1 ex_runtime ex_pid (ex_world V1 8000000000)
      [ex_info ex_position_key False, ex_info ex_market_key False, ex_info ex_vault_key False,
       ex_info ex_liquidator_key True] 1000000000 = Inr w'"
    using ex_liquidate by blast
  from liquidate_safe [OF w'] obtain p q where
    "holds_position ex_pid (ex_world V1 8000000000) ex_position_key p"
    "holds_position ex_pid w' ex_position_key q"
    "unat (p_debt_amount q) + unat (1000000000 :: u64) = unat (p_debt_amount p)"
    unfolding ex_info_simps by blast
  with w' show ?thesis by (intro exI [of _ w'] exI [of _ q]) simp
qed

text \<open>C8. A successful deposit was signed by the position's owner and, given the documented System
  Program transfer, moves exactly the deposited lamports from the owner to the market's vault and
  adds exactly them to the position's collateral, without touching its debt.\<close>

theorem deposit_safe:
  assumes law: "system_transfer_law rt"
    and ok: "deposit_collateral b rt pid w (pi # mi # va # ow # sys # rest) amount = Inr w'"
  shows "\<exists>m p q. holds_market pid w (key mi) m \<and> holds_position pid w (key pi) p \<and>
      holds_position pid w' (key pi) q \<and> is_signer ow \<and> p_owner p = key ow \<and>
      key va = m_vault m \<and>
      unat (p_collateral_amount q) = unat (p_collateral_amount p) + unat amount \<and>
      p_debt_amount q = p_debt_amount p \<and> health_cached b q \<and> priced_at m q \<and>
      (key ow \<noteq> key va \<longrightarrow>
        unat (lamports (w' (key ow))) + unat amount = unat (lamports (w (key ow))) \<and>
        unat (lamports (w' (key va))) = unat (lamports (w (key va))) + unat amount) \<and>
      (\<forall>k. k \<noteq> key ow \<longrightarrow> k \<noteq> key va \<longrightarrow> lamports (w' k) = lamports (w k))"
proof -
  obtain m p where m: "holds_market pid w (key mi) m" and p: "holds_position pid w (key pi) p"
    using deposit_reads [OF ok] by blast
  from deposit_Inr [OF law m p ok] obtain s where c: "is_signer ow" "key va = m_vault m"
      "p_owner p = key ow" "amount \<le> lamports (w (key ow))"
      "key ow = key va \<or> unat (lamports (w (key va))) + unat amount < 2 ^ 64"
      "unat (p_collateral_amount p) + unat amount < 2 ^ 64"
    and w': "w' = put_data (move_lamports w (key ow) (key va) amount) (key pi) (position_to_vec
        (refreshed b (p\<lparr>p_collateral_amount := p_collateral_amount p + amount\<rparr>) m s))"
    by blast
  let ?q = "refreshed b (p\<lparr>p_collateral_amount := p_collateral_amount p + amount\<rparr>) m s"
  have q: "holds_position pid w' (key pi) ?q"
    unfolding w' using p holds_tag(1) [OF p] holds_size(1) [OF p] holds_position_wf [OF p]
    by (subst holds_put_position) simp_all
  show ?thesis
    by (intro exI [of _ m] exI [of _ p] exI [of _ ?q])
      (use m p q c move_lamports_amounts [OF c(4,5)] in \<open>simp add: w' unat_add_small\<close>)
qed

theorem deposit_safe_witness:
  "\<exists>w' q. deposit_collateral V1 ex_runtime ex_pid (ex_world V1 7000000000)
      [ex_info ex_position_key False, ex_info ex_market_key False, ex_info ex_vault_key False,
       ex_info ex_owner_key True, ex_info [] False] 1000000000 = Inr w' \<and>
    holds_position ex_pid w' ex_position_key q \<and>
    unat (p_collateral_amount q) = 99500000000 + unat (1000000000 :: u64)"
proof -
  obtain w' where w': "deposit_collateral V1 ex_runtime ex_pid (ex_world V1 7000000000)
      [ex_info ex_position_key False, ex_info ex_market_key False, ex_info ex_vault_key False,
       ex_info ex_owner_key True, ex_info [] False] 1000000000 = Inr w'"
    using ex_deposit by blast
  from deposit_safe [OF ex_runtime_law w'] obtain p q where
    "holds_position ex_pid (ex_world V1 7000000000) ex_position_key p"
    "holds_position ex_pid w' ex_position_key q"
    "unat (p_collateral_amount q) = unat (p_collateral_amount p) + unat (1000000000 :: u64)"
    unfolding ex_info_simps by blast
  with w' show ?thesis by (intro exI [of _ w'] exI [of _ q]) simp
qed

text \<open>C9. Initialisation happens once: no store in which the account already holds a market or a
  position lets \<open>InitializeMarket\<close> or \<open>CreatePosition\<close> succeed on that account, so neither can
  reset balances, debts or prices.\<close>

theorem no_reinitialisation:
  assumes "holds_market pid w (key i) m \<or> holds_position pid w (key i) p"
  shows "initialize_market rt pid w (i # rest) price thr ltv \<noteq> Inr w' \<and>
         create_position b rt pid w (i # rest) \<noteq> Inr w'"
proof
  have tag: "data (w (key i)) ! 0 \<noteq> 0"
    using assms hd_market [of pid w "key i" m] hd_position [of pid w "key i" p] by auto
  show "initialize_market rt pid w (i # rest) price thr ltv \<noteq> Inr w'"
  proof
    assume ok: "initialize_market rt pid w (i # rest) price thr ltv = Inr w'"
    then obtain au rest' where "rest = au # rest'" using initialize_reads [OF ok] by auto
    with ok tag show False by (auto simp: initialize_market_Inr simp del: initialize_market.simps)
  qed
  show "create_position b rt pid w (i # rest) \<noteq> Inr w'"
  proof
    assume "create_position b rt pid w (i # rest) = Inr w'"
    then show False using tag
      by (elim create_position_InrE) (auto simp: Inr_and_then and_then_Inr ensure_Inr Let_def)
  qed
qed

theorem no_reinitialisation_witness:
  "initialize_market ex_runtime ex_pid (ex_world V1 7000000000)
     [ex_info ex_market_key False, ex_info ex_owner_key True] 1 2 3 \<noteq> Inr (ex_world V1 7000000000) \<and>
   create_position V1 ex_runtime ex_pid (ex_world V1 7000000000)
     [ex_info ex_market_key False, ex_info ex_owner_key True] \<noteq> Inr (ex_world V1 7000000000)"
  by (rule no_reinitialisation [where m = ex_market and p = "ex_position V1 0"]) simp

text \<open>Only the recorded authority, signing, can move a market's price, never to zero, and a
  price change leaves every other field of the market and every other account alone.\<close>

theorem set_price_safe:
  assumes "set_price pid w (mi # au # rest) price = Inr w'"
  shows "\<exists>m. holds_market pid w (key mi) m \<and> is_signer au \<and> m_authority m = key au \<and> price \<noteq> 0 \<and>
      holds_market pid w' (key mi) (m\<lparr>m_collateral_price := price\<rparr>) \<and>
      (\<forall>k. k \<noteq> key mi \<longrightarrow> w' k = w k)"
proof -
  obtain m where m: "holds_market pid w (key mi) m" using set_price_reads [OF assms] by blast
  from assms have c: "is_signer au" "m_authority m = key au" "price \<noteq> 0"
    and w': "w' = put_data w (key mi) (market_to_vec (m\<lparr>m_collateral_price := price\<rparr>))"
    unfolding set_price_Inr [OF m] by blast+
  have "holds_market pid w' (key mi) (m\<lparr>m_collateral_price := price\<rparr>)"
    unfolding w' using holds_tag(2) [OF m] holds_size(2) [OF m] holds_market_wf [OF m]
    by (subst holds_put_market) simp_all
  with m c w' show ?thesis by auto
qed

theorem set_price_safe_witness:
  "\<exists>w'. set_price ex_pid (ex_world V1 7000000000)
      [ex_info ex_market_key False, ex_info ex_owner_key True] 50000000 = Inr w' \<and>
    holds_market ex_pid w' ex_market_key (ex_market\<lparr>m_collateral_price := 50000000\<rparr>)"
proof -
  obtain w' where w': "set_price ex_pid (ex_world V1 7000000000)
      [ex_info ex_market_key False, ex_info ex_owner_key True] 50000000 = Inr w'"
    using ex_set_price by blast
  from set_price_safe [OF w'] obtain m where
    "holds_market ex_pid (ex_world V1 7000000000) ex_market_key m"
    "holds_market ex_pid w' ex_market_key (m\<lparr>m_collateral_price := 50000000\<rparr>)"
    unfolding ex_info_simps by blast
  with w' show ?thesis by (intro exI [of _ w']) simp
qed

section \<open>The wire format\<close>

text \<open>The instruction encoding is unambiguous both ways: the program decodes exactly what the
  host encoded and dispatches it, and every byte string it does not reject as malformed is the
  encoding of exactly the instruction it dispatches.\<close>

theorem instruction_wire_format:
  "process_instruction b rt pid w accs (instruction_to_vec i) = dispatch b rt pid w accs i \<and>
   (process_instruction b rt pid w accs bytes = Inl (to_program_error InvalidAccountData) \<or>
    (\<exists>j. bytes = instruction_to_vec j \<and>
       process_instruction b rt pid w accs bytes = dispatch b rt pid w accs j))"
proof
  show "process_instruction b rt pid w accs (instruction_to_vec i) = dispatch b rt pid w accs i"
    by (rule process_encoded)
  show "process_instruction b rt pid w accs bytes = Inl (to_program_error InvalidAccountData) \<or>
    (\<exists>j. bytes = instruction_to_vec j \<and>
       process_instruction b rt pid w accs bytes = dispatch b rt pid w accs j)"
  proof (cases "try_from_slice instruction_deserialize bytes")
    case None
    then show ?thesis by (simp add: process_instruction_def)
  next
    case (Some j)
    then have "bytes = instruction_to_vec j"
      using instruction_deserialize_Some [of bytes j "[]"] by (simp add: try_from_slice_Some)
    then show ?thesis using process_encoded by blast
  qed
qed

text \<open>C11. Account encodings have the declared widths and read back exactly, and reading is
  canonical: any 86 or 110 bytes that decode are the encoding of what they decode to.\<close>

theorem account_codec_round_trip:
  "(wf_market m \<longrightarrow> length (market_to_vec m) = MARKET_LEN \<and>
      try_from_slice market_deserialize (market_to_vec m) = Some m) \<and>
   (wf_position p \<longrightarrow> length (position_to_vec p) = POSITION_LEN \<and>
      try_from_slice position_deserialize (position_to_vec p) = Some p) \<and>
   (try_from_slice market_deserialize bytes = Some m \<longrightarrow> bytes = market_to_vec m) \<and>
   (try_from_slice position_deserialize bytes = Some p \<longrightarrow> bytes = position_to_vec p)"
  by (simp add: market_codec.slice_enc position_codec.slice_enc market_codec.slice_Some
      position_codec.slice_Some length_market_to_vec length_position_to_vec)

theorem account_codec_round_trip_witness:
  "length (market_to_vec ex_market) = 86 \<and>
   try_from_slice position_deserialize (position_to_vec (ex_position V2 5)) = Some (ex_position V2 5)"
  using account_codec_round_trip [of ex_market "ex_position V2 5" "[]"] ex_wf by simp

text \<open>Error codes and errors are in one-to-one correspondence on the declared range: every
  error's code reads back as that error, and a code reads back as nothing exactly from 15 on.\<close>

theorem error_codes_round_trip:
  "from_code (error_code e) = Some e \<and> (from_code c = None \<longleftrightarrow> 15 \<le> c) \<and>
   (from_code c = Some e \<longleftrightarrow> c = error_code e)"
proof (intro conjI)
  show "from_code (error_code e) = Some e" by simp
  show "from_code c = Some e \<longleftrightarrow> c = error_code e" using code_from_code [of c e] by auto
  have "\<exists>n\<in>{..<15}. c = of_nat n" if "\<not> 15 \<le> c"
    using that by (intro bexI [of _ "unat c"]) (simp_all add: word_le_nat_alt)
  then have "\<not> 15 \<le> c \<Longrightarrow> from_code c \<noteq> None"
    by (auto simp: from_code_def lessThan_nat_numeral lessThan_Suc)
  moreover have "15 \<le> c \<Longrightarrow> from_code c = None"
    by (auto simp: from_code_def word_le_nat_alt split: if_splits)
  ultimately show "from_code c = None \<longleftrightarrow> 15 \<le> c" by blast
qed

end
