(* ===== verification/LendingBuilds.thy ===== *)
theory LendingBuilds
  imports LendingExample
begin

text \<open>
  The two builds of the lending program compared. The first build's risk arithmetic is the
  host-side reference; the second build's differs from it by an exactly known amount, always
  downwards, so a withdrawal or borrow the second build allows is allowed by the first with the
  same balances, and a liquidation the first allows is allowed by the second.
\<close>

text \<open>C6. For every input, the first build computes exactly the reference collateral value and the
  reference health factor, and no input makes its checked arithmetic report an overflow.\<close>

theorem v1_is_the_reference:
  "collateral_value V1 c p = Inr (reference_collateral_value c p) \<and>
   adjusted_collateral V1 c p bps = Inr (reference_adjusted_collateral c p bps) \<and>
   health_factor V1 c d p bps = Inr (reference_health_factor c d p bps)"
proof (intro conjI)
  obtain v where "collateral_value V1 c p = Inr v" "unat v = spec_value (unat c) (unat p)"
    using collateral_value_V1 by blast
  then show "collateral_value V1 c p = Inr (reference_collateral_value c p)"
    by (simp add: word_unat_eq_iff unat_reference_value)
  show "adjusted_collateral V1 c p bps = Inr (reference_adjusted_collateral c p bps)"
    using v1.capacity_eq by (simp add: borrow_capacity_def unat_reference_adjusted)
  show "health_factor V1 c d p bps = Inr (reference_health_factor c d p bps)"
    using v1.health_eq by (simp add: unat_reference_health)
qed

text \<open>C10. Neither build can fail with an arithmetic error while valuing, scaling or rating a
  position, whatever the amounts, the price and the thresholds: the overflow checks after widening
  to 128 bits are unreachable.\<close>

theorem risk_arithmetic_total:
  "(\<exists>v. collateral_value b c p = Inr v) \<and> (\<exists>a. borrow_capacity b c p bps = Inr a) \<and>
   (\<exists>h. health_factor b c d p bps = Inr h)"
  using valuation.valued [OF value_of_valuation, of b c p] borrow_capacity_total
    health_factor_total by blast

text \<open>C7. The regression, exactly: the second build undervalues a position by the value of its
  fractional SOL, rounded down, and by nothing else; so the builds agree on a position's value
  exactly when its fractional SOL is worth less than one micro-dollar.\<close>

theorem v2_valuation_gap:
  "\<exists>a1 a2. collateral_value V1 c p = Inr a1 \<and> collateral_value V2 c p = Inr a2 \<and>
     unat a1 = unat a2 + (unat c mod 10 ^ 9) * unat p div 10 ^ 9 \<and>
     (a1 = a2 \<longleftrightarrow> (unat c mod 10 ^ 9) * unat p < 10 ^ 9)"
proof -
  obtain a1 a2 where a: "collateral_value V1 c p = Inr a1" "collateral_value V2 c p = Inr a2"
    and u: "unat a1 = spec_value (unat c) (unat p)" "unat a2 = spec_value_v2 (unat c) (unat p)"
    using collateral_value_V1 collateral_value_V2 by metis
  have gap: "unat a1 = unat a2 + (unat c mod 10 ^ 9) * unat p div 10 ^ 9"
    by (simp only: u spec_value_split)
  have "a1 = a2 \<longleftrightarrow> (unat c mod 10 ^ 9) * unat p div 10 ^ 9 = 0"
    using gap by (auto simp: word_unat_eq_iff)
  also have "\<dots> \<longleftrightarrow> (unat c mod 10 ^ 9) * unat p < 10 ^ 9"
    by (rule div_eq_0_iff [THEN trans]) simp
  finally show ?thesis using a gap by blast
qed

section \<open>What one build allows, the other allows\<close>

text \<open>Two stores that agree on everything but the cached health of one position, lower under the
  second build.\<close>

definition same_but_health :: "address \<Rightarrow> world \<Rightarrow> world \<Rightarrow> bool" where
  "same_but_health pid w1 w2 \<longleftrightarrow>
     (\<exists>k q1 q2. holds_position pid w1 k q1 \<and> holds_position pid w2 k q2 \<and>
        q1 = q2\<lparr>p_health_factor := p_health_factor q1\<rparr> \<and>
        p_health_factor q2 \<le> p_health_factor q1 \<and>
        (\<forall>k'. lamports (w1 k') = lamports (w2 k')) \<and> (\<forall>k'. k' \<noteq> k \<longrightarrow> w1 k' = w2 k'))"

lemma same_but_health_refreshed:
  assumes p: "holds_position pid w k p" and q: "wf_position q" "p_tag q = ACCOUNT_TAG_POSITION"
  shows "same_but_health pid (put_data w k (position_to_vec (refreshed V1 q m s)))
           (put_data w k (position_to_vec (refreshed V2 q m s)))"
proof -
  have at: "holds_position pid (put_data w k (position_to_vec (refreshed b q m s))) k
      (refreshed b q m s)" for b
    using holds_size(1) [OF p] q by (subst holds_put_position) simp_all
  have "(of_nat (health_of V2 c d pr t) :: u64) \<le> of_nat (health_of V1 c d pr t)" for c d pr t
    by (simp add: word_le_nat_alt health_of_V2_le)
  then have "p_health_factor (refreshed V2 q m s) \<le> p_health_factor (refreshed V1 q m s)"
    by (simp add: refreshed_def)
  moreover have "refreshed V1 q m s =
      (refreshed V2 q m s)\<lparr>p_health_factor := p_health_factor (refreshed V1 q m s)\<rparr>"
    by (simp add: refreshed_def)
  ultimately show ?thesis unfolding same_but_health_def
    by (intro exI [of _ k] exI [of _ "refreshed V1 q m s"] exI [of _ "refreshed V2 q m s"])
      (use at in simp)
qed

text \<open>C5. A borrow or a withdrawal that succeeds under the second build succeeds under the first on
  the same store, leaving the same balances, debts and accounts; only the cached health factor of
  the one position differs, and it is never lower under the first build.\<close>

theorem v2_never_looser:
  "(borrow V2 rt pid w accs amount = Inr w2 \<longrightarrow>
      (\<exists>w1. borrow V1 rt pid w accs amount = Inr w1 \<and> same_but_health pid w1 w2)) \<and>
   (withdraw_collateral V2 rt pid w accs amount = Inr w2 \<longrightarrow>
      (\<exists>w1. withdraw_collateral V1 rt pid w accs amount = Inr w1 \<and> same_but_health pid w1 w2))"
proof (intro conjI impI)
  assume ok: "borrow V2 rt pid w accs amount = Inr w2"
  then obtain pi mi ow rest m p where accs: "accs = pi # mi # ow # rest"
    and m: "holds_market pid w (key mi) m" and p: "holds_position pid w (key pi) p"
    using borrow_reads [OF ok] by blast
  let ?q = "p\<lparr>p_debt_amount := p_debt_amount p + amount\<rparr>"
  from ok obtain s where
    "borrow V1 rt pid w accs amount = Inr (put_data w (key pi) (position_to_vec (refreshed V1 ?q m s)))"
    and "w2 = put_data w (key pi) (position_to_vec (refreshed V2 ?q m s))"
    unfolding accs borrow_Inr [OF m p] using capacity_of_V2_le order.trans by blast
  then show "\<exists>w1. borrow V1 rt pid w accs amount = Inr w1 \<and> same_but_health pid w1 w2"
    using same_but_health_refreshed [OF p, of ?q] holds_tag(1) [OF p] holds_position_wf [OF p]
    by auto
next
  assume ok: "withdraw_collateral V2 rt pid w accs amount = Inr w2"
  then obtain pi mi va ow rest m p where accs: "accs = pi # mi # va # ow # rest"
    and m: "holds_market pid w (key mi) m" and p: "holds_position pid w (key pi) p"
    using withdraw_reads [OF ok] by blast
  let ?q = "p\<lparr>p_collateral_amount := p_collateral_amount p - amount\<rparr>"
  let ?w = "move_lamports w (key va) (key ow) amount"
  from ok obtain s where
    "withdraw_collateral V1 rt pid w accs amount =
       Inr (put_data ?w (key pi) (position_to_vec (refreshed V1 ?q m s)))"
    and "w2 = put_data ?w (key pi) (position_to_vec (refreshed V2 ?q m s))"
    unfolding accs withdraw_Inr [OF m p] using capacity_of_V2_le order.trans by blast
  moreover have "holds_position pid ?w (key pi) p" using p by simp
  ultimately show
    "\<exists>w1. withdraw_collateral V1 rt pid w accs amount = Inr w1 \<and> same_but_health pid w1 w2"
    using same_but_health_refreshed [of pid ?w "key pi" p ?q] holds_tag(1) [OF p]
      holds_position_wf [OF p] by auto
qed

theorem v2_never_looser_witness:
  "\<exists>w2 w1. withdraw_collateral V2 ex_runtime ex_pid (ex_world V1 7000000000)
      [ex_info ex_position_key False, ex_info ex_market_key False, ex_info ex_vault_key False,
       ex_info ex_owner_key True] 1000000000 = Inr w2 \<and>
    withdraw_collateral V1 ex_runtime ex_pid (ex_world V1 7000000000)
      [ex_info ex_position_key False, ex_info ex_market_key False, ex_info ex_vault_key False,
       ex_info ex_owner_key True] 1000000000 = Inr w1 \<and> same_but_health ex_pid w1 w2"
  using ex_withdraw [of V2] v2_never_looser by blast

text \<open>A liquidation that succeeds under the first build succeeds under the second on the same
  store with the same seizure, repayment and balances.\<close>

theorem v1_liquidation_stands:
  assumes "liquidate V1 rt pid w accs amount = Inr w1"
  shows "\<exists>w2. liquidate V2 rt pid w accs amount = Inr w2 \<and> same_but_health pid w1 w2"
proof -
  obtain pi mi va lq rest m p where accs: "accs = pi # mi # va # lq # rest"
    and m: "holds_market pid w (key mi) m" and p: "holds_position pid w (key pi) p"
    using liquidate_reads [OF assms] by blast
  let ?z = "seize_of (p_collateral_amount p) amount (m_collateral_price m)"
  let ?q = "p\<lparr>p_collateral_amount := p_collateral_amount p - ?z,
      p_debt_amount := p_debt_amount p - amount\<rparr>"
  let ?w = "move_lamports w (key va) (key lq) ?z"
  from assms obtain s where
    "liquidate V2 rt pid w accs amount =
       Inr (put_data ?w (key pi) (position_to_vec (refreshed V2 ?q m s)))"
    and "w1 = put_data ?w (key pi) (position_to_vec (refreshed V1 ?q m s))"
    unfolding accs liquidate_Inr [OF m p] using health_of_V2_le le_less_trans by blast
  moreover have "holds_position pid ?w (key pi) p" using p by simp
  ultimately show ?thesis
    using same_but_health_refreshed [of pid ?w "key pi" p ?q] holds_tag(1) [OF p]
      holds_position_wf [OF p] by auto
qed

theorem v1_liquidation_stands_witness:
  "\<exists>w1 w2. liquidate V1 ex_runtime ex_pid (ex_world V1 8000000000)
      [ex_info ex_position_key False, ex_info ex_market_key False, ex_info ex_vault_key False,
       ex_info ex_liquidator_key True] 1000000000 = Inr w1 \<and>
    liquidate V2 ex_runtime ex_pid (ex_world V1 8000000000)
      [ex_info ex_position_key False, ex_info ex_market_key False, ex_info ex_vault_key False,
       ex_info ex_liquidator_key True] 1000000000 = Inr w2 \<and> same_but_health ex_pid w1 w2"
  using ex_liquidate v1_liquidation_stands by blast

text \<open>The converse fails: on one and the same position (99.5 SOL at 100 dollars against 7,930
  dollars of debt) the first build refuses a liquidation as healthy and the second carries it
  out.\<close>

theorem flagship_regression:
  "liquidate V1 ex_runtime ex_pid (ex_world V1 7930000000)
     [ex_info ex_position_key False, ex_info ex_market_key False, ex_info ex_vault_key False,
      ex_info ex_liquidator_key True] 1000000000 = Inl (to_program_error PositionHealthy) \<and>
   (\<exists>w'. liquidate V2 ex_runtime ex_pid (ex_world V1 7930000000)
     [ex_info ex_position_key False, ex_info ex_market_key False, ex_info ex_vault_key False,
      ex_info ex_liquidator_key True] 1000000000 = Inr w')"
proof
  let ?accs = "[ex_info ex_position_key False, ex_info ex_market_key False,
      ex_info ex_vault_key False, ex_info ex_liquidator_key True]"
  have m: "holds_market ex_pid (ex_world V1 7930000000) (key (ex_info ex_market_key False)) ex_market"
    and p: "holds_position ex_pid (ex_world V1 7930000000) (key (ex_info ex_position_key False))
      (ex_position V1 7930000000)" by simp_all
  have "require_signer (ex_info ex_liquidator_key True) = Inr ()"
    "check_vault (ex_world V1 7930000000) (ex_info ex_vault_key False) ex_market ex_pid = Inr ()"
    by (simp_all add: signer_owned_Inr check_vault_Inr)
  then show "liquidate V1 ex_runtime ex_pid (ex_world V1 7930000000) ?accs 1000000000 =
      Inl (to_program_error PositionHealthy)"
    by (simp add: load_held(1) [OF m] load_held(2) [OF p] health_factor_eq is_liquidatable_health)
  have "saturating_add 890880 (10500000000 :: u64) \<le> 100000000000"
    by (simp add: saturating_add_def)
  then show "\<exists>w'. liquidate V2 ex_runtime ex_pid (ex_world V1 7930000000) ?accs 1000000000 = Inr w'"
    using liquidate_Inr [OF m p] by (simp add: seize_of_def seize_usd_of_def Let_def
        del: liquidate.simps)
qed

end
