(* ===== verification/DemoConversion.thy ===== *)
theory DemoConversion
  imports SolanaRuntime
begin

text \<open>
  The demo candidate conversion program (\<open>programs/eplyx-demo-conversion/src/lib.rs\<close>): the
  conversion terms, the checked conversion arithmetic and the whole instruction handler over the
  shared account store. The token programs it calls and the derivation of program addresses are
  the parameter \<open>conversion_runtime\<close>; nothing is assumed about what the token programs do, since
  the handler re-reads the balances after each call.
\<close>

section \<open>Errors and terms\<close>

datatype ConversionError =
    MalformedInstruction | ZeroAmount | ConfigNotOwned | ConfigLayout | MintMismatch
  | ReserveMismatch | VaultAuthorityMismatch | HolderNotSigner | TokenProgramMismatch
  | SourceAccountMismatch | SourceNotConsumedExactly | ZeroOutput | InsufficientReserve
  | ArithmeticOverflow | ReserveAccountMismatch | DestinationMismatch
  | ReserveNotReleasedExactly | UnsupportedRounding | InvalidTerms

fun conversion_code :: "ConversionError \<Rightarrow> u32" where
  "conversion_code MalformedInstruction = 1"
| "conversion_code ZeroAmount = 2"
| "conversion_code ConfigNotOwned = 3"
| "conversion_code ConfigLayout = 4"
| "conversion_code MintMismatch = 5"
| "conversion_code ReserveMismatch = 6"
| "conversion_code VaultAuthorityMismatch = 7"
| "conversion_code HolderNotSigner = 8"
| "conversion_code TokenProgramMismatch = 9"
| "conversion_code SourceAccountMismatch = 10"
| "conversion_code SourceNotConsumedExactly = 11"
| "conversion_code ZeroOutput = 12"
| "conversion_code InsufficientReserve = 13"
| "conversion_code ArithmeticOverflow = 14"
| "conversion_code ReserveAccountMismatch = 15"
| "conversion_code DestinationMismatch = 16"
| "conversion_code ReserveNotReleasedExactly = 17"
| "conversion_code UnsupportedRounding = 18"
| "conversion_code InvalidTerms = 19"

definition conversion_name :: "u32 \<Rightarrow> string option" where
  "conversion_name code =
     (if code = 1 then Some ''MalformedInstruction''
      else if code = 2 then Some ''ZeroAmount''
      else if code = 3 then Some ''ConfigNotOwned''
      else if code = 4 then Some ''ConfigLayout''
      else if code = 5 then Some ''MintMismatch''
      else if code = 6 then Some ''ReserveMismatch''
      else if code = 7 then Some ''VaultAuthorityMismatch''
      else if code = 8 then Some ''HolderNotSigner''
      else if code = 9 then Some ''TokenProgramMismatch''
      else if code = 10 then Some ''SourceAccountMismatch''
      else if code = 11 then Some ''SourceNotConsumedExactly''
      else if code = 12 then Some ''ZeroOutput''
      else if code = 13 then Some ''InsufficientReserve''
      else if code = 14 then Some ''ArithmeticOverflow''
      else if code = 15 then Some ''ReserveAccountMismatch''
      else if code = 16 then Some ''DestinationMismatch''
      else if code = 17 then Some ''ReserveNotReleasedExactly''
      else if code = 18 then Some ''UnsupportedRounding''
      else if code = 19 then Some ''InvalidTerms''
      else None)"

definition fail :: "ConversionError \<Rightarrow> program_error" where
  "fail e = Custom (conversion_code e)"

record Terms =
  ratio_numerator :: u64
  ratio_denominator :: u64
  rounding :: u8
  conversion_fee_bps :: u16

section \<open>The conversion arithmetic\<close>

definition convert_amount :: "u64 \<Rightarrow> Terms \<Rightarrow> ConversionError + (u64 \<times> u64)" where
  "convert_amount amount terms =
     (if ratio_numerator terms = 0 \<or> ratio_denominator terms = 0 \<or> 10000 < conversion_fee_bps terms
      then Inl InvalidTerms
      else if 1 < rounding terms then Inl UnsupportedRounding
      else
        let consumed = (ucast amount :: u128) in
        and_then (ok_or (checked_mul consumed (ucast (conversion_fee_bps terms)))
                    ArithmeticOverflow) (\<lambda>scaled.
        let fee = scaled div 10000 in
        and_then (ok_or (checked_sub consumed fee) ArithmeticOverflow) (\<lambda>base.
        and_then (ok_or (checked_mul base (ucast (ratio_numerator terms)))
                    ArithmeticOverflow) (\<lambda>numerator.
        let denominator = (ucast (ratio_denominator terms) :: u128) in
        and_then (if rounding terms = 0 then Inr (numerator div denominator)
                  else and_then (ok_or (checked_add numerator (denominator - 1))
                                   ArithmeticOverflow) (\<lambda>s. Inr (s div denominator))) (\<lambda>output.
        if 18446744073709551615 < output \<or> 18446744073709551615 < fee
        then Inl ArithmeticOverflow
        else Inr (ucast fee, ucast output))))))"

section \<open>The handler\<close>

abbreviation CONFIG_LEN :: nat where "CONFIG_LEN \<equiv> 151"
abbreviation CONVERT_TAG :: u8 where "CONVERT_TAG \<equiv> 1"
abbreviation BURN_CHECKED :: u8 where "BURN_CHECKED \<equiv> 15"
abbreviation TRANSFER_CHECKED :: u8 where "TRANSFER_CHECKED \<equiv> 12"

text \<open>\<open>b"eplyx-candidate-vault"\<close>.\<close>

abbreviation CANDIDATE_VAULT_SEED :: "u8 list" where
  "CANDIDATE_VAULT_SEED \<equiv> [101, 112, 108, 121, 120, 45, 99, 97, 110, 100, 105, 100, 97, 116, 101,
     45, 118, 97, 117, 108, 116]"

record conversion_runtime =
  create_program_address :: "u8 list list \<Rightarrow> address \<Rightarrow> address option"
  invoke_signed ::
    "world \<Rightarrow> instruction \<Rightarrow> account_info list \<Rightarrow> u8 list list list \<Rightarrow> program_error + world"

text \<open>\<open>data.get(offset..offset + n)\<close>.\<close>

definition get_range :: "u8 list \<Rightarrow> nat \<Rightarrow> nat \<Rightarrow> u8 list option" where
  "get_range bytes offset n =
     (if offset + n \<le> length bytes then Some (take n (drop offset bytes)) else None)"

definition key_at :: "u8 list \<Rightarrow> nat \<Rightarrow> program_error + address" where
  "key_at bytes offset = ok_or (get_range bytes offset 32) (fail ConfigLayout)"

definition token_amount :: "u8 list \<Rightarrow> program_error + u64" where
  "token_amount bytes =
     and_then (ok_or (get_range bytes 64 8) (fail SourceAccountMismatch)) (\<lambda>b.
     Inr (from_le_bytes b))"

definition read_u64_at :: "u8 list \<Rightarrow> nat \<Rightarrow> u64" where
  "read_u64_at bytes offset = from_le_bytes (take 8 (drop offset bytes))"

text \<open>The configuration account's fields, read after its length and tag are checked.\<close>

definition config_terms :: "u8 list \<Rightarrow> Terms" where
  "config_terms cfg = \<lparr>ratio_numerator = read_u64_at cfg 129, ratio_denominator = read_u64_at cfg 137,
     rounding = cfg ! 145, conversion_fee_bps = from_le_bytes [cfg ! 146, cfg ! 147]\<rparr>"

definition require_key :: "u8 list \<Rightarrow> nat \<Rightarrow> address \<Rightarrow> ConversionError \<Rightarrow> program_error + unit" where
  "require_key bytes offset k e =
     and_then (key_at bytes offset) (\<lambda>found. ensure (found = k) (fail e))"

definition burn_instruction :: "address \<Rightarrow> address \<Rightarrow> address \<Rightarrow> address \<Rightarrow> u64 \<Rightarrow> u8 \<Rightarrow> instruction" where
  "burn_instruction program source mint holder amount decimals =
     \<lparr>ix_program_id = program,
      ix_accounts = [(source, False, True), (mint, False, True), (holder, True, False)],
      ix_data = [BURN_CHECKED] @ to_le_bytes amount @ [decimals]\<rparr>"

definition release_instruction ::
  "address \<Rightarrow> address \<Rightarrow> address \<Rightarrow> address \<Rightarrow> address \<Rightarrow> u64 \<Rightarrow> u8 \<Rightarrow> instruction" where
  "release_instruction program reserve mint destination authority output decimals =
     \<lparr>ix_program_id = program,
      ix_accounts = [(reserve, False, True), (mint, False, False), (destination, False, True),
        (authority, True, False)],
      ix_data = [TRANSFER_CHECKED] @ to_le_bytes output @ [decimals]\<rparr>"

record conversion_accounts =
  config :: account_info
  source :: account_info
  source_mint :: account_info
  holder :: account_info
  reserve :: account_info
  replacement_mint :: account_info
  destination :: account_info
  vault_authority :: account_info
  source_program :: account_info
  replacement_program :: account_info

fun next_accounts :: "account_info list \<Rightarrow> program_error + conversion_accounts" where
  "next_accounts (a1 # a2 # a3 # a4 # a5 # a6 # a7 # a8 # a9 # a10 # _) =
     Inr \<lparr>config = a1, source = a2, source_mint = a3, holder = a4, reserve = a5,
       replacement_mint = a6, destination = a7, vault_authority = a8, source_program = a9,
       replacement_program = a10\<rparr>"
| "next_accounts _ = Inl NotEnoughAccountKeys"

text \<open>Everything the handler checks before it calls a token program, in the order it checks; the
  result is the source balance, the terms and the two decimals and the bump of the config.\<close>

definition check_conversion ::
  "conversion_runtime \<Rightarrow> address \<Rightarrow> world \<Rightarrow> conversion_accounts \<Rightarrow> u64 \<Rightarrow>
     program_error + (u64 \<times> Terms \<times> u8 \<times> u8 \<times> u8)" where
  "check_conversion rt program_id w as amount =
     and_then (ensure (owned_by (w (key (config as))) = program_id) (fail ConfigNotOwned)) (\<lambda>_.
     let cfg = data (w (key (config as))) in
     and_then (ensure (\<not> (length cfg \<noteq> CONFIG_LEN \<or> cfg ! 0 \<noteq> 1)) (fail ConfigLayout)) (\<lambda>_.
     and_then (require_key cfg 1 (key (source_mint as)) MintMismatch) (\<lambda>_.
     and_then (require_key cfg 33 (key (replacement_mint as)) MintMismatch) (\<lambda>_.
     and_then (require_key cfg 65 (key (reserve as)) ReserveMismatch) (\<lambda>_.
     and_then (require_key cfg 97 (key (vault_authority as)) VaultAuthorityMismatch) (\<lambda>_.
     let terms = config_terms cfg; source_decimals = cfg ! 148; replacement_decimals = cfg ! 149;
         bump = cfg ! 150 in
     and_then (ok_or (create_program_address rt [CANDIDATE_VAULT_SEED, key (config as), [bump]]
                 program_id) (fail VaultAuthorityMismatch)) (\<lambda>expected.
     and_then (ensure (expected = key (vault_authority as)) (fail VaultAuthorityMismatch)) (\<lambda>_.
     and_then (ensure (is_signer (holder as)) (fail HolderNotSigner)) (\<lambda>_.
     and_then (ensure (owned_by (w (key (source as))) = key (source_program as) \<and>
                 owned_by (w (key (source_mint as))) = key (source_program as) \<and>
                 owned_by (w (key (reserve as))) = key (replacement_program as) \<and>
                 owned_by (w (key (destination as))) = key (replacement_program as) \<and>
                 owned_by (w (key (replacement_mint as))) = key (replacement_program as))
                 (fail TokenProgramMismatch)) (\<lambda>_.
     and_then (require_key (data (w (key (source as)))) 0 (key (source_mint as))
                 SourceAccountMismatch) (\<lambda>_.
     and_then (require_key (data (w (key (source as)))) 32 (key (holder as))
                 SourceAccountMismatch) (\<lambda>_.
     and_then (token_amount (data (w (key (source as))))) (\<lambda>source_before.
     and_then (require_key (data (w (key (reserve as)))) 0 (key (replacement_mint as))
                 ReserveAccountMismatch) (\<lambda>_.
     and_then (require_key (data (w (key (reserve as)))) 32 (key (vault_authority as))
                 ReserveAccountMismatch) (\<lambda>_.
     and_then (require_key (data (w (key (destination as)))) 0 (key (replacement_mint as))
                 DestinationMismatch) (\<lambda>_.
     and_then (ensure (\<not> source_before < amount) (fail SourceNotConsumedExactly)) (\<lambda>_.
     Inr (source_before, terms, source_decimals, replacement_decimals, bump))))))))))))))))))"

text \<open>The two token-program calls with the balance checks around them.\<close>

definition burn_and_release ::
  "conversion_runtime \<Rightarrow> world \<Rightarrow> conversion_accounts \<Rightarrow> u64 \<Rightarrow> u64 \<times> Terms \<times> u8 \<times> u8 \<times> u8 \<Rightarrow>
     program_error + world" where
  "burn_and_release rt w as amount =
     (\<lambda>(source_before, terms, source_decimals, replacement_decimals, bump).
     and_then (invoke_signed rt w
                 (burn_instruction (key (source_program as)) (key (source as)) (key (source_mint as))
                    (key (holder as)) amount source_decimals)
                 [source as, source_mint as, holder as, source_program as] []) (\<lambda>w1.
     and_then (token_amount (data (w1 (key (source as))))) (\<lambda>source_after.
     and_then (ok_or (checked_sub source_before source_after) (fail SourceNotConsumedExactly))
       (\<lambda>consumed.
     and_then (ensure (consumed = amount) (fail SourceNotConsumedExactly)) (\<lambda>_.
     and_then (map_err fail (convert_amount consumed terms)) (\<lambda>(conversion_fee, output).
     and_then (ensure (output \<noteq> 0) (fail ZeroOutput)) (\<lambda>_.
     and_then (token_amount (data (w1 (key (reserve as))))) (\<lambda>reserve_before.
     and_then (ensure (\<not> reserve_before < output) (fail InsufficientReserve)) (\<lambda>_.
     and_then (invoke_signed rt w1
                 (release_instruction (key (replacement_program as)) (key (reserve as))
                    (key (replacement_mint as)) (key (destination as)) (key (vault_authority as))
                    output replacement_decimals)
                 [reserve as, replacement_mint as, destination as, vault_authority as,
                  replacement_program as]
                 [[CANDIDATE_VAULT_SEED, key (config as), [bump]]]) (\<lambda>w2.
     and_then (token_amount (data (w2 (key (reserve as))))) (\<lambda>reserve_after.
     and_then (ensure (checked_sub reserve_before reserve_after = Some output)
                 (fail ReserveNotReleasedExactly)) (\<lambda>_.
     Inr w2))))))))))))"

definition process_conversion ::
  "conversion_runtime \<Rightarrow> address \<Rightarrow> world \<Rightarrow> account_info list \<Rightarrow> u8 list \<Rightarrow> program_error + world"
where
  "process_conversion rt program_id w accounts bytes =
     and_then (ensure (\<not> (length bytes \<noteq> 9 \<or> bytes ! 0 \<noteq> CONVERT_TAG)) (fail MalformedInstruction))
       (\<lambda>_.
     let amount = (from_le_bytes (take 8 (drop 1 bytes)) :: u64) in
     and_then (ensure (amount \<noteq> 0) (fail ZeroAmount)) (\<lambda>_.
     and_then (next_accounts accounts) (\<lambda>as.
     and_then (check_conversion rt program_id w as amount) (\<lambda>checked.
     burn_and_release rt w as amount checked))))"

end
