(* ===== verification/ConversionProperties.thy ===== *)
theory ConversionProperties
  imports DemoConversion
begin

text \<open>
  What the demo conversion program promises: its arithmetic is the exact rational conversion
  rounded once, it never fails on an intermediate result, and an instruction that succeeds has
  burned exactly the requested amount and released exactly the converted one, whatever the token
  programs do.
\<close>

section \<open>The exact conversion\<close>

text \<open>The conversion over the natural numbers: the fee is taken first, then the ratio applies
  once, rounded down or up.\<close>

definition exact_fee :: "nat \<Rightarrow> Terms \<Rightarrow> nat" where
  "exact_fee a t = a * unat (conversion_fee_bps t) div 10000"

definition exact_output :: "nat \<Rightarrow> Terms \<Rightarrow> nat" where
  "exact_output a t =
     (let numerator = (a - exact_fee a t) * unat (ratio_numerator t);
          denominator = unat (ratio_denominator t)
      in if rounding t = 0 then numerator div denominator
         else (numerator + (denominator - 1)) div denominator)"

definition valid_terms :: "Terms \<Rightarrow> bool" where
  "valid_terms t \<longleftrightarrow> ratio_numerator t \<noteq> 0 \<and> ratio_denominator t \<noteq> 0 \<and>
     conversion_fee_bps t \<le> 10000"

lemma exact_fee_le: "valid_terms t \<Longrightarrow> exact_fee a t \<le> a"
proof -
  assume "valid_terms t"
  then have "unat (conversion_fee_bps t) \<le> 10000"
    by (simp add: valid_terms_def word_le_nat_alt)
  then have "a * unat (conversion_fee_bps t) \<le> a * 10000" by (rule mult_le_mono2)
  then show ?thesis unfolding exact_fee_def by linarith
qed

lemma fee_fits: "unat (a::u64) * unat (b::u16) < 2 ^ 128"
proof -
  have "unat a * unat b \<le> 18446744073709551615 * 65535" by (rule mult_le_mono) simp_all
  then show ?thesis by simp
qed

lemma numerator_fits:
  "x \<le> unat (a::u64) \<Longrightarrow> x * unat (n::u64) + unat (d::u64) < 2 ^ 128"
proof -
  assume "x \<le> unat a"
  then have "x \<le> 18446744073709551615" using unat_le_bounds(2) [of a] by linarith
  then have "x * unat n \<le> 18446744073709551615 * 18446744073709551615"
    by (rule mult_le_mono) simp
  moreover have "unat d \<le> 18446744073709551615" by simp
  moreover have "(2::nat) ^ 128 = 340282366920938463463374607431768211456" by simp
  ultimately show ?thesis by linarith
qed

lemma unat_div_128: "unat ((a::u128) div b) = unat a div unat b"
  by (simp add: unat_div)

lemma ucast_down: "unat (x::u128) < 2 ^ 64 \<Longrightarrow> (ucast x :: u64) = of_nat (unat x)"
  by (simp add: word_unat_eq_iff unsigned_ucast_eq unat_of_nat)

lemma convert_fee_base:
  fixes amount :: u64
  assumes "valid_terms t"
  defines "consumed \<equiv> ucast amount :: u128"
  defines "scaled \<equiv> consumed * ucast (conversion_fee_bps t)"
  shows "checked_mul consumed (ucast (conversion_fee_bps t)) = Some scaled"
    and "unat (scaled div 10000) = exact_fee (unat amount) t"
    and "checked_sub consumed (scaled div 10000) = Some (consumed - scaled div 10000)"
    and "unat (consumed - scaled div 10000) = unat amount - exact_fee (unat amount) t"
proof -
  have fits: "unat consumed * unat (ucast (conversion_fee_bps t) :: u128) < 2 ^ 128"
    using fee_fits [of amount "conversion_fee_bps t"] by (simp add: consumed_def)
  then show "checked_mul consumed (ucast (conversion_fee_bps t)) = Some scaled"
    by (simp add: checked_mul_def scaled_def)
  show fee: "unat (scaled div 10000) = exact_fee (unat amount) t"
    using fits by (simp add: unat_div_128 scaled_def unat_mult_small exact_fee_def consumed_def)
  then have le: "scaled div 10000 \<le> consumed"
    using exact_fee_le [OF assms(1)] by (simp add: word_le_nat_alt consumed_def)
  then show "checked_sub consumed (scaled div 10000) = Some (consumed - scaled div 10000)"
    by (simp add: checked_sub_def)
  show "unat (consumed - scaled div 10000) = unat amount - exact_fee (unat amount) t"
    using le fee by (simp add: unat_sub_le consumed_def)
qed

text \<open>The numerator and the ceiling's sum never overflow 128 bits.\<close>

lemma convert_ratio:
  fixes base :: u128 and n d amount :: u64
  assumes "unat base \<le> unat amount" "d \<noteq> 0"
  shows "checked_mul base (ucast n) = Some (base * ucast n)"
    and "unat (base * ucast n) = unat base * unat n"
    and "checked_add (base * ucast n) (ucast d - 1) = Some (base * ucast n + (ucast d - 1))"
    and "unat (base * ucast n + (ucast d - 1)) = unat base * unat n + (unat d - 1)"
proof -
  note f = numerator_fits [OF assms(1), of n d]
  then have "unat base * unat (ucast n :: u128) < 2 ^ 128" unfolding unat_ucast_64_128 by linarith
  then show "checked_mul base (ucast n) = Some (base * ucast n)"
    and num: "unat (base * ucast n) = unat base * unat n"
    by (simp_all add: checked_mul_def unat_mult_small)
  have "unat d \<noteq> 0" using assms(2) by (simp add: unat_eq_0)
  then have d: "unat ((ucast d :: u128) - 1) = unat d - 1"
    by (subst unat_sub_le) (simp_all add: word_le_nat_alt)
  have "unat (base * ucast n) + unat ((ucast d :: u128) - 1) < 2 ^ 128"
    using f unfolding num d by linarith
  then show "checked_add (base * ucast n) (ucast d - 1) = Some (base * ucast n + (ucast d - 1))"
    and "unat (base * ucast n + (ucast d - 1)) = unat base * unat n + (unat d - 1)"
    by (simp_all add: checked_add_def unat_add_small num d)
qed

lemma convert_amount_exact_aux:
  "convert_amount amount t =
     (if \<not> valid_terms t then Inl InvalidTerms
      else if 1 < rounding t then Inl UnsupportedRounding
      else if 2 ^ 64 \<le> exact_output (unat amount) t then Inl ArithmeticOverflow
      else Inr (of_nat (exact_fee (unat amount) t), of_nat (exact_output (unat amount) t)))"
proof (cases "valid_terms t \<and> \<not> 1 < rounding t")
  case False
  then show ?thesis by (auto simp: convert_amount_def valid_terms_def not_le)
next
  case True
  then have valid: "valid_terms t" and dn: "ratio_denominator t \<noteq> 0" by (simp_all add: valid_terms_def)
  let ?fee = "ucast amount * ucast (conversion_fee_bps t) div 10000 :: u128"
  let ?base = "ucast amount - ?fee"
  let ?num = "?base * ucast (ratio_numerator t)"
  define released :: u128 where
    "released = (if rounding t = 0 then ?num div ucast (ratio_denominator t)
       else (?num + (ucast (ratio_denominator t) - 1)) div ucast (ratio_denominator t))"
  note f = convert_fee_base [OF valid, of amount]
  have "unat ?base \<le> unat amount" unfolding f(4) by simp
  note r = convert_ratio [OF this dn, of "ratio_numerator t"]
  have out: "unat released = exact_output (unat amount) t"
    by (simp add: released_def exact_output_def Let_def unat_div_128 r f)
  have fee: "unat ?fee < 2 ^ 64"
    unfolding f(2) by (rule le_less_trans [OF exact_fee_le [OF valid]]) simp
  then have not_wide: "\<not> 18446744073709551615 < ?fee" by (simp add: word_less_nat_alt)
  have guards: "(ratio_numerator t = 0) = False" "(ratio_denominator t = 0) = False"
    "(10000 < conversion_fee_bps t) = False" "(1 < rounding t) = False"
    using True by (auto simp: valid_terms_def)
  have "convert_amount amount t =
     (if 18446744073709551615 < released then Inl ArithmeticOverflow else Inr (ucast ?fee, ucast released))"
    using not_wide by (simp add: convert_amount_def Let_def guards f(1,3) r(1,3) released_def)
  also have "\<dots> = (if 2 ^ 64 \<le> exact_output (unat amount) t then Inl ArithmeticOverflow
      else Inr (of_nat (exact_fee (unat amount) t), of_nat (exact_output (unat amount) t)))"
    using fee by (auto simp: out f(2) word_less_nat_alt ucast_down)
  finally show ?thesis using True by simp
qed

text \<open>C13. The checked 128-bit arithmetic computes the exact conversion for every amount and every
  terms: invalid terms are refused first, then an unknown rounding mode; after that the only
  failure is a final output that does not fit 64 bits, and otherwise the fee and the output are
  the exact ones. No intermediate product or sum ever overflows.\<close>

theorem convert_amount_exact:
  "convert_amount amount t =
     (if \<not> valid_terms t then Inl InvalidTerms
      else if 1 < rounding t then Inl UnsupportedRounding
      else if 2 ^ 64 \<le> exact_output (unat amount) t then Inl ArithmeticOverflow
      else Inr (of_nat (exact_fee (unat amount) t), of_nat (exact_output (unat amount) t)))"
  by (rule convert_amount_exact_aux)

lemma convert_amount_Inr:
  assumes "convert_amount amount t = Inr (fee, out)"
  shows "valid_terms t" "rounding t \<le> 1"
    and "unat fee = exact_fee (unat amount) t" "unat out = exact_output (unat amount) t"
proof -
  from assms have ok: "valid_terms t" "\<not> 1 < rounding t" "exact_output (unat amount) t < 2 ^ 64"
    and v: "fee = of_nat (exact_fee (unat amount) t)" "out = of_nat (exact_output (unat amount) t)"
    by (auto simp: convert_amount_exact_aux not_le split: if_splits)
  show "valid_terms t" "rounding t \<le> 1" using ok by (simp_all add: not_less)
  have "exact_fee (unat amount) t < 2 ^ 64"
    by (rule le_less_trans [OF exact_fee_le [OF ok(1)]]) simp
  then show "unat fee = exact_fee (unat amount) t" by (simp add: v(1) unat_of_nat_eq)
  show "unat out = exact_output (unat amount) t" using ok(3) by (simp add: v(2) unat_of_nat_eq)
qed

lemma exact_output_bounds:
  fixes a :: nat
  assumes "valid_terms t"
  defines "base \<equiv> (a - exact_fee a t) * unat (ratio_numerator t)"
    and "d \<equiv> unat (ratio_denominator t)"
  shows "rounding t = 0 \<Longrightarrow> exact_output a t * d \<le> base \<and> base < (exact_output a t + 1) * d"
    and "rounding t \<noteq> 0 \<Longrightarrow> base \<le> exact_output a t * d \<and> exact_output a t * d < base + d"
proof -
  have d: "0 < d" using assms(1) by (simp add: d_def valid_terms_def unat_gt_0)
  have lower: "m div d * d \<le> m" for m by simp
  have upper: "m < (m div d + 1) * d" for m
    using mod_less_divisor [OF d, of m] div_mult_mod_eq [of m d] unfolding add_mult_distrib by linarith
  show "exact_output a t * d \<le> base \<and> base < (exact_output a t + 1) * d" if "rounding t = 0"
    using that lower [of base] upper [of base] by (simp add: exact_output_def Let_def base_def d_def)
  show "base \<le> exact_output a t * d \<and> exact_output a t * d < base + d" if "rounding t \<noteq> 0"
  proof -
    have out: "exact_output a t = (base + (d - 1)) div d"
      using that by (simp add: exact_output_def Let_def base_def d_def)
    show ?thesis
      using lower [of "base + (d - 1)"] upper [of "base + (d - 1)"] d
      unfolding out add_mult_distrib by linarith
  qed
qed

lemma exact_fee_mono: "a \<le> b \<Longrightarrow> exact_fee a t \<le> exact_fee b t"
  by (simp add: exact_fee_def div_le_mono mult_le_mono1)

lemma exact_base_mono:
  assumes "valid_terms t" "a \<le> b"
  shows "a - exact_fee a t \<le> b - exact_fee b t"
proof -
  obtain k where b: "b = a + k" using assms(2) le_Suc_ex by blast
  let ?p = "unat (conversion_fee_bps t)"
  have p: "?p \<le> 10000" using assms(1) by (simp add: valid_terms_def word_le_nat_alt)
  have "(a + k) * ?p \<le> a * ?p + k * 10000" using p by (simp add: add_mult_distrib)
  then have "exact_fee b t \<le> (a * ?p + k * 10000) div 10000"
    unfolding exact_fee_def b by (rule div_le_mono)
  also have "\<dots> = exact_fee a t + k" by (simp add: exact_fee_def)
  finally show ?thesis using b by linarith
qed

lemma exact_output_mono: "valid_terms t \<Longrightarrow> a \<le> b \<Longrightarrow> exact_output a t \<le> exact_output b t"
  using exact_base_mono [of t a b]
  by (simp add: exact_output_def Let_def div_le_mono mult_le_mono1)

text \<open>A conversion pays a fee that never exceeds the amount, and an output within one unit of
  the rational value of what remains: never more with floor rounding, never less with ceiling
  rounding. A larger amount never converts to less.\<close>

theorem conversion_bounds:
  assumes "convert_amount amount t = Inr (fee, out)"
  shows "let worth = (unat amount - unat fee) * unat (ratio_numerator t);
             d = unat (ratio_denominator t) in
    unat fee * 10000 \<le> unat amount * unat (conversion_fee_bps t) \<and> fee \<le> amount \<and>
    (rounding t = 0 \<longrightarrow> unat out * d \<le> worth \<and> worth < (unat out + 1) * d) \<and>
    (rounding t = 1 \<longrightarrow> worth \<le> unat out * d \<and> unat out * d < worth + d) \<and>
    (\<forall>amount' fee' out'. amount \<le> amount' \<and> convert_amount amount' t = Inr (fee', out') \<longrightarrow>
       out \<le> out' \<and> fee \<le> fee')"
unfolding Let_def
proof (intro conjI allI impI)
  note c = convert_amount_Inr [OF assms(1)]
  note b = exact_output_bounds [OF c(1), of "unat amount", folded c(3) c(4)]
  show "unat fee * 10000 \<le> unat amount * unat (conversion_fee_bps t)"
    unfolding c(3) exact_fee_def by simp
  show "fee \<le> amount" using exact_fee_le [OF c(1)] by (simp add: word_le_nat_alt c(3))
  show "unat out * unat (ratio_denominator t) \<le> (unat amount - unat fee) * unat (ratio_numerator t)" "(unat amount - unat fee) * unat (ratio_numerator t) < (unat out + 1) * unat (ratio_denominator t)" if "rounding t = 0"
    using b(1) [OF that] by simp_all
  show "(unat amount - unat fee) * unat (ratio_numerator t) \<le> unat out * unat (ratio_denominator t)" "unat out * unat (ratio_denominator t) < (unat amount - unat fee) * unat (ratio_numerator t) + unat (ratio_denominator t)" if "rounding t = 1"
    using b(2) that by simp_all
  fix amount' fee' out'
  assume larger: "amount \<le> amount' \<and> convert_amount amount' t = Inr (fee', out')"
  then have le: "unat amount \<le> unat amount'" by (simp add: word_le_nat_alt)
  from larger have "convert_amount amount' t = Inr (fee', out')" by simp
  note c' = convert_amount_Inr [OF this]
  show "out \<le> out'" using exact_output_mono [OF c(1) le] by (simp add: word_le_nat_alt c(4) c'(4))
  show "fee \<le> fee'" using exact_fee_mono [OF le] by (simp add: word_le_nat_alt c(3) c'(3))
qed

definition ex_terms :: Terms where
  "ex_terms = \<lparr>ratio_numerator = 3, ratio_denominator = 7, rounding = 1, conversion_fee_bps = 250\<rparr>"

theorem conversion_bounds_witness:
  "convert_amount 1000 ex_terms = Inr (25, 418) \<and> (2925::nat) \<le> 418 * 7 \<and> (418 * 7::nat) < 2925 + 7"
proof -
  have c: "convert_amount 1000 ex_terms = Inr (25, 418)"
    by (simp add: convert_amount_exact_aux exact_output_def exact_fee_def valid_terms_def ex_terms_def)
  show ?thesis using c conversion_bounds [OF c] by (simp add: ex_terms_def Let_def)
qed

section \<open>The whole instruction\<close>

abbreviation (input) requested :: "u8 list \<Rightarrow> u64" where
  "requested bytes \<equiv> from_le_bytes (take 8 (drop 1 bytes))"

abbreviation (input) balance :: "world \<Rightarrow> account_info \<Rightarrow> program_error + u64" where
  "balance w ai \<equiv> token_amount (data (w (key ai)))"

abbreviation (input) vault_seeds :: "world \<Rightarrow> conversion_accounts \<Rightarrow> u8 list list" where
  "vault_seeds w as \<equiv> [CANDIDATE_VAULT_SEED, key (config as), [data (w (key (config as))) ! 150]]"

abbreviation (input) terms_of :: "world \<Rightarrow> conversion_accounts \<Rightarrow> Terms" where
  "terms_of w as \<equiv> config_terms (data (w (key (config as))))"

text \<open>What an instruction that reaches the token programs has established.\<close>

definition authorised :: "conversion_runtime \<Rightarrow> address \<Rightarrow> world \<Rightarrow> conversion_accounts \<Rightarrow> bool" where
  "authorised rt program_id w as \<longleftrightarrow>
     is_signer (holder as) \<and>
     owned_by (w (key (config as))) = program_id \<and>
     length (data (w (key (config as)))) = CONFIG_LEN \<and>
     create_program_address rt (vault_seeds w as) program_id = Some (key (vault_authority as)) \<and>
     get_range (data (w (key (config as)))) 65 32 = Some (key (reserve as)) \<and>
     get_range (data (w (key (source as)))) 0 32 = Some (key (source_mint as)) \<and>
     get_range (data (w (key (source as)))) 32 32 = Some (key (holder as)) \<and>
     get_range (data (w (key (reserve as)))) 0 32 = Some (key (replacement_mint as)) \<and>
     get_range (data (w (key (reserve as)))) 32 32 = Some (key (vault_authority as)) \<and>
     get_range (data (w (key (destination as)))) 0 32 = Some (key (replacement_mint as))"

lemma require_key_Inr [result_simps]:
  "require_key bytes offset k e = Inr u \<longleftrightarrow> get_range bytes offset 32 = Some k"
  by (auto simp: require_key_def key_at_def result_simps)

lemma check_conversion_Inr:
  assumes "check_conversion rt program_id w as amount = Inr (before, t, sd, rd, bump)"
  shows "authorised rt program_id w as" "balance w (source as) = Inr before" "amount \<le> before"
    and "t = terms_of w as" "bump = data (w (key (config as))) ! 150"
  using assms unfolding check_conversion_def Let_def authorised_def
  by (auto simp: result_simps not_less)

lemma burn_and_release_Inr:
  assumes "burn_and_release rt w as amount (before, t, sd, rd, bump) = Inr w'"
  obtains w1 fee out "after" mid final where
    "invoke_signed rt w (burn_instruction (key (source_program as)) (key (source as))
       (key (source_mint as)) (key (holder as)) amount sd)
       [source as, source_mint as, holder as, source_program as] [] = Inr w1"
    "invoke_signed rt w1 (release_instruction (key (replacement_program as)) (key (reserve as))
       (key (replacement_mint as)) (key (destination as)) (key (vault_authority as)) out rd)
       [reserve as, replacement_mint as, destination as, vault_authority as, replacement_program as]
       [[CANDIDATE_VAULT_SEED, key (config as), [bump]]] = Inr w'"
    "balance w1 (source as) = Inr after" "unat after + unat amount = unat before"
    "convert_amount amount t = Inr (fee, out)" "out \<noteq> 0"
    "balance w1 (reserve as) = Inr mid" "balance w' (reserve as) = Inr final"
    "unat final + unat out = unat mid"
proof -
  from assms obtain w1 fee out "after" mid final where r:
    "invoke_signed rt w (burn_instruction (key (source_program as)) (key (source as))
       (key (source_mint as)) (key (holder as)) amount sd)
       [source as, source_mint as, holder as, source_program as] [] = Inr w1"
    "balance w1 (source as) = Inr after" "checked_sub before after = Some amount"
    "convert_amount amount t = Inr (fee, out)" "out \<noteq> 0"
    "balance w1 (reserve as) = Inr mid" "balance w' (reserve as) = Inr final"
    "checked_sub mid final = Some out"
    "invoke_signed rt w1 (release_instruction (key (replacement_program as)) (key (reserve as))
       (key (replacement_mint as)) (key (destination as)) (key (vault_authority as)) out rd)
       [reserve as, replacement_mint as, destination as, vault_authority as, replacement_program as]
       [[CANDIDATE_VAULT_SEED, key (config as), [bump]]] = Inr w'"
    by (auto simp: burn_and_release_def and_then_Inr ok_or_Inr map_err_Inr ensure_Inr split: prod.splits)
  have "unat after + unat amount = unat before" "unat final + unat out = unat mid"
    using r(3,8) by (auto simp: checked_sub_Some unat_sub_le word_le_nat_alt)
  with r show thesis by (intro that) 
qed

lemma process_conversion_Inr:
  assumes "process_conversion rt program_id w accounts bytes = Inr w'"
  obtains as before t sd rd bump where
    "length bytes = 9" "bytes ! 0 = CONVERT_TAG" "requested bytes \<noteq> 0"
    "next_accounts accounts = Inr as"
    "check_conversion rt program_id w as (requested bytes) = Inr (before, t, sd, rd, bump)"
    "burn_and_release rt w as (requested bytes) (before, t, sd, rd, bump) = Inr w'"
  using assms by (auto simp: process_conversion_def Let_def result_simps)

text \<open>C12. Whatever the token programs do, a conversion that succeeds was signed by the holder of
  the source account under a configuration of this program whose vault authority is the derived
  address; it made exactly two calls; the burn lowered the source balance by exactly the requested
  amount, and the release lowered the reserve by exactly the exact rational output for that
  amount, which is not zero.\<close>

theorem conversion_safe:
  assumes "process_conversion rt program_id w accounts bytes = Inr w'"
  shows "\<exists>as w1 (before::u64) (after::u64) (mid::u64) (final::u64) (out::u64) sd rd.
    next_accounts accounts = Inr as \<and> authorised rt program_id w as \<and>
    invoke_signed rt w (burn_instruction (key (source_program as)) (key (source as))
      (key (source_mint as)) (key (holder as)) (requested bytes) sd)
      [source as, source_mint as, holder as, source_program as] [] = Inr w1 \<and>
    invoke_signed rt w1 (release_instruction (key (replacement_program as)) (key (reserve as))
      (key (replacement_mint as)) (key (destination as)) (key (vault_authority as)) out rd)
      [reserve as, replacement_mint as, destination as, vault_authority as, replacement_program as]
      [vault_seeds w as] = Inr w' \<and>
    balance w (source as) = Inr before \<and> balance w1 (source as) = Inr after \<and>
    requested bytes \<noteq> 0 \<and> unat after + unat (requested bytes) = unat before \<and>
    valid_terms (terms_of w as) \<and>
    unat out = exact_output (unat (requested bytes)) (terms_of w as) \<and> out \<noteq> 0 \<and>
    balance w1 (reserve as) = Inr mid \<and> balance w' (reserve as) = Inr final \<and>
    unat final + unat out = unat mid"
proof -
  obtain as before t sd rd bump where p: "requested bytes \<noteq> 0" "next_accounts accounts = Inr as"
    and check: "check_conversion rt program_id w as (requested bytes) = Inr (before, t, sd, rd, bump)"
    and run: "burn_and_release rt w as (requested bytes) (before, t, sd, rd, bump) = Inr w'"
    using process_conversion_Inr [OF assms] by metis
  note c = check_conversion_Inr [OF check]
  from run show ?thesis
  proof (rule burn_and_release_Inr)
    fix w1 fee out "after" mid final
    assume r: "invoke_signed rt w (burn_instruction (key (source_program as)) (key (source as))
         (key (source_mint as)) (key (holder as)) (requested bytes) sd)
         [source as, source_mint as, holder as, source_program as] [] = Inr w1"
      "invoke_signed rt w1 (release_instruction (key (replacement_program as)) (key (reserve as))
         (key (replacement_mint as)) (key (destination as)) (key (vault_authority as)) out rd)
         [reserve as, replacement_mint as, destination as, vault_authority as,
          replacement_program as]
         [[CANDIDATE_VAULT_SEED, key (config as), [bump]]] = Inr w'"
      "balance w1 (source as) = Inr after" "unat after + unat (requested bytes) = unat before"
      "convert_amount (requested bytes) t = Inr (fee, out)" "out \<noteq> 0"
      "balance w1 (reserve as) = Inr mid" "balance w' (reserve as) = Inr final"
      "unat final + unat out = unat mid"
    note a = convert_amount_Inr [OF r(5)]
    show ?thesis
      by (rule exI [of _ as], rule exI [of _ w1], rule exI [of _ before], rule exI [of _ after],
          rule exI [of _ mid], rule exI [of _ final], rule exI [of _ out], rule exI [of _ sd],
          rule exI [of _ rd], intro conjI)
        (fact p r c a | fact r(2) [unfolded c(5)] | fact a(4) [unfolded c(4)] | fact a(1) [unfolded c(4)])+
  qed
qed

section \<open>Error codes\<close>

text \<open>Every failure the program returns is named by the host from its code, the codes are
  exactly 1 to 19, and two errors never share a code.\<close>

theorem conversion_errors_named:
  "conversion_name (conversion_code e) \<noteq> None \<and>
   (conversion_code e = conversion_code e' \<longleftrightarrow> e = e') \<and>
   (conversion_name code \<noteq> None \<longleftrightarrow> (\<exists>e. code = conversion_code e))"
proof (intro conjI)
  show "conversion_name (conversion_code e) \<noteq> None"
    by (cases e) (simp_all add: conversion_name_def)
  show "conversion_code e = conversion_code e' \<longleftrightarrow> e = e'"
    by (cases e; cases e') simp_all
  show "conversion_name code \<noteq> None \<longleftrightarrow> (\<exists>e. code = conversion_code e)"
  proof
    assume "conversion_name code \<noteq> None"
    then show "\<exists>e. code = conversion_code e"
      unfolding conversion_name_def
      by (simp split: if_splits) (metis conversion_code.simps)+
  next
    assume "\<exists>e. code = conversion_code e"
    then obtain e where "code = conversion_code e" by blast
    then show "conversion_name code \<noteq> None" by (cases e) (simp_all add: conversion_name_def)
  qed
qed

section \<open>A concrete conversion\<close>

definition set_balance :: "world \<Rightarrow> address \<Rightarrow> u64 \<Rightarrow> world" where
  "set_balance w k x = w(k := (w k)\<lparr>data := take 64 (data (w k)) @ to_le_bytes x\<rparr>)"

definition ex_key :: "u8 \<Rightarrow> address" where "ex_key n = replicate 32 n"

text \<open>A token program for the witnesses: burns and transfers move the encoded amount.\<close>

definition ex_token_program ::
  "world \<Rightarrow> instruction \<Rightarrow> account_info list \<Rightarrow> u8 list list list \<Rightarrow> program_error + world" where
  "ex_token_program w ix infos seeds =
     (let amount = (from_le_bytes (take 8 (drop 1 (ix_data ix))) :: u64);
          from = key (infos ! 0); to = key (infos ! 2) in
      and_then (token_amount (data (w from))) (\<lambda>b.
      and_then (ok_or (checked_sub b amount) (External 1)) (\<lambda>b'.
      if ix_data ix ! 0 = BURN_CHECKED then Inr (set_balance w from b')
      else and_then (token_amount (data (w to))) (\<lambda>c. Inr (set_balance (set_balance w from b') to (c + amount))))))"

definition ex_conversion_runtime :: conversion_runtime where
  "ex_conversion_runtime = \<lparr>create_program_address = (\<lambda>_ _. Some (ex_key 8)),
     invoke_signed = ex_token_program\<rparr>"

definition ex_config :: "u8 list" where
  "ex_config = [1] @ ex_key 3 @ ex_key 6 @ ex_key 5 @ ex_key 8 @ to_le_bytes (3::u64) @
     to_le_bytes (7::u64) @ [1] @ to_le_bytes (250::u16) @ [6, 6, 255]"

definition ex_token_world :: world where
  "ex_token_world k =
     (if k = ex_key 1 then \<lparr>lamports = 1, data = ex_config, owned_by = ex_key 11\<rparr>
      else if k = ex_key 2
        then \<lparr>lamports = 1, data = ex_key 3 @ ex_key 4 @ to_le_bytes (5000::u64), owned_by = ex_key 9\<rparr>
      else if k = ex_key 3 then \<lparr>lamports = 1, data = [], owned_by = ex_key 9\<rparr>
      else if k = ex_key 5
        then \<lparr>lamports = 1, data = ex_key 6 @ ex_key 8 @ to_le_bytes (1000::u64), owned_by = ex_key 10\<rparr>
      else if k = ex_key 7
        then \<lparr>lamports = 1, data = ex_key 6 @ ex_key 4 @ to_le_bytes (0::u64), owned_by = ex_key 10\<rparr>
      else \<lparr>lamports = 1, data = [], owned_by = ex_key 10\<rparr>)"

definition ex_accounts :: "account_info list" where
  "ex_accounts = map (\<lambda>n. \<lparr>key = ex_key n, is_signer = (n = 4)\<rparr>) [1, 2, 3, 4, 5, 6, 7, 8, 9, 10]"

definition ex_request :: "u8 list" where
  "ex_request = CONVERT_TAG # to_le_bytes (1000::u64)"

lemma ex_key_simps [simp]: "length (ex_key n) = 32" "ex_key m = ex_key n \<longleftrightarrow> m = n"
  by (simp_all add: ex_key_def)

definition ex_slots :: conversion_accounts where
  "ex_slots = (case next_accounts ex_accounts of Inr as \<Rightarrow> as)"

lemma ex_slots_simps:
  "next_accounts ex_accounts = Inr ex_slots" "config ex_slots = \<lparr>key = ex_key 1, is_signer = False\<rparr>"
  "source ex_slots = \<lparr>key = ex_key 2, is_signer = False\<rparr>"
  "source_mint ex_slots = \<lparr>key = ex_key 3, is_signer = False\<rparr>"
  "holder ex_slots = \<lparr>key = ex_key 4, is_signer = True\<rparr>"
  "reserve ex_slots = \<lparr>key = ex_key 5, is_signer = False\<rparr>"
  "replacement_mint ex_slots = \<lparr>key = ex_key 6, is_signer = False\<rparr>"
  "destination ex_slots = \<lparr>key = ex_key 7, is_signer = False\<rparr>"
  "vault_authority ex_slots = \<lparr>key = ex_key 8, is_signer = False\<rparr>"
  "source_program ex_slots = \<lparr>key = ex_key 9, is_signer = False\<rparr>"
  "replacement_program ex_slots = \<lparr>key = ex_key 10, is_signer = False\<rparr>"
  by (simp_all add: ex_slots_def ex_accounts_def)

lemma ex_config_reads:
  "length ex_config = 151" "ex_config ! 0 = 1" "get_range ex_config 1 32 = Some (ex_key 3)"
  "get_range ex_config 33 32 = Some (ex_key 6)" "get_range ex_config 65 32 = Some (ex_key 5)"
  "get_range ex_config 97 32 = Some (ex_key 8)" "ex_config ! 148 = 6" "ex_config ! 149 = 6"
  "ex_config ! 150 = 255" "config_terms ex_config = ex_terms"
proof -
  have c: "ex_config = [1] @ ex_key 3 @ ex_key 6 @ ex_key 5 @ ex_key 8 @ to_le_bytes (3::u64) @
     to_le_bytes (7::u64) @ [1] @ to_le_bytes (250::u16) @ [6, 6, 255]"
    by (rule ex_config_def)
  show "length ex_config = 151" "ex_config ! 0 = 1" "ex_config ! 148 = 6" "ex_config ! 149 = 6"
    "ex_config ! 150 = 255" by (simp_all add: c nth_append nth_Cons')
  show "get_range ex_config 1 32 = Some (ex_key 3)" "get_range ex_config 33 32 = Some (ex_key 6)"
    "get_range ex_config 65 32 = Some (ex_key 5)" "get_range ex_config 97 32 = Some (ex_key 8)"
    by (simp_all add: c get_range_def)
  have bytes: "to_le_bytes (250::u16) = [to_le_bytes (250::u16) ! 0, to_le_bytes (250::u16) ! Suc 0]"
    by (rule nth_equalityI) (auto simp: less_2_cases_iff)
  have bps: "from_le_bytes [to_le_bytes (250::u16) ! 0, to_le_bytes (250::u16) ! Suc 0] = (250::u16)"
    unfolding bytes [symmetric] by simp
  show "config_terms ex_config = ex_terms" 
    by (simp add: config_terms_def read_u64_at_def c ex_terms_def nth_append nth_Cons' bps)
qed

lemma ex_check:
  "check_conversion ex_conversion_runtime (ex_key 11) ex_token_world ex_slots 1000 =
     Inr (5000, ex_terms, 6, 6, 255)"
  by (simp add: check_conversion_def Let_def ex_slots_simps ex_token_world_def ex_config_reads ex_config_reads [simplified]
      require_key_def key_at_def token_amount_def get_range_def [of "_ @ _"] ex_conversion_runtime_def)

definition ex_burned :: world where "ex_burned = set_balance ex_token_world (ex_key 2) 4000"

definition ex_released :: world where
  "ex_released = set_balance (set_balance ex_burned (ex_key 5) 582) (ex_key 7) 418"

lemma ex_balances:
  "token_amount (data (ex_token_world (ex_key 2))) = Inr 5000"
  "token_amount (data (ex_token_world (ex_key 5))) = Inr 1000"
  "token_amount (data (ex_token_world (ex_key 7))) = Inr 0"
  "token_amount (data (ex_burned (ex_key 2))) = Inr 4000"
  "token_amount (data (ex_burned (ex_key 5))) = Inr 1000"
  "token_amount (data (ex_burned (ex_key 7))) = Inr 0"
  "token_amount (data (ex_released (ex_key 5))) = Inr 582"
  "token_amount (data (ex_released (ex_key 7))) = Inr 418"
  by (simp_all add: ex_released_def ex_burned_def set_balance_def ex_token_world_def
      token_amount_def get_range_def)

lemma ex_calls:
  "invoke_signed ex_conversion_runtime ex_token_world
     (burn_instruction (ex_key 9) (ex_key 2) (ex_key 3) (ex_key 4) 1000 6)
     [source ex_slots, source_mint ex_slots, holder ex_slots, source_program ex_slots] [] =
   Inr ex_burned"
  "invoke_signed ex_conversion_runtime ex_burned
     (release_instruction (ex_key 10) (ex_key 5) (ex_key 6) (ex_key 7) (ex_key 8) 418 6)
     [reserve ex_slots, replacement_mint ex_slots, destination ex_slots, vault_authority ex_slots,
      replacement_program ex_slots] seeds = Inr ex_released"
  by (simp_all add: ex_conversion_runtime_def ex_token_program_def burn_instruction_def
      release_instruction_def ex_slots_simps ex_balances Let_def checked_sub_def ex_released_def
      set_balance_def ex_burned_def)

lemma ex_request_reads:
  "length ex_request = 9" "ex_request ! 0 = CONVERT_TAG" "requested ex_request = 1000"
  "from_le_bytes (drop (Suc 0) ex_request) = (1000::u64)"
  by (simp_all add: ex_request_def)

lemma ex_valid: "valid_terms ex_terms" "rounding ex_terms \<le> 1" "exact_output 1000 ex_terms = 418"
  by (simp_all add: exact_output_def exact_fee_def valid_terms_def ex_terms_def)

text \<open>C14. Conversely, a well-formed request that passes the checks, whose burn and release do what
  they are asked, whose terms are valid and whose exact output is positive, fits 64 bits and is in
  the reserve, always completes: no other condition makes the program refuse it.\<close>

theorem conversion_completes:
  fixes amount before "after" mid final :: u64
  defines "out \<equiv> \<lambda>t. exact_output (unat amount) t"
  assumes "length bytes = 9" "bytes ! 0 = CONVERT_TAG" "requested bytes = amount" "amount \<noteq> 0"
    and "next_accounts accounts = Inr as"
    and "check_conversion rt program_id w as amount = Inr (before, t, sd, rd, bump)"
    and "invoke_signed rt w (burn_instruction (key (source_program as)) (key (source as))
           (key (source_mint as)) (key (holder as)) amount sd)
           [source as, source_mint as, holder as, source_program as] [] = Inr w1"
    and "balance w1 (source as) = Inr after" "unat after + unat amount = unat before"
    and "valid_terms t" "rounding t \<le> 1" "0 < out t" "out t < 2 ^ 64"
    and "balance w1 (reserve as) = Inr mid" "out t \<le> unat mid"
    and "invoke_signed rt w1 (release_instruction (key (replacement_program as)) (key (reserve as))
           (key (replacement_mint as)) (key (destination as)) (key (vault_authority as))
           (of_nat (out t)) rd)
           [reserve as, replacement_mint as, destination as, vault_authority as,
            replacement_program as]
           [[CANDIDATE_VAULT_SEED, key (config as), [bump]]] = Inr w2"
    and "balance w2 (reserve as) = Inr final" "unat final + out t = unat mid"
  shows "process_conversion rt program_id w accounts bytes = Inr w2"
proof -
  define released :: u64 where "released = of_nat (out t)"
  have released: "unat released = out t" "released \<noteq> 0"
    using assms(13,14) by (auto simp: released_def unat_of_nat_eq unat_eq_0 [symmetric] simp del: unat_eq_0)
  have convert: "convert_amount amount t = Inr (of_nat (exact_fee (unat amount) t), released)"
    using assms(11,12,14) by (simp add: convert_amount_exact_aux released_def assms(1) not_less)
  have burned: "checked_sub before after = Some amount"
    using assms(10) by (auto simp: checked_sub_def word_le_nat_alt word_unat_eq_iff unat_sub_le)
  have left: "checked_sub mid final = Some released" "\<not> mid < released"
    using assms(16,19) released
    by (auto simp: checked_sub_def word_le_nat_alt word_less_nat_alt word_unat_eq_iff unat_sub_le)
  have "burn_and_release rt w as amount (before, t, sd, rd, bump) = Inr w2"
    using assms(8,9,15,17,18) burned left convert released(2)
    by (simp add: burn_and_release_def released_def)
  with assms(2-7) show ?thesis by (simp add: process_conversion_def)
qed

theorem conversion_completes_witness:
  "process_conversion ex_conversion_runtime (ex_key 11) ex_token_world ex_accounts ex_request =
     Inr ex_released \<and> token_amount (data (ex_released (ex_key 7))) = Inr 418"
proof (intro conjI)
  have b: "balance ex_burned (source ex_slots) = Inr 4000" "balance ex_burned (reserve ex_slots) = Inr 1000"
    "balance ex_released (reserve ex_slots) = Inr 582"
    by (simp_all add: ex_slots_simps ex_balances)
  show "process_conversion ex_conversion_runtime (ex_key 11) ex_token_world ex_accounts ex_request =
     Inr ex_released"
    by (rule conversion_completes [where amount = 1000 and as = ex_slots and before = 5000 and
          t = ex_terms and sd = 6 and rd = 6 and bump = 255 and ?w1.0 = ex_burned and
          after = 4000 and mid = 1000 and final = 582])
      (simp_all add: ex_valid b ex_request_reads ex_slots_simps(1) ex_check ex_slots_simps ex_balances ex_calls [unfolded ex_slots_simps])
qed (rule ex_balances)

lemma ex_conversion_runs:
  "process_conversion ex_conversion_runtime (ex_key 11) ex_token_world ex_accounts ex_request =
     Inr ex_released"
proof -
  have convert: "convert_amount 1000 ex_terms = Inr (25, 418)"
    by (simp add: convert_amount_exact_aux exact_output_def exact_fee_def valid_terms_def ex_terms_def)
  have "burn_and_release ex_conversion_runtime ex_token_world ex_slots 1000
      (5000, ex_terms, 6, 6, 255) = Inr ex_released"
    by (simp add: burn_and_release_def convert ex_slots_simps ex_balances checked_sub_def
        ex_calls [unfolded ex_slots_simps])
  then show ?thesis
    by (simp add: process_conversion_def ex_slots_simps(1) ex_check ex_request_reads Let_def)
qed

theorem conversion_safe_witness:
  "is_signer (holder ex_slots) \<and>
   (\<exists>final::u64. balance ex_released (reserve ex_slots) = Inr final \<and> unat final + 418 = 1000)"
proof -
  from conversion_safe [OF ex_conversion_runs]
  show ?thesis
    by (auto simp: ex_slots_simps ex_balances authorised_def)
qed

end
