(* ===== verification/RustStrings.thy ===== *)
theory RustStrings
  imports Prelude "HOL-Library.Sublist"
begin

text \<open>
  Rust strings as the byte sequence of their UTF-8 encoding, one \<open>char\<close> per byte, so that
  \<open>str::len\<close> is \<open>length\<close>; trimming of Unicode white space on those bytes; and decimal digits:
  \<open>Display\<close> of an unsigned integer, zero padding and \<open>parse\<close> of a digit string.
\<close>

section \<open>Trimming\<close>

text \<open>The UTF-8 encodings of the Unicode \<open>White_Space\<close> characters, which \<open>str::trim\<close> removes.\<close>

definition whitespace :: "string list" where
  "whitespace = map (map char_of)
     ([[9::nat], [10], [11], [12], [13], [32], [194, 133], [194, 160], [225, 154, 128]] @
      map (\<lambda>b. [226, 128, b]) [128, 129, 130, 131, 132, 133, 134, 135, 136, 137, 138, 168, 169, 175] @
      [[226, 129, 159], [227, 128, 128]])"

definition strip_any :: "string list \<Rightarrow> string \<Rightarrow> string option" where
  "strip_any ws s = map_option (\<lambda>p. drop (length p) s) (find (\<lambda>p. p \<noteq> [] \<and> prefix p s) ws)"

lemma strip_any_shorter: "strip_any ws s = Some s' \<Longrightarrow> length s' < length s"
  by (auto simp: strip_any_def find_Some_iff prefix_def)

function trim_with :: "string list \<Rightarrow> string \<Rightarrow> string" where
  "trim_with ws s = (case strip_any ws s of None \<Rightarrow> s | Some s' \<Rightarrow> trim_with ws s')"
  by auto
termination by (relation "measure (\<lambda>(ws, s). length s)") (auto dest: strip_any_shorter)

declare trim_with.simps [simp del]

definition trim :: "string \<Rightarrow> string" where
  "trim s = rev (trim_with (map rev whitespace) (rev (trim_with whitespace s)))"

lemma strip_any_None:
  assumes "s \<noteq> []" "\<forall>p\<in>set ws. p \<noteq> [] \<longrightarrow> hd p \<noteq> hd s"
  shows "strip_any ws s = None"
proof -
  have "\<not> (p \<noteq> [] \<and> prefix p s)" if "p \<in> set ws" for p
    using assms that by (cases p; cases s) auto
  then show ?thesis by (auto simp: strip_any_def find_None_iff)
qed

lemma trim_with_id: "strip_any ws s = None \<Longrightarrow> trim_with ws s = s"
  by (simp add: trim_with.simps)

definition printable :: "char \<Rightarrow> bool" where
  "printable c \<longleftrightarrow> 32 < (of_char c :: nat) \<and> (of_char c :: nat) < 127"

lemma whitespace_bytes:
  "p \<in> set whitespace \<Longrightarrow> p \<noteq> [] \<and> \<not> printable (hd p) \<and> \<not> printable (last p)"
  by (simp add: whitespace_def, elim disjE) (simp_all add: printable_def)

lemma trim_id:
  assumes "s \<noteq> []" "printable (hd s)" "printable (last s)"
  shows "trim s = s"
proof -
  have "strip_any whitespace s = None"
    by (rule strip_any_None [OF assms(1)]) (use whitespace_bytes assms(2) in metis)
  moreover have "strip_any (map rev whitespace) (rev s) = None"
    by (rule strip_any_None) (use assms whitespace_bytes in \<open>simp_all add: hd_rev, metis\<close>)
  ultimately show ?thesis by (simp add: trim_def trim_with_id)
qed

section \<open>Decimal digits\<close>

definition digit :: "nat \<Rightarrow> char" where "digit n = char_of (48 + n)"

definition digit_value :: "char \<Rightarrow> nat" where "digit_value c = of_char c - 48"

definition is_ascii_digit :: "char \<Rightarrow> bool" where
  "is_ascii_digit c \<longleftrightarrow> 48 \<le> (of_char c :: nat) \<and> (of_char c :: nat) \<le> 57"

fun show_nat :: "nat \<Rightarrow> string" where
  "show_nat n = (if n < 10 then [digit n] else show_nat (n div 10) @ [digit (n mod 10)])"

declare show_nat.simps [simp del]

text \<open>The zero-padded formats \<open>{:02}\<close> and \<open>{:06}\<close>.\<close>

definition zero_pad :: "nat \<Rightarrow> string \<Rightarrow> string" where
  "zero_pad width s = replicate (width - length s) (digit 0) @ s"

definition digits_value :: "string \<Rightarrow> nat" where
  "digits_value s = foldl (\<lambda>acc c. acc * 10 + digit_value c) 0 s"

text \<open>\<open>str::parse\<close> of a non-empty string of ASCII digits into an unsigned integer: only a value
  out of range fails.\<close>

definition parse_unsigned :: "string \<Rightarrow> 'a::len word option" where
  "parse_unsigned s = (if digits_value s < 2 ^ LENGTH('a) then Some (of_nat (digits_value s)) else None)"

text \<open>\<open>str::strip_prefix\<close> of one character and \<open>str::split_once\<close>.\<close>

fun strip_char :: "char \<Rightarrow> string \<Rightarrow> string option" where
  "strip_char c [] = None"
| "strip_char c (d # s) = (if d = c then Some s else None)"

definition split_once :: "char \<Rightarrow> string \<Rightarrow> (string \<times> string) option" where
  "split_once c s =
     (if c \<in> set s then Some (takeWhile (\<lambda>d. d \<noteq> c) s, tl (dropWhile (\<lambda>d. d \<noteq> c) s)) else None)"

lemma digit_simps [simp]:
  assumes "n < 10"
  shows "digit_value (digit n) = n" "is_ascii_digit (digit n)"
  using assms by (simp_all add: digit_value_def digit_def is_ascii_digit_def)

lemma digit_eq_iff: "m < 10 \<Longrightarrow> n < 10 \<Longrightarrow> digit m = digit n \<longleftrightarrow> m = n"
  by (metis digit_simps(1))

lemma ascii_digit_printable: "is_ascii_digit c \<Longrightarrow> printable c"
  by (simp add: is_ascii_digit_def printable_def)

lemma digits_value_Nil [simp]: "digits_value [] = 0"
  by (simp add: digits_value_def)

lemma digits_value_snoc [simp]: "digits_value (s @ [c]) = digits_value s * 10 + digit_value c"
  by (simp add: digits_value_def)

lemma digits_value_append:
  "digits_value (s @ t) = digits_value s * 10 ^ length t + digits_value t"
proof (induction t rule: rev_induct)
  case Nil
  then show ?case by simp
next
  case (snoc c t)
  have "digits_value (s @ t @ [c]) = digits_value (s @ t) * 10 + digit_value c"
    using digits_value_snoc [of "s @ t" c] by simp
  with snoc show ?case by (simp add: algebra_simps)
qed

lemma digits_value_replicate [simp]: "digits_value (replicate n (digit 0)) = 0"
proof (induction n)
  case 0
  then show ?case by simp
next
  case (Suc n)
  then show ?case using digits_value_append [of "[digit 0]" "replicate n (digit 0)"]
      digits_value_snoc [of "[]" "digit 0"] by simp
qed

lemma digits_value_bound: "\<forall>c\<in>set s. is_ascii_digit c \<Longrightarrow> digits_value s < 10 ^ length s"
proof (induction s rule: rev_induct)
  case Nil
  then show ?case by simp
next
  case (snoc c s)
  then have "digits_value s < 10 ^ length s" "digit_value c \<le> 9"
    by (auto simp: is_ascii_digit_def digit_value_def)
  then show ?case by simp
qed

lemma show_nat_value [simp]: "digits_value (show_nat n) = n"
proof (induction n rule: show_nat.induct)
  case (1 n)
  then show ?case using digits_value_snoc [of "[]" "digit n"]
    by (simp add: show_nat.simps [of n])
qed

lemma show_nat_digits: "c \<in> set (show_nat n) \<Longrightarrow> is_ascii_digit c"
proof (induction n rule: show_nat.induct)
  case (1 n)
  then show ?case by (subst (asm) (2) show_nat.simps) (auto split: if_splits)
qed

lemma show_nat_not_Nil [simp]: "show_nat n \<noteq> []"
  by (subst show_nat.simps) simp

lemma show_nat_length: "n < 10 ^ k \<Longrightarrow> 0 < k \<Longrightarrow> length (show_nat n) \<le> k"
proof (induction k arbitrary: n)
  case 0
  then show ?case by simp
next
  case (Suc k)
  show ?case
  proof (cases "n < 10")
    case True
    then show ?thesis by (simp add: show_nat.simps [of n])
  next
    case False
    with Suc.prems have "n div 10 < 10 ^ k" "0 < k"
      by (auto simp: div_less_iff_less_mult mult.commute intro: Nat.gr0I)
    then have "length (show_nat (n div 10)) \<le> k" by (rule Suc.IH)
    with False show ?thesis by (simp add: show_nat.simps [of n])
  qed
qed

lemma zero_pad_value [simp]: "digits_value (zero_pad w s) = digits_value s"
  by (simp add: zero_pad_def digits_value_append)

lemma zero_pad_digits: "c \<in> set (zero_pad w (show_nat n)) \<Longrightarrow> is_ascii_digit c"
  by (auto simp: zero_pad_def show_nat_digits)

lemma zero_pad_length: "n < 10 ^ w \<Longrightarrow> 0 < w \<Longrightarrow> length (zero_pad w (show_nat n)) = w"
  using show_nat_length [of n w] by (simp add: zero_pad_def)

lemma zero_pad_not_Nil [simp]: "zero_pad w (show_nat n) \<noteq> []"
  by (simp add: zero_pad_def)

lemma split_once_append: "c \<notin> set s \<Longrightarrow> split_once c (s @ c # t) = Some (s, t)"
proof -
  assume "c \<notin> set s"
  then have "\<forall>d\<in>set s. d \<noteq> c" by blast
  then show ?thesis by (simp add: split_once_def takeWhile_append dropWhile_append)
qed

lemma parse_unsigned_fits:
  "digits_value s < 2 ^ LENGTH('a::len) \<Longrightarrow> parse_unsigned s = Some (of_nat (digits_value s) :: 'a word)"
  by (simp add: parse_unsigned_def)

lemma parse_show [simp]: "parse_unsigned (show_nat (unat w)) = Some (w :: 'a::len word)"
  by (simp add: parse_unsigned_def)

section \<open>Integers as text\<close>

text \<open>\<open>Display\<close> of a signed integer.\<close>

definition show_int :: "int \<Rightarrow> string" where
  "show_int i = (if i < 0 then CHR ''-'' # show_nat (nat (- i)) else show_nat (nat i))"

text \<open>\<open>str::parse\<close> of any string: an optional sign, then at least one digit, then the range.\<close>

definition parse_uint :: "string \<Rightarrow> 'a::len word option" where
  "parse_uint s =
     (let ds = (case strip_char CHR ''+'' s of Some rest \<Rightarrow> rest | None \<Rightarrow> s) in
      if ds = [] \<or> \<not> list_all is_ascii_digit ds then None else parse_unsigned ds)"

definition parse_sint :: "string \<Rightarrow> 'a::len word option" where
  "parse_sint s =
     (let (neg, ds) = (case s of
            c # rest \<Rightarrow> if c = CHR ''-'' then (True, rest)
              else if c = CHR ''+'' then (False, rest) else (False, s)
          | [] \<Rightarrow> (False, []));
          v = (if neg then - int (digits_value ds) else int (digits_value ds))
      in if ds = [] \<or> \<not> list_all is_ascii_digit ds then None
         else if - (2 ^ (LENGTH('a) - 1)) \<le> v \<and> v < 2 ^ (LENGTH('a) - 1) then Some (word_of_int v)
         else None)"

lemma show_nat_all_digits [simp]: "list_all is_ascii_digit (show_nat n)"
  using show_nat_digits by (auto simp: list_all_iff)

lemma sign_not_digit [simp]: "\<not> is_ascii_digit CHR ''+''" "\<not> is_ascii_digit CHR ''-''"
  by (simp_all add: is_ascii_digit_def)

lemma show_nat_Cons: "show_nat n = c # s \<Longrightarrow> is_ascii_digit c"
  using show_nat_digits [of c n] by simp

lemma strip_sign_show [simp]: "strip_char CHR ''+'' (show_nat n) = None"
  by (cases "show_nat n") (auto dest: show_nat_Cons)

lemma parse_uint_show [simp]: "parse_uint (show_nat (unat w)) = Some (w :: 'a::len word)"
  by (simp add: parse_uint_def)

lemma show_nat_sign: "show_nat n \<noteq> CHR ''-'' # s" "show_nat n \<noteq> CHR ''+'' # s"
  by (auto dest: show_nat_Cons)

lemma show_int_inject: "show_int a = show_int b \<Longrightarrow> a = b"
proof -
  assume eq: "show_int a = show_int b"
  have inj: "show_nat m = show_nat n \<Longrightarrow> m = n" for m n by (metis show_nat_value)
  show "a = b"
    using eq inj show_nat_sign show_nat_sign [symmetric]
    by (auto simp: show_int_def split: if_splits) (metis eq_nat_nat_iff neg_0_le_iff_le
      minus_minus less_imp_le not_le)+
qed

lemma parse_sint_show [simp]: "parse_sint (show_int (sint w)) = Some (w :: 'a::len word)"
proof -
  have range: "- (2 ^ (LENGTH('a) - 1)) \<le> sint w" "sint w < 2 ^ (LENGTH('a) - 1)"
    using sint_ge [of w] sint_lt [of w] by simp_all
  show ?thesis
  proof (cases "sint w < 0")
    case True
    then show ?thesis using range by (simp add: show_int_def parse_sint_def)
  next
    case False
    obtain c s where cs: "show_nat (nat (sint w)) = c # s"
      by (cases "show_nat (nat (sint w))") simp_all
    then have "c \<noteq> CHR ''-''" "c \<noteq> CHR ''+''" using show_nat_Cons [OF cs] by auto
    moreover have "list_all is_ascii_digit (c # s)" "digits_value (c # s) = nat (sint w)"
      using show_nat_all_digits [of "nat (sint w)"] show_nat_value [of "nat (sint w)"]
      unfolding cs by simp_all
    ultimately show ?thesis using False range
      unfolding show_int_def if_not_P [OF False] cs parse_sint_def by simp
  qed
qed

end
