(* ===== verification/Money.thy ===== *)
theory Money
  imports RustStrings "HOL-Library.Multiset"
begin

text \<open>
  The fixed-point dollar amounts of \<open>engine/src/money.rs\<close>: micro-dollars in 128-bit integers,
  saturating sums, checked signed differences, cent rounding, thousands grouping, and the decimal
  strings the amounts are written to and read from JSON as. A signed amount is the two's complement
  \<open>128 word\<close> read by \<open>sint\<close>.
\<close>

abbreviation USD_SCALE :: u128 where "USD_SCALE \<equiv> 1000000"
abbreviation USD_DECIMALS :: nat where "USD_DECIMALS \<equiv> 6"

text \<open>\<open>i128::MIN\<close> as a bit pattern, which is also \<open>i128::MIN.unsigned_abs()\<close>.\<close>

abbreviation I128_MIN :: u128 where "I128_MIN \<equiv> 170141183460469231731687303715884105728"

datatype Usd = Usd (usd_micro: u128)
datatype SignedUsd = SignedUsd (signed_micro: u128)

text \<open>The reasons a decimal is refused, with the text the message quotes.\<close>

datatype decimal_error =
    EmptyAmount | TooManyDecimals string | InvalidAmount string | ParseOverflow string
  | AmountOverflows string | NegativeAmount string

section \<open>Decimal strings\<close>

definition parse_part :: "string \<Rightarrow> string \<Rightarrow> decimal_error + u128" where
  "parse_part text part =
     (if part = [] then Inr 0
      else if \<not> list_all is_ascii_digit part then Inl (InvalidAmount text)
      else ok_or (parse_unsigned part) (ParseOverflow text))"

definition parse_decimal :: "string \<Rightarrow> decimal_error + (bool \<times> u128)" where
  "parse_decimal raw =
     (let text = trim raw;
          (negative, digits) = (case strip_char CHR ''-'' text of
             Some rest \<Rightarrow> (True, rest)
           | None \<Rightarrow> (False, case strip_char CHR ''+'' text of Some rest \<Rightarrow> rest | None \<Rightarrow> text))
      in if digits = [] \<or> \<not> list_ex is_ascii_digit digits then Inl EmptyAmount
      else
        let (whole, fraction) = (case split_once CHR ''.'' digits of
               Some parts \<Rightarrow> parts | None \<Rightarrow> (digits, []))
        in if USD_DECIMALS < length fraction then Inl (TooManyDecimals text)
        else
          and_then (parse_part text whole) (\<lambda>whole_value.
          and_then (parse_part text fraction) (\<lambda>fraction_digits.
          let padding = (10 ^ (USD_DECIMALS - length fraction) :: u128) in
          and_then (ok_or (Option.bind (checked_mul whole_value USD_SCALE)
                             (\<lambda>v. checked_add v (fraction_digits * padding)))
                      (AmountOverflows text)) (\<lambda>micro.
          Inr (negative, micro)))))"

definition render_decimal :: "u128 \<Rightarrow> string" where
  "render_decimal micro =
     show_nat (unat (micro div USD_SCALE)) @ ''.'' @
     zero_pad 6 (show_nat (unat (micro mod USD_SCALE)))"

section \<open>Arithmetic\<close>

definition usd_saturating_add :: "Usd \<Rightarrow> Usd \<Rightarrow> Usd" where
  "usd_saturating_add a b = Usd (saturating_add (usd_micro a) (usd_micro b))"

definition usd_checked_sub :: "Usd \<Rightarrow> Usd \<Rightarrow> Usd option" where
  "usd_checked_sub a b = map_option Usd (checked_sub (usd_micro a) (usd_micro b))"

text \<open>\<open>i128::try_from\<close> of an unsigned magnitude.\<close>

definition to_i128 :: "u128 \<Rightarrow> u128 option" where
  "to_i128 w = (if w < I128_MIN then Some w else None)"

definition checked_signed_sub :: "Usd \<Rightarrow> Usd \<Rightarrow> SignedUsd option" where
  "checked_signed_sub a b =
     (if usd_micro b \<le> usd_micro a then map_option SignedUsd (to_i128 (usd_micro a - usd_micro b))
      else
        let magnitude = usd_micro b - usd_micro a in
        if magnitude = I128_MIN then Some (SignedUsd I128_MIN)
        else map_option (\<lambda>v. SignedUsd (- v)) (to_i128 magnitude))"

definition from_whole :: "u64 \<Rightarrow> Usd" where
  "from_whole dollars = Usd (ucast dollars * USD_SCALE)"

definition usd_sum :: "Usd list \<Rightarrow> Usd" where
  "usd_sum xs = foldl usd_saturating_add (Usd 0) xs"

definition is_negative :: "u128 \<Rightarrow> bool" where
  "is_negative w \<longleftrightarrow> sint w < 0"

text \<open>\<open>i128::saturating_add\<close> and \<open>i128::unsigned_abs\<close>.\<close>

definition signed_saturating_add :: "SignedUsd \<Rightarrow> SignedUsd \<Rightarrow> SignedUsd" where
  "signed_saturating_add a b = SignedUsd (word_of_int
     (max (- (2 ^ 127)) (min (2 ^ 127 - 1) (sint (signed_micro a) + sint (signed_micro b)))))"

definition signed_sum :: "SignedUsd list \<Rightarrow> SignedUsd" where
  "signed_sum xs = foldl signed_saturating_add (SignedUsd 0) xs"

definition unsigned_abs :: "u128 \<Rightarrow> u128" where
  "unsigned_abs w = (if is_negative w then - w else w)"

section \<open>Rendering\<close>

definition to_cents :: "u128 \<Rightarrow> u128" where
  "to_cents micro = micro div 10000 + (if 5000 \<le> micro mod 10000 then 1 else 0)"

text \<open>The loop of \<open>group_thousands\<close>: \<open>index\<close> characters are out and \<open>s\<close> are to come.\<close>

fun group_from :: "nat \<Rightarrow> string \<Rightarrow> string" where
  "group_from index [] = []"
| "group_from index (c # s) =
     (if 0 < index \<and> length (c # s) mod 3 = 0 then CHR '','' # c # group_from (Suc index) s
      else c # group_from (Suc index) s)"

definition group_thousands :: "u128 \<Rightarrow> string" where
  "group_thousands v = group_from 0 (show_nat (unat v))"

definition usd_to_plain_string :: "Usd \<Rightarrow> string" where
  "usd_to_plain_string a = render_decimal (usd_micro a)"

definition usd_format_dollars :: "Usd \<Rightarrow> string" where
  "usd_format_dollars a =
     (let cents = to_cents (usd_micro a) in
      ''$'' @ group_thousands (cents div 100) @ ''.'' @ zero_pad 2 (show_nat (unat (cents mod 100))))"

definition signed_to_plain_string :: "SignedUsd \<Rightarrow> string" where
  "signed_to_plain_string a =
     (if is_negative (signed_micro a) then ''-'' else []) @
     render_decimal (unsigned_abs (signed_micro a))"

definition signed_format_dollars :: "SignedUsd \<Rightarrow> string" where
  "signed_format_dollars a =
     (if is_negative (signed_micro a) then ''-'' else []) @
     usd_format_dollars (Usd (unsigned_abs (signed_micro a)))"

definition usd_parse :: "string \<Rightarrow> decimal_error + Usd" where
  "usd_parse text =
     and_then (parse_decimal text) (\<lambda>(negative, micro).
     if negative \<and> micro \<noteq> 0 then Inl (NegativeAmount text) else Inr (Usd micro))"

definition signed_parse :: "string \<Rightarrow> decimal_error + SignedUsd" where
  "signed_parse text =
     and_then (parse_decimal text) (\<lambda>(negative, micro).
     if negative \<and> micro = I128_MIN then Inr (SignedUsd I128_MIN)
     else
       and_then (ok_or (to_i128 micro) (AmountOverflows text)) (\<lambda>magnitude.
       Inr (SignedUsd (if negative then - magnitude else magnitude))))"

section \<open>Decimal strings are exact\<close>

lemma unat_div_mod_scale:
  "unat (m div USD_SCALE) = unat m div 1000000" "unat (m mod USD_SCALE) = unat m mod 1000000"
  by (simp_all add: unat_div unat_mod)

lemma parse_part_digits:
  assumes "\<forall>c\<in>set part. is_ascii_digit c" "digits_value part < 2 ^ 128"
  shows "parse_part text part = Inr (of_nat (digits_value part))"
  using assms parse_unsigned_fits [of part, where 'a = 128]
  by (auto simp: parse_part_def list_all_iff)

lemma parse_part_Inr:
  assumes "parse_part text part = Inr v"
  shows "list_all is_ascii_digit part" "unat v = digits_value part"
  using assms by (auto simp: parse_part_def parse_unsigned_def result_simps unat_of_nat_eq split: if_splits)

text \<open>The scaled fraction never overflows: a fraction of \<open>k \<le> 6\<close> digits is below \<open>10 ^ k\<close>.\<close>

lemma fraction_scaled:
  assumes "\<forall>c\<in>set f. is_ascii_digit c" "length f \<le> 6" "unat (v::u128) = digits_value f"
  shows "unat (v * 10 ^ (6 - length f)) = digits_value f * 10 ^ (6 - length f)"
    and "digits_value f * 10 ^ (6 - length f) < 1000000"
proof -
  have "digits_value f * 10 ^ (6 - length f) < 10 ^ length f * 10 ^ (6 - length f)"
    using digits_value_bound [OF assms(1)] by simp
  also have "\<dots> = 10 ^ 6" using assms(2) by (simp flip: power_add)
  finally show small: "digits_value f * 10 ^ (6 - length f) < 1000000" by simp
  have "(10::nat) ^ (6 - length f) \<le> 10 ^ 6" by (rule power_increasing) simp_all
  then have "unat ((10::u128) ^ (6 - length f)) = 10 ^ (6 - length f)"
    using unat_of_nat_eq [of "10 ^ (6 - length f)", where 'a = 128] by simp
  then show "unat (v * 10 ^ (6 - length f)) = digits_value f * 10 ^ (6 - length f)"
    using small assms(3) by (simp add: unat_mult_small)
qed

lemma scale_add:
  fixes w f m :: u128
  shows "Option.bind (checked_mul w USD_SCALE) (\<lambda>v. checked_add v f) = Some m \<longleftrightarrow>
    unat m = unat w * 1000000 + unat f"
proof
  assume "Option.bind (checked_mul w USD_SCALE) (\<lambda>v. checked_add v f) = Some m"
  then show "unat m = unat w * 1000000 + unat f"
    unfolding bind_eq_Some_conv checked_mul_Some checked_add_Some
    by (elim exE conjE) (simp add: unat_mult_small unat_add_small)
next
  assume m: "unat m = unat w * 1000000 + unat f"
  have "unat m < 2 ^ 128" by simp
  then have "unat w * unat USD_SCALE < 2 ^ 128" "unat (w * USD_SCALE) + unat f = unat m"
    unfolding m by (simp_all add: unat_mult_small)
  moreover from this have "w * USD_SCALE + f = m"
    by (intro word_eq_unatI) (simp add: unat_add_small)
  ultimately show "Option.bind (checked_mul w USD_SCALE) (\<lambda>v. checked_add v f) = Some m"
    by (simp add: checked_mul_def checked_add_def)
qed

text \<open>What the unsigned part of an accepted decimal must look like, and its value in
  micro-dollars.\<close>

definition decimal_digits :: "string \<Rightarrow> string \<times> string" where
  "decimal_digits digits =
     (case split_once CHR ''.'' digits of Some parts \<Rightarrow> parts | None \<Rightarrow> (digits, []))"

definition micro_value :: "string \<Rightarrow> string \<Rightarrow> nat" where
  "micro_value whole fraction =
     digits_value whole * 1000000 + digits_value fraction * 10 ^ (6 - length fraction)"

definition sign_and_digits :: "string \<Rightarrow> bool \<times> string" where
  "sign_and_digits text = (case strip_char CHR ''-'' text of
      Some rest \<Rightarrow> (True, rest)
    | None \<Rightarrow> (False, case strip_char CHR ''+'' text of Some rest \<Rightarrow> rest | None \<Rightarrow> text))"

definition well_formed_decimal :: "string \<Rightarrow> bool" where
  "well_formed_decimal text =
     (let (negative, digits) = sign_and_digits text; (whole, fraction) = decimal_digits digits in
      list_ex is_ascii_digit digits \<and> list_all is_ascii_digit whole \<and>
      list_all is_ascii_digit fraction \<and> length fraction \<le> 6)"

definition decimal_value :: "string \<Rightarrow> bool \<times> nat" where
  "decimal_value text =
     (let (negative, digits) = sign_and_digits text; (whole, fraction) = decimal_digits digits in
      (negative, micro_value whole fraction))"

lemma parse_decimal_unfold:
  assumes "sign_and_digits (trim raw) = (negative, digits)"
    and "decimal_digits digits = (whole, fraction)"
  shows "parse_decimal raw =
    (if digits = [] \<or> \<not> list_ex is_ascii_digit digits then Inl EmptyAmount
     else if 6 < length fraction then Inl (TooManyDecimals (trim raw))
     else and_then (parse_part (trim raw) whole) (\<lambda>w.
          and_then (parse_part (trim raw) fraction) (\<lambda>f.
          and_then (ok_or (Option.bind (checked_mul w USD_SCALE)
                             (\<lambda>v. checked_add v (f * 10 ^ (6 - length fraction))))
                      (AmountOverflows (trim raw))) (\<lambda>micro. Inr (negative, micro)))))"
  using assms by (simp add: parse_decimal_def sign_and_digits_def decimal_digits_def Let_def
      split: option.splits)

lemma parse_decimal_exact_aux:
  "parse_decimal raw = Inr (negative, micro) \<longleftrightarrow>
     well_formed_decimal (trim raw) \<and> decimal_value (trim raw) = (negative, unat micro)"
proof -
  obtain neg digits where s: "sign_and_digits (trim raw) = (neg, digits)" by (cases "sign_and_digits (trim raw)")
  obtain whole fraction where d: "decimal_digits digits = (whole, fraction)" by (cases "decimal_digits digits")
  note u = parse_decimal_unfold [OF s d]
  show ?thesis
  proof
    assume p: "parse_decimal raw = Inr (negative, micro)"
    then obtain w f where c: "list_ex is_ascii_digit digits" "length fraction \<le> 6"
      "parse_part (trim raw) whole = Inr w" "parse_part (trim raw) fraction = Inr f"
      "Option.bind (checked_mul w USD_SCALE)
         (\<lambda>v. checked_add v (f * 10 ^ (6 - length fraction))) = Some micro" "neg = negative"
      unfolding u by (auto simp: result_simps not_less simp del: bind_eq_Some_conv split: if_splits)
    note w = parse_part_Inr [OF c(3)] and f = parse_part_Inr [OF c(4)]
    have fd: "\<forall>c\<in>set fraction. is_ascii_digit c" using f(1) by (simp add: list_all_iff)
    have "unat micro = micro_value whole fraction"
      using c(5) unfolding scale_add fraction_scaled(1) [OF fd c(2) f(2)] w(2)
      by (simp add: micro_value_def)
    with c w f show "well_formed_decimal (trim raw) \<and> decimal_value (trim raw) = (negative, unat micro)"
      by (simp add: well_formed_decimal_def decimal_value_def s d)
  next
    assume q: "well_formed_decimal (trim raw) \<and> decimal_value (trim raw) = (negative, unat micro)"
    then have c: "list_ex is_ascii_digit digits" "list_all is_ascii_digit whole"
      "list_all is_ascii_digit fraction" "length fraction \<le> 6" "neg = negative"
      "micro_value whole fraction = unat micro"
      by (auto simp: well_formed_decimal_def decimal_value_def s d)
    have fd: "\<forall>c\<in>set fraction. is_ascii_digit c" and wd: "\<forall>c\<in>set whole. is_ascii_digit c"
      using c by (simp_all add: list_all_iff)
    have small: "micro_value whole fraction < 2 ^ 128" unfolding c(6) by simp
    have fits: "digits_value whole < 2 ^ 128" "digits_value fraction < 2 ^ 128"
    proof -
      show "digits_value whole < 2 ^ 128" using small by (simp add: micro_value_def)
      have "digits_value fraction < 10 ^ 6"
        by (rule less_le_trans [OF digits_value_bound [OF fd]]) (rule power_increasing [OF c(4)], simp)
      then show "digits_value fraction < 2 ^ 128" by simp
    qed
    note pw = parse_part_digits [OF wd fits(1)] and pf = parse_part_digits [OF fd fits(2)]
    have scaled: "unat (of_nat (digits_value fraction) * 10 ^ (6 - length fraction) :: u128)
        = digits_value fraction * 10 ^ (6 - length fraction)"
      by (rule fraction_scaled(1) [OF fd c(4)]) (use fits in \<open>simp add: unat_of_nat_eq\<close>)
    have "Option.bind (checked_mul (of_nat (digits_value whole)) USD_SCALE)
         (\<lambda>v. checked_add v (of_nat (digits_value fraction) * 10 ^ (6 - length fraction))) = Some micro"
      unfolding scale_add scaled using fits(1) c(6) [symmetric]
      by (simp add: unat_of_nat_eq micro_value_def)
    moreover have "digits \<noteq> []" using c(1) by auto
    ultimately show "parse_decimal raw = Inr (negative, micro)"
      unfolding u using c(1,4,5) by (simp add: pw pf del: bind_eq_Some_conv)
  qed
qed

text \<open>C20. A decimal string is accepted exactly when, after trimming, it is an optional sign and
  digits with at most six decimals whose value in micro-dollars fits 128 bits, and then the amount
  is that value exactly.\<close>

theorem parse_decimal_exact:
  "parse_decimal raw = Inr (negative, micro) \<longleftrightarrow>
     well_formed_decimal (trim raw) \<and> decimal_value (trim raw) = (negative, unat micro)"
  by (rule parse_decimal_exact_aux)

section \<open>Round trips\<close>

lemma render_parts:
  defines "whole \<equiv> \<lambda>m. show_nat (unat (m div USD_SCALE))"
    and "fraction \<equiv> \<lambda>m. zero_pad 6 (show_nat (unat (m mod USD_SCALE)))"
  shows "render_decimal m = whole m @ CHR ''.'' # fraction m"
    and "list_all is_ascii_digit (whole m)" "list_all is_ascii_digit (fraction m)"
    and "length (fraction m) = 6" "micro_value (whole m) (fraction m) = unat m"
    and "whole m \<noteq> []" "fraction m \<noteq> []"
proof -
  show "render_decimal m = whole m @ CHR ''.'' # fraction m"
    by (simp add: render_decimal_def whole_def fraction_def)
  show "list_all is_ascii_digit (whole m)" "list_all is_ascii_digit (fraction m)"
    by (auto simp: whole_def fraction_def list_all_iff show_nat_digits zero_pad_digits)
  show len: "length (fraction m) = 6"
    unfolding fraction_def by (rule zero_pad_length) (simp_all add: unat_div_mod_scale)
  show "micro_value (whole m) (fraction m) = unat m"
    unfolding micro_value_def len by (simp add: whole_def fraction_def unat_div_mod_scale)
  show "whole m \<noteq> []" "fraction m \<noteq> []" by (simp_all add: whole_def fraction_def)
qed

lemma digit_not_special:
  "is_ascii_digit c \<Longrightarrow> c \<noteq> CHR ''.'' \<and> c \<noteq> CHR ''-'' \<and> c \<noteq> CHR ''+''"
  by (auto simp: is_ascii_digit_def)

lemma split_digits:
  assumes "list_all is_ascii_digit w"
  shows "decimal_digits (w @ CHR ''.'' # f) = (w, f)"
proof -
  have "CHR ''.'' \<notin> set w" using assms digit_not_special by (auto simp: list_all_iff)
  then show ?thesis by (simp add: decimal_digits_def split_once_append)
qed

lemma parse_rendered:
  fixes m :: u128
  shows "parse_decimal ((if neg then ''-'' else []) @ render_decimal m) = Inr (neg, m)"
proof -
  note r = render_parts [of m]
  let ?text = "(if neg then ''-'' else []) @ render_decimal m"
  let ?w = "show_nat (unat (m div USD_SCALE))"
  let ?f = "zero_pad 6 (show_nat (unat (m mod USD_SCALE)))"
  have hd: "is_ascii_digit (hd ?w)" and last: "is_ascii_digit (last ?f)"
    using r by (simp_all add: list_all_iff)
  have "hd ?text = CHR ''-'' \<or> hd ?text = hd ?w" unfolding r(1) using r(6) by (simp add: hd_append)
  then have "printable (hd ?text)" using ascii_digit_printable [OF hd] by (auto simp: printable_def)
  moreover have "last ?text = last ?f" unfolding r(1) using r(7) by (simp add: last_append)
  then have "printable (last ?text)" using ascii_digit_printable [OF last] by simp
  ultimately have trim: "trim ?text = ?text" by (intro trim_id) (simp_all add: r(1))
  obtain c s where w: "?w = c # s" using r(6) by (cases ?w) auto
  then have c: "is_ascii_digit c" using r(2) by simp
  have sign: "sign_and_digits ?text = (neg, ?w @ CHR ''.'' # ?f)"
    unfolding r(1) w using digit_not_special [OF c] by (simp add: sign_and_digits_def)
  have has_digit: "list_ex is_ascii_digit (?w @ CHR ''.'' # ?f)" using c w by simp
  have "well_formed_decimal ?text"
    using r(2,3,4) has_digit by (simp add: well_formed_decimal_def sign split_digits)
  moreover have "decimal_value ?text = (neg, unat m)"
    using r(2,5) by (simp add: decimal_value_def sign split_digits)
  ultimately show ?thesis by (simp add: parse_decimal_exact_aux trim)
qed

section \<open>The sign of a 128-bit pattern\<close>

lemma sint_in_range:
  assumes "- (2 ^ 127) \<le> k" "k < 2 ^ 127"
  shows "sint (word_of_int k :: u128) = k"
  using assms by (simp add: sint_sbintrunc' signed_take_bit_int_eq_self)

lemma sint_128: "sint (w::u128) = (if w < I128_MIN then int (unat w) else int (unat w) - 2 ^ 128)"
proof (cases "w < I128_MIN")
  case True
  then have "unat w < 2 ^ 127" by (simp add: word_less_nat_alt)
  then have "int (unat w) < int (2 ^ 127)" by (simp only: of_nat_less_iff)
  then have "sint (word_of_int (int (unat w)) :: u128) = int (unat w)"
    by (intro sint_in_range order.trans [OF _ of_nat_0_le_iff]) simp_all
  with True show ?thesis by simp
next
  case False
  then have "2 ^ 127 \<le> unat w" by (simp add: word_less_nat_alt)
  then have "int (2 ^ 127) \<le> int (unat w)" by (simp only: of_nat_le_iff)
  moreover have "int (unat w) < int (2 ^ 128)" using unat_less_pow [of w] by (simp only: of_nat_less_iff) simp
  ultimately have "sint (word_of_int (int (unat w) - 2 ^ 128) :: u128) = int (unat w) - 2 ^ 128"
    by (intro sint_in_range) simp_all
  moreover have "(word_of_int (int (unat w) - 2 ^ 128) :: u128) = w" by simp
  ultimately have "sint w = int (unat w) - 2 ^ 128" by (simp only:)
  with False show ?thesis by simp
qed

lemma is_negative_iff: "is_negative w \<longleftrightarrow> I128_MIN \<le> w"
proof -
  have "int (unat w) < int (2 ^ 128)" using unat_less_pow [of w] by (simp only: of_nat_less_iff) simp
  then show ?thesis by (auto simp: is_negative_def sint_128 not_less)
qed

lemma unat_neg: "w \<noteq> 0 \<Longrightarrow> unat (- w :: u128) = 2 ^ 128 - unat w"
proof -
  assume "w \<noteq> 0"
  then have "2 ^ 128 - unat w < 2 ^ 128" by (simp add: unat_gt_0)
  moreover have "- w = of_nat (2 ^ 128 - unat w)"
  proof (subst of_nat_diff)
    have "unat w < 2 ^ 128" by simp
    then show "unat w \<le> 2 ^ 128" by (rule less_imp_le)
  qed simp
  ultimately show ?thesis by (simp add: unat_of_nat_eq)
qed

lemma to_i128_neg:
  assumes "I128_MIN \<le> w" "w \<noteq> I128_MIN"
  shows "to_i128 (- w) = Some (- w)"
proof -
  have "unat w \<noteq> unat I128_MIN" using assms(2) by (metis word_unat_eq_iff)
  with assms(1) have "2 ^ 127 < unat w" by (simp add: word_le_nat_alt)
  moreover from assms(1) have "w \<noteq> 0" by auto
  ultimately have "unat (- w) < 2 ^ 127" by (simp add: unat_neg)
  then show ?thesis by (simp add: to_i128_def word_less_nat_alt)
qed

lemma unat_I128_MIN: "unat I128_MIN = 2 ^ 127" by simp

lemma I128_MIN_neg: "- I128_MIN = I128_MIN"
  by (rule word_eq_unatI) (simp add: unat_neg)

text \<open>C19. Every unsigned amount and every signed amount, the extremes included, is read back
  exactly from the decimal string it is written as.\<close>

theorem amounts_round_trip:
  "usd_parse (usd_to_plain_string a) = Inr a \<and> signed_parse (signed_to_plain_string s) = Inr s"
proof
  have "parse_decimal (usd_to_plain_string a) = Inr (False, usd_micro a)"
    using parse_rendered [of False "usd_micro a"] by (simp add: usd_to_plain_string_def)
  then show "usd_parse (usd_to_plain_string a) = Inr a" by (simp add: usd_parse_def)
  define w where "w = signed_micro s"
  have p: "parse_decimal (signed_to_plain_string s) = Inr (is_negative w, unsigned_abs w)"
    unfolding signed_to_plain_string_def w_def by (rule parse_rendered)
  show "signed_parse (signed_to_plain_string s) = Inr s"
  proof (cases "is_negative w")
    case True
    then have "I128_MIN \<le> w" by (simp add: is_negative_iff)
    then show ?thesis
    proof (cases "w = I128_MIN")
      case True
      then show ?thesis using p \<open>is_negative w\<close> w_def
        by (cases s) (simp add: signed_parse_def unsigned_abs_def)
    next
      case False
      then have "- w \<noteq> I128_MIN" by (metis minus_minus I128_MIN_neg)
      with False \<open>I128_MIN \<le> w\<close> \<open>is_negative w\<close> p w_def show ?thesis
        by (cases s) (simp add: signed_parse_def unsigned_abs_def to_i128_neg)
    qed
  next
    case False
    then have "w < I128_MIN" by (simp add: is_negative_iff not_le)
    with False p show ?thesis using w_def
      by (cases s) (auto simp: signed_parse_def to_i128_def unsigned_abs_def)
  qed
qed

section \<open>Arithmetic is exact or says so\<close>

lemma to_i128_Some: "to_i128 w = Some v \<longleftrightarrow> unat w < 2 ^ 127 \<and> v = w"
  by (auto simp: to_i128_def word_less_nat_alt)

lemma sint_small: "unat w < 2 ^ 127 \<Longrightarrow> sint (w::u128) = int (unat w)"
  by (simp add: sint_128 word_less_nat_alt)

lemma sint_neg_small:
  assumes "unat w < 2 ^ 127"
  shows "sint (- w :: u128) = - int (unat w)"
proof (cases "w = 0")
  case False
  then have n: "unat (- w) = 2 ^ 128 - unat w" by (rule unat_neg)
  have "\<not> - w < I128_MIN" unfolding word_less_nat_alt n using assms by simp
  then have "sint (- w) = int (2 ^ 128 - unat w) - 2 ^ 128" unfolding sint_128 n by simp
  also have "\<dots> = - int (unat w)" using assms by (subst of_nat_diff) simp_all
  finally show ?thesis .
qed simp

lemma signed_difference_exact_aux:
  "case checked_signed_sub a b of
     Some d \<Rightarrow> sint (signed_micro d) = int (unat (usd_micro a)) - int (unat (usd_micro b))
   | None \<Rightarrow> int (unat (usd_micro a)) - int (unat (usd_micro b)) < - (2 ^ 127) \<or>
       2 ^ 127 \<le> int (unat (usd_micro a)) - int (unat (usd_micro b))"
proof (cases "usd_micro b \<le> usd_micro a")
  case True
  then have d: "unat (usd_micro a - usd_micro b) = unat (usd_micro a) - unat (usd_micro b)"
    and le: "unat (usd_micro b) \<le> unat (usd_micro a)" by (simp_all add: unat_sub_le word_le_nat_alt)
  show ?thesis
  proof (cases "unat (usd_micro a - usd_micro b) < 2 ^ 127")
    case small: True
    then have "to_i128 (usd_micro a - usd_micro b) = Some (usd_micro a - usd_micro b)"
      by (simp add: to_i128_Some)
    then show ?thesis using True sint_small [OF small] le d
      by (simp add: checked_signed_sub_def of_nat_diff)
  next
    case False
    then have "to_i128 (usd_micro a - usd_micro b) = None"
      by (simp add: to_i128_def word_less_nat_alt)
    moreover have "int (2 ^ 127) \<le> int (unat (usd_micro a) - unat (usd_micro b))"
      using False d by (simp only: of_nat_le_iff not_less)
    ultimately show ?thesis using True le by (simp add: checked_signed_sub_def of_nat_diff)
  qed
next
  case False
  then have "usd_micro a \<le> usd_micro b" by simp
  then have d: "unat (usd_micro b - usd_micro a) = unat (usd_micro b) - unat (usd_micro a)"
    and le: "unat (usd_micro a) \<le> unat (usd_micro b)" by (simp_all add: unat_sub_le word_le_nat_alt)
  then have i: "int (unat (usd_micro a)) - int (unat (usd_micro b)) = - int (unat (usd_micro b - usd_micro a))"
    by (simp add: of_nat_diff)
  consider "unat (usd_micro b - usd_micro a) < 2 ^ 127" | "usd_micro b - usd_micro a = I128_MIN"
    | "2 ^ 127 < unat (usd_micro b - usd_micro a)"
    by (metis linorder_neqE_nat word_eq_unatI unat_I128_MIN)
  then show ?thesis
  proof cases
    case 1
    then have "to_i128 (usd_micro b - usd_micro a) = Some (usd_micro b - usd_micro a)"
      by (simp add: to_i128_Some)
    moreover have "usd_micro b - usd_micro a \<noteq> I128_MIN" using 1 by auto
    ultimately show ?thesis using False sint_neg_small [OF 1] i
      by (simp add: checked_signed_sub_def Let_def)
  next
    case 2
    then show ?thesis using False unfolding i by (simp add: checked_signed_sub_def sint_128)
  next
    case 3
    then have "to_i128 (usd_micro b - usd_micro a) = None" "usd_micro b - usd_micro a \<noteq> I128_MIN"
      by (auto simp: to_i128_def word_less_nat_alt)
    moreover have "int (2 ^ 127) < int (unat (usd_micro b - usd_micro a))"
      using 3 by (simp only: of_nat_less_iff)
    ultimately show ?thesis using False unfolding i by (simp add: checked_signed_sub_def Let_def)
  qed
qed

text \<open>The signed difference of two unsigned amounts is exact, for amounts beyond the signed
  range too, and it is refused exactly when the difference does not fit 128 signed bits.\<close>

theorem signed_difference_exact:
  "case checked_signed_sub a b of
     Some d \<Rightarrow> sint (signed_micro d) = int (unat (usd_micro a)) - int (unat (usd_micro b))
   | None \<Rightarrow> int (unat (usd_micro a)) - int (unat (usd_micro b)) < - (2 ^ 127) \<or>
       2 ^ 127 \<le> int (unat (usd_micro a)) - int (unat (usd_micro b))"
  by (rule signed_difference_exact_aux)

lemma usd_sum_foldl:
  "unat (usd_micro (foldl usd_saturating_add acc xs)) =
     min (2 ^ 128 - 1) (unat (usd_micro acc) + sum_list (map (unat \<circ> usd_micro) xs))"
proof (induction xs arbitrary: acc)
  case Nil
  then show ?case by simp
next
  case (Cons x xs)
  have "unat (usd_micro (usd_saturating_add acc x)) =
    min (2 ^ 128 - 1) (unat (usd_micro acc) + unat (usd_micro x))"
    by (simp add: usd_saturating_add_def unat_saturating_add)
  with Cons [of "usd_saturating_add acc x"] show ?case by simp
qed

text \<open>A total of unsigned amounts is the exact sum of the amounts as a multiset, so in whatever
  order they come, clamped at the largest representable amount.\<close>

theorem usd_sum_exact:
  "unat (usd_micro (usd_sum xs)) = min (2 ^ 128 - 1) (\<Sum>x\<in>#mset xs. unat (usd_micro x))"
proof -
  have "sum_list (map (unat \<circ> usd_micro) xs) = (\<Sum>x\<in>#mset xs. unat (usd_micro x))"
    by (induction xs) simp_all
  then show ?thesis by (simp add: usd_sum_def usd_sum_foldl)
qed

section \<open>Dollars and cents\<close>

lemma group_from_shape:
  assumes "0 < k" "list_all is_ascii_digit s"
  shows "filter (\<lambda>c. c \<noteq> CHR '','') (group_from k s) = s"
    and "length (group_from k s) = length s + length s div 3"
    and "i < length (group_from k s) \<Longrightarrow>
           rev (group_from k s) ! i = CHR '','' \<longleftrightarrow> i mod 4 = 3"
  using assms
proof (induction s arbitrary: k i)
  case Nil
  { case 1 then show ?case by simp }
  { case 2 then show ?case by simp }
  { case 3 then show ?case by simp }
next
  case (Cons c s)
  have c: "c \<noteq> CHR '',''" if "list_all is_ascii_digit (c # s)"
    using that by (auto simp: is_ascii_digit_def)
  have s: "list_all is_ascii_digit s" if "list_all is_ascii_digit (c # s)" using that by simp
  { case 1 with c s Cons.IH(1) show ?case by simp }
  { case 2
    then show ?case using Cons.IH(2) [of "Suc k"] s by (auto simp: div_Suc) }
  { case 3
    define n where "n = length (group_from (Suc k) s)"
    have n: "n = length s + length s div 3" unfolding n_def by (rule Cons.IH(2)) (use 3 s in auto)
    then have "n = 4 * (length s div 3) + length s mod 3"
      using mult_div_mod_eq [of 3 "length s"] by linarith
    then have m: "n mod 4 = length s mod 3" by simp
    have IH: "j < n \<Longrightarrow> rev (group_from (Suc k) s) ! j = CHR '','' \<longleftrightarrow> j mod 4 = 3" for j
      unfolding n_def by (rule Cons.IH(3)) (use 3 s in auto)
    have "i = n \<Longrightarrow> i mod 4 \<noteq> 3" using m by auto
    moreover have "Suc (length s) mod 3 = 0 \<Longrightarrow> i = Suc n \<Longrightarrow> i mod 4 = 3"
      using m by (simp add: mod_Suc split: if_splits)
    moreover have r: "rev (group_from k (c # s)) =
        rev (group_from (Suc k) s) @ (if Suc (length s) mod 3 = 0 then [c, CHR '',''] else [c])"
      using 3 by simp
    moreover have len: "length (rev (group_from (Suc k) s)) = n" by (simp add: n_def)
    moreover have "i < n + (if Suc (length s) mod 3 = 0 then 2 else 1)"
      using 3(1) unfolding length_rev [of "group_from k (c # s)", symmetric] r by (simp add: n_def split: if_splits)
    then have "i < n \<or> i = n \<or> i = Suc n \<and> Suc (length s) mod 3 = 0"
      by (cases "Suc (length s) mod 3 = 0") auto
    ultimately show ?case using c [OF 3(3)] IH [of i]
      by (elim disjE conjE) (simp_all add: r nth_append len) }
qed

lemma group_thousands_shape:
  defines "g \<equiv> \<lambda>v. group_thousands v"
  shows "filter (\<lambda>c. c \<noteq> CHR '','') (g v) = show_nat (unat v)"
    and "i < length (g v) \<Longrightarrow> rev (g v) ! i = CHR '','' \<longleftrightarrow> i mod 4 = 3"
    and "length (g v) mod 4 \<noteq> 0"
proof -
  obtain c s where cs: "show_nat (unat v) = c # s" by (cases "show_nat (unat v)") auto
  then have d: "list_all is_ascii_digit (c # s)"
    using show_nat_digits [of _ "unat v"] by (simp add: list_all_iff)
  then have c: "c \<noteq> CHR '',''" by (auto simp: is_ascii_digit_def)
  have g: "g v = c # group_from 1 s" by (simp add: g_def group_thousands_def cs)
  note shape = group_from_shape [of 1 s, simplified, OF conjunct2 [OF d [simplified]]]
  show "filter (\<lambda>c. c \<noteq> CHR '','') (g v) = show_nat (unat v)"
    using shape(1) c by (simp add: g cs)
  have "length (group_from 1 s) = 4 * (length s div 3) + length s mod 3"
    using shape(2) mult_div_mod_eq [of 3 "length s"] by simp
  then have m: "length (group_from 1 s) mod 4 = length s mod 3" by simp
  moreover have "length s mod 3 < 3" by simp
  ultimately show "length (g v) mod 4 \<noteq> 0" unfolding g by (simp add: mod_Suc)
  show "rev (g v) ! i = CHR '','' \<longleftrightarrow> i mod 4 = 3" if "i < length (g v)"
  proof (cases "i < length (group_from 1 s)")
    case True
    then show ?thesis using shape(3) [of i] by (simp add: g nth_append)
  next
    case False
    with that have "i = length (group_from 1 s)" by (simp add: g)
    moreover have "length s mod 3 \<noteq> 3" by (rule less_imp_neq) simp
    ultimately show ?thesis using c m by (simp add: g nth_append)
  qed
qed

text \<open>Counted from the right, exactly every fourth character is a comma, and none is in front.\<close>

definition grouped_by_three :: "string \<Rightarrow> bool" where
  "grouped_by_three s \<longleftrightarrow>
     (\<forall>i<length s. rev s ! i = CHR '','' \<longleftrightarrow> i mod 4 = 3) \<and> length s mod 4 \<noteq> 0"

lemma to_cents_nat: "unat (to_cents m) = unat m div 10000 + (if 5000 \<le> unat m mod 10000 then 1 else 0)"
proof -
  have "unat m div 10000 + 1 < 2 ^ 128"
  proof -
    have "unat m div 10000 * 10000 \<le> unat m" by simp
    moreover have "unat m < 2 ^ 128" by simp
    moreover have "(20000::nat) < 2 ^ 128" by simp
    ultimately show ?thesis by linarith
  qed
  then show ?thesis by (simp add: to_cents_def word_le_nat_alt unat_div unat_mod unat_add_small)
qed

text \<open>A terminal amount is the dollar sign, the whole dollars with a comma before every group
  of three digits counted from the right and none in front, a point and two digits; the cents it
  shows are the amount rounded half up to the nearest cent, at every magnitude.\<close>

theorem dollars_rendered:
  "\<exists>whole (cents::nat). usd_format_dollars a = ''$'' @ whole @ ''.'' @ zero_pad 2 (show_nat (cents mod 100)) \<and>
     filter (\<lambda>c. c \<noteq> CHR '','') whole = show_nat (cents div 100) \<and>
     grouped_by_three whole \<and>
     length (zero_pad 2 (show_nat (cents mod 100))) = 2 \<and>
     cents * 10000 \<le> unat (usd_micro a) + 5000 \<and> unat (usd_micro a) < cents * 10000 + 5000"
proof -
  define total where "total = to_cents (usd_micro a)"
  let ?whole = "group_thousands (total div 100)"
  note g = group_thousands_shape [where v = "total div 100"]
  have w: "filter (\<lambda>c. c \<noteq> CHR '','') ?whole = show_nat (unat total div 100)"
    using g(1) by (simp add: unat_div)
  have f: "usd_format_dollars a = ''$'' @ ?whole @ ''.'' @ zero_pad 2 (show_nat (unat total mod 100))"
    by (simp add: usd_format_dollars_def Let_def total_def unat_mod)
  have two: "length (zero_pad 2 (show_nat (unat total mod 100))) = 2"
    by (rule zero_pad_length) simp_all
  have r: "unat total * 10000 \<le> unat (usd_micro a) + 5000" "unat (usd_micro a) < unat total * 10000 + 5000"
  proof -
    have "unat (usd_micro a) = unat (usd_micro a) div 10000 * 10000 + unat (usd_micro a) mod 10000"
      "unat (usd_micro a) mod 10000 < 10000" by simp_all
    then show "unat total * 10000 \<le> unat (usd_micro a) + 5000"
      "unat (usd_micro a) < unat total * 10000 + 5000"
      unfolding atomize_conj total_def to_cents_nat add_mult_distrib
      by (cases "5000 \<le> unat (usd_micro a) mod 10000"; simp only: if_True if_False; linarith)
  qed
  have "grouped_by_three ?whole" using g(2,3) by (simp add: grouped_by_three_def)
  with f w two r show ?thesis by blast
qed

end
