(* ===== verification/OrderedMap.thy ===== *)
theory OrderedMap
  imports Prelude "HOL-Library.List_Lexorder" "HOL-Library.Char_ord"
begin

text \<open>
  Rust's ordered collections: a \<open>BTreeMap\<close> is the association list of its entries in strictly
  ascending key order, a \<open>BTreeSet\<close> the strictly ascending list of its elements, and a stable sort
  is \<open>sort_key\<close>. Strings are ordered byte by byte, as \<open>str\<close> is. The locale states what the
  clients rely on; grouping and counting through the entry interface are proved from it once.
\<close>

type_synonym ('k, 'v) btree_map = "('k \<times> 'v) list"

fun bt_insert :: "'k::linorder \<Rightarrow> 'v \<Rightarrow> ('k, 'v) btree_map \<Rightarrow> ('k, 'v) btree_map" where
  "bt_insert k v [] = [(k, v)]"
| "bt_insert k v ((k', v') # m) =
     (if k < k' then (k, v) # (k', v') # m
      else if k = k' then (k, v) # m
      else (k', v') # bt_insert k v m)"

definition bt_get :: "('k, 'v) btree_map \<Rightarrow> 'k \<Rightarrow> 'v option" where
  "bt_get m k = map_of m k"

definition bt_keys :: "('k, 'v) btree_map \<Rightarrow> 'k list" where
  "bt_keys m = map fst m"

definition bt_wf :: "('k::linorder, 'v) btree_map \<Rightarrow> bool" where
  "bt_wf m \<longleftrightarrow> sorted_wrt (<) (map fst m)"

text \<open>\<open>*m.entry(k).or_insert(..)\<close> updated in place, and collecting pairs, the last one winning.\<close>

definition bt_upsert :: "'k::linorder \<Rightarrow> ('v option \<Rightarrow> 'v) \<Rightarrow> ('k, 'v) btree_map \<Rightarrow> ('k, 'v) btree_map" where
  "bt_upsert k f m = bt_insert k (f (bt_get m k)) m"

definition bt_collect :: "('k::linorder \<times> 'v) list \<Rightarrow> ('k, 'v) btree_map" where
  "bt_collect kvs = foldl (\<lambda>m (k, v). bt_insert k v m) [] kvs"

text \<open>\<open>m.entry(key(x)).or_default().push(x)\<close> and \<open>*m.entry(key(x)).or_insert(0) += 1\<close> over a list.\<close>

definition bt_group :: "('a \<Rightarrow> 'k::linorder) \<Rightarrow> 'a list \<Rightarrow> ('k, 'a list) btree_map" where
  "bt_group f xs =
     foldl (\<lambda>m x. bt_upsert (f x) (\<lambda>e. (case e of None \<Rightarrow> [] | Some g \<Rightarrow> g) @ [x]) m) [] xs"

definition bt_count :: "('a \<Rightarrow> 'k::linorder) \<Rightarrow> 'a list \<Rightarrow> ('k, nat) btree_map" where
  "bt_count f xs =
     foldl (\<lambda>m x. bt_upsert (f x) (\<lambda>e. (case e of None \<Rightarrow> 0 | Some n \<Rightarrow> n) + 1) m) [] xs"

text \<open>The elements of an iterator collected into a \<open>BTreeSet\<close>.\<close>

definition btree_set :: "'a::linorder list \<Rightarrow> 'a list" where
  "btree_set xs = sort (remdups xs)"

lemma btree_set_simps [simp]:
  "set (btree_set xs) = set xs" "sorted (btree_set xs)" "distinct (btree_set xs)"
  by (simp_all add: btree_set_def)

lemma btree_set_cong: "set xs = set ys \<Longrightarrow> btree_set xs = btree_set ys"
  by (rule sorted_distinct_set_unique) simp_all

section \<open>The map interface\<close>

locale ordered_map =
  fixes look :: "'m \<Rightarrow> 'k \<Rightarrow> 'v option"
    and upd :: "'k \<Rightarrow> ('v option \<Rightarrow> 'v) \<Rightarrow> 'm \<Rightarrow> 'm"
    and emp :: 'm
    and inv :: "'m \<Rightarrow> bool"
  assumes inv_emp: "inv emp"
    and inv_upd: "inv m \<Longrightarrow> inv (upd k f m)"
    and look_emp: "look emp k = None"
    and look_upd: "inv m \<Longrightarrow> look (upd k f m) k' = (if k' = k then Some (f (look m k)) else look m k')"
begin

lemma inv_foldl: "inv m \<Longrightarrow> inv (foldl (\<lambda>m x. upd (key x) (f x) m) m xs)"
  by (induction xs arbitrary: m) (simp_all add: inv_upd)

text \<open>Updating entries one after the other leaves each key with the updates of its own elements,
  in order.\<close>

lemma look_foldl:
  "inv m \<Longrightarrow> look (foldl (\<lambda>m x. upd (key x) (f x) m) m xs) k =
     foldl (\<lambda>e x. Some (f x e)) (look m k) (filter (\<lambda>x. key x = k) xs)"
proof (induction xs arbitrary: m)
  case Nil
  then show ?case by simp
next
  case (Cons x xs)
  then show ?case by (auto simp: inv_upd look_upd)
qed

lemma look_fresh:
  "look (foldl (\<lambda>m x. upd (key x) (f x) m) emp xs) k =
     foldl (\<lambda>e x. Some (f x e)) None (filter (\<lambda>x. key x = k) xs)"
  using look_foldl [OF inv_emp, of key f xs k] by (simp add: look_emp)

end

lemma bt_insert_keys: "set (map fst (bt_insert k v m)) = insert k (set (map fst m))"
  by (induction k v m rule: bt_insert.induct) auto

lemma bt_insert_wf: "bt_wf m \<Longrightarrow> bt_wf (bt_insert k v m)"
proof (induction k v m rule: bt_insert.induct)
  case (2 k v k' v' m)
  then show ?case
    using bt_insert_keys [of k v m] by (auto simp: bt_wf_def)
qed (simp add: bt_wf_def)

lemma bt_get_insert: "bt_wf m \<Longrightarrow> bt_get (bt_insert k v m) k' = (if k' = k then Some v else bt_get m k')"
  by (induction k v m rule: bt_insert.induct) (auto simp: bt_get_def bt_wf_def)

interpretation bt: ordered_map bt_get bt_upsert "[]" bt_wf
proof unfold_locales
  show "bt_wf []" by (simp add: bt_wf_def)
  show "bt_wf m \<Longrightarrow> bt_wf (bt_upsert k f m)" for m :: "('a \<times> 'b) list" and k f
    by (simp add: bt_upsert_def bt_insert_wf)
  show "bt_get [] k = None" for k :: 'a by (simp add: bt_get_def)
  show "bt_wf m \<Longrightarrow> bt_get (bt_upsert k f m) k' = (if k' = k then Some (f (bt_get m k)) else bt_get m k')"
    for m :: "('a \<times> 'b) list" and k f k'
    by (simp add: bt_upsert_def bt_get_insert)
qed

section \<open>Grouping and counting\<close>

lemma bt_group_wf: "bt_wf (bt_group f xs)"
  unfolding bt_group_def by (rule bt.inv_foldl [OF bt.inv_emp])

lemma fold_group:
  "foldl (\<lambda>e x. Some ((case e of None \<Rightarrow> [] | Some g \<Rightarrow> g) @ [x])) (Some g) ys = Some (g @ ys)"
  by (induction ys arbitrary: g) auto

lemma bt_group_get:
  "bt_get (bt_group f xs) k =
     (let g = filter (\<lambda>x. f x = k) xs in if g = [] then None else Some g)"
proof -
  have "foldl (\<lambda>e x. Some ((case e of None \<Rightarrow> [] | Some g \<Rightarrow> g) @ [x])) None ys =
    (if ys = [] then None else Some ys)" for ys
    by (cases ys) (simp_all add: fold_group)
  then show ?thesis unfolding bt_group_def bt.look_fresh Let_def by blast
qed

lemma fold_count: "foldl (\<lambda>e x. Some ((case e of None \<Rightarrow> 0 | Some n \<Rightarrow> n) + 1)) (Some n) ys = Some (n + length ys)"
  by (induction ys arbitrary: n) auto

lemma bt_count_get:
  "bt_get (bt_count f xs) k =
     (let n = length (filter (\<lambda>x. f x = k) xs) in if n = 0 then None else Some n)"
proof -
  have "foldl (\<lambda>e x. Some ((case e of None \<Rightarrow> 0 | Some n \<Rightarrow> n) + 1)) None ys =
    (if ys = [] then None else Some (length ys))" for ys :: "'b list"
    by (cases ys) (simp_all add: fold_count [simplified])
  then show ?thesis unfolding bt_count_def bt.look_fresh Let_def length_0_conv by blast
qed

lemma bt_wf_distinct: "bt_wf m \<Longrightarrow> distinct (map fst m)"
  by (simp add: bt_wf_def strict_sorted_iff)

lemma bt_get_mem: "bt_wf m \<Longrightarrow> (k, v) \<in> set m \<longleftrightarrow> bt_get m k = Some v"
  by (simp add: bt_get_def bt_wf_distinct)

lemma bt_group_mem: "(k, g) \<in> set (bt_group f xs) \<longleftrightarrow> g = filter (\<lambda>x. f x = k) xs \<and> g \<noteq> []"
  by (auto simp: bt_get_mem [OF bt_group_wf] bt_group_get Let_def)

lemma bt_group_keys: "set (map fst (bt_group f xs)) = f ` set xs"
proof -
  have "k \<in> set (map fst (bt_group f xs)) \<longleftrightarrow> (\<exists>g. (k, g) \<in> set (bt_group f xs))" for k by force
  then show ?thesis by (auto simp: bt_group_mem filter_empty_conv)
qed

lemma bt_collect_from:
  "bt_wf m \<Longrightarrow> bt_wf (foldl (\<lambda>m (k, v). bt_insert k v m) m kvs) \<and>
     bt_get (foldl (\<lambda>m (k, v). bt_insert k v m) m kvs) k = (bt_get m ++ map_of (rev kvs)) k"
  by (induction kvs arbitrary: m)
    (auto simp: bt_insert_wf bt_get_insert map_add_def split: option.splits)

lemma bt_collect_wf: "bt_wf (bt_collect kvs)"
  and bt_collect_get: "bt_get (bt_collect kvs) k = map_of (rev kvs) k"
  using bt_collect_from [OF bt.inv_emp, of kvs k] by (simp_all add: bt_collect_def bt_get_def map_add_def split: option.splits)

end
