(* ===== verification/Fixtures.thy ===== *)
theory Fixtures
  imports OrderedMap RustStrings
begin

text \<open>
  The fixture format (\<open>engine/src/types.rs\<close>), what one execution of a fixture yields
  (\<open>ExecutionResult\<close> and \<open>CpiCall\<close> of \<open>engine/src/executor.rs\<close>), and the hexadecimal account data
  of \<open>engine/src/hexfmt.rs\<close> with its round trip. The execution itself, a LiteSVM virtual machine,
  is a parameter of the components that use it.
\<close>

section \<open>Fixtures\<close>

record AccountSnapshot =
  snap_lamports :: u64
  snap_owner :: string
  snap_data :: "u8 list"
  snap_executable :: bool
  snap_rent_epoch :: u64

record NamedAccount =
  na_label :: string
  na_address :: string
  na_account :: AccountSnapshot

record KeypairSpec =
  kp_label :: string
  kp_seed :: "u8 list"
  kp_address :: string

record AccountMetaSpec =
  am_address :: string
  am_is_signer :: bool
  am_is_writable :: bool

record InstructionSpec =
  is_program :: string
  is_accounts :: "AccountMetaSpec list"
  is_data :: "u8 list"

datatype Category =
    Healthy | Moderate | Small | Large | Fractional | NearLiquidation | Boundary
  | WithdrawBoundary | LiquidationBoundary

record Fixture =
  fx_id :: string
  fx_category :: Category
  fx_scenario :: string
  fx_notes :: string
  fx_keypairs :: "KeypairSpec list"
  fx_accounts :: "NamedAccount list"
  fx_fee_payer :: string
  fx_signers :: "string list"
  fx_instruction :: InstructionSpec
  fx_watch :: "string list"

text \<open>\<open>Fixture::account\<close> and \<open>Fixture::label_for\<close>: the first match.\<close>

definition fixture_account :: "Fixture \<Rightarrow> string \<Rightarrow> NamedAccount option" where
  "fixture_account f label = find (\<lambda>a. na_label a = label) (fx_accounts f)"

definition label_for :: "Fixture \<Rightarrow> string \<Rightarrow> string option" where
  "label_for f addr = map_option na_label (find (\<lambda>a. na_address a = addr) (fx_accounts f))"

section \<open>Executions\<close>

record CpiCall =
  cpi_program :: string
  cpi_stack_height :: u8
  cpi_outer_index :: u8
  cpi_account_count :: u8
  cpi_data_len :: u32
  cpi_discriminant :: "u8 option"

record ExecutionResult =
  er_version :: string
  er_success :: bool
  er_error :: "string option"
  er_compute_units :: "u64 option"
  er_fee :: u64
  er_logs :: "string list"
  er_cpi_calls :: "CpiCall list"
  er_accounts :: "(string, AccountSnapshot) btree_map"

section \<open>Hexadecimal account data\<close>

datatype hex_error = OddLength nat | InvalidHexDigit char

text \<open>\<open>char::from_digit(d, 16)\<close> and \<open>char::to_digit(16)\<close>.\<close>

definition from_hex_digit :: "u8 \<Rightarrow> char" where
  "from_hex_digit d = (if d < 10 then char_of (48 + unat d) else char_of (87 + unat d))"

definition to_hex_digit :: "char \<Rightarrow> u8 option" where
  "to_hex_digit c =
     (let n = of_char c :: nat in
      if 48 \<le> n \<and> n \<le> 57 then Some (of_nat (n - 48))
      else if 97 \<le> n \<and> n \<le> 102 then Some (of_nat (n - 87))
      else if 65 \<le> n \<and> n \<le> 70 then Some (of_nat (n - 55))
      else None)"

unbundle bit_operations_syntax

definition hex_encode :: "u8 list \<Rightarrow> string" where
  "hex_encode bytes =
     concat (map (\<lambda>b. [from_hex_digit (drop_bit 4 b), from_hex_digit (b AND 15)]) bytes)"

fun hex_decode_pairs :: "string \<Rightarrow> hex_error + u8 list" where
  "hex_decode_pairs (h # l # rest) =
     and_then (ok_or (to_hex_digit h) (InvalidHexDigit h)) (\<lambda>hi.
     and_then (ok_or (to_hex_digit l) (InvalidHexDigit l)) (\<lambda>lo.
     and_then (hex_decode_pairs rest) (\<lambda>out.
     Inr ((push_bit 4 hi OR lo) # out))))"
| "hex_decode_pairs _ = Inr []"

definition hex_decode :: "string \<Rightarrow> hex_error + u8 list" where
  "hex_decode text =
     (if length text mod 2 \<noteq> 0 then Inl (OddLength (length text)) else hex_decode_pairs text)"

definition is_hex_digit :: "char \<Rightarrow> bool" where
  "is_hex_digit c \<longleftrightarrow> to_hex_digit c \<noteq> None"

text \<open>ASCII lower case, for the digits the encoder writes.\<close>

definition lower_hex :: "char \<Rightarrow> char" where
  "lower_hex c =
     (let n = of_char c :: nat in if 65 \<le> n \<and> n \<le> 70 then char_of (n + 32) else c)"

lemma nibble_cases:
  assumes "unat (d::u8) < 16"
  shows "d \<in> set [0, 1, 2, 3, 4, 5, 6, 7, 8, 9, 10, 11, 12, 13, 14, 15]"
proof -
  have "unat d \<in> set [0, 1, 2, 3, 4, 5, 6, 7, 8, 9, 10, 11, 12, 13, 14, 15]"
    using assms by (simp add: numeral_eq_Suc less_Suc_eq)
  then show ?thesis by (simp add: word_unat_eq_iff)
qed

lemma hex_digit_round_trip:
  assumes "unat d < 16"
  shows "to_hex_digit (from_hex_digit d) = Some d"
  using nibble_cases [OF assms] by (auto simp: from_hex_digit_def to_hex_digit_def)

lemma byte_nibbles:
  fixes b :: u8
  shows "push_bit 4 (drop_bit 4 b) OR (b AND 15) = b"
    and "unat (drop_bit 4 b) < 16" and "unat (b AND 15) < 16"
proof -
  have m: "(15::u8) = mask 4" by (simp add: mask_eq_exp_minus_1)
  show "push_bit 4 (drop_bit 4 b) OR (b AND 15) = b"
    unfolding m by (rule bit_word_eqI) (auto simp: bit_simps)
  have "unat b < 256" by simp
  then show "unat (drop_bit 4 b) < 16" by (simp add: unat_drop_bit_eq drop_bit_eq_div unat_div div_less_iff_less_mult)
  show "unat (b AND 15) < 16"
    unfolding m take_bit_eq_mask [symmetric] unsigned_take_bit_eq by (simp add: take_bit_eq_mod)
qed

lemma nibbles_join:
  assumes "unat (hi::u8) < 16" "unat lo < 16"
  shows "drop_bit 4 (push_bit 4 hi OR lo) = hi" and "(push_bit 4 hi OR lo) AND 15 = lo"
  using nibble_cases [OF assms(1)] nibble_cases [OF assms(2)]
  by auto

lemma length_hex_encode [simp]: "length (hex_encode bs) = 2 * length bs"
  by (induction bs) (simp_all add: hex_encode_def)

lemma decode_encode_pairs: "hex_decode_pairs (hex_encode bs) = Inr bs"
proof (induction bs)
  case Nil
  then show ?case by (simp add: hex_encode_def)
next
  case (Cons b bs)
  then show ?case
    by (simp add: hex_encode_def hex_digit_round_trip byte_nibbles)
qed

lemma to_hex_digit_Some:
  assumes "to_hex_digit c = Some d"
  shows "unat d < 16" and "from_hex_digit d = lower_hex c"
proof -
  define n where "n = (of_char c :: nat)"
  then have c: "c = char_of n" by simp
  have "unat d < 16 \<and> from_hex_digit d = lower_hex c"
  proof -
    consider "48 \<le> n" "n \<le> 57" "d = of_nat (n - 48)" | "97 \<le> n" "n \<le> 102" "d = of_nat (n - 87)"
      | "65 \<le> n" "n \<le> 70" "d = of_nat (n - 55)"
      using assms by (auto simp: to_hex_digit_def Let_def n_def split: if_splits)
    then show ?thesis
    proof cases
      case 1
      then have "unat d = n - 48" by (simp only: unat_of_nat_eq [where 'a = 8, simplified])
      with 1 show ?thesis by (simp add: from_hex_digit_def lower_hex_def c word_less_nat_alt)
    next
      case 2
      then have "unat d = n - 87" by (simp only: unat_of_nat_eq [where 'a = 8, simplified])
      moreover have "\<not> n - 87 < 10" "n - 87 < 16" using 2 by linarith+
      ultimately show ?thesis using 2 by (simp add: from_hex_digit_def lower_hex_def c word_less_nat_alt)
    next
      case 3
      then have "unat d = n - 55" by (simp only: unat_of_nat_eq [where 'a = 8, simplified])
      moreover have "\<not> n - 55 < 10" "n - 55 < 16" using 3 by linarith+
      ultimately show ?thesis using 3 by (simp add: from_hex_digit_def lower_hex_def c word_less_nat_alt)
    qed
  qed
  then show "unat d < 16" "from_hex_digit d = lower_hex c" by simp_all
qed

lemma decode_pairs_Inr:
  "hex_decode_pairs s = Inr bs \<Longrightarrow> even (length s) \<Longrightarrow> hex_encode bs = map lower_hex s \<and> list_all is_hex_digit s"
proof (induction s arbitrary: bs rule: hex_decode_pairs.induct)
  case (1 h l rest)
  then obtain hi lo out where d: "to_hex_digit h = Some hi" "to_hex_digit l = Some lo"
    "hex_decode_pairs rest = Inr out" "bs = (push_bit 4 hi OR lo) # out"
    by (auto simp: result_simps)
  then have IH: "hex_encode out = map lower_hex rest \<and> list_all is_hex_digit rest" using 1 by simp
  note h = to_hex_digit_Some [OF d(1)] and l = to_hex_digit_Some [OF d(2)]
  have "hex_encode bs = from_hex_digit hi # from_hex_digit lo # hex_encode out"
    using nibbles_join [OF h(1) l(1)] unfolding d(4) hex_encode_def list.map concat.simps by simp
  moreover have "is_hex_digit h" "is_hex_digit l" using d by (simp_all add: is_hex_digit_def)
  ultimately show ?case using IH h(2) l(2) by simp
qed (auto simp: hex_encode_def)

lemma decode_pairs_total:
  "list_all is_hex_digit s \<Longrightarrow> \<exists>bs. hex_decode_pairs s = Inr bs"
  by (induction s rule: hex_decode_pairs.induct) (auto simp: is_hex_digit_def)

text \<open>Account data written in hexadecimal is read back exactly; a string is read exactly when
  it is an even number of hexadecimal digits, and then the bytes it denotes are written back as the
  same digits in lower case.\<close>

theorem hex_round_trip:
  "hex_decode (hex_encode bytes) = Inr bytes \<and>
   map_sum (\<lambda>_. ()) hex_encode (hex_decode s) =
     (if even (length s) \<and> list_all is_hex_digit s then Inr (map lower_hex s) else Inl ())"
proof
  show "hex_decode (hex_encode bytes) = Inr bytes"
    by (simp add: hex_decode_def decode_encode_pairs)
  show "map_sum (\<lambda>_. ()) hex_encode (hex_decode s) =
     (if even (length s) \<and> list_all is_hex_digit s then Inr (map lower_hex s) else Inl ())"
    using decode_pairs_Inr [of s] decode_pairs_total [of s]
    by (cases "hex_decode_pairs s") (auto simp: hex_decode_def even_iff_mod_2_eq_zero)
qed

end
