(* ===== verification/Interpret.thy ===== *)
theory Interpret
  imports LendingInterface Money Fixtures
begin

text \<open>
  The economic interpreter (\<open>engine/src/interpret.rs\<close>): account bytes decoded into the lending
  records, the named fields the comparison works on, the exact valuation of a position, and the
  plain-language consequence of a field that moved. Rendering a 32-byte address in base 58 is a
  function of another crate, the parameter \<open>base58\<close>. A panic is the left value of a sum.
\<close>

type_synonym i64 = "64 word"
type_synonym i128 = "128 word"

datatype panic = SignedDifferenceOverflow | ArithmeticOverflowPanic

text \<open>\<open>Usd::signed_sub\<close>: the checked difference, expected to exist.\<close>

definition signed_sub :: "Usd \<Rightarrow> Usd \<Rightarrow> panic + SignedUsd" where
  "signed_sub a b = ok_or (checked_signed_sub a b) SignedDifferenceOverflow"

section \<open>Decoding\<close>

datatype Decoded = DecodedMarket Market | DecodedPosition Position | Opaque

definition decode :: "u8 list \<Rightarrow> Decoded" where
  "decode bytes =
     (case bytes of
        [] \<Rightarrow> Opaque
      | tag # _ \<Rightarrow>
          if tag = ACCOUNT_TAG_POSITION \<and> POSITION_LEN \<le> length bytes then
            (case try_from_slice position_deserialize (take POSITION_LEN bytes) of
               Some p \<Rightarrow> DecodedPosition p | None \<Rightarrow> Opaque)
          else if tag = ACCOUNT_TAG_MARKET \<and> MARKET_LEN \<le> length bytes then
            (case try_from_slice market_deserialize (take MARKET_LEN bytes) of
               Some m \<Rightarrow> DecodedMarket m | None \<Rightarrow> Opaque)
          else Opaque)"

fun decoded_len :: "Decoded \<Rightarrow> nat" where
  "decoded_len (DecodedMarket m) = MARKET_LEN"
| "decoded_len (DecodedPosition p) = POSITION_LEN"
| "decoded_len Opaque = 0"

section \<open>Rendering\<close>

definition format_health :: "u64 \<Rightarrow> string" where
  "format_health health =
     (if health = HEALTH_INFINITE then ''inf (no debt)''
      else show_nat (unat (health div HEALTH_SCALE)) @ ''.'' @
           zero_pad 6 (show_nat (unat (health mod HEALTH_SCALE))))"

definition format_usd :: "u64 \<Rightarrow> string" where
  "format_usd micro =
     show_nat (unat (micro div 1000000)) @ ''.'' @ zero_pad 6 (show_nat (unat (micro mod 1000000)))"

definition format_usd_u128 :: "u128 \<Rightarrow> string" where
  "format_usd_u128 micro =
     show_nat (unat (micro div 1000000)) @ ''.'' @ zero_pad 6 (show_nat (unat (micro mod 1000000)))"

definition format_sol :: "u64 \<Rightarrow> string" where
  "format_sol amount =
     show_nat (unat (amount div 1000000000)) @ ''.'' @
     zero_pad 9 (show_nat (unat (amount mod 1000000000)))"

section \<open>Fields\<close>

datatype FieldValue = Unsigned u128 | Text string | Health u64

fun field_render :: "FieldValue \<Rightarrow> string" where
  "field_render (Unsigned v) = show_nat (unat v)"
| "field_render (Text v) = v"
| "field_render (Health v) = format_health v"

fun field_numeric :: "FieldValue \<Rightarrow> i128 option" where
  "field_numeric (Unsigned v) = to_i128 v"
| "field_numeric (Health v) = Some (ucast v)"
| "field_numeric (Text v) = None"

fun decoded_fields :: "(address \<Rightarrow> string) \<Rightarrow> Decoded \<Rightarrow> (string \<times> FieldValue) list" where
  "decoded_fields base58 (DecodedPosition p) =
     [(''owner'', Text (base58 (p_owner p))),
      (''market'', Text (base58 (p_market p))),
      (''collateral_amount'', Unsigned (ucast (p_collateral_amount p))),
      (''debt_amount'', Unsigned (ucast (p_debt_amount p))),
      (''collateral_price'', Unsigned (ucast (p_collateral_price p))),
      (''liquidation_threshold_bps'', Unsigned (ucast (p_liquidation_threshold_bps p))),
      (''max_ltv_bps'', Unsigned (ucast (p_max_ltv_bps p))),
      (''health_factor'', Health (p_health_factor p)),
      (''last_update_slot'', Unsigned (ucast (p_last_update_slot p)))]"
| "decoded_fields base58 (DecodedMarket m) =
     [(''authority'', Text (base58 (m_authority m))),
      (''vault'', Text (base58 (m_vault m))),
      (''collateral_price'', Unsigned (ucast (m_collateral_price m))),
      (''liquidation_threshold_bps'', Unsigned (ucast (m_liquidation_threshold_bps m))),
      (''max_ltv_bps'', Unsigned (ucast (m_max_ltv_bps m))),
      (''position_count'', Unsigned (ucast (m_position_count m)))]"
| "decoded_fields base58 Opaque = []"

section \<open>Valuation\<close>

record PositionEconomics =
  pe_collateral_amount :: u64
  pe_collateral_decimals :: u8
  pe_collateral_price_usd :: Usd
  pe_debt_amount :: u64
  pe_debt_decimals :: u8
  pe_debt_price_usd :: Usd
  pe_collateral_value_usd :: Usd
  pe_debt_value_usd :: Usd
  pe_net_value_usd :: SignedUsd
  pe_health_factor :: u64
  pe_health_display :: string
  pe_liquidatable :: bool
  pe_collateral_display :: string

definition economics :: "Position \<Rightarrow> panic + PositionEconomics" where
  "economics p =
     (let collateral_value = Usd (value_micro_usd (p_collateral_amount p) COLLATERAL_DECIMALS
                                    (p_collateral_price p));
          debt_value = Usd (value_micro_usd (p_debt_amount p) DEBT_DECIMALS DEBT_PRICE_MICRO_USD)
      in and_then (signed_sub collateral_value debt_value) (\<lambda>net.
      Inr \<lparr>pe_collateral_amount = p_collateral_amount p,
           pe_collateral_decimals = COLLATERAL_DECIMALS,
           pe_collateral_price_usd = Usd (ucast (p_collateral_price p)),
           pe_debt_amount = p_debt_amount p,
           pe_debt_decimals = DEBT_DECIMALS,
           pe_debt_price_usd = Usd (ucast DEBT_PRICE_MICRO_USD),
           pe_collateral_value_usd = collateral_value,
           pe_debt_value_usd = debt_value,
           pe_net_value_usd = net,
           pe_health_factor = p_health_factor p,
           pe_health_display = format_health (p_health_factor p),
           pe_liquidatable = reference_is_liquidatable (p_health_factor p),
           pe_collateral_display = format_sol (p_collateral_amount p) @ '' SOL''\<rparr>))"

definition position_economics :: "u8 list \<Rightarrow> panic + PositionEconomics option" where
  "position_economics bytes =
     (case decode bytes of
        DecodedPosition p \<Rightarrow> and_then (economics p) (\<lambda>e. Inr (Some e))
      | _ \<Rightarrow> Inr None)"

definition instruction_name :: "u8 list \<Rightarrow> string" where
  "instruction_name bytes =
     (case bytes of
        [] \<Rightarrow> ''unknown''
      | b # _ \<Rightarrow>
          if b = 0 then ''initialize_market''
          else if b = 1 then ''create_position''
          else if b = 2 then ''deposit_collateral''
          else if b = 3 then ''borrow''
          else if b = 4 then ''repay''
          else if b = 5 then ''withdraw_collateral''
          else if b = 6 then ''liquidate''
          else if b = 7 then ''refresh_position''
          else if b = 8 then ''set_price''
          else ''unknown'')"

text \<open>\<open>explain\<close>: the difference of two unsigned values cast to \<open>i128\<close> is the wrapping one.\<close>

definition explain :: "string \<Rightarrow> FieldValue \<Rightarrow> FieldValue \<Rightarrow> string option" where
  "explain field before after =
     (case (before, after) of
        (Health a, Health b) \<Rightarrow>
          if field = ''health_factor'' then
            let was = reference_is_liquidatable a; now = reference_is_liquidatable b in
            if was \<noteq> now then
              Some (if now then ''position crosses below the liquidation threshold''
                    else ''position rises above the liquidation threshold'')
            else if b < a then Some ''position is closer to liquidation''
            else Some ''position is further from liquidation''
          else None
      | (Unsigned a, Unsigned b) \<Rightarrow>
          if field = ''collateral_amount'' then
            Some (''collateral differs by '' @ show_int (sint (b - a)) @
                  '' lamports for the same instruction'')
          else if field = ''debt_amount'' then
            Some (''recorded debt differs by '' @ show_int (sint (b - a)) @ '' micro-USD'')
          else None
      | _ \<Rightarrow> None)"

section \<open>Facts\<close>

lemma decode_Position:
  "decode bytes = DecodedPosition p \<longleftrightarrow>
     wf_position p \<and> p_tag p = ACCOUNT_TAG_POSITION \<and> (\<exists>rest. bytes = position_to_vec p @ rest)"
proof
  assume d: "decode bytes = DecodedPosition p"
  then have len: "POSITION_LEN \<le> length bytes" and hd: "hd bytes = ACCOUNT_TAG_POSITION" "bytes \<noteq> []"
    and slice: "try_from_slice position_deserialize (take POSITION_LEN bytes) = Some p"
    by (auto simp: decode_def split: list.splits if_splits option.splits)
  from slice have t: "take POSITION_LEN bytes = position_to_vec p" "wf_position p"
    by (simp_all add: position_codec.slice_Some)
  then have "bytes = position_to_vec p @ drop POSITION_LEN bytes"
    by (metis append_take_drop_id)
  moreover from this hd have "p_tag p = ACCOUNT_TAG_POSITION"
    by (metis append_Cons list.sel(1) position_to_vec_def)
  ultimately show "wf_position p \<and> p_tag p = ACCOUNT_TAG_POSITION \<and> (\<exists>rest. bytes = position_to_vec p @ rest)"
    using t by blast
next
  assume r: "wf_position p \<and> p_tag p = ACCOUNT_TAG_POSITION \<and> (\<exists>rest. bytes = position_to_vec p @ rest)"
  then obtain rest where b: "bytes = position_to_vec p @ rest" by blast
  have len: "length (position_to_vec p) = POSITION_LEN" using r length_position_to_vec by blast
  then have t: "take POSITION_LEN bytes = position_to_vec p" "POSITION_LEN \<le> length bytes"
    by (simp_all add: b)
  obtain tl where h: "bytes = ACCOUNT_TAG_POSITION # tl"
    using b r by (simp add: position_to_vec_def)
  have "try_from_slice position_deserialize (take POSITION_LEN bytes) = Some p"
    using r t(1) by (simp add: position_codec.slice_Some)
  then show "decode bytes = DecodedPosition p"
    using t(2) unfolding decode_def h by simp
qed

lemma decode_Market:
  "decode bytes = DecodedMarket m \<longleftrightarrow>
     wf_market m \<and> m_tag m = ACCOUNT_TAG_MARKET \<and> (\<exists>rest. bytes = market_to_vec m @ rest)"
proof
  assume d: "decode bytes = DecodedMarket m"
  then have len: "MARKET_LEN \<le> length bytes" and hd: "hd bytes = ACCOUNT_TAG_MARKET" "bytes \<noteq> []"
    and slice: "try_from_slice market_deserialize (take MARKET_LEN bytes) = Some m"
    by (auto simp: decode_def split: list.splits if_splits option.splits)
  from slice have t: "take MARKET_LEN bytes = market_to_vec m" "wf_market m"
    by (simp_all add: market_codec.slice_Some)
  then have "bytes = market_to_vec m @ drop MARKET_LEN bytes"
    by (metis append_take_drop_id)
  moreover from this hd have "m_tag m = ACCOUNT_TAG_MARKET"
    by (metis append_Cons list.sel(1) market_to_vec_def)
  ultimately show "wf_market m \<and> m_tag m = ACCOUNT_TAG_MARKET \<and> (\<exists>rest. bytes = market_to_vec m @ rest)"
    using t by blast
next
  assume r: "wf_market m \<and> m_tag m = ACCOUNT_TAG_MARKET \<and> (\<exists>rest. bytes = market_to_vec m @ rest)"
  then obtain rest where b: "bytes = market_to_vec m @ rest" by blast
  have len: "length (market_to_vec m) = MARKET_LEN" using r length_market_to_vec by blast
  then have t: "take MARKET_LEN bytes = market_to_vec m" "MARKET_LEN \<le> length bytes"
    by (simp_all add: b)
  obtain tl where h: "bytes = ACCOUNT_TAG_MARKET # tl"
    using b r by (simp add: market_to_vec_def)
  have "try_from_slice market_deserialize (take MARKET_LEN bytes) = Some m"
    using r t(1) by (simp add: market_codec.slice_Some)
  then show "decode bytes = DecodedMarket m"
    using t(2) unfolding decode_def h by simp
qed

lemma difference_range:
  fixes x y K :: int
  shows "0 \<le> x \<Longrightarrow> x < K \<Longrightarrow> 0 \<le> y \<Longrightarrow> y < K \<Longrightarrow> \<not> (x - y < - K \<or> K \<le> x - y)"
  by linarith

lemma signed_sub_small:
  assumes "unat (usd_micro a) < 2 ^ 127" "unat (usd_micro b) < 2 ^ 127"
  shows "\<exists>d. signed_sub a b = Inr d \<and>
    sint (signed_micro d) = int (unat (usd_micro a)) - int (unat (usd_micro b))"
proof -
  have "int (unat (usd_micro a)) < int (2 ^ 127)" "int (unat (usd_micro b)) < int (2 ^ 127)"
    using assms by (simp_all only: of_nat_less_iff)
  from difference_range [OF of_nat_0_le_iff this(1) of_nat_0_le_iff this(2)]
  have "\<not> (int (unat (usd_micro a)) - int (unat (usd_micro b)) < - (2 ^ 127) \<or>
      2 ^ 127 \<le> int (unat (usd_micro a)) - int (unat (usd_micro b)))"
    unfolding of_nat_power of_nat_numeral .
  with signed_difference_exact_aux [of a b] show ?thesis
    by (auto simp: signed_sub_def split: option.splits)
qed

text \<open>Valuing a position never panics, whatever its fields hold: the collateral value is the
  exact product at the position's own price rounded down to a micro-dollar, the debt is worth
  exactly its amount, the net value is their exact signed difference, and the position counts as
  liquidatable exactly when its health is below one.\<close>

theorem position_valuation_exact:
  "\<exists>e. economics p = Inr e \<and>
     unat (usd_micro (pe_collateral_value_usd e)) =
       unat (p_collateral_amount p) * unat (p_collateral_price p) div 10 ^ 9 \<and>
     unat (usd_micro (pe_debt_value_usd e)) = unat (p_debt_amount p) \<and>
     sint (signed_micro (pe_net_value_usd e)) =
       int (unat (p_collateral_amount p) * unat (p_collateral_price p) div 10 ^ 9)
         - int (unat (p_debt_amount p)) \<and>
     (pe_liquidatable e \<longleftrightarrow> unat (p_health_factor p) < 10 ^ 6)"
proof -
  let ?c = "Usd (value_micro_usd (p_collateral_amount p) COLLATERAL_DECIMALS (p_collateral_price p))"
  let ?d = "Usd (value_micro_usd (p_debt_amount p) DEBT_DECIMALS DEBT_PRICE_MICRO_USD)"
  have c: "unat (usd_micro ?c) = unat (p_collateral_amount p) * unat (p_collateral_price p) div 10 ^ 9"
    using unat_reference_value [of "p_collateral_amount p" "p_collateral_price p"]
    by (simp add: reference_collateral_value_def spec_value_def)
  have d: "unat (usd_micro ?d) = unat (p_debt_amount p)"
    using reference_debt_is_identity [of "p_debt_amount p"] by (simp add: reference_debt_value_def)
  have "unat (usd_micro ?c) \<le> 2 ^ 128 div 10 ^ 9"
    using spec_value_bound [of "p_collateral_amount p" "p_collateral_price p"]
    by (simp only: c spec_value_def)
  then have "unat (usd_micro ?c) < 2 ^ 127" by (rule le_less_trans) simp
  moreover have "unat (usd_micro ?d) < 2 ^ 127"
    unfolding d by (rule less_trans [OF unat_less_pow]) simp
  ultimately obtain net where net: "signed_sub ?c ?d = Inr net"
    "sint (signed_micro net) = int (unat (usd_micro ?c)) - int (unat (usd_micro ?d))"
    using signed_sub_small by blast
  have liq: "reference_is_liquidatable (p_health_factor p) \<longleftrightarrow> unat (p_health_factor p) < 10 ^ 6"
    by (simp add: reference_is_liquidatable_def word_less_nat_alt)
  show ?thesis
    unfolding economics_def Let_def net(1) and_then.simps
    by (rule exI, rule conjI, rule refl) (use c d net(2) liq in simp)
qed

lemma economics_defined: "\<exists>e. economics p = Inr e"
proof -
  have "unat (value_micro_usd (p_collateral_amount p) COLLATERAL_DECIMALS (p_collateral_price p))
      \<le> 2 ^ 128 div 10 ^ 9"
    using spec_value_bound [of "p_collateral_amount p" "p_collateral_price p"]
    by (simp only: unat_reference_value [symmetric] reference_collateral_value_def)
  then have "unat (value_micro_usd (p_collateral_amount p) COLLATERAL_DECIMALS (p_collateral_price p))
      < 2 ^ 127" by (rule le_less_trans) simp
  moreover have "unat (value_micro_usd (p_debt_amount p) DEBT_DECIMALS DEBT_PRICE_MICRO_USD) < 2 ^ 127"
    unfolding reference_debt_value_def [symmetric] reference_debt_is_identity
    by (rule less_trans [OF unat_less_pow]) simp
  ultimately obtain net where "signed_sub
      (Usd (value_micro_usd (p_collateral_amount p) COLLATERAL_DECIMALS (p_collateral_price p)))
      (Usd (value_micro_usd (p_debt_amount p) DEBT_DECIMALS DEBT_PRICE_MICRO_USD)) = Inr net"
    using signed_sub_small
      [of "Usd (value_micro_usd (p_collateral_amount p) COLLATERAL_DECIMALS (p_collateral_price p))"
          "Usd (value_micro_usd (p_debt_amount p) DEBT_DECIMALS DEBT_PRICE_MICRO_USD)"] by auto
  then show ?thesis by (auto simp: economics_def Let_def)
qed

end
