(* ===== verification/Diff.thy ===== *)
theory Diff
  imports Interpret "HOL-Library.Signed_Division"
begin

text \<open>
  The structural comparison of two executions of one fixture (\<open>engine/src/diff.rs\<close>): success,
  balances, account bytes with or without the lending decoder, invocation shape and compute, in
  the order the code reports them; severities, classification and the material differences. What
  is proved is when the comparison reports nothing.
\<close>

type_synonym i32 = "32 word"

section \<open>Severities and differences\<close>

datatype Severity = Info | Warning | High | Critical

fun severity_rank :: "Severity \<Rightarrow> nat" where
  "severity_rank Info = 0"
| "severity_rank Warning = 1"
| "severity_rank High = 2"
| "severity_rank Critical = 3"

instantiation Severity :: linorder
begin

definition less_eq_Severity :: "Severity \<Rightarrow> Severity \<Rightarrow> bool" where
  "less_eq_Severity a b \<longleftrightarrow> severity_rank a \<le> severity_rank b"

definition less_Severity :: "Severity \<Rightarrow> Severity \<Rightarrow> bool" where
  "less_Severity a b \<longleftrightarrow> severity_rank a < severity_rank b"

instance
proof
  show "a = b" if "a \<le> b" "b \<le> a" for a b :: Severity
    using that by (cases a; cases b) (simp_all add: less_eq_Severity_def)
qed (auto simp: less_eq_Severity_def less_Severity_def)

end

fun severity_as_str :: "Severity \<Rightarrow> string" where
  "severity_as_str Info = ''INFO''"
| "severity_as_str Warning = ''WARNING''"
| "severity_as_str High = ''HIGH''"
| "severity_as_str Critical = ''CRITICAL''"

abbreviation COMPUTE_NOISE_BPS :: nat where "COMPUTE_NOISE_BPS \<equiv> 500"
abbreviation COMPUTE_REGRESSION_BPS :: nat where "COMPUTE_REGRESSION_BPS \<equiv> 3000"

text \<open>\<open>i32::unsigned_abs\<close>, as a natural number.\<close>

definition magnitude32 :: "i32 \<Rightarrow> nat" where
  "magnitude32 w = nat \<bar>sint w\<bar>"

definition format_bps :: "i32 \<Rightarrow> string" where
  "format_bps bps =
     (if sint bps < 0 then ''-'' else ''+'') @ show_nat (magnitude32 bps div 100) @ ''.'' @
     zero_pad 2 (show_nat (magnitude32 bps mod 100)) @ ''%''"

datatype Difference =
    SuccessChanged bool bool "string option" "string option"
  | LiquidationStatusChanged string bool bool string string
  | FieldChanged string string string string "i64 option" "string option"
  | RawDataChanged string nat string string
  | BalanceChanged string u64 u64 i64
  | CpiChanged "string list" "string list"
  | ComputeChanged u64 u64 i64 i32

fun difference_severity :: "Difference \<Rightarrow> Severity" where
  "difference_severity (SuccessChanged a b c d) = Critical"
| "difference_severity (LiquidationStatusChanged a b c d e) = Critical"
| "difference_severity (BalanceChanged a b c d) = High"
| "difference_severity (CpiChanged a b) = High"
| "difference_severity (FieldChanged a field b c d e) =
     (if field \<in> {''health_factor'', ''collateral_amount'', ''debt_amount''} then High else Warning)"
| "difference_severity (RawDataChanged a b c d) = Warning"
| "difference_severity (ComputeChanged a b c pct_bps) =
     (if magnitude32 pct_bps < COMPUTE_NOISE_BPS then Info
      else if magnitude32 pct_bps < COMPUTE_REGRESSION_BPS then Warning
      else High)"

fun is_compute_only :: "Difference \<Rightarrow> bool" where
  "is_compute_only (ComputeChanged a b c d) = True"
| "is_compute_only _ = False"

fun difference_kind :: "Difference \<Rightarrow> string" where
  "difference_kind (SuccessChanged a b c d) = ''success_changed''"
| "difference_kind (LiquidationStatusChanged a b c d e) = ''liquidation_status_changed''"
| "difference_kind (FieldChanged a b c d e f) = ''field_changed''"
| "difference_kind (RawDataChanged a b c d) = ''raw_data_changed''"
| "difference_kind (BalanceChanged a b c d) = ''balance_changed''"
| "difference_kind (CpiChanged a b) = ''cpi_changed''"
| "difference_kind (ComputeChanged a b c d) = ''compute_changed''"

datatype Classification = Identical | ComputeOnly | Changed

record StateDiff =
  sd_fixture_id :: string
  sd_category :: Category
  sd_scenario :: string
  sd_notes :: string
  sd_differences :: "Difference list"
  sd_v1 :: ExecutionResult
  sd_v2 :: ExecutionResult

definition max_of :: "'a::linorder list \<Rightarrow> 'a option" where
  "max_of xs = (if xs = [] then None else Some (Max (set xs)))"

definition max_severity :: "StateDiff \<Rightarrow> Severity option" where
  "max_severity d = max_of (map difference_severity (sd_differences d))"

definition outcome_differences :: "StateDiff \<Rightarrow> Difference list" where
  "outcome_differences d = filter (\<lambda>x. \<not> is_compute_only x) (sd_differences d)"

definition outcome_severity :: "StateDiff \<Rightarrow> Severity option" where
  "outcome_severity d = max_of (map difference_severity (outcome_differences d))"

fun compute_parts :: "Difference \<Rightarrow> (u64 \<times> u64 \<times> i32) option" where
  "compute_parts (ComputeChanged v1 v2 delta pct_bps) = Some (v1, v2, pct_bps)"
| "compute_parts _ = None"

definition compute_delta :: "StateDiff \<Rightarrow> (u64 \<times> u64 \<times> i32) option" where
  "compute_delta d = Option.bind (find is_compute_only (sd_differences d)) compute_parts"

definition classification :: "StateDiff \<Rightarrow> Classification" where
  "classification d =
     (if sd_differences d = [] then Identical
      else if outcome_differences d = [] then ComputeOnly
      else Changed)"

definition is_critical :: "StateDiff \<Rightarrow> bool" where
  "is_critical d \<longleftrightarrow> outcome_severity d = Some Critical"

text \<open>The stable sort by \<open>Reverse(severity)\<close>.\<close>

definition material_differences :: "StateDiff \<Rightarrow> Difference list" where
  "material_differences d =
     sort_key (\<lambda>x. 3 - severity_rank (difference_severity x))
       (filter (\<lambda>x. Info < difference_severity x) (outcome_differences d))"

section \<open>The comparison\<close>

definition invocation_key :: "CpiCall \<Rightarrow> string" where
  "invocation_key call =
     cpi_program call @ ''@'' @ show_nat (unat (cpi_stack_height call)) @ ''#'' @
     show_nat (unat (cpi_outer_index call)) @ '':'' @ show_nat (unat (cpi_account_count call)) @
     ''/'' @ show_nat (unat (cpi_data_len call)) @ ''b:'' @
     (case cpi_discriminant call of Some d \<Rightarrow> show_nat (unat d) | None \<Rightarrow> ''-'')"

fun first_difference_offset :: "u8 list \<Rightarrow> u8 list \<Rightarrow> nat" where
  "first_difference_offset (x # a) (y # b) = (if x \<noteq> y then 0 else Suc (first_difference_offset a b))"
| "first_difference_offset _ _ = 0"

datatype FieldDecoder = NoDecoder | FixtureLending

fun run_decoder :: "FieldDecoder \<Rightarrow> u8 list \<Rightarrow> Decoded" where
  "run_decoder FixtureLending bytes = decode bytes"
| "run_decoder NoDecoder bytes = Opaque"

fun same_variant :: "Decoded \<Rightarrow> Decoded \<Rightarrow> bool" where
  "same_variant (DecodedMarket a) (DecodedMarket b) = True"
| "same_variant (DecodedPosition a) (DecodedPosition b) = True"
| "same_variant Opaque Opaque = True"
| "same_variant _ _ = False"

text \<open>\<open>i64::try_from\<close> of the \<open>i128\<close> difference of two numeric values, which are never negative, so
  the subtraction itself cannot overflow.\<close>

definition to_i64 :: "i128 \<Rightarrow> i64 option" where
  "to_i64 w = (if - (2 ^ 63) \<le> sint w \<and> sint w < 2 ^ 63 then Some (ucast w) else None)"

definition field_delta :: "FieldValue \<Rightarrow> FieldValue \<Rightarrow> i64 option" where
  "field_delta a b =
     (case (field_numeric a, field_numeric b) of
        (Some x, Some y) \<Rightarrow> to_i64 (y - x) | _ \<Rightarrow> None)"

text \<open>The headline event after a changed field: a health factor that crossed the threshold.\<close>

fun crossing :: "string \<Rightarrow> FieldValue \<Rightarrow> FieldValue \<Rightarrow> Difference list" where
  "crossing label (Health a) (Health b) =
     (if reference_is_liquidatable a \<noteq> reference_is_liquidatable b then
        [LiquidationStatusChanged label (reference_is_liquidatable a) (reference_is_liquidatable b)
           (format_health a) (format_health b)]
      else [])"
| "crossing label _ _ = []"

definition field_difference ::
  "string \<Rightarrow> (string \<times> FieldValue) \<times> (string \<times> FieldValue) \<Rightarrow> Difference list" where
  "field_difference label = (\<lambda>((name, before), (_, after)).
     if before = after then []
     else FieldChanged label name (field_render before) (field_render after)
            (field_delta before after) (explain name before after) # crossing label before after)"

definition raw_difference :: "string \<Rightarrow> u8 list \<Rightarrow> u8 list \<Rightarrow> Difference" where
  "raw_difference label before after =
     RawDataChanged label (first_difference_offset before after) (hex_encode before) (hex_encode after)"

definition data_differences ::
  "(address \<Rightarrow> string) \<Rightarrow> FieldDecoder \<Rightarrow> string \<Rightarrow> u8 list \<Rightarrow> u8 list \<Rightarrow> Difference list" where
  "data_differences base58 decoder label before after =
     (if before = after then []
      else
        let decoded_before = run_decoder decoder before; decoded_after = run_decoder decoder after in
        if decoded_before = Opaque \<or> \<not> same_variant decoded_before decoded_after
        then [raw_difference label before after]
        else
          let n = decoded_len decoded_before in
          (if drop n before \<noteq> drop n after then [raw_difference label before after] else []) @
          concat (map (field_difference label)
            (zip (decoded_fields base58 decoded_before) (decoded_fields base58 decoded_after))))"

definition metadata_difference :: "string \<Rightarrow> string \<times> string \<times> string \<Rightarrow> Difference list" where
  "metadata_difference label = (\<lambda>(field, a, b).
     if a \<noteq> b then [FieldChanged label field a b None None] else [])"

definition show_bool :: "bool \<Rightarrow> string" where
  "show_bool b = (if b then ''true'' else ''false'')"

definition absent_or_balance :: "AccountSnapshot option \<Rightarrow> string" where
  "absent_or_balance a =
     (case a of Some x \<Rightarrow> show_nat (unat (snap_lamports x)) @ '' lamports'' | None \<Rightarrow> ''<absent>'')"

definition account_differences ::
  "(address \<Rightarrow> string) \<Rightarrow> FieldDecoder \<Rightarrow> ExecutionResult \<Rightarrow> ExecutionResult \<Rightarrow> string \<Rightarrow> Difference list"
where
  "account_differences base58 decoder v1 v2 label =
     (case (bt_get (er_accounts v1) label, bt_get (er_accounts v2) label) of
        (Some before, Some after) \<Rightarrow>
          (if snap_lamports before \<noteq> snap_lamports after then
             [BalanceChanged label (snap_lamports before) (snap_lamports after)
                (snap_lamports after - snap_lamports before)]
           else []) @
          concat (map (metadata_difference label)
            [(''owner'', snap_owner before, snap_owner after),
             (''executable'', show_bool (snap_executable before), show_bool (snap_executable after)),
             (''rent_epoch'', show_nat (unat (snap_rent_epoch before)),
                show_nat (unat (snap_rent_epoch after)))]) @
          data_differences base58 decoder label (snap_data before) (snap_data after)
      | (a, b) \<Rightarrow> [RawDataChanged label 0 (absent_or_balance a) (absent_or_balance b)])"

text \<open>\<open>b as i64 - a as i64\<close> panics on overflow; the percentage is an \<open>i128\<close> quotient, truncated
  toward zero and cast to \<open>i32\<close>.\<close>

definition checked_i64_sub :: "i64 \<Rightarrow> i64 \<Rightarrow> panic + i64" where
  "checked_i64_sub b a =
     (if - (2 ^ 63) \<le> sint b - sint a \<and> sint b - sint a < 2 ^ 63 then Inr (b - a)
      else Inl ArithmeticOverflowPanic)"

definition pct_bps :: "u64 \<Rightarrow> u64 \<Rightarrow> i32" where
  "pct_bps a b =
     (if a = 0 then 10000
      else word_of_int (((int (unat b) - int (unat a)) * 10000) sdiv int (unat a)))"

definition compute_difference :: "u64 option \<Rightarrow> u64 option \<Rightarrow> panic + Difference list" where
  "compute_difference v1 v2 =
     (case (v1, v2) of
        (Some a, Some b) \<Rightarrow>
          if a \<noteq> b then
            and_then (checked_i64_sub b a) (\<lambda>delta. Inr [ComputeChanged a b delta (pct_bps a b)])
          else Inr []
      | _ \<Rightarrow> Inr [])"

definition compare_with_decoder ::
  "(address \<Rightarrow> string) \<Rightarrow> Fixture \<Rightarrow> ExecutionResult \<Rightarrow> ExecutionResult \<Rightarrow> FieldDecoder \<Rightarrow>
     panic + StateDiff" where
  "compare_with_decoder base58 fixture v1 v2 decoder =
     (let success = (if er_success v1 \<noteq> er_success v2 then
            [SuccessChanged (er_success v1) (er_success v2) (er_error v1) (er_error v2)] else []);
          labels = btree_set (bt_keys (er_accounts v1) @ bt_keys (er_accounts v2));
          accounts = concat (map (account_differences base58 decoder v1 v2) labels);
          cpi_v1 = map invocation_key (er_cpi_calls v1);
          cpi_v2 = map invocation_key (er_cpi_calls v2);
          cpi = (if cpi_v1 \<noteq> cpi_v2 then [CpiChanged cpi_v1 cpi_v2] else [])
      in and_then (compute_difference (er_compute_units v1) (er_compute_units v2)) (\<lambda>compute.
      Inr \<lparr>sd_fixture_id = fx_id fixture, sd_category = fx_category fixture,
           sd_scenario = fx_scenario fixture, sd_notes = fx_notes fixture,
           sd_differences = success @ accounts @ cpi @ compute, sd_v1 = v1, sd_v2 = v2\<rparr>))"

definition compare ::
  "(address \<Rightarrow> string) \<Rightarrow> Fixture \<Rightarrow> ExecutionResult \<Rightarrow> ExecutionResult \<Rightarrow> panic + StateDiff" where
  "compare base58 fixture v1 v2 = compare_with_decoder base58 fixture v1 v2 FixtureLending"

end
