(* ===== verification/DiffProperties.thy ===== *)
theory DiffProperties
  imports Diff
begin

text \<open>
  When the comparison of two executions reports nothing, exactly what it reports as a crossing of
  the liquidation threshold, and which differences are critical.
\<close>

section \<open>Injectivity of the renderings\<close>

lemma show_nat_inject [simp]: "show_nat m = show_nat n \<longleftrightarrow> m = n"
  by (metis show_nat_value)

lemma show_bool_inject [simp]: "show_bool a = show_bool b \<longleftrightarrow> a = b"
  by (simp add: show_bool_def)

lemma unat_inject [simp]: "unat (a::'a::len word) = unat b \<longleftrightarrow> a = b"
  by (simp add: word_unat_eq_iff)

lemma ucast_inject:
  "ucast (a::u64) = (ucast b :: u128) \<longleftrightarrow> a = b" "ucast (c::u16) = (ucast d :: u128) \<longleftrightarrow> c = d"
  by (metis unat_ucast_64_128 word_eq_unatI, metis unat_ucast_16_128 word_eq_unatI)

text \<open>Base 58 renders different 32-byte addresses differently.\<close>

definition base58_law :: "(address \<Rightarrow> string) \<Rightarrow> bool" where
  "base58_law base58 \<longleftrightarrow> inj_on base58 {k. length k = 32}"

section \<open>Account data\<close>

lemma field_difference_Nil:
  "concat (map (field_difference label) (zip xs ys)) = [] \<longleftrightarrow>
     (\<forall>(x, y)\<in>set (zip xs ys). snd x = snd y)"
proof -
  have "field_difference label xy = [] \<longleftrightarrow> (case xy of (x, y) \<Rightarrow> snd x = snd y)" for xy
    by (cases xy) (auto simp: field_difference_def split: prod.splits)
  then show ?thesis by simp
qed

text \<open>Two byte strings that hold lending records and differ at most in the version byte, the
  second one.\<close>

definition version_apart :: "u8 list \<Rightarrow> u8 list \<Rightarrow> bool" where
  "version_apart a b \<longleftrightarrow>
     decode a \<noteq> Opaque \<and> same_variant (decode a) (decode b) \<and> hd a = hd b \<and> drop 2 a = drop 2 b"

lemma position_fields_equal:
  assumes "base58_law base58" "wf_position p" "wf_position q"
  shows "(\<forall>(x, y)\<in>set (zip (decoded_fields base58 (DecodedPosition p))
            (decoded_fields base58 (DecodedPosition q))). snd x = snd y) \<longleftrightarrow>
     q\<lparr>p_tag := p_tag p, p_version := p_version p\<rparr> = p"
proof -
  have "base58 (p_owner p) = base58 (p_owner q) \<longleftrightarrow> p_owner p = p_owner q"
    "base58 (p_market p) = base58 (p_market q) \<longleftrightarrow> p_market p = p_market q"
    using assms by (auto simp: base58_law_def inj_on_def wf_position_def)
  then show ?thesis by (cases p; cases q) (auto simp: ucast_inject)
qed

lemma market_fields_equal:
  assumes "base58_law base58" "wf_market m" "wf_market n"
  shows "(\<forall>(x, y)\<in>set (zip (decoded_fields base58 (DecodedMarket m))
            (decoded_fields base58 (DecodedMarket n))). snd x = snd y) \<longleftrightarrow>
     n\<lparr>m_tag := m_tag m, m_version := m_version m\<rparr> = m"
proof -
  have "base58 (m_authority m) = base58 (m_authority n) \<longleftrightarrow> m_authority m = m_authority n"
    "base58 (m_vault m) = base58 (m_vault n) \<longleftrightarrow> m_vault m = m_vault n"
    using assms by (auto simp: base58_law_def inj_on_def wf_market_def)
  then show ?thesis by (cases m; cases n) (auto simp: ucast_inject)
qed

lemma position_tail:
  "position_to_vec p = p_tag p # p_version p # drop 2 (position_to_vec p)"
  "drop 2 (position_to_vec (q\<lparr>p_tag := t, p_version := v\<rparr>)) = drop 2 (position_to_vec q)"
  by (simp_all add: position_to_vec_def)

lemma market_tail:
  "market_to_vec m = m_tag m # m_version m # drop 2 (market_to_vec m)"
  "drop 2 (market_to_vec (n\<lparr>m_tag := t, m_version := v\<rparr>)) = drop 2 (market_to_vec n)"
  by (simp_all add: market_to_vec_def)

lemma position_drop_inject:
  assumes "wf_position p" "wf_position q"
    and "drop 2 (position_to_vec p) = drop 2 (position_to_vec q)"
  shows "q\<lparr>p_tag := p_tag p, p_version := p_version p\<rparr> = p"
proof -
  let ?q = "q\<lparr>p_tag := p_tag p, p_version := p_version p\<rparr>"
  have "position_to_vec ?q = position_to_vec p"
    using position_tail(1) [of ?q] position_tail(1) [of p] position_tail(2) [where q = q] assms(3) by simp
  moreover have "wf_position ?q" using assms(2) by (simp add: wf_position_def)
  ultimately show ?thesis using assms(1) position_codec.enc_inject by blast
qed

lemma market_drop_inject:
  assumes "wf_market m" "wf_market n"
    and "drop 2 (market_to_vec m) = drop 2 (market_to_vec n)"
  shows "n\<lparr>m_tag := m_tag m, m_version := m_version m\<rparr> = m"
proof -
  let ?n = "n\<lparr>m_tag := m_tag m, m_version := m_version m\<rparr>"
  have "market_to_vec ?n = market_to_vec m"
    using market_tail(1) [of ?n] market_tail(1) [of m] market_tail(2) [where n = n] assms(3) by simp
  moreover have "wf_market ?n" using assms(2) by (simp add: wf_market_def)
  ultimately show ?thesis using assms(1) market_codec.enc_inject by blast
qed

lemma drop_suffix: "length x = n \<Longrightarrow> 2 \<le> n \<Longrightarrow> drop 2 (x @ r) = drop 2 x @ r"
  by simp

lemma position_data_equal:
  assumes law: "base58_law base58" and a: "decode a = DecodedPosition p" and b: "decode b = DecodedPosition q"
  shows "data_differences base58 FixtureLending label a b = [] \<longleftrightarrow> drop 2 a = drop 2 b"
proof -
  obtain r s where p: "wf_position p" "p_tag p = 2" "a = position_to_vec p @ r"
    and q: "wf_position q" "p_tag q = 2" "b = position_to_vec q @ s"
    using a b by (auto simp: decode_Position)
  note lp = length_position_to_vec [OF p(1)] and lq = length_position_to_vec [OF q(1)]
  have ab: "drop 2 a = drop 2 (position_to_vec p) @ r" "drop 2 b = drop 2 (position_to_vec q) @ s"
    using lp lq by (simp_all add: p q)
  have split: "drop 2 a = drop 2 b \<longleftrightarrow> drop 2 (position_to_vec p) = drop 2 (position_to_vec q) \<and> r = s"
    unfolding ab using lp lq by (subst append_eq_append_conv) auto
  have tail: "drop 2 (position_to_vec p) = drop 2 (position_to_vec q) \<longleftrightarrow>
      q\<lparr>p_tag := p_tag p, p_version := p_version p\<rparr> = p"
    using position_drop_inject [OF p(1) q(1)] position_tail(2) by metis
  have eq: "a = b \<Longrightarrow> drop 2 a = drop 2 b" by simp
  show ?thesis
  proof (cases "a = b")
    case False
    then have "data_differences base58 FixtureLending label a b = [] \<longleftrightarrow>
      drop POSITION_LEN a = drop POSITION_LEN b \<and>
      (\<forall>(x, y)\<in>set (zip (decoded_fields base58 (DecodedPosition p))
            (decoded_fields base58 (DecodedPosition q))). snd x = snd y)"
      unfolding data_differences_def Let_def run_decoder.simps a b field_difference_Nil [where label = label, symmetric]
      by simp
    also have "drop POSITION_LEN a = drop POSITION_LEN b \<longleftrightarrow> r = s" using lp lq by (simp add: p q)
    finally show ?thesis unfolding split tail position_fields_equal [OF law p(1) q(1)] by blast
  qed (simp add: data_differences_def)
qed

lemma market_data_equal:
  assumes law: "base58_law base58" and a: "decode a = DecodedMarket m" and b: "decode b = DecodedMarket n"
  shows "data_differences base58 FixtureLending label a b = [] \<longleftrightarrow> drop 2 a = drop 2 b"
proof -
  obtain r s where p: "wf_market m" "m_tag m = 1" "a = market_to_vec m @ r"
    and q: "wf_market n" "m_tag n = 1" "b = market_to_vec n @ s"
    using a b by (auto simp: decode_Market)
  note lp = length_market_to_vec [OF p(1)] and lq = length_market_to_vec [OF q(1)]
  have ab: "drop 2 a = drop 2 (market_to_vec m) @ r" "drop 2 b = drop 2 (market_to_vec n) @ s"
    using lp lq by (simp_all add: p q)
  have split: "drop 2 a = drop 2 b \<longleftrightarrow> drop 2 (market_to_vec m) = drop 2 (market_to_vec n) \<and> r = s"
    unfolding ab using lp lq by (subst append_eq_append_conv) auto
  have tail: "drop 2 (market_to_vec m) = drop 2 (market_to_vec n) \<longleftrightarrow>
      n\<lparr>m_tag := m_tag m, m_version := m_version m\<rparr> = m"
    using market_drop_inject [OF p(1) q(1)] market_tail(2) by metis
  show ?thesis
  proof (cases "a = b")
    case False
    then have "data_differences base58 FixtureLending label a b = [] \<longleftrightarrow>
      drop MARKET_LEN a = drop MARKET_LEN b \<and>
      (\<forall>(x, y)\<in>set (zip (decoded_fields base58 (DecodedMarket m))
            (decoded_fields base58 (DecodedMarket n))). snd x = snd y)"
      unfolding data_differences_def Let_def run_decoder.simps a b field_difference_Nil [where label = label, symmetric]
      by simp
    also have "drop MARKET_LEN a = drop MARKET_LEN b \<longleftrightarrow> r = s" using lp lq by (simp add: p q)
    finally show ?thesis unfolding split tail market_fields_equal [OF law p(1) q(1)] by blast
  qed (simp add: data_differences_def)
qed

lemma data_differences_opaque:
  "data_differences base58 NoDecoder label a b = [] \<longleftrightarrow> a = b"
  by (simp add: data_differences_def Let_def)

lemma decoded_hd:
  "decode a = DecodedPosition p \<Longrightarrow> hd a = 2" "decode a = DecodedMarket m \<Longrightarrow> hd a = 1"
  by (auto simp: decode_def split: list.splits if_splits option.splits)

lemma data_differences_lending:
  assumes "base58_law base58"
  shows "data_differences base58 FixtureLending label a b = [] \<longleftrightarrow> a = b \<or> version_apart a b"
proof (cases "decode a = Opaque \<or> \<not> same_variant (decode a) (decode b)")
  case True
  then show ?thesis
    by (auto simp: data_differences_def Let_def version_apart_def)
next
  case False
  then consider m n where "decode a = DecodedMarket m" "decode b = DecodedMarket n"
    | p q where "decode a = DecodedPosition p" "decode b = DecodedPosition q"
    by (cases "decode a"; cases "decode b") auto
  then show ?thesis
  proof cases
    case 1
    then show ?thesis using market_data_equal [OF assms 1] decoded_hd
      by (auto simp: version_apart_def)
  next
    case 2
    then show ?thesis using position_data_equal [OF assms 2] decoded_hd
      by (auto simp: version_apart_def)
  qed
qed

section \<open>Whole executions\<close>

text \<open>Two executions an observer cannot tell apart, with the account data compared by \<open>R\<close>.\<close>

definition same_snapshot :: "(u8 list \<Rightarrow> u8 list \<Rightarrow> bool) \<Rightarrow> AccountSnapshot \<Rightarrow> AccountSnapshot \<Rightarrow> bool" where
  "same_snapshot R a b \<longleftrightarrow>
     snap_lamports a = snap_lamports b \<and> snap_owner a = snap_owner b \<and>
     snap_executable a = snap_executable b \<and> snap_rent_epoch a = snap_rent_epoch b \<and>
     R (snap_data a) (snap_data b)"

definition same_outcome :: "(u8 list \<Rightarrow> u8 list \<Rightarrow> bool) \<Rightarrow> ExecutionResult \<Rightarrow> ExecutionResult \<Rightarrow> bool" where
  "same_outcome R v1 v2 \<longleftrightarrow>
     er_success v1 = er_success v2 \<and>
     (\<forall>label. rel_option (same_snapshot R) (bt_get (er_accounts v1) label) (bt_get (er_accounts v2) label)) \<and>
     map invocation_key (er_cpi_calls v1) = map invocation_key (er_cpi_calls v2)"

definition same_compute :: "ExecutionResult \<Rightarrow> ExecutionResult \<Rightarrow> bool" where
  "same_compute v1 v2 \<longleftrightarrow>
     (\<forall>a b. er_compute_units v1 = Some a \<and> er_compute_units v2 = Some b \<longrightarrow> a = b)"

definition data_reported :: "(address \<Rightarrow> string) \<Rightarrow> FieldDecoder \<Rightarrow> (u8 list \<Rightarrow> u8 list \<Rightarrow> bool) \<Rightarrow> bool" where
  "data_reported base58 decoder R \<longleftrightarrow>
     (\<forall>label a b. data_differences base58 decoder label a b = [] \<longleftrightarrow> R a b)"

lemma account_differences_Nil:
  assumes "data_reported base58 decoder R"
  shows "account_differences base58 decoder v1 v2 label = [] \<longleftrightarrow>
    (\<exists>a b. bt_get (er_accounts v1) label = Some a \<and> bt_get (er_accounts v2) label = Some b \<and>
       same_snapshot R a b)"
proof (cases "bt_get (er_accounts v1) label"; cases "bt_get (er_accounts v2) label")
  fix a b
  assume "bt_get (er_accounts v1) label = Some a" "bt_get (er_accounts v2) label = Some b"
  then show ?thesis
    using assms by (auto simp: account_differences_def metadata_difference_def same_snapshot_def
        data_reported_def)
qed (simp_all add: account_differences_def)

lemma bt_get_keys: "bt_get m k = None \<longleftrightarrow> k \<notin> set (bt_keys m)"
  by (simp add: bt_get_def bt_keys_def map_of_eq_None_iff)

lemma accounts_Nil:
  assumes "data_reported base58 decoder R"
  shows "concat (map (account_differences base58 decoder v1 v2)
      (btree_set (bt_keys (er_accounts v1) @ bt_keys (er_accounts v2)))) = [] \<longleftrightarrow>
    (\<forall>label. rel_option (same_snapshot R) (bt_get (er_accounts v1) label) (bt_get (er_accounts v2) label))"
    (is "?L \<longleftrightarrow> ?R")
proof -
  have "?L \<longleftrightarrow> (\<forall>label. label \<in> set (bt_keys (er_accounts v1)) \<union> set (bt_keys (er_accounts v2)) \<longrightarrow>
      (\<exists>a b. bt_get (er_accounts v1) label = Some a \<and> bt_get (er_accounts v2) label = Some b \<and>
         same_snapshot R a b))"
  proof -
    have "?L \<longleftrightarrow> (\<forall>label. label \<in> set (bt_keys (er_accounts v1)) \<union> set (bt_keys (er_accounts v2)) \<longrightarrow>
        account_differences base58 decoder v1 v2 label = [])" by auto
    then show ?thesis unfolding account_differences_Nil [OF assms] .
  qed
  also have "\<dots> \<longleftrightarrow> ?R"
  proof (rule all_cong1)
    fix label
    show "(label \<in> set (bt_keys (er_accounts v1)) \<union> set (bt_keys (er_accounts v2)) \<longrightarrow>
      (\<exists>a b. bt_get (er_accounts v1) label = Some a \<and> bt_get (er_accounts v2) label = Some b \<and>
         same_snapshot R a b)) =
      rel_option (same_snapshot R) (bt_get (er_accounts v1) label) (bt_get (er_accounts v2) label)"
      using bt_get_keys [of "er_accounts v1" label] bt_get_keys [of "er_accounts v2" label]
      by (cases "bt_get (er_accounts v1) label"; cases "bt_get (er_accounts v2) label") auto
  qed
  finally show ?thesis .
qed

lemma compute_difference_cases:
  assumes "compute_difference (er_compute_units v1) (er_compute_units v2) = Inr cs"
  shows "cs = [] \<longleftrightarrow> same_compute v1 v2" "\<forall>x\<in>set cs. is_compute_only x"
  using assms by (auto simp: compute_difference_def same_compute_def result_simps
      split: option.splits if_splits)

lemma account_not_compute:
  "x \<in> set (account_differences base58 decoder v1 v2 label) \<Longrightarrow> \<not> is_compute_only x"
proof -
  have f: "x \<in> set (field_difference l p) \<Longrightarrow> \<not> is_compute_only x" for l p
    by (cases p; cases "snd (fst p)"; cases "snd (snd p)")
      (auto simp: field_difference_def split: if_splits)
  have "x \<in> set (data_differences base58 decoder l a b) \<Longrightarrow> \<not> is_compute_only x" for l a b
    by (auto simp: data_differences_def Let_def raw_difference_def dest: f split: if_splits)
  then show "x \<in> set (account_differences base58 decoder v1 v2 label) \<Longrightarrow> \<not> is_compute_only x"
    by (auto simp: account_differences_def metadata_difference_def split: option.splits if_splits)
qed

lemma compare_Inr:
  assumes "compare_with_decoder base58 fixture v1 v2 decoder = Inr d"
  obtains cs where "compute_difference (er_compute_units v1) (er_compute_units v2) = Inr cs"
    and "sd_v1 d = v1" "sd_v2 d = v2" "sd_fixture_id d = fx_id fixture"
    and "sd_differences d =
      (if er_success v1 \<noteq> er_success v2 then
         [SuccessChanged (er_success v1) (er_success v2) (er_error v1) (er_error v2)] else []) @
      concat (map (account_differences base58 decoder v1 v2)
        (btree_set (bt_keys (er_accounts v1) @ bt_keys (er_accounts v2)))) @
      (if map invocation_key (er_cpi_calls v1) \<noteq> map invocation_key (er_cpi_calls v2)
       then [CpiChanged (map invocation_key (er_cpi_calls v1)) (map invocation_key (er_cpi_calls v2))]
       else []) @ cs"
  using assms by (auto simp: compare_with_decoder_def Let_def result_simps)

lemma classification_exact:
  assumes "data_reported base58 decoder R"
    and "compare_with_decoder base58 fixture v1 v2 decoder = Inr d"
  shows "classification d =
    (if \<not> same_outcome R v1 v2 then Changed
     else if same_compute v1 v2 then Identical else ComputeOnly)"
proof -
  obtain cs where cs: "compute_difference (er_compute_units v1) (er_compute_units v2) = Inr cs"
    and d: "sd_differences d =
      (if er_success v1 \<noteq> er_success v2 then
         [SuccessChanged (er_success v1) (er_success v2) (er_error v1) (er_error v2)] else []) @
      concat (map (account_differences base58 decoder v1 v2)
        (btree_set (bt_keys (er_accounts v1) @ bt_keys (er_accounts v2)))) @
      (if map invocation_key (er_cpi_calls v1) \<noteq> map invocation_key (er_cpi_calls v2)
       then [CpiChanged (map invocation_key (er_cpi_calls v1)) (map invocation_key (er_cpi_calls v2))]
       else []) @ cs"
    using compare_Inr [OF assms(2)] by metis
  define accs where "accs = concat (map (account_differences base58 decoder v1 v2)
        (btree_set (bt_keys (er_accounts v1) @ bt_keys (er_accounts v2))))"
  have accs: "\<forall>x\<in>set accs. \<not> is_compute_only x"
    unfolding accs_def using account_not_compute by fastforce
  then have keep: "filter (\<lambda>x. \<not> is_compute_only x) accs = accs" by (simp add: filter_id_conv)
  have gone: "filter (\<lambda>x. \<not> is_compute_only x) cs = []"
    using compute_difference_cases(2) [OF cs] by (simp add: filter_empty_conv)
  have "outcome_differences d = [] \<longleftrightarrow> same_outcome R v1 v2"
    unfolding outcome_differences_def d accs_def [symmetric] filter_append keep gone same_outcome_def
    using accounts_Nil [OF assms(1), of v1 v2] unfolding accs_def [symmetric] by auto
  moreover have "sd_differences d = [] \<longleftrightarrow> same_outcome R v1 v2 \<and> same_compute v1 v2"
    unfolding d accs_def [symmetric] same_outcome_def
    using accounts_Nil [OF assms(1), of v1 v2] compute_difference_cases(1) [OF cs]
    unfolding accs_def [symmetric] by auto
  ultimately show ?thesis by (auto simp: classification_def)
qed



text \<open>A position whose version byte alone changed is reported as changed bytes without the
  decoder and not at all with it.\<close>

theorem version_change_unreported:
  assumes "wf_position p" "p_tag p = ACCOUNT_TAG_POSITION" "v \<noteq> p_version p"
  shows "data_differences base58 FixtureLending label (position_to_vec p @ r)
           (position_to_vec (p\<lparr>p_version := v\<rparr>) @ r) = [] \<and>
         data_differences base58 NoDecoder label (position_to_vec p @ r)
           (position_to_vec (p\<lparr>p_version := v\<rparr>) @ r) \<noteq> []"
proof
  let ?q = "p\<lparr>p_version := v\<rparr>"
  have wq: "wf_position ?q" using assms(1) by (simp add: wf_position_def)
  have d: "decode (position_to_vec p @ r) = DecodedPosition p"
    "decode (position_to_vec ?q @ r) = DecodedPosition ?q"
    using assms wq by (auto simp: decode_Position)
  have "drop POSITION_LEN (position_to_vec p @ r) = drop POSITION_LEN (position_to_vec ?q @ r)"
    using length_position_to_vec [OF assms(1)] length_position_to_vec [OF wq] by simp
  then show "data_differences base58 FixtureLending label (position_to_vec p @ r)
      (position_to_vec ?q @ r) = []"
    by (simp add: data_differences_def Let_def d field_difference_def)
  have "position_to_vec p \<noteq> position_to_vec ?q"
    using assms(3) by (simp add: position_to_vec_def)
  then show "data_differences base58 NoDecoder label (position_to_vec p @ r)
      (position_to_vec ?q @ r) \<noteq> []"
    by (simp add: data_differences_opaque)
qed

section \<open>Threshold crossings\<close>

abbreviation (input) crossed :: "u64 \<Rightarrow> u64 \<Rightarrow> bool \<Rightarrow> bool \<Rightarrow> bool" where
  "crossed a b was now \<equiv> reference_is_liquidatable a = was \<and> reference_is_liquidatable b = now \<and> was \<noteq> now"

lemma crossing_field:
  "LiquidationStatusChanged l was now h1 h2 \<in> set (field_difference label ((n, x), (m, y))) \<longleftrightarrow>
     l = label \<and> (\<exists>a b. x = Health a \<and> y = Health b \<and> crossed a b was now \<and>
       h1 = format_health a \<and> h2 = format_health b)"
  by (cases x; cases y) (auto simp: field_difference_def)

lemma crossing_data:
  "LiquidationStatusChanged l was now h1 h2 \<in> set (data_differences base58 FixtureLending label a b) \<longleftrightarrow>
     l = label \<and> (\<exists>p q. decode a = DecodedPosition p \<and> decode b = DecodedPosition q \<and>
       crossed (p_health_factor p) (p_health_factor q) was now \<and>
       h1 = format_health (p_health_factor p) \<and> h2 = format_health (p_health_factor q))"
proof (cases "a = b")
  case True
  then show ?thesis by (auto simp: data_differences_def)
next
  case False
  then show ?thesis
    by (cases "decode a"; cases "decode b")
      (simp_all add: data_differences_def Let_def raw_difference_def crossing_field)
qed

lemma crossing_account:
  "LiquidationStatusChanged l was now h1 h2 \<in> set (account_differences base58 FixtureLending v1 v2 label) \<longleftrightarrow>
     l = label \<and> (\<exists>a b p q. bt_get (er_accounts v1) label = Some a \<and> bt_get (er_accounts v2) label = Some b \<and>
       decode (snap_data a) = DecodedPosition p \<and> decode (snap_data b) = DecodedPosition q \<and>
       crossed (p_health_factor p) (p_health_factor q) was now \<and>
       h1 = format_health (p_health_factor p) \<and> h2 = format_health (p_health_factor q))"
  by (cases "bt_get (er_accounts v1) label"; cases "bt_get (er_accounts v2) label")
    (auto simp: account_differences_def metadata_difference_def crossing_data)

lemma bt_get_Some_key: "bt_get m k = Some v \<Longrightarrow> k \<in> set (bt_keys m)"
  using bt_get_keys [of m k] by auto

lemma crossing_compare:
  assumes "compare base58 fixture v1 v2 = Inr d"
  shows "LiquidationStatusChanged l was now h1 h2 \<in> set (sd_differences d) \<longleftrightarrow>
     (\<exists>a b p q. bt_get (er_accounts v1) l = Some a \<and> bt_get (er_accounts v2) l = Some b \<and>
       decode (snap_data a) = DecodedPosition p \<and> decode (snap_data b) = DecodedPosition q \<and>
       crossed (p_health_factor p) (p_health_factor q) was now \<and>
       h1 = format_health (p_health_factor p) \<and> h2 = format_health (p_health_factor q))"
proof -
  obtain cs where cs: "compute_difference (er_compute_units v1) (er_compute_units v2) = Inr cs"
    and d: "sd_differences d =
      (if er_success v1 \<noteq> er_success v2 then
         [SuccessChanged (er_success v1) (er_success v2) (er_error v1) (er_error v2)] else []) @
      concat (map (account_differences base58 FixtureLending v1 v2)
        (btree_set (bt_keys (er_accounts v1) @ bt_keys (er_accounts v2)))) @
      (if map invocation_key (er_cpi_calls v1) \<noteq> map invocation_key (er_cpi_calls v2)
       then [CpiChanged (map invocation_key (er_cpi_calls v1)) (map invocation_key (er_cpi_calls v2))]
       else []) @ cs"
    using compare_Inr [OF assms [unfolded compare_def]] by metis
  have "LiquidationStatusChanged l was now h1 h2 \<notin> set cs"
    using compute_difference_cases(2) [OF cs] by fastforce
  then have "LiquidationStatusChanged l was now h1 h2 \<in> set (sd_differences d) \<longleftrightarrow>
      (\<exists>label\<in>set (bt_keys (er_accounts v1)) \<union> set (bt_keys (er_accounts v2)).
        LiquidationStatusChanged l was now h1 h2
          \<in> set (account_differences base58 FixtureLending v1 v2 label))"
    unfolding d by (simp add: bex_Un)
  then show ?thesis unfolding crossing_account by (blast dest: bt_get_Some_key)
qed

lemma max_of_Critical:
  "max_of xs = Some Critical \<longleftrightarrow> Critical \<in> set xs"
proof -
  have top: "s \<le> Critical" for s by (cases s) (simp_all add: less_eq_Severity_def)
  show ?thesis
  proof
    assume "max_of xs = Some Critical"
    then have "xs \<noteq> []" "Max (set xs) = Critical" by (auto simp: max_of_def split: if_splits)
    then show "Critical \<in> set xs" using Max_in [of "set xs"] by simp
  next
    assume c: "Critical \<in> set xs"
    then have "Max (set xs) = Critical" by (intro Max_eqI) (use top in auto)
    with c show "max_of xs = Some Critical" by (auto simp: max_of_def)
  qed
qed

lemma critical_kinds:
  "difference_severity x = Critical \<and> \<not> is_compute_only x \<longleftrightarrow>
     (\<exists>a b c e. x = SuccessChanged a b c e) \<or> (\<exists>l w n h1 h2. x = LiquidationStatusChanged l w n h1 h2)"
  by (cases x) auto

lemma success_reported:
  assumes "compare_with_decoder base58 fixture v1 v2 decoder = Inr d"
  shows "(\<exists>a b c e. SuccessChanged a b c e \<in> set (sd_differences d)) \<longleftrightarrow> er_success v1 \<noteq> er_success v2"
proof -
  have f: "SuccessChanged a b c e \<notin> set (field_difference l p)" for a b c e l p
    by (cases p; cases "snd (fst p)"; cases "snd (snd p)")
      (auto simp: field_difference_def split: if_splits)
  have "SuccessChanged a b c e \<notin> set (data_differences base58 decoder l x y)" for a b c e l x y
    by (auto simp: data_differences_def Let_def raw_difference_def f)
  then have "SuccessChanged a b c e \<notin> set (account_differences base58 decoder v1 v2 l)" for a b c e l
    by (auto simp: account_differences_def metadata_difference_def split: option.splits)
  moreover obtain cs where cs: "compute_difference (er_compute_units v1) (er_compute_units v2) = Inr cs"
    and d: "sd_differences d =
      (if er_success v1 \<noteq> er_success v2 then
         [SuccessChanged (er_success v1) (er_success v2) (er_error v1) (er_error v2)] else []) @
      concat (map (account_differences base58 decoder v1 v2)
        (btree_set (bt_keys (er_accounts v1) @ bt_keys (er_accounts v2)))) @
      (if map invocation_key (er_cpi_calls v1) \<noteq> map invocation_key (er_cpi_calls v2)
       then [CpiChanged (map invocation_key (er_cpi_calls v1)) (map invocation_key (er_cpi_calls v2))]
       else []) @ cs"
    using compare_Inr [OF assms] by metis
  moreover have "SuccessChanged a b c e \<notin> set cs" for a b c e
    using compute_difference_cases(2) [OF cs] by fastforce
  ultimately show ?thesis unfolding d by auto
qed

lemma filtered_mem: "c \<in> set (map f (filter P xs)) \<longleftrightarrow> (\<exists>x\<in>set xs. f x = c \<and> P x)"
  by auto

text \<open>C17. A position is reported as crossing the liquidation threshold exactly when both executions
  leave a position under the same label and the two disagree on whether its health is below one;
  and a fixture is critical exactly when success changed or some position crossed.\<close>

theorem crossings_reported:
  assumes "compare base58 fixture v1 v2 = Inr d"
  shows "((\<exists>h1 h2. LiquidationStatusChanged label was now h1 h2 \<in> set (sd_differences d)) \<longleftrightarrow>
      (\<exists>a b p q. bt_get (er_accounts v1) label = Some a \<and> bt_get (er_accounts v2) label = Some b \<and>
         decode (snap_data a) = DecodedPosition p \<and> decode (snap_data b) = DecodedPosition q \<and>
         crossed (p_health_factor p) (p_health_factor q) was now)) \<and>
    (is_critical d \<longleftrightarrow> er_success v1 \<noteq> er_success v2 \<or>
      (\<exists>l w n h1 h2. LiquidationStatusChanged l w n h1 h2 \<in> set (sd_differences d)))"
proof
  show "(\<exists>h1 h2. LiquidationStatusChanged label was now h1 h2 \<in> set (sd_differences d)) \<longleftrightarrow>
      (\<exists>a b p q. bt_get (er_accounts v1) label = Some a \<and> bt_get (er_accounts v2) label = Some b \<and>
         decode (snap_data a) = DecodedPosition p \<and> decode (snap_data b) = DecodedPosition q \<and>
         crossed (p_health_factor p) (p_health_factor q) was now)"
    unfolding crossing_compare [OF assms] by blast
  have s: "(\<exists>a b c e. SuccessChanged a b c e \<in> set (sd_differences d)) \<longleftrightarrow> er_success v1 \<noteq> er_success v2"
    by (rule success_reported [OF assms [unfolded compare_def]])
  have "is_critical d \<longleftrightarrow> (\<exists>x\<in>set (sd_differences d). difference_severity x = Critical \<and> \<not> is_compute_only x)"
    unfolding is_critical_def outcome_severity_def max_of_Critical outcome_differences_def
    by (rule filtered_mem)
  also have "\<dots> \<longleftrightarrow> (\<exists>x\<in>set (sd_differences d). (\<exists>a b c e. x = SuccessChanged a b c e) \<or>
      (\<exists>l w n h1 h2. x = LiquidationStatusChanged l w n h1 h2))"
    unfolding critical_kinds ..
  also have "\<dots> \<longleftrightarrow> (\<exists>a b c e. SuccessChanged a b c e \<in> set (sd_differences d)) \<or>
      (\<exists>l w n h1 h2. LiquidationStatusChanged l w n h1 h2 \<in> set (sd_differences d))"
    unfolding bex_disj_distrib by (intro arg_cong2 [where f = "(\<or>)"]; blast)
  finally show "is_critical d \<longleftrightarrow> er_success v1 \<noteq> er_success v2 \<or>
      (\<exists>l w n h1 h2. LiquidationStatusChanged l w n h1 h2 \<in> set (sd_differences d))"
    unfolding s .
qed

section \<open>A concrete comparison\<close>

text \<open>One position at a health of 1.003783 under one build and 0.998738 under the other.\<close>

definition ex_diff_position :: "u64 \<Rightarrow> Position" where
  "ex_diff_position health =
     \<lparr>p_tag = 2, p_version = 1, p_owner = replicate 32 4, p_market = replicate 32 1,
      p_collateral_amount = 99500000000, p_debt_amount = 7930000000, p_collateral_price = 100000000,
      p_liquidation_threshold_bps = 8000, p_max_ltv_bps = 7500, p_health_factor = health,
      p_last_update_slot = 0\<rparr>"

definition ex_execution :: "Position \<Rightarrow> ExecutionResult" where
  "ex_execution p =
     \<lparr>er_version = ''v'', er_success = True, er_error = None, er_compute_units = Some 1000,
      er_fee = 5000, er_logs = [], er_cpi_calls = [],
      er_accounts = [(''position'', \<lparr>snap_lamports = 1000000, snap_owner = ''o'',
         snap_data = position_to_vec p, snap_executable = False, snap_rent_epoch = 0\<rparr>)]\<rparr>"

definition ex_fixture :: Fixture where
  "ex_fixture = \<lparr>fx_id = ''boundary-position-017'', fx_category = Boundary, fx_scenario = ''refresh'',
     fx_notes = [], fx_keypairs = [], fx_accounts = [], fx_fee_payer = ''payer'', fx_signers = [],
     fx_instruction = \<lparr>is_program = ''p'', is_accounts = [], is_data = [7]\<rparr>, fx_watch = [''position'']\<rparr>"

definition ex_base58 :: "address \<Rightarrow> string" where
  "ex_base58 bytes = map (\<lambda>b. char_of (unat b)) bytes"

lemma ex_base58_law: "base58_law ex_base58"
proof -
  have "char_of (unat a) = (char_of (unat b) :: char) \<Longrightarrow> a = b" for a b :: u8
  proof -
    assume "char_of (unat a) = (char_of (unat b) :: char)"
    then have "(of_char (char_of (unat a) :: char) :: nat) = of_char (char_of (unat b) :: char)" by simp
    then show "a = b" by simp
  qed
  then have "inj (\<lambda>b::u8. char_of (unat b) :: char)" by (rule injI)
  then show ?thesis unfolding base58_law_def ex_base58_def
    by (rule inj_on_subset [OF inj_mapI]) simp
qed

lemma ex_positions: "decode (position_to_vec (ex_diff_position h)) = DecodedPosition (ex_diff_position h)"
  by (simp add: decode_Position wf_position_def ex_diff_position_def)

lemma ex_differ: "position_to_vec (ex_diff_position 998738) \<noteq> position_to_vec (ex_diff_position 1003783)"
proof
  assume "position_to_vec (ex_diff_position 998738) = position_to_vec (ex_diff_position 1003783)"
  then have "ex_diff_position 998738 = ex_diff_position 1003783"
    by (metis ex_positions Decoded.inject(2))
  then show False by (simp add: ex_diff_position_def)
qed

lemma ex_compared:
  "\<exists>d. compare_with_decoder ex_base58 ex_fixture (ex_execution p) (ex_execution q) decoder = Inr d"
  by (simp add: compare_with_decoder_def compute_difference_def ex_execution_def Let_def)



theorem version_change_unreported_witness:
  "data_differences ex_base58 FixtureLending ''position'' (position_to_vec (ex_diff_position 5) @ [])
     (position_to_vec ((ex_diff_position 5)\<lparr>p_version := 7\<rparr>) @ []) = []"
  using version_change_unreported [of "ex_diff_position 5" 7 ex_base58 "''position''" "[]"]
  by (simp add: ex_diff_position_def wf_position_def)

theorem crossings_reported_witness:
  "\<exists>d h1 h2. compare ex_base58 ex_fixture (ex_execution (ex_diff_position 1003783))
        (ex_execution (ex_diff_position 998738)) = Inr d \<and> is_critical d \<and>
     LiquidationStatusChanged ''position'' False True h1 h2 \<in> set (sd_differences d)"
proof -
  obtain d where d: "compare ex_base58 ex_fixture (ex_execution (ex_diff_position 1003783))
        (ex_execution (ex_diff_position 998738)) = Inr d" using ex_compared unfolding compare_def by blast
  have health: "p_health_factor (ex_diff_position h) = h" for h by (simp add: ex_diff_position_def)
  have "\<exists>h1 h2. LiquidationStatusChanged ''position'' False True h1 h2 \<in> set (sd_differences d)"
    using conjunct1 [OF crossings_reported [OF d, of "''position''" False True]]
    by (simp add: ex_execution_def bt_get_def ex_positions health reference_is_liquidatable_def
        word_less_nat_alt)
  then show ?thesis using d conjunct2 [OF crossings_reported [OF d, of "''position''" False True]] by blast
qed

end
