(* ===== verification/Impact.thy ===== *)
theory Impact
  imports DiffProperties
begin

text \<open>
  Economic impact (\<open>engine/src/impact.rs\<close>): the consequences of one comparison, the economic
  record of one fixture, and the corpus summary, with the totals of every capital group. Counters
  of type \<open>usize\<close> are natural numbers. What is proved: which consequences are reported, that
  compute alone never affects capital, and that every total of the summary is the exact saturating
  sum over exactly the fixtures it names.
\<close>

section \<open>Consequences\<close>

datatype EconomicConsequence =
    NewlyLiquidatable | NoLongerLiquidatable | TransactionNowReverts | TransactionNowSucceeds
  | ValueChanged

fun consequence_rank :: "EconomicConsequence \<Rightarrow> nat" where
  "consequence_rank NewlyLiquidatable = 0"
| "consequence_rank NoLongerLiquidatable = 1"
| "consequence_rank TransactionNowReverts = 2"
| "consequence_rank TransactionNowSucceeds = 3"
| "consequence_rank ValueChanged = 4"

lemma consequence_rank_inject [simp]: "consequence_rank a = consequence_rank b \<longleftrightarrow> a = b"
  by (cases a; cases b) simp_all

instantiation EconomicConsequence :: linorder
begin

definition less_eq_EconomicConsequence :: "EconomicConsequence \<Rightarrow> EconomicConsequence \<Rightarrow> bool" where
  "less_eq_EconomicConsequence a b \<longleftrightarrow> consequence_rank a \<le> consequence_rank b"

definition less_EconomicConsequence :: "EconomicConsequence \<Rightarrow> EconomicConsequence \<Rightarrow> bool" where
  "less_EconomicConsequence a b \<longleftrightarrow> consequence_rank a < consequence_rank b"

instance
  by standard (auto simp: less_eq_EconomicConsequence_def less_EconomicConsequence_def)

end

fun consequence_as_str :: "EconomicConsequence \<Rightarrow> string" where
  "consequence_as_str NewlyLiquidatable = ''newly_liquidatable''"
| "consequence_as_str NoLongerLiquidatable = ''no_longer_liquidatable''"
| "consequence_as_str TransactionNowReverts = ''transaction_now_reverts''"
| "consequence_as_str TransactionNowSucceeds = ''transaction_now_succeeds''"
| "consequence_as_str ValueChanged = ''value_changed''"

definition all_consequences :: "EconomicConsequence list" where
  "all_consequences = [NewlyLiquidatable, NoLongerLiquidatable, TransactionNowReverts,
     TransactionNowSucceeds, ValueChanged]"

definition is_economically_affected :: "StateDiff \<Rightarrow> bool" where
  "is_economically_affected d \<longleftrightarrow> list_ex (\<lambda>x. \<not> is_compute_only x) (sd_differences d)"

fun consequence_of :: "Difference \<Rightarrow> EconomicConsequence list" where
  "consequence_of (LiquidationStatusChanged account v1 v2 h1 h2) =
     [if \<not> v1 \<and> v2 then NewlyLiquidatable else NoLongerLiquidatable]"
| "consequence_of (SuccessChanged v1_success v2_success e1 e2) =
     [if v1_success \<and> \<not> v2_success then TransactionNowReverts else TransactionNowSucceeds]"
| "consequence_of _ = []"

definition consequences :: "StateDiff \<Rightarrow> EconomicConsequence list" where
  "consequences d =
     (let out = concat (map consequence_of (sd_differences d));
          out = (if out = [] \<and> is_economically_affected d then [ValueChanged] else out)
      in remdups_adj (sort out))"

section \<open>Records and summary\<close>

record FixtureEconomics =
  fe_fixture_id :: string
  fe_category :: Category
  fe_baseline :: PositionEconomics
  fe_v1_post :: "PositionEconomics option"
  fe_v2_post :: "PositionEconomics option"
  fe_affected :: bool
  fe_critical :: bool
  fe_consequences :: "EconomicConsequence list"

definition is_newly_liquidatable :: "FixtureEconomics \<Rightarrow> bool" where
  "is_newly_liquidatable e \<longleftrightarrow> NewlyLiquidatable \<in> set (fe_consequences e)"

abbreviation POSITION_LABEL :: string where "POSITION_LABEL \<equiv> ''position''"

definition post_economics :: "ExecutionResult \<Rightarrow> panic + PositionEconomics option" where
  "post_economics r =
     (case bt_get (er_accounts r) POSITION_LABEL of
        None \<Rightarrow> Inr None | Some snapshot \<Rightarrow> position_economics (snap_data snapshot))"

definition evaluate :: "Fixture \<Rightarrow> StateDiff \<Rightarrow> panic + FixtureEconomics option" where
  "evaluate fixture d =
     (case fixture_account fixture POSITION_LABEL of
        None \<Rightarrow> Inr None
      | Some named \<Rightarrow>
          and_then (position_economics (snap_data (na_account named))) (\<lambda>baseline.
          case baseline of
            None \<Rightarrow> Inr None
          | Some baseline \<Rightarrow>
              and_then (post_economics (sd_v1 d)) (\<lambda>v1_post.
              and_then (post_economics (sd_v2 d)) (\<lambda>v2_post.
              Inr (Some \<lparr>fe_fixture_id = fx_id fixture, fe_category = fx_category fixture,
                fe_baseline = baseline, fe_v1_post = v1_post, fe_v2_post = v2_post,
                fe_affected = is_economically_affected d, fe_critical = is_critical d,
                fe_consequences = consequences d\<rparr>)))))"

record CapitalGroup =
  cg_positions :: nat
  cg_collateral_value_usd :: Usd
  cg_debt_value_usd :: Usd

definition empty_group :: CapitalGroup where
  "empty_group = \<lparr>cg_positions = 0, cg_collateral_value_usd = Usd 0, cg_debt_value_usd = Usd 0\<rparr>"

definition group_add :: "FixtureEconomics \<Rightarrow> CapitalGroup \<Rightarrow> CapitalGroup" where
  "group_add e g =
     \<lparr>cg_positions = cg_positions g + 1,
      cg_collateral_value_usd =
        usd_saturating_add (cg_collateral_value_usd g) (pe_collateral_value_usd (fe_baseline e)),
      cg_debt_value_usd =
        usd_saturating_add (cg_debt_value_usd g) (pe_debt_value_usd (fe_baseline e))\<rparr>"

record EconomicImpactSummary =
  es_positions_valued :: nat
  es_total_collateral_value_usd :: Usd
  es_total_debt_value_usd :: Usd
  es_total_net_value_usd :: SignedUsd
  es_affected :: CapitalGroup
  es_critical :: CapitalGroup
  es_newly_liquidatable :: CapitalGroup
  es_by_consequence :: "(string, CapitalGroup) btree_map"

definition unaffected_positions :: "EconomicImpactSummary \<Rightarrow> nat" where
  "unaffected_positions s = es_positions_valued s - cg_positions (es_affected s)"

text \<open>\<open>if let Some(group) = by_consequence.get_mut(..) { group.add(economics) }\<close> for one
  consequence.\<close>

definition add_to_consequence ::
  "FixtureEconomics \<Rightarrow> EconomicConsequence \<Rightarrow> (string, CapitalGroup) btree_map \<Rightarrow>
     (string, CapitalGroup) btree_map" where
  "add_to_consequence e c m =
     (case bt_get m (consequence_as_str c) of
        None \<Rightarrow> m | Some g \<Rightarrow> bt_insert (consequence_as_str c) (group_add e g) m)"

definition summarize_step :: "EconomicImpactSummary \<Rightarrow> FixtureEconomics \<Rightarrow> EconomicImpactSummary" where
  "summarize_step s e =
     s\<lparr>es_total_collateral_value_usd :=
         usd_saturating_add (es_total_collateral_value_usd s) (pe_collateral_value_usd (fe_baseline e)),
       es_total_debt_value_usd :=
         usd_saturating_add (es_total_debt_value_usd s) (pe_debt_value_usd (fe_baseline e)),
       es_affected := (if fe_affected e then group_add e (es_affected s) else es_affected s),
       es_critical := (if fe_critical e then group_add e (es_critical s) else es_critical s),
       es_newly_liquidatable := (if is_newly_liquidatable e
          then group_add e (es_newly_liquidatable s) else es_newly_liquidatable s),
       es_by_consequence :=
         foldl (\<lambda>m c. add_to_consequence e c m) (es_by_consequence s) (fe_consequences e)\<rparr>"

definition initial_summary :: "nat \<Rightarrow> EconomicImpactSummary" where
  "initial_summary n =
     \<lparr>es_positions_valued = n, es_total_collateral_value_usd = Usd 0, es_total_debt_value_usd = Usd 0,
      es_total_net_value_usd = SignedUsd 0, es_affected = empty_group, es_critical = empty_group,
      es_newly_liquidatable = empty_group,
      es_by_consequence =
        foldl (\<lambda>m c. bt_insert (consequence_as_str c) empty_group m) [] all_consequences\<rparr>"

definition summarize :: "FixtureEconomics list \<Rightarrow> panic + EconomicImpactSummary" where
  "summarize entries =
     (let s = foldl summarize_step (initial_summary (length entries)) entries in
      and_then (signed_sub (es_total_collateral_value_usd s) (es_total_debt_value_usd s)) (\<lambda>net.
      Inr (s\<lparr>es_total_net_value_usd := net\<rparr>)))"

fun evaluate_diffs ::
  "(string, Fixture) btree_map \<Rightarrow> StateDiff list \<Rightarrow> panic + FixtureEconomics list" where
  "evaluate_diffs by_id [] = Inr []"
| "evaluate_diffs by_id (d # ds) =
     and_then (case bt_get by_id (sd_fixture_id d) of
                 None \<Rightarrow> Inr None | Some fixture \<Rightarrow> evaluate fixture d) (\<lambda>e.
     and_then (evaluate_diffs by_id ds) (\<lambda>es.
     Inr (case e of None \<Rightarrow> es | Some x \<Rightarrow> x # es)))"

definition evaluate_all :: "Fixture list \<Rightarrow> StateDiff list \<Rightarrow> panic + FixtureEconomics list" where
  "evaluate_all fixtures ds = evaluate_diffs (bt_collect (map (\<lambda>f. (fx_id f, f)) fixtures)) ds"

section \<open>Which consequences are reported\<close>

lemma set_consequences:
  "set (consequences d) =
     (let out = set (concat (map consequence_of (sd_differences d))) in
      if out = {} \<and> is_economically_affected d then {ValueChanged} else out)"
  by (auto simp: consequences_def Let_def)

lemma affected_outcome: "is_economically_affected d \<longleftrightarrow> outcome_differences d \<noteq> []"
  by (auto simp: is_economically_affected_def outcome_differences_def list_ex_iff filter_empty_conv)

lemma consequence_not_compute: "consequence_of x \<noteq> [] \<Longrightarrow> \<not> is_compute_only x"
  by (cases x) simp_all

lemma consequence_members:
  "NewlyLiquidatable \<in> set (consequence_of x) \<longleftrightarrow> (\<exists>l h1 h2. x = LiquidationStatusChanged l False True h1 h2)"
  "TransactionNowReverts \<in> set (consequence_of x) \<longleftrightarrow> (\<exists>e1 e2. x = SuccessChanged True False e1 e2)"
  "ValueChanged \<notin> set (consequence_of x)"
  by (cases x; simp)+

lemma remdups_adj_sorted: "sorted xs \<Longrightarrow> sorted (remdups_adj xs) \<and> distinct (remdups_adj xs)"
proof (induction xs rule: remdups_adj.induct)
  case (3 x y xs)
  then show ?case by (cases "x = y") (auto simp: less_le)
qed simp_all

lemma consequences_wf: "sorted (consequences d) \<and> distinct (consequences d)"
  by (simp add: consequences_def Let_def remdups_adj_sorted)

text \<open>A fixture has an economic consequence exactly when something other than compute differs;
  each threshold crossing and each change of success is among them under its own name, the
  residual consequence stands for every other change and appears alone; the list is strictly
  ascending.\<close>

theorem consequences_exact:
  "(consequences d \<noteq> [] \<longleftrightarrow> is_economically_affected d) \<and>
   (NewlyLiquidatable \<in> set (consequences d) \<longleftrightarrow>
      (\<exists>l h1 h2. LiquidationStatusChanged l False True h1 h2 \<in> set (sd_differences d))) \<and>
   (TransactionNowReverts \<in> set (consequences d) \<longleftrightarrow>
      (\<exists>e1 e2. SuccessChanged True False e1 e2 \<in> set (sd_differences d))) \<and>
   (ValueChanged \<in> set (consequences d) \<longleftrightarrow>
      is_economically_affected d \<and> consequences d = [ValueChanged]) \<and>
   sorted_wrt (<) (consequences d)"
proof -
  let ?out = "set (concat (map consequence_of (sd_differences d)))"
  have no_value: "ValueChanged \<notin> ?out" by (auto simp: consequence_members)
  have out_affected: "?out \<noteq> {} \<Longrightarrow> is_economically_affected d"
    using consequence_not_compute by (fastforce simp: is_economically_affected_def list_ex_iff)
  have new: "NewlyLiquidatable \<in> ?out \<longleftrightarrow>
      (\<exists>l h1 h2. LiquidationStatusChanged l False True h1 h2 \<in> set (sd_differences d))"
    by (auto simp: consequence_members)
  have reverts: "TransactionNowReverts \<in> ?out \<longleftrightarrow>
      (\<exists>e1 e2. SuccessChanged True False e1 e2 \<in> set (sd_differences d))"
    by (auto simp: consequence_members)
  have empty: "consequences d \<noteq> [] \<longleftrightarrow> set (consequences d) \<noteq> {}" by simp
  have alone: "set (consequences d) = {ValueChanged} \<Longrightarrow> consequences d = [ValueChanged]"
    using consequences_wf [of d] sorted_distinct_set_unique [of "consequences d" "[ValueChanged]"] by simp
  have strict: "sorted_wrt (<) (consequences d)"
    using consequences_wf [of d] by (simp add: strict_sorted_iff)
  show ?thesis
  proof (cases "?out = {} \<and> is_economically_affected d")
    case True
    then have "set (consequences d) = {ValueChanged}" by (simp add: set_consequences)
    with True alone new reverts strict show ?thesis by auto
  next
    case False
    then have c: "set (consequences d) = ?out" by (simp only: set_consequences Let_def if_False)
    have "?out \<noteq> {} \<longleftrightarrow> is_economically_affected d" using False out_affected by blast
    with c no_value new reverts strict empty show ?thesis
      by (metis list.set_intros(1))
  qed
qed

section \<open>What the summary adds up\<close>

text \<open>The capital group of a list of records, by its specification.\<close>

definition clamped_sum :: "nat list \<Rightarrow> u128" where
  "clamped_sum xs = of_nat (min (2 ^ 128 - 1) (sum_list xs))"

definition collateral_of :: "FixtureEconomics \<Rightarrow> nat" where
  "collateral_of e = unat (usd_micro (pe_collateral_value_usd (fe_baseline e)))"

definition debt_of :: "FixtureEconomics \<Rightarrow> nat" where
  "debt_of e = unat (usd_micro (pe_debt_value_usd (fe_baseline e)))"

definition group_of :: "FixtureEconomics list \<Rightarrow> CapitalGroup" where
  "group_of es = \<lparr>cg_positions = length es,
     cg_collateral_value_usd = Usd (clamped_sum (map collateral_of es)),
     cg_debt_value_usd = Usd (clamped_sum (map debt_of es))\<rparr>"

lemma clamped_sum_snoc:
  "usd_saturating_add (Usd (clamped_sum xs)) v = Usd (clamped_sum (xs @ [unat (usd_micro v)]))"
proof -
  have c: "unat (clamped_sum ys) = min (2 ^ 128 - 1) (sum_list ys)" for ys
    unfolding clamped_sum_def by (rule unat_of_nat_eq) simp
  have "saturating_add (clamped_sum xs) (usd_micro v) = clamped_sum (xs @ [unat (usd_micro v)])"
    by (rule word_eq_unatI) (simp add: unat_saturating_add c)
  then show ?thesis by (simp add: usd_saturating_add_def)
qed

lemma group_of_Nil [simp]: "group_of [] = empty_group"
  by (simp add: group_of_def empty_group_def clamped_sum_def)

lemma group_of_snoc [simp]: "group_add e (group_of es) = group_of (es @ [e])"
  by (simp add: group_add_def group_of_def clamped_sum_snoc collateral_of_def debt_of_def)

lemma consequence_as_str_inject [simp]: "consequence_as_str a = consequence_as_str b \<longleftrightarrow> a = b"
  by (cases a; cases b) simp_all

definition keeps_all :: "(string, CapitalGroup) btree_map \<Rightarrow> (EconomicConsequence \<Rightarrow> CapitalGroup) \<Rightarrow> bool" where
  "keeps_all m f \<longleftrightarrow> bt_wf m \<and> (\<forall>c. bt_get m (consequence_as_str c) = Some (f c)) \<and>
     set (bt_keys m) = range consequence_as_str"

lemma bt_keys_insert: "set (bt_keys (bt_insert k v m)) = insert k (set (bt_keys m))"
  using bt_insert_keys [of k v m] by (simp only: bt_keys_def)

lemma keeps_all_add:
  assumes "keeps_all m f"
  shows "keeps_all (add_to_consequence e c m) (f(c := group_add e (f c)))"
proof -
  have "add_to_consequence e c m = bt_insert (consequence_as_str c) (group_add e (f c)) m"
    using assms by (simp add: add_to_consequence_def keeps_all_def)
  then show ?thesis using assms
    by (auto simp: keeps_all_def bt_insert_wf bt_get_insert bt_keys_insert)
qed

lemma keeps_all_foldl:
  assumes "keeps_all m f" "distinct cs"
  shows "keeps_all (foldl (\<lambda>m c. add_to_consequence e c m) m cs)
    (\<lambda>c. if c \<in> set cs then group_add e (f c) else f c)"
  using assms
proof (induction cs arbitrary: m f)
  case Nil
  then show ?case by simp
next
  case (Cons c cs)
  have "keeps_all (foldl (\<lambda>m c. add_to_consequence e c m) (add_to_consequence e c m) cs)
    (\<lambda>c'. if c' \<in> set cs then group_add e ((f(c := group_add e (f c))) c')
        else (f(c := group_add e (f c))) c')"
    by (rule Cons.IH [OF keeps_all_add [OF Cons.prems(1)]]) (use Cons.prems(2) in simp)
  moreover have "(\<lambda>c'. if c' \<in> set cs then group_add e ((f(c := group_add e (f c))) c')
        else (f(c := group_add e (f c))) c') = (\<lambda>c'. if c' \<in> set (c # cs) then group_add e (f c') else f c')"
    using Cons.prems(2) by auto
  ultimately show ?case by simp
qed

lemma keeps_all_initial: "keeps_all (es_by_consequence (initial_summary n)) (\<lambda>c. empty_group)"
proof -
  let ?f = "\<lambda>c. consequence_as_str c"
  have "bt_wf (es_by_consequence (initial_summary n))"
    by (simp add: initial_summary_def all_consequences_def bt_insert_wf bt_wf_def)
  moreover have "bt_get (es_by_consequence (initial_summary n)) (?f c) = Some empty_group" for c
    by (cases c) (simp_all add: initial_summary_def all_consequences_def bt_get_def)
  moreover have "set (bt_keys (es_by_consequence (initial_summary n))) = ?f ` set all_consequences"
    by (simp add: initial_summary_def all_consequences_def bt_keys_insert) (simp add: bt_keys_def)
  moreover have "set all_consequences = UNIV"
    using EconomicConsequence.exhaust by (auto simp: all_consequences_def)
  ultimately show ?thesis by (simp add: keeps_all_def)
qed

definition having :: "EconomicConsequence \<Rightarrow> FixtureEconomics list \<Rightarrow> FixtureEconomics list" where
  "having c es = filter (\<lambda>e. c \<in> set (fe_consequences e)) es"

definition summary_of :: "nat \<Rightarrow> FixtureEconomics list \<Rightarrow> EconomicImpactSummary \<Rightarrow> bool" where
  "summary_of n es s \<longleftrightarrow>
     es_positions_valued s = n \<and>
     es_total_collateral_value_usd s = Usd (clamped_sum (map collateral_of es)) \<and>
     es_total_debt_value_usd s = Usd (clamped_sum (map debt_of es)) \<and>
     es_affected s = group_of (filter fe_affected es) \<and>
     es_critical s = group_of (filter fe_critical es) \<and>
     es_newly_liquidatable s = group_of (having NewlyLiquidatable es) \<and>
     keeps_all (es_by_consequence s) (\<lambda>c. group_of (having c es))"

lemma having_snoc:
  "having c (es @ [e]) = (if c \<in> set (fe_consequences e) then having c es @ [e] else having c es)"
  by (simp add: having_def)

lemma summary_of_step:
  assumes s: "summary_of n es s" and d: "distinct (fe_consequences e)"
  shows "summary_of n (es @ [e]) (summarize_step s e)"
proof -
  have k: "keeps_all (es_by_consequence s) (\<lambda>c. group_of (having c es))"
    using s by (simp add: summary_of_def)
  have "(\<lambda>c. if c \<in> set (fe_consequences e) then group_add e (group_of (having c es))
        else group_of (having c es)) = (\<lambda>c. group_of (having c (es @ [e])))"
    by (rule ext) (simp add: having_snoc)
  with keeps_all_foldl [OF k d, of e]
  have "keeps_all (foldl (\<lambda>m c. add_to_consequence e c m) (es_by_consequence s) (fe_consequences e))
      (\<lambda>c. group_of (having c (es @ [e])))" by simp
  with s show ?thesis
    unfolding summary_of_def summarize_step_def
    by (simp add: clamped_sum_snoc collateral_of_def debt_of_def having_snoc is_newly_liquidatable_def)
qed

lemma summary_of_foldl:
  "\<forall>e\<in>set entries. distinct (fe_consequences e) \<Longrightarrow>
     summary_of n entries (foldl summarize_step (initial_summary n) entries)"
proof (induction entries rule: rev_induct)
  case Nil
  show ?case using keeps_all_initial [of n]
    by (simp add: summary_of_def having_def) (simp add: initial_summary_def clamped_sum_def)
next
  case (snoc e es)
  then show ?case using summary_of_step [of n es _ e] by simp
qed

text \<open>C18. The corpus summary is exact: its totals are the clamped sums over all records, each
  capital group counts and adds up exactly the records of that group, every consequence has its
  group even when it is empty, and no other key exists. It panics only when the difference of the
  two totals leaves 128 signed bits.\<close>

theorem summary_exact:
  assumes "\<forall>e\<in>set entries. distinct (fe_consequences e)"
  shows "case summarize entries of
      Inr s \<Rightarrow>
        es_positions_valued s = length entries \<and>
        es_total_collateral_value_usd s = Usd (clamped_sum (map collateral_of entries)) \<and>
        es_total_debt_value_usd s = Usd (clamped_sum (map debt_of entries)) \<and>
        sint (signed_micro (es_total_net_value_usd s)) =
          int (unat (clamped_sum (map collateral_of entries))) - int (unat (clamped_sum (map debt_of entries))) \<and>
        es_affected s = group_of (filter fe_affected entries) \<and>
        es_critical s = group_of (filter fe_critical entries) \<and>
        es_newly_liquidatable s = group_of (having NewlyLiquidatable entries) \<and>
        (\<forall>c. bt_get (es_by_consequence s) (consequence_as_str c) = Some (group_of (having c entries))) \<and>
        set (bt_keys (es_by_consequence s)) = range consequence_as_str
    | Inl _ \<Rightarrow> \<bar>int (unat (clamped_sum (map collateral_of entries)))
        - int (unat (clamped_sum (map debt_of entries)))\<bar> \<ge> 2 ^ 127"
proof -
  define s where "s = foldl summarize_step (initial_summary (length entries)) entries"
  note s = summary_of_foldl [OF assms, of "length entries", folded s_def, unfolded summary_of_def]
  let ?c = "Usd (clamped_sum (map collateral_of entries))"
  let ?d = "Usd (clamped_sum (map debt_of entries))"
  have sub: "signed_sub (es_total_collateral_value_usd s) (es_total_debt_value_usd s) = signed_sub ?c ?d"
    using s by simp
  show ?thesis
  proof (cases "checked_signed_sub ?c ?d")
    case None
    then have "summarize entries = Inl SignedDifferenceOverflow"
      using sub by (simp add: summarize_def s_def [symmetric] Let_def signed_sub_def)
    moreover have "\<bar>int (unat (clamped_sum (map collateral_of entries)))
        - int (unat (clamped_sum (map debt_of entries)))\<bar> \<ge> 2 ^ 127"
      using signed_difference_exact_aux [of ?c ?d] unfolding None option.case Usd.sel by linarith
    ultimately show ?thesis by simp
  next
    case (Some net)
    then have "summarize entries = Inr (s\<lparr>es_total_net_value_usd := net\<rparr>)"
      using sub by (simp add: summarize_def s_def [symmetric] Let_def signed_sub_def)
    moreover have "sint (signed_micro net) = int (unat (clamped_sum (map collateral_of entries)))
        - int (unat (clamped_sum (map debt_of entries)))"
      using signed_difference_exact_aux [of ?c ?d] unfolding Some by simp
    ultimately show ?thesis using s by (simp add: keeps_all_def)
  qed
qed

definition ex_entry :: FixtureEconomics where
  "ex_entry = \<lparr>fe_fixture_id = ''f'', fe_category = Boundary,
     fe_baseline = \<lparr>pe_collateral_amount = 99500000000, pe_collateral_decimals = 9,
       pe_collateral_price_usd = Usd 100000000, pe_debt_amount = 7930000000, pe_debt_decimals = 6,
       pe_debt_price_usd = Usd 1000000, pe_collateral_value_usd = Usd 9950000000,
       pe_debt_value_usd = Usd 7930000000, pe_net_value_usd = SignedUsd 2020000000,
       pe_health_factor = 1003783, pe_health_display = [], pe_liquidatable = False,
       pe_collateral_display = []\<rparr>,
     fe_v1_post = None, fe_v2_post = None, fe_affected = True, fe_critical = True,
     fe_consequences = [NewlyLiquidatable]\<rparr>"

theorem summary_exact_witness:
  "\<exists>s. summarize [ex_entry] = Inr s \<and> cg_positions (es_newly_liquidatable s) = 1 \<and>
     cg_positions (es_affected s) = 1"
proof -
  have v: "collateral_of ex_entry = 9950000000" "debt_of ex_entry = 7930000000"
    by (simp_all add: collateral_of_def debt_of_def ex_entry_def)
  have f: "filter fe_affected [ex_entry] = [ex_entry]" "having NewlyLiquidatable [ex_entry] = [ex_entry]"
    by (simp_all add: having_def ex_entry_def)
  have "\<forall>e\<in>set [ex_entry]. distinct (fe_consequences e)" by (simp add: ex_entry_def)
  from summary_exact [OF this] show ?thesis
    unfolding f by (auto simp: v clamped_sum_def group_of_def split: sum.splits)
qed

end
