(* ===== verification/Cluster.thy ===== *)
theory Cluster
  imports Impact "HOL-Library.Product_Lexorder"
begin

text \<open>
  Regression clustering (\<open>engine/src/cluster.rs\<close>): the signature that decides which findings
  belong together, the grouping, the cluster identifiers, the common conditions and numeric ranges
  and the choice of a representative. A cluster key is the tuple of its fields, ordered
  lexicographically as the derived \<open>Ord\<close> orders them. Numeric ranges are \<open>i128\<close> in the code; their
  values stay below \<open>2 ^ 127\<close> and are integers here.
\<close>

section \<open>Ranges and conditions\<close>

datatype Metric = Lamports | MicroUsd | HealthMetric | RawMetric

text \<open>The casts \<open>value.max(0) as u64\<close> and \<open>as u128\<close> truncate.\<close>

fun metric_render :: "Metric \<Rightarrow> int \<Rightarrow> string" where
  "metric_render Lamports value =
     (let lam = (word_of_int (max value 0) :: u64) in
      show_nat (unat (lam div 1000000000)) @ ''.'' @
      zero_pad 9 (show_nat (unat (lam mod 1000000000))) @ '' SOL'')"
| "metric_render MicroUsd value = usd_format_dollars (Usd (word_of_int (max value 0)))"
| "metric_render HealthMetric value = format_health (word_of_int (max value 0))"
| "metric_render RawMetric value = show_int value"

record Condition =
  cond_field :: string
  cond_value :: string

record NumericRange =
  nr_field :: string
  nr_metric :: Metric
  nr_min :: int
  nr_max :: int
  nr_min_display :: string
  nr_max_display :: string
  nr_informative :: bool

abbreviation INFORMATIVE_SPREAD_BPS :: int where "INFORMATIVE_SPREAD_BPS \<equiv> 2000"

definition is_informative :: "int \<Rightarrow> int \<Rightarrow> bool" where
  "is_informative mn mx =
     (if mn = mx then True
      else
        let scale = max \<bar>mx\<bar> \<bar>mn\<bar> in
        if scale = 0 then True
        else ((mx - mn) * 10000) sdiv scale \<le> INFORMATIVE_SPREAD_BPS)"

definition numeric_range :: "string \<Rightarrow> Metric \<Rightarrow> int list \<Rightarrow> NumericRange option" where
  "numeric_range field metric values =
     (if values = [] then None
      else
        let mn = Min (set values); mx = Max (set values) in
        Some \<lparr>nr_field = field, nr_metric = metric, nr_min = mn, nr_max = mx,
          nr_min_display = metric_render metric mn, nr_max_display = metric_render metric mx,
          nr_informative = is_informative mn mx\<rparr>)"

section \<open>Signatures\<close>

type_synonym ClusterKey =
  "EconomicConsequence list \<times> string \<times> string list \<times> string list \<times> (bool \<times> bool) \<times>
     (string \<times> bool \<times> bool) list"

fun changed_field :: "Difference \<Rightarrow> string list" where
  "changed_field (FieldChanged account field v1 v2 delta consequence) = [account @ ''.'' @ field]"
| "changed_field _ = []"

fun liquidation_transition :: "Difference \<Rightarrow> (string \<times> bool \<times> bool) list" where
  "liquidation_transition (LiquidationStatusChanged account v1 v2 h1 h2) = [(account, v1, v2)]"
| "liquidation_transition _ = []"

definition cluster_key :: "Fixture \<Rightarrow> StateDiff \<Rightarrow> FixtureEconomics \<Rightarrow> ClusterKey" where
  "cluster_key fixture d e =
     (fe_consequences e,
      instruction_name (is_data (fx_instruction fixture)),
      btree_set (map difference_kind (outcome_differences d)),
      btree_set (concat (map changed_field (outcome_differences d))),
      (er_success (sd_v1 d), er_success (sd_v2 d)),
      sort (concat (map liquidation_transition (outcome_differences d))))"

text \<open>\<open>signature\<close> wraps the key in a newtype.\<close>

datatype RegressionSignature = RegressionSignature ClusterKey

definition regression_signature :: "Fixture \<Rightarrow> StateDiff \<Rightarrow> FixtureEconomics \<Rightarrow> RegressionSignature" where
  "regression_signature fixture d e = RegressionSignature (cluster_key fixture d e)"

record Member =
  mb_fixture :: Fixture
  mb_diff :: StateDiff
  mb_economics :: FixtureEconomics

definition v1_health :: "Member \<Rightarrow> u64 option" where
  "v1_health m = map_option pe_health_factor (fe_v1_post (mb_economics m))"

definition v2_health :: "Member \<Rightarrow> u64 option" where
  "v2_health m = map_option pe_health_factor (fe_v2_post (mb_economics m))"

section \<open>Representatives\<close>

definition edge_property_count :: "Member \<Rightarrow> nat" where
  "edge_property_count m =
     (let baseline = fe_baseline (mb_economics m) in
      (if 1000 * 1000000000 \<le> pe_collateral_amount baseline then 1 else 0) +
      (if pe_collateral_amount baseline < 1000000000 then 1 else 0) +
      (if pe_debt_amount baseline = 0 then 1 else 0) +
      (if \<not> er_success (sd_v1 (mb_diff m)) then 1 else 0))"

definition abs_diff :: "u64 \<Rightarrow> u64 \<Rightarrow> u64" where
  "abs_diff a b = (if a \<le> b then b - a else a - b)"

definition representative_rank :: "Member \<Rightarrow> nat \<times> u128 \<times> u64 \<times> string" where
  "representative_rank m =
     (let baseline = fe_baseline (mb_economics m) in
      (edge_property_count m,
       saturating_add (usd_micro (pe_collateral_value_usd baseline))
         (usd_micro (pe_debt_value_usd baseline)),
       (case v1_health m of Some h \<Rightarrow> abs_diff h HEALTH_SCALE | None \<Rightarrow> - 1),
       fx_id (mb_fixture m)))"

definition slug :: "string \<Rightarrow> string" where
  "slug s = map (\<lambda>c. if c = CHR ''_'' then CHR ''-'' else c) s"

section \<open>Common conditions and ranges\<close>

definition shared :: "string \<Rightarrow> string list \<Rightarrow> Condition list" where
  "shared field values =
     (case values of
        [] \<Rightarrow> []
      | first # _ \<Rightarrow>
          if list_all (\<lambda>v. v = first) values
          then [\<lparr>cond_field = field, cond_value = first\<rparr>] else [])"

definition push_range :: "nat \<Rightarrow> string \<Rightarrow> Metric \<Rightarrow> int list \<Rightarrow> NumericRange list" where
  "push_range members field metric values =
     (if length values = members then
        (case numeric_range field metric values of Some r \<Rightarrow> [r] | None \<Rightarrow> [])
      else [])"

text \<open>Health factors, unless some member has none or carries no debt.\<close>

definition finite_health :: "u64 option list \<Rightarrow> int list" where
  "finite_health values =
     (if list_ex (\<lambda>v. v = None \<or> v = Some HEALTH_INFINITE) values then []
      else map (\<lambda>h. int (unat h)) (List.map_filter id values))"

definition outcome_word :: "bool \<Rightarrow> string" where
  "outcome_word success = (if success then ''success'' else ''revert'')"

definition conditions :: "Member list \<Rightarrow> Condition list" where
  "conditions members =
     (let baseline = (\<lambda>m. fe_baseline (mb_economics m)) in
      shared ''action'' (map (\<lambda>m. instruction_name (is_data (fx_instruction (mb_fixture m)))) members) @
      shared ''collateral_asset'' (map (\<lambda>_. ''SOL'') members) @
      shared ''fractional_collateral''
        (map (\<lambda>m. show_bool (pe_collateral_amount (baseline m) mod 1000000000 \<noteq> 0)) members) @
      shared ''collateral_price''
        (map (\<lambda>m. usd_format_dollars (pe_collateral_price_usd (baseline m))) members) @
      shared ''v1_liquidatable''
        (map (\<lambda>p. show_bool (pe_liquidatable p))
          (List.map_filter (\<lambda>m. fe_v1_post (mb_economics m)) members)) @
      shared ''v2_liquidatable''
        (map (\<lambda>p. show_bool (pe_liquidatable p))
          (List.map_filter (\<lambda>m. fe_v2_post (mb_economics m)) members)) @
      shared ''transaction_outcome''
        (map (\<lambda>m. ''V1 '' @ outcome_word (er_success (sd_v1 (mb_diff m))) @ '' / V2 '' @
                   outcome_word (er_success (sd_v2 (mb_diff m)))) members))"

definition ranges :: "Member list \<Rightarrow> NumericRange list" where
  "ranges members =
     (let baseline = (\<lambda>m. fe_baseline (mb_economics m)); n = length members in
      push_range n ''collateral'' Lamports
        (map (\<lambda>m. int (unat (pe_collateral_amount (baseline m)))) members) @
      push_range n ''debt'' MicroUsd (map (\<lambda>m. int (unat (pe_debt_amount (baseline m)))) members) @
      push_range n ''collateral_value'' MicroUsd
        (map (\<lambda>m. sint (usd_micro (pe_collateral_value_usd (baseline m)))) members) @
      push_range n ''health_factor_v1'' HealthMetric (finite_health (map v1_health members)) @
      push_range n ''health_factor_v2'' HealthMetric (finite_health (map v2_health members)))"

section \<open>Clusters\<close>

record MinimizedCase =
  mc_derived_from :: string
  mc_collateral_lamports :: u64
  mc_collateral_display :: string
  mc_debt_micro_usd :: u64
  mc_debt_display :: string
  mc_collateral_value_usd :: Usd
  mc_debt_value_usd :: Usd
  mc_v1_health :: string
  mc_v2_health :: string
  mc_v1_liquidatable :: bool
  mc_v2_liquidatable :: bool
  mc_v1_outcome :: string
  mc_v2_outcome :: string
  mc_probes :: nat
  mc_reductions :: nat

record RegressionCluster =
  rc_id :: string
  rc_consequences :: "EconomicConsequence list"
  rc_action :: string
  rc_difference_kinds :: "string list"
  rc_critical :: bool
  rc_fixture_ids :: "string list"
  rc_collateral_value_usd :: Usd
  rc_debt_value_usd :: Usd
  rc_common_conditions :: "Condition list"
  rc_ranges :: "NumericRange list"
  rc_representative_fixture_id :: string
  rc_minimized_counterexample :: "MinimizedCase option"

definition fixture_count :: "RegressionCluster \<Rightarrow> nat" where
  "fixture_count c = length (rc_fixture_ids c)"

definition informative_ranges :: "RegressionCluster \<Rightarrow> NumericRange list" where
  "informative_ranges c = filter nr_informative (rc_ranges c)"

fun join :: "string \<Rightarrow> string list \<Rightarrow> string" where
  "join sep [] = []"
| "join sep [x] = x"
| "join sep (x # y # xs) = x @ sep @ join sep (y # xs)"

definition base_slug :: "ClusterKey \<Rightarrow> string" where
  "base_slug k = join ''+'' (map (\<lambda>c. slug (consequence_as_str c)) (fst k))"

definition key_member :: "Member \<Rightarrow> ClusterKey" where
  "key_member m = cluster_key (mb_fixture m) (mb_diff m) (mb_economics m)"

text \<open>The members, in the order of the comparisons: those with a fixture, a record and at least one
  consequence.\<close>

definition members_of :: "Fixture list \<Rightarrow> StateDiff list \<Rightarrow> FixtureEconomics list \<Rightarrow> Member list" where
  "members_of fixtures diffs entries =
     (let fixtures_by_id = bt_collect (map (\<lambda>f. (fx_id f, f)) fixtures);
          economics_by_id = bt_collect (map (\<lambda>e. (fe_fixture_id e, e)) entries)
      in List.map_filter (\<lambda>d.
           case (bt_get fixtures_by_id (sd_fixture_id d), bt_get economics_by_id (sd_fixture_id d)) of
             (Some f, Some e) \<Rightarrow>
               if fe_consequences e = [] then None
               else Some \<lparr>mb_fixture = f, mb_diff = d, mb_economics = e\<rparr>
           | _ \<Rightarrow> None) diffs)"

text \<open>\<open>base_counts.get(..).copied().unwrap_or(0)\<close>, and the identifier a group is shown under before
  it is made unique.\<close>

definition used_count :: "(string, nat) btree_map \<Rightarrow> string \<Rightarrow> nat" where
  "used_count used s = (case bt_get used s of Some n \<Rightarrow> n | None \<Rightarrow> 0)"

definition shown_id :: "(string, nat) btree_map \<Rightarrow> ClusterKey \<Rightarrow> string" where
  "shown_id base_counts k =
     (if 1 < used_count base_counts (base_slug k) then base_slug k @ ''--'' @ slug (fst (snd k))
      else base_slug k)"

text \<open>One group becomes one cluster; \<open>used\<close> counts how often an identifier was taken.\<close>

definition make_cluster ::
  "(string, nat) btree_map \<Rightarrow> (string, nat) btree_map \<Rightarrow> ClusterKey \<Rightarrow> Member list \<Rightarrow>
     RegressionCluster \<times> (string, nat) btree_map" where
  "make_cluster base_counts used k grp =
     (let members = sort_key (\<lambda>m. fx_id (mb_fixture m)) grp;
          shown = shown_id base_counts k;
          used = bt_upsert shown (\<lambda>e. (case e of Some n \<Rightarrow> n | None \<Rightarrow> 0) + 1) used;
          count = used_count used shown;
          cid = (if count = 1 then shown else shown @ ''--'' @ show_nat count);
          representative = arg_min_list representative_rank members
      in (\<lparr>rc_id = cid, rc_consequences = fst k, rc_action = fst (snd k),
           rc_difference_kinds = fst (snd (snd k)),
           rc_critical = list_ex (\<lambda>m. fe_critical (mb_economics m)) members,
           rc_fixture_ids = map (\<lambda>m. fx_id (mb_fixture m)) members,
           rc_collateral_value_usd =
             usd_sum (map (\<lambda>m. pe_collateral_value_usd (fe_baseline (mb_economics m))) members),
           rc_debt_value_usd =
             usd_sum (map (\<lambda>m. pe_debt_value_usd (fe_baseline (mb_economics m))) members),
           rc_common_conditions = conditions members, rc_ranges = ranges members,
           rc_representative_fixture_id = fx_id (mb_fixture representative),
           rc_minimized_counterexample = None\<rparr>, used))"

fun make_clusters ::
  "(string, nat) btree_map \<Rightarrow> (string, nat) btree_map \<Rightarrow> (ClusterKey, Member list) btree_map \<Rightarrow>
     RegressionCluster list" where
  "make_clusters base_counts used [] = []"
| "make_clusters base_counts used ((k, grp) # gs) =
     (let (c, used') = make_cluster base_counts used k grp
      in c # make_clusters base_counts used' gs)"

text \<open>The final order: critical first, then more fixtures, then the identifier.\<close>

definition cluster_order :: "RegressionCluster \<Rightarrow> bool \<times> int \<times> string" where
  "cluster_order c = (\<not> rc_critical c, - int (fixture_count c), rc_id c)"

definition build_clusters :: "Fixture list \<Rightarrow> StateDiff list \<Rightarrow> FixtureEconomics list \<Rightarrow> RegressionCluster list" where
  "build_clusters fixtures diffs entries =
     (let groups = bt_group key_member (members_of fixtures diffs entries);
          base_counts = bt_count base_slug (bt_keys groups)
      in sort_key cluster_order (make_clusters base_counts [] groups))"

end
