(* ===== verification/ClusterProperties.thy ===== *)
theory ClusterProperties
  imports Cluster
begin

text \<open>
  What the clustering promises: every finding with a consequence lands in exactly one cluster,
  together with exactly the findings of its signature; cluster identifiers never repeat; the
  representative is the member of least rank; the output order is the stated one.
\<close>

section \<open>Grouping loses and duplicates nothing\<close>

lemma mset_concat_filter:
  "distinct ks \<Longrightarrow>
     mset (concat (map (\<lambda>k. filter (\<lambda>x. f x = k) xs) ks)) = mset (filter (\<lambda>x. f x \<in> set ks) xs)"
proof (induction ks)
  case Nil
  then show ?case by simp
next
  case (Cons k ks)
  have "filter_mset (\<lambda>x. f x = k) M + filter_mset (\<lambda>x. f x \<in> set ks) M =
      filter_mset (\<lambda>x. f x \<in> insert k (set ks)) M" for M
    using Cons.prems by (intro multiset_eqI) auto
  with Cons show ?case by simp
qed

lemma bt_group_mset: "mset (concat (map snd (bt_group f xs))) = mset xs"
proof -
  let ?m = "bt_group f xs"
  have "snd kg = filter (\<lambda>x. f x = fst kg) xs" if "kg \<in> set ?m" for kg
    using that bt_group_mem [of "fst kg" "snd kg" f xs] by simp
  then have "map snd ?m = map (\<lambda>k. filter (\<lambda>x. f x = k) xs) (map fst ?m)"
    unfolding map_map by (intro map_cong refl) simp
  then have "mset (concat (map snd ?m)) = mset (filter (\<lambda>x. f x \<in> set (map fst ?m)) xs)"
    by (simp only: mset_concat_filter [OF bt_wf_distinct [OF bt_group_wf]])
  also have "filter (\<lambda>x. f x \<in> set (map fst ?m)) xs = xs"
    unfolding bt_group_keys by (simp add: filter_id_conv)
  finally show ?thesis .
qed

section \<open>Identifiers\<close>

definition digit_free :: "string \<Rightarrow> bool" where
  "digit_free s \<longleftrightarrow> list_all (\<lambda>c. \<not> is_ascii_digit c) s"

definition label :: "string \<Rightarrow> nat \<Rightarrow> string" where
  "label s n = (if n = 1 then s else s @ ''--'' @ show_nat n)"

lemma label_inject:
  assumes "digit_free s" "digit_free t"
  shows "label s n = label t m \<longleftrightarrow> s = t \<and> n = m"
proof -
  have d: "list_ex is_ascii_digit (show_nat k)" for k
    using show_nat_digits [of _ k] by (cases "show_nat k") auto
  have no: "\<not> list_ex is_ascii_digit s" "\<not> list_ex is_ascii_digit t"
    using assms by (auto simp: digit_free_def list_ex_iff list_all_iff)
  have head: "takeWhile (\<lambda>c. \<not> is_ascii_digit c) (u @ ''--'' @ show_nat k) = u @ ''--''"
    if "digit_free u" for u k
  proof -
    obtain c r where c: "show_nat k = c # r" by (cases "show_nat k") auto
    then have "is_ascii_digit c" using show_nat_digits [of c k] by simp
    moreover have "\<not> is_ascii_digit CHR ''-''" by (simp add: is_ascii_digit_def)
    ultimately show ?thesis using that
      by (subst takeWhile_append2) (auto simp: c digit_free_def list_all_iff)
  qed
  show ?thesis
  proof
    assume eq: "label s n = label t m"
    show "s = t \<and> n = m"
    proof (cases "n = 1"; cases "m = 1")
      assume n: "n \<noteq> 1" and m: "m \<noteq> 1"
      then have e: "s @ ''--'' @ show_nat n = t @ ''--'' @ show_nat m" using eq by (simp add: label_def)
      then have "s @ ''--'' = t @ ''--''" using head [OF assms(1)] head [OF assms(2)] by metis
      then have "s = t" by simp
      with e show ?thesis by simp
    qed (use eq d no in \<open>auto simp: label_def\<close>)
  qed simp
qed

lemma digit_free_simps [simp]:
  "digit_free []" "digit_free (c # s) \<longleftrightarrow> \<not> is_ascii_digit c \<and> digit_free s"
  "digit_free (s @ t) \<longleftrightarrow> digit_free s \<and> digit_free t"
  by (auto simp: digit_free_def)

lemma digit_free_slug: "digit_free s \<Longrightarrow> digit_free (slug s)"
  by (auto simp: digit_free_def slug_def list_all_iff is_ascii_digit_def)

lemma digit_free_join: "digit_free sep \<Longrightarrow> list_all digit_free xs \<Longrightarrow> digit_free (join sep xs)"
  by (induction sep xs rule: join.induct) auto

lemma digit_free_names: "digit_free (consequence_as_str c)" "digit_free (instruction_name b)"
  by (cases c; simp add: is_ascii_digit_def)
    (cases b; simp add: instruction_name_def is_ascii_digit_def)

lemma digit_free_base: "digit_free (base_slug k)"
  unfolding base_slug_def
  by (rule digit_free_join) (auto simp: list_all_iff is_ascii_digit_def intro: digit_free_slug digit_free_names)

lemma make_cluster_simps:
  assumes "bt_wf used" "make_cluster base_counts used k g = (c, used')"
  shows "rc_id c = label (shown_id base_counts k) (used_count used (shown_id base_counts k) + 1)"
    and "bt_wf used'"
    and "used_count used' s =
      (if s = shown_id base_counts k then used_count used s + 1 else used_count used s)"
    and "mset (rc_fixture_ids c) = mset (map (\<lambda>m. fx_id (mb_fixture m)) g)"
    and "rc_consequences c = fst k" "rc_action c = fst (snd k)"
    and "rc_representative_fixture_id c =
      fx_id (mb_fixture (arg_min_list representative_rank (sort_key (\<lambda>m. fx_id (mb_fixture m)) g)))"
    and "rc_collateral_value_usd c =
      usd_sum (map (\<lambda>m. pe_collateral_value_usd (fe_baseline (mb_economics m)))
        (sort_key (\<lambda>m. fx_id (mb_fixture m)) g))"
    and "rc_critical c \<longleftrightarrow> (\<exists>m\<in>set g. fe_critical (mb_economics m))"
proof -
  let ?s = "shown_id base_counts k"
  let ?u = "bt_upsert ?s (\<lambda>e. (case e of Some n \<Rightarrow> n | None \<Rightarrow> 0) + 1) used"
  have u: "used' = ?u" using assms(2) by (simp add: make_cluster_def Let_def)
  show "bt_wf used'" unfolding u by (rule bt.inv_upd [OF assms(1)])
  show n: "used_count used' s = (if s = ?s then used_count used s + 1 else used_count used s)" for s
    unfolding u used_count_def bt.look_upd [OF assms(1)] by simp
  from assms(2) have "rc_id c = (if used_count ?u ?s = 1 then ?s else ?s @ ''--'' @ show_nat (used_count ?u ?s))"
    unfolding make_cluster_def Let_def by (simp only: prod.inject) (elim conjE, hypsubst, simp)
  then show "rc_id c = label ?s (used_count used ?s + 1)"
    using n [of ?s] unfolding u label_def by simp
  show "mset (rc_fixture_ids c) = mset (map (\<lambda>m. fx_id (mb_fixture m)) g)"
    "rc_consequences c = fst k" "rc_action c = fst (snd k)"
    "rc_representative_fixture_id c =
      fx_id (mb_fixture (arg_min_list representative_rank (sort_key (\<lambda>m. fx_id (mb_fixture m)) g)))"
    "rc_collateral_value_usd c =
      usd_sum (map (\<lambda>m. pe_collateral_value_usd (fe_baseline (mb_economics m)))
        (sort_key (\<lambda>m. fx_id (mb_fixture m)) g))"
    "rc_critical c \<longleftrightarrow> (\<exists>m\<in>set g. fe_critical (mb_economics m))"
    using assms(2) unfolding make_cluster_def Let_def
    by (simp_all only: prod.inject, (elim conjE, hypsubst, simp add: list_ex_iff)+)
qed

lemma cluster_ids:
  assumes "bt_wf used" "\<forall>(k, g)\<in>set gs. digit_free (fst (snd k))"
  shows "distinct (map rc_id (make_clusters base_counts used gs)) \<and>
    (\<forall>c\<in>set (make_clusters base_counts used gs).
       \<exists>s n. rc_id c = label s n \<and> digit_free s \<and> used_count used s < n)"
  using assms
proof (induction gs arbitrary: used)
  case Nil
  then show ?case by simp
next
  case (Cons kg gs)
  obtain k g where kg: "kg = (k, g)" by (cases kg)
  obtain c used' where c: "make_cluster base_counts used k g = (c, used')"
    by (cases "make_cluster base_counts used k g")
  note s = make_cluster_simps [OF Cons.prems(1) c]
  let ?s = "shown_id base_counts k"
  have free: "digit_free ?s"
    using Cons.prems(2) digit_free_base [of k]
    by (auto simp: shown_id_def kg is_ascii_digit_def intro: digit_free_slug)
  have IH: "distinct (map rc_id (make_clusters base_counts used' gs))"
    "\<forall>x\<in>set (make_clusters base_counts used' gs).
       \<exists>s n. rc_id x = label s n \<and> digit_free s \<and> used_count used' s < n"
    using Cons.IH [OF s(2)] Cons.prems(2) by auto
  have fresh: "rc_id x \<noteq> rc_id c" if mem: "x \<in> set (make_clusters base_counts used' gs)" for x
  proof
    assume e: "rc_id x = rc_id c"
    obtain t n where t: "rc_id x = label t n" "digit_free t" "used_count used' t < n"
      using IH(2) mem by blast
    then have "t = ?s \<and> n = used_count used ?s + 1"
      using e unfolding s(1) t(1) by (simp only: label_inject [OF t(2) free])
    with t(3) show False by (simp add: s(3))
  qed
  have below: "\<exists>t n. rc_id x = label t n \<and> digit_free t \<and> used_count used t < n"
    if mem: "x \<in> set (make_clusters base_counts used' gs)" for x
  proof -
    obtain t n where t: "rc_id x = label t n" "digit_free t" "used_count used' t < n"
      using IH(2) mem by blast
    moreover have "used_count used t \<le> used_count used' t" by (simp add: s(3))
    ultimately show ?thesis by (meson le_less_trans)
  qed
  have "\<exists>t n. rc_id c = label t n \<and> digit_free t \<and> used_count used t < n"
    using s(1) free by (metis less_add_one)
  with IH(1) fresh below show ?case by (auto simp: kg c)
qed

section \<open>Representatives\<close>

lemma arg_min_list_least:
  "xs \<noteq> [] \<Longrightarrow> arg_min_list f xs \<in> set xs \<and> (\<forall>x\<in>set xs. f (arg_min_list f xs) \<le> (f x :: 'b::linorder))"
  by (induction f xs rule: arg_min_list.induct) (auto simp: Let_def)

section \<open>Clusters\<close>

definition total_collateral :: "Member multiset \<Rightarrow> nat" where
  "total_collateral M = (\<Sum>m\<in>#M. collateral_of (mb_economics m))"

text \<open>What one cluster says about the findings it was built from.\<close>

definition describes :: "Member list \<Rightarrow> RegressionCluster \<Rightarrow> bool" where
  "describes ms c \<longleftrightarrow>
     (\<exists>k. let g = filter (\<lambda>m. key_member m = k) ms in
        g \<noteq> [] \<and> rc_consequences c = fst k \<and> rc_action c = fst (snd k) \<and>
        mset (rc_fixture_ids c) = mset (map (\<lambda>m. fx_id (mb_fixture m)) g) \<and>
        (rc_critical c \<longleftrightarrow> (\<exists>m\<in>set g. fe_critical (mb_economics m))) \<and>
        unat (usd_micro (rc_collateral_value_usd c)) = min (2 ^ 128 - 1) (total_collateral (mset g)) \<and>
        (\<exists>m\<in>set g. rc_representative_fixture_id c = fx_id (mb_fixture m) \<and>
           (\<forall>m'\<in>set g. representative_rank m \<le> representative_rank m')))"

lemma usd_sum_collateral:
  "unat (usd_micro (usd_sum (map (\<lambda>m. pe_collateral_value_usd (fe_baseline (mb_economics m))) ms))) =
     min (2 ^ 128 - 1) (total_collateral (mset ms))"
proof -
  have "sum_list (map (unat \<circ> usd_micro) (map (\<lambda>m. pe_collateral_value_usd (fe_baseline (mb_economics m))) ms))
      = total_collateral (mset ms)"
    unfolding total_collateral_def by (induction ms) (simp_all add: collateral_of_def)
  then show ?thesis by (simp add: usd_sum_def usd_sum_foldl)
qed

lemma make_cluster_describes:
  assumes "bt_wf used" "make_cluster base_counts used k g = (c, used')"
    and "g = filter (\<lambda>m. key_member m = k) ms" "g \<noteq> []"
  shows "describes ms c"
proof -
  note s = make_cluster_simps [OF assms(1,2)]
  let ?g = "sort_key (\<lambda>m. fx_id (mb_fixture m)) g"
  have "?g \<noteq> []" using assms(4) by (metis mset_sort mset_zero_iff)
  from arg_min_list_least [OF this, of representative_rank]
  have r: "arg_min_list representative_rank ?g \<in> set g"
    "\<forall>m\<in>set g. representative_rank (arg_min_list representative_rank ?g) \<le> representative_rank m" by simp_all
  have total: "unat (usd_micro (rc_collateral_value_usd c)) = min (2 ^ 128 - 1) (total_collateral (mset g))"
    unfolding s(8) usd_sum_collateral by simp
  show ?thesis
    unfolding describes_def Let_def assms(3) [symmetric]
    by (rule exI [of _ k], fold assms(3))
      (use assms(4) s(4-7,9) total r in \<open>auto simp: assms(3) [symmetric] intro!: bexI [OF _ r(1)]\<close>)
qed

lemma make_clusters_describe:
  assumes "bt_wf used" "\<forall>(k, g)\<in>set gs. g = filter (\<lambda>m. key_member m = k) ms \<and> g \<noteq> []"
  shows "list_all (describes ms) (make_clusters base_counts used gs) \<and>
    mset (concat (map rc_fixture_ids (make_clusters base_counts used gs))) =
      mset (map (\<lambda>m. fx_id (mb_fixture m)) (concat (map snd gs))) \<and>
    length (make_clusters base_counts used gs) = length gs"
  using assms
proof (induction gs arbitrary: used)
  case Nil
  then show ?case by simp
next
  case (Cons kg gs)
  obtain k g where kg: "kg = (k, g)" by (cases kg)
  obtain c used' where c: "make_cluster base_counts used k g = (c, used')"
    by (cases "make_cluster base_counts used k g")
  note s = make_cluster_simps [OF Cons.prems(1) c]
  have "describes ms c"
    by (rule make_cluster_describes [OF Cons.prems(1) c]) (use Cons.prems(2) in \<open>auto simp: kg\<close>)
  moreover have "make_clusters base_counts used (kg # gs) = c # make_clusters base_counts used' gs"
    by (simp add: kg c)
  moreover have "\<forall>(k, g)\<in>set gs. g = filter (\<lambda>m. key_member m = k) ms \<and> g \<noteq> []"
    using Cons.prems(2) by simp
  note IH = Cons.IH [OF s(2) this]
  ultimately show ?case using IH s(4) by (simp add: kg)
qed

lemma group_keys_digit_free:
  assumes "(k, g) \<in> set (bt_group key_member ms)"
  shows "digit_free (fst (snd k))"
proof -
  from assms obtain m where "key_member m = k" by (auto simp: bt_group_mem filter_empty_conv)
  then show ?thesis by (auto simp: key_member_def cluster_key_def digit_free_names)
qed


end
