(* ===== verification/Shrink.thy ===== *)
theory Shrink
  imports Cluster
begin

text \<open>
  Counterexample minimisation (\<open>engine/src/shrink.rs\<close>): the self-consistent variants of a fixture,
  the probe of one candidate and the bounded greedy search over collateral and debt, with its three
  nested loops as terminating functions. The two executions of a candidate (the LiteSVM machine
  with each build) are the parameters \<open>run1\<close> and \<open>run2\<close>, the rent floor of an empty account is
  \<open>vault_floor\<close>.
\<close>

datatype shrink_error =
    ExecutionFailed string | GranularityNotPositive | SlicePanic | NoVariant | Panicking panic

record ShrinkConfig =
  max_probes :: nat
  collateral_granularity :: u64
  debt_granularity :: u64

definition default_config :: ShrinkConfig where
  "default_config = \<lparr>max_probes = 96, collateral_granularity = 1000000, debt_granularity = 10000\<rparr>"

definition quantize :: "u64 \<Rightarrow> u64 \<Rightarrow> u64" where
  "quantize v granularity = (if granularity = 0 then v else (v div granularity) * granularity)"

definition read_position :: "Fixture \<Rightarrow> Position option" where
  "read_position fixture =
     Option.bind (fixture_account fixture ''position'') (\<lambda>named.
       let bytes = snap_data (na_account named) in
       try_from_slice position_deserialize (take (min POSITION_LEN (length bytes)) bytes))"

section \<open>Variants\<close>

definition variant_position :: "Position \<Rightarrow> u64 \<Rightarrow> u64 \<Rightarrow> Position" where
  "variant_position p collateral debt =
     p\<lparr>p_collateral_amount := collateral, p_debt_amount := debt,
       p_health_factor := reference_health_factor collateral debt (p_collateral_price p)
          (p_liquidation_threshold_bps p)\<rparr>"

text \<open>One account of the variant: \<open>None\<close> when the vault balance overflows, a panic when the
  position account is too short for the copy.\<close>

definition variant_account ::
  "u64 \<Rightarrow> u8 list \<Rightarrow> u64 \<Rightarrow> NamedAccount \<Rightarrow> shrink_error + NamedAccount option" where
  "variant_account vault_floor encoded collateral a =
     (if na_label a = ''position'' then
        let bytes = snap_data (na_account a) in
        if length bytes < length encoded then Inl SlicePanic
        else Inr (Some (a\<lparr>na_account := (na_account a)
               \<lparr>snap_data := encoded @ drop (length encoded) bytes\<rparr>\<rparr>))
      else if na_label a = ''vault'' then
        Inr (map_option (\<lambda>l. a\<lparr>na_account := (na_account a)\<lparr>snap_lamports := l\<rparr>\<rparr>)
               (checked_add vault_floor collateral))
      else Inr (Some a))"

fun variant_accounts ::
  "u64 \<Rightarrow> u8 list \<Rightarrow> u64 \<Rightarrow> NamedAccount list \<Rightarrow> shrink_error + NamedAccount list option" where
  "variant_accounts vault_floor encoded collateral [] = Inr (Some [])"
| "variant_accounts vault_floor encoded collateral (a # as) =
     and_then (variant_account vault_floor encoded collateral a) (\<lambda>a'.
     case a' of
       None \<Rightarrow> Inr None
     | Some b \<Rightarrow>
         and_then (variant_accounts vault_floor encoded collateral as) (\<lambda>rest.
         Inr (map_option (\<lambda>bs. b # bs) rest)))"

definition variant :: "u64 \<Rightarrow> Fixture \<Rightarrow> u64 \<Rightarrow> u64 \<Rightarrow> shrink_error + Fixture option" where
  "variant vault_floor base collateral debt =
     (case read_position base of
        None \<Rightarrow> Inr None
      | Some p \<Rightarrow>
          and_then (variant_accounts vault_floor (position_to_vec (variant_position p collateral debt))
                      collateral (fx_accounts base)) (\<lambda>accounts.
          Inr (map_option (\<lambda>as. base\<lparr>fx_accounts := as\<rparr>) accounts)))"

section \<open>The search\<close>

record Search =
  probes :: nat
  reductions :: nat
  best :: "u64 \<times> u64"

record machine =
  run1 :: "Fixture \<Rightarrow> shrink_error + ExecutionResult"
  run2 :: "Fixture \<Rightarrow> shrink_error + ExecutionResult"
  base58 :: "address \<Rightarrow> string"
  vault_floor :: u64

text \<open>Whether a candidate shows the target regression: both builds run, the results are compared,
  valued and their signature taken.\<close>

definition shows_regression :: "machine \<Rightarrow> RegressionSignature \<Rightarrow> Fixture \<Rightarrow> shrink_error + bool" where
  "shows_regression mc target candidate =
     and_then (run1 mc candidate) (\<lambda>v1.
     and_then (run2 mc candidate) (\<lambda>v2.
     and_then (map_err Panicking (compare (base58 mc) candidate v1 v2)) (\<lambda>state_diff.
     and_then (map_err Panicking (evaluate candidate state_diff)) (\<lambda>e.
     case e of
       None \<Rightarrow> Inr False
     | Some economics_record \<Rightarrow>
         Inr (regression_signature candidate state_diff economics_record = target)))))"

definition reproduces ::
  "machine \<Rightarrow> RegressionSignature \<Rightarrow> Fixture \<Rightarrow> Search \<Rightarrow> shrink_error + (bool \<times> Search)" where
  "reproduces mc target candidate s =
     and_then (shows_regression mc target candidate) (\<lambda>r. Inr (r, s\<lparr>probes := probes s + 1\<rparr>))"

definition budget_left :: "ShrinkConfig \<Rightarrow> Search \<Rightarrow> bool" where
  "budget_left cfg s \<longleftrightarrow> probes s < max_probes cfg"

definition try_candidate ::
  "machine \<Rightarrow> ShrinkConfig \<Rightarrow> RegressionSignature \<Rightarrow> Fixture \<Rightarrow> u64 \<Rightarrow> u64 \<Rightarrow> Search \<Rightarrow>
     shrink_error + (bool \<times> Search)" where
  "try_candidate mc cfg target base collateral debt s =
     (if \<not> budget_left cfg s then Inr (False, s)
      else
        let collateral = quantize collateral (collateral_granularity cfg);
            debt = quantize debt (debt_granularity cfg) in
        if collateral < collateral_granularity cfg \<or> debt < debt_granularity cfg then Inr (False, s)
        else if (collateral, debt) = best s then Inr (False, s)
        else
          and_then (variant (vault_floor mc) base collateral debt) (\<lambda>candidate.
          case candidate of
            None \<Rightarrow> Inr (False, s)
          | Some c \<Rightarrow>
              and_then (reproduces mc target c s) (\<lambda>(r, s').
              if r then Inr (True, s'\<lparr>best := (collateral, debt), reductions := reductions s' + 1\<rparr>)
              else Inr (False, s'))))"

lemma and_then_cong [fundef_cong]:
  "r = r' \<Longrightarrow> (\<And>x. r' = Inr x \<Longrightarrow> f x = g x) \<Longrightarrow> and_then r f = and_then r' g"
  by (cases r') auto

lemma try_candidate_Inr:
  assumes "try_candidate mc cfg target base c d s = Inr (r, s')"
  defines "qc \<equiv> quantize c (collateral_granularity cfg)" and "qd \<equiv> quantize d (debt_granularity cfg)"
  shows "probes s \<le> probes s'" "probes s \<le> max_probes cfg \<Longrightarrow> probes s' \<le> max_probes cfg"
    and "r \<Longrightarrow> probes s < max_probes cfg \<and> probes s' = probes s + 1 \<and> reductions s' = reductions s + 1 \<and>
      best s' = (qc, qd) \<and> (qc, qd) \<noteq> best s \<and>
      collateral_granularity cfg \<le> qc \<and> debt_granularity cfg \<le> qd \<and>
      (\<exists>v. variant (vault_floor mc) base qc qd = Inr (Some v) \<and> shows_regression mc target v = Inr True)"
    and "\<not> r \<Longrightarrow> best s' = best s \<and> reductions s' = reductions s"
  using assms(1) unfolding try_candidate_def Let_def qc_def [symmetric] qd_def [symmetric]
  by (auto simp: result_simps reproduces_def budget_left_def split: if_splits option.splits)

text \<open>A ratio is repeated while it keeps working.\<close>

definition scaled :: "nat \<times> nat \<Rightarrow> u64 \<Rightarrow> u64" where
  "scaled ratio v = of_nat (unat v * fst ratio div snd ratio)"

function ratio_loop ::
  "machine \<Rightarrow> ShrinkConfig \<Rightarrow> RegressionSignature \<Rightarrow> Fixture \<Rightarrow> nat \<times> nat \<Rightarrow> Search \<Rightarrow> shrink_error + Search"
where
  "ratio_loop mc cfg target base ratio s =
     and_then (try_candidate mc cfg target base (scaled ratio (fst (best s))) (scaled ratio (snd (best s))) s)
       (\<lambda>rs. if fst rs then ratio_loop mc cfg target base ratio (snd rs) else Inr (snd rs))"
  by pat_completeness auto
termination
  by (relation "measure (\<lambda>(mc, cfg, target, base, ratio, s). max_probes cfg - probes s)")
    (auto dest: try_candidate_Inr(3))

declare ratio_loop.simps [simp del]

fun ratios_pass ::
  "machine \<Rightarrow> ShrinkConfig \<Rightarrow> RegressionSignature \<Rightarrow> Fixture \<Rightarrow> (nat \<times> nat) list \<Rightarrow> Search \<Rightarrow> shrink_error + Search"
where
  "ratios_pass mc cfg target base [] s = Inr s"
| "ratios_pass mc cfg target base (r # rs) s =
     and_then (ratio_loop mc cfg target base r s) (ratios_pass mc cfg target base rs)"

abbreviation RATIOS :: "(nat \<times> nat) list" where "RATIOS \<equiv> [(1, 2), (3, 4), (7, 8)]"

text \<open>The single-field descents: a rejected step is halved. The loop condition keeps the step at
  or above a granularity that is positive.\<close>

function collateral_loop ::
  "machine \<Rightarrow> ShrinkConfig \<Rightarrow> RegressionSignature \<Rightarrow> Fixture \<Rightarrow> u64 \<Rightarrow> Search \<Rightarrow> shrink_error + Search"
where
  "collateral_loop mc cfg target base step s =
     (if 0 < collateral_granularity cfg \<and> collateral_granularity cfg \<le> step \<and> budget_left cfg s then
        and_then (try_candidate mc cfg target base (saturating_sub (fst (best s)) step) (snd (best s)) s)
          (\<lambda>rs. collateral_loop mc cfg target base (if fst rs then step else step div 2) (snd rs))
      else Inr s)"
  by pat_completeness auto

lemma halved: "0 < g \<Longrightarrow> g \<le> step \<Longrightarrow> unat (step div 2 :: u64) < unat step"
  by (simp add: unat_div word_less_nat_alt word_le_nat_alt)

lemma loop_decreases:
  assumes "try_candidate mc cfg target base c d s = Inr rs" "0 < g" "g \<le> step" "budget_left cfg s"
  shows "max_probes cfg - probes (snd rs) + unat (if fst rs then step else step div 2 :: u64)
    < max_probes cfg - probes s + unat step"
proof -
  obtain r s' where rs: "rs = (r, s')" by (cases rs)
  note t = try_candidate_Inr(1,3) [OF assms(1) [unfolded rs]]
  show ?thesis
  proof (cases r)
    case True
    with t(2) show ?thesis by (auto simp: rs)
  next
    case False
    with t(1) halved [OF assms(2,3)] show ?thesis by (simp add: rs)
  qed
qed

termination collateral_loop
  by (relation "measure (\<lambda>(mc, cfg, target, base, step, s). max_probes cfg - probes s + unat step)")
    (auto dest: loop_decreases simp del: unat_div)

declare collateral_loop.simps [simp del]

function debt_loop ::
  "machine \<Rightarrow> ShrinkConfig \<Rightarrow> RegressionSignature \<Rightarrow> Fixture \<Rightarrow> u64 \<Rightarrow> Search \<Rightarrow> shrink_error + Search"
where
  "debt_loop mc cfg target base step s =
     (if 0 < debt_granularity cfg \<and> debt_granularity cfg \<le> step \<and> budget_left cfg s then
        and_then (try_candidate mc cfg target base (fst (best s)) (saturating_sub (snd (best s)) step) s)
          (\<lambda>rs. debt_loop mc cfg target base (if fst rs then step else step div 2) (snd rs))
      else Inr s)"
  by pat_completeness auto

termination debt_loop
  by (relation "measure (\<lambda>(mc, cfg, target, base, step, s). max_probes cfg - probes s + unat step)")
    (auto dest: loop_decreases simp del: unat_div)

declare debt_loop.simps [simp del]

section \<open>One pass and the whole search\<close>

definition search_pass ::
  "machine \<Rightarrow> ShrinkConfig \<Rightarrow> RegressionSignature \<Rightarrow> Fixture \<Rightarrow> Search \<Rightarrow> shrink_error + Search" where
  "search_pass mc cfg target base s =
     and_then (ratios_pass mc cfg target base RATIOS s) (\<lambda>s.
     and_then (collateral_loop mc cfg target base (fst (best s) div 2) s) (\<lambda>s.
     debt_loop mc cfg target base (snd (best s) div 2) s))"

text \<open>The point a search has accepted: quantised, at least one granule, and reproducing.\<close>

definition witnessed ::
  "machine \<Rightarrow> ShrinkConfig \<Rightarrow> RegressionSignature \<Rightarrow> Fixture \<Rightarrow> u64 \<times> u64 \<Rightarrow> bool" where
  "witnessed mc cfg target base point \<longleftrightarrow>
     collateral_granularity cfg \<le> fst point \<and> debt_granularity cfg \<le> snd point \<and>
     unat (collateral_granularity cfg) dvd unat (fst point) \<and>
     unat (debt_granularity cfg) dvd unat (snd point) \<and>
     (\<exists>v. variant (vault_floor mc) base (fst point) (snd point) = Inr (Some v) \<and>
        shows_regression mc target v = Inr True)"

definition size_of :: "u64 \<times> u64 \<Rightarrow> nat" where
  "size_of point = unat (fst point) + unat (snd point)"

text \<open>How a search may move: it never exceeds the budget it has respected so far, never grows a
  field, and has either accepted nothing or spent a probe on a smaller witnessed point.\<close>

definition advances ::
  "machine \<Rightarrow> ShrinkConfig \<Rightarrow> RegressionSignature \<Rightarrow> Fixture \<Rightarrow> Search \<Rightarrow> Search \<Rightarrow> bool" where
  "advances mc cfg target base s s' \<longleftrightarrow>
     probes s \<le> probes s' \<and> (probes s \<le> max_probes cfg \<longrightarrow> probes s' \<le> max_probes cfg) \<and>
     fst (best s') \<le> fst (best s) \<and> snd (best s') \<le> snd (best s) \<and>
     (reductions s' = reductions s \<and> best s' = best s \<or>
      reductions s < reductions s' \<and> probes s < probes s' \<and> size_of (best s') < size_of (best s) \<and>
      witnessed mc cfg target base (best s'))"

lemma advances_refl: "advances mc cfg target base s s"
  by (simp add: advances_def)

lemma advances_trans:
  "advances mc cfg target base s s' \<Longrightarrow> advances mc cfg target base s' s'' \<Longrightarrow>
     advances mc cfg target base s s''"
  by (auto simp: advances_def)

lemma quantize_nat: "unat (quantize v g) = (if g = 0 then unat v else unat v div unat g * unat g)"
proof (cases "g = 0")
  case False
  have "unat v div unat g * unat g \<le> unat v" by simp
  then have "unat (v div g) * unat g < 2 ^ 64" unfolding unat_div by (rule le_less_trans) simp
  then have "unat (v div g * g) = unat v div unat g * unat g"
    by (simp add: unat_mult_small unat_div)
  with False show ?thesis by (simp add: quantize_def)
qed (simp add: quantize_def)

lemma quantize_le: "quantize v g \<le> v"
  by (simp add: word_le_nat_alt quantize_nat)

lemma try_advances:
  assumes "try_candidate mc cfg target base c d s = Inr (r, s')"
    and "c \<le> fst (best s)" "d \<le> snd (best s)"
    and "0 < collateral_granularity cfg" "0 < debt_granularity cfg"
  shows "advances mc cfg target base s s'"
proof -
  note t = try_candidate_Inr [OF assms(1)]
  show ?thesis
  proof (cases r)
    case False
    with t show ?thesis by (simp add: advances_def)
  next
    case True
    let ?c = "quantize c (collateral_granularity cfg)" and ?d = "quantize d (debt_granularity cfg)"
    have le: "?c \<le> fst (best s)" "?d \<le> snd (best s)"
      using quantize_le assms(2,3) order.trans by blast+
    have b: "best s' = (?c, ?d)" "(?c, ?d) \<noteq> best s" using t(3) True by simp_all
    then have "?c \<noteq> fst (best s) \<or> ?d \<noteq> snd (best s)" by (metis prod.collapse)
    then have "unat ?c \<noteq> unat (fst (best s)) \<or> unat ?d \<noteq> unat (snd (best s))"
      by (metis word_eq_unatI)
    moreover have "unat ?c \<le> unat (fst (best s))" "unat ?d \<le> unat (snd (best s))"
      using le by (simp_all add: word_le_nat_alt)
    ultimately have smaller: "size_of (best s') < size_of (best s)"
      unfolding size_of_def b(1) fst_conv snd_conv by linarith
    have "unat (collateral_granularity cfg) dvd unat ?c" "unat (debt_granularity cfg) dvd unat ?d"
      using assms(4,5) by (auto simp: quantize_nat)
    then have "witnessed mc cfg target base (best s')"
      using t(3) True by (simp add: witnessed_def)
    with t True le b smaller show ?thesis by (simp add: advances_def)
  qed
qed

lemma scaled_le: "fst ratio \<le> snd ratio \<Longrightarrow> scaled ratio v \<le> v"
proof -
  assume r: "fst ratio \<le> snd ratio"
  have "unat v * fst ratio \<le> unat v * snd ratio" using r by (rule mult_le_mono2)
  then have "unat v * fst ratio div snd ratio \<le> unat v * snd ratio div snd ratio" by (rule div_le_mono)
  also have "\<dots> \<le> unat v" by (cases "snd ratio = 0") simp_all
  finally have le: "unat v * fst ratio div snd ratio \<le> unat v" .
  then have "unat (scaled ratio v) = unat v * fst ratio div snd ratio"
    unfolding scaled_def by (intro unat_of_nat_eq le_less_trans [OF _ unat_less_pow [of v]])
  with le show ?thesis by (simp add: word_le_nat_alt)
qed

lemma ratio_loop_advances:
  assumes "fst ratio \<le> snd ratio" "0 < collateral_granularity cfg" "0 < debt_granularity cfg"
  shows "ratio_loop mc cfg target base ratio s = Inr s' \<Longrightarrow> advances mc cfg target base s s'"
  using assms
proof (induction mc cfg target base ratio s rule: ratio_loop.induct)
  case (1 mc cfg target base ratio s)
  obtain r s1 where t: "try_candidate mc cfg target base (scaled ratio (fst (best s)))
      (scaled ratio (snd (best s))) s = Inr (r, s1)"
    and rest: "(if r then ratio_loop mc cfg target base ratio s1 else Inr s1) = Inr s'"
    using 1(2) unfolding ratio_loop.simps [of mc cfg target base ratio s] and_then_Inr
    by (metis prod.collapse)
  have a: "advances mc cfg target base s s1"
    by (rule try_advances [OF t scaled_le scaled_le]) (use 1(3-5) in simp_all)
  show ?case
  proof (cases r)
    case True
    then have "advances mc cfg target base s1 s'" using 1(1) [OF t] 1(3-5) rest by simp
    with a show ?thesis by (rule advances_trans)
  qed (use a rest in simp)
qed

lemma ratios_pass_advances:
  assumes "0 < collateral_granularity cfg" "0 < debt_granularity cfg"
  shows "list_all (\<lambda>r. fst r \<le> snd r) rs \<Longrightarrow> ratios_pass mc cfg target base rs s = Inr s' \<Longrightarrow>
    advances mc cfg target base s s'"
proof (induction rs arbitrary: s)
  case Nil
  then show ?case by (simp add: advances_refl)
next
  case (Cons r rs)
  then obtain s1 where "ratio_loop mc cfg target base r s = Inr s1"
    "ratios_pass mc cfg target base rs s1 = Inr s'" by (auto simp: result_simps)
  with Cons assms ratio_loop_advances [of r cfg mc target base s s1] show ?case
    by (auto intro: advances_trans)
qed

lemma saturating_sub_le: "saturating_sub a b \<le> (a::'a::len word)"
  by (simp add: word_le_nat_alt unat_saturating_sub)

lemma collateral_loop_advances:
  assumes "0 < debt_granularity cfg"
  shows "collateral_loop mc cfg target base step s = Inr s' \<Longrightarrow> advances mc cfg target base s s'"
  using assms
proof (induction mc cfg target base step s rule: collateral_loop.induct)
  case (1 mc cfg target base step s)
  show ?case
  proof (cases "0 < collateral_granularity cfg \<and> collateral_granularity cfg \<le> step \<and> budget_left cfg s")
    case False
    with 1(2) show ?thesis unfolding collateral_loop.simps [of mc cfg target base step s] by (auto simp: advances_refl)
  next
    case True
    then obtain r s1 where t: "try_candidate mc cfg target base (saturating_sub (fst (best s)) step)
        (snd (best s)) s = Inr (r, s1)"
      and rest: "collateral_loop mc cfg target base (if r then step else step div 2) s1 = Inr s'"
      using 1(2) unfolding collateral_loop.simps [of mc cfg target base step s] by (auto simp: and_then_Inr)
    have "advances mc cfg target base s s1"
      by (rule try_advances [OF t saturating_sub_le order.refl]) (use True 1(3) in simp_all)
    moreover have "advances mc cfg target base s1 s'"
      using 1(1) [OF True t] rest 1(3) by simp
    ultimately show ?thesis by (rule advances_trans)
  qed
qed

lemma debt_loop_advances:
  assumes "0 < collateral_granularity cfg"
  shows "debt_loop mc cfg target base step s = Inr s' \<Longrightarrow> advances mc cfg target base s s'"
  using assms
proof (induction mc cfg target base step s rule: debt_loop.induct)
  case (1 mc cfg target base step s)
  show ?case
  proof (cases "0 < debt_granularity cfg \<and> debt_granularity cfg \<le> step \<and> budget_left cfg s")
    case False
    with 1(2) show ?thesis unfolding debt_loop.simps [of mc cfg target base step s] by (auto simp: advances_refl)
  next
    case True
    then obtain r s1 where t: "try_candidate mc cfg target base (fst (best s))
        (saturating_sub (snd (best s)) step) s = Inr (r, s1)"
      and rest: "debt_loop mc cfg target base (if r then step else step div 2) s1 = Inr s'"
      using 1(2) unfolding debt_loop.simps [of mc cfg target base step s] by (auto simp: and_then_Inr)
    have "advances mc cfg target base s s1"
      by (rule try_advances [OF t order.refl saturating_sub_le]) (use True 1(3) in simp_all)
    moreover have "advances mc cfg target base s1 s'"
      using 1(1) [OF True t] rest 1(3) by simp
    ultimately show ?thesis by (rule advances_trans)
  qed
qed

lemma search_pass_advances:
  assumes "search_pass mc cfg target base s = Inr s'"
    and "0 < collateral_granularity cfg" "0 < debt_granularity cfg"
  shows "advances mc cfg target base s s'"
proof -
  obtain s1 s2 where p: "ratios_pass mc cfg target base RATIOS s = Inr s1"
    "collateral_loop mc cfg target base (fst (best s1) div 2) s1 = Inr s2"
    "debt_loop mc cfg target base (snd (best s2) div 2) s2 = Inr s'"
    using assms(1) by (auto simp: search_pass_def and_then_Inr simp del: ratios_pass.simps)
  have "advances mc cfg target base s s1"
    by (rule ratios_pass_advances [OF assms(2,3) _ p(1)]) simp
  moreover have "advances mc cfg target base s1 s2"
    by (rule collateral_loop_advances [OF assms(3) p(2)])
  moreover have "advances mc cfg target base s2 s'"
    by (rule debt_loop_advances [OF assms(2) p(3)])
  ultimately show ?thesis by (blast intro: advances_trans)
qed

text \<open>The outer loop stops when a pass changed nothing or the budget is spent. The guard on the
  granularities is never taken: \<open>minimize\<close> refuses a zero granularity before it searches.\<close>

function outer_loop ::
  "machine \<Rightarrow> ShrinkConfig \<Rightarrow> RegressionSignature \<Rightarrow> Fixture \<Rightarrow> Search \<Rightarrow> shrink_error + Search" where
  "outer_loop mc cfg target base s =
     and_then (search_pass mc cfg target base s) (\<lambda>s'.
     if best s' = best s \<or> \<not> budget_left cfg s' \<or>
        collateral_granularity cfg = 0 \<or> debt_granularity cfg = 0
     then Inr s' else outer_loop mc cfg target base s')"
  by pat_completeness auto
termination
proof (relation "measure (\<lambda>(mc, cfg, target, base, s). max_probes cfg - probes s)", simp, clarsimp)
  fix mc cfg target base s s'
  assume p: "search_pass mc cfg target base s = Inr s'" "best s' \<noteq> best s" "budget_left cfg s'"
    "collateral_granularity cfg \<noteq> 0" "debt_granularity cfg \<noteq> 0"
  then have "advances mc cfg target base s s'"
    by (intro search_pass_advances) (simp_all add: word_gt_0)
  with p show "max_probes cfg - probes s' < max_probes cfg - probes s"
    by (auto simp: advances_def budget_left_def)
qed

declare outer_loop.simps [simp del]

definition health_after :: "ExecutionResult \<Rightarrow> shrink_error + u64 option" where
  "health_after r = and_then (map_err Panicking (post_economics r)) (\<lambda>e. Inr (map_option pe_health_factor e))"

definition outcome_of :: "ExecutionResult \<Rightarrow> string" where
  "outcome_of r =
     (if er_success r then ''success''
      else ''reverted: '' @ (case er_error r of Some e \<Rightarrow> e | None \<Rightarrow> ''unknown error''))"

definition start :: "Position \<Rightarrow> Search" where
  "start original = \<lparr>probes = 0, reductions = 0,
     best = (p_collateral_amount original, p_debt_amount original)\<rparr>"

definition minimized_case ::
  "Fixture \<Rightarrow> Position \<Rightarrow> Search \<Rightarrow> u64 option \<Rightarrow> u64 option \<Rightarrow> string \<Rightarrow> string \<Rightarrow> MinimizedCase" where
  "minimized_case base original s h1 h2 o1 o2 =
     \<lparr>mc_derived_from = fx_id base,
      mc_collateral_lamports = fst (best s),
      mc_collateral_display = format_sol (fst (best s)) @ '' SOL'',
      mc_debt_micro_usd = snd (best s),
      mc_debt_display = usd_format_dollars (Usd (ucast (snd (best s)))),
      mc_collateral_value_usd =
        Usd (reference_collateral_value (fst (best s)) (p_collateral_price original)),
      mc_debt_value_usd = Usd (reference_debt_value (snd (best s))),
      mc_v1_health = (case h1 of Some h \<Rightarrow> format_health h | None \<Rightarrow> ''n/a''),
      mc_v2_health = (case h2 of Some h \<Rightarrow> format_health h | None \<Rightarrow> ''n/a''),
      mc_v1_liquidatable = (case h1 of Some h \<Rightarrow> reference_is_liquidatable h | None \<Rightarrow> False),
      mc_v2_liquidatable = (case h2 of Some h \<Rightarrow> reference_is_liquidatable h | None \<Rightarrow> False),
      mc_v1_outcome = o1, mc_v2_outcome = o2,
      mc_probes = probes s, mc_reductions = reductions s\<rparr>"

definition minimize ::
  "machine \<Rightarrow> Fixture \<Rightarrow> RegressionSignature \<Rightarrow> ShrinkConfig \<Rightarrow> shrink_error + MinimizedCase option" where
  "minimize mc base target cfg =
     and_then (ensure (0 < collateral_granularity cfg \<and> 0 < debt_granularity cfg) GranularityNotPositive)
       (\<lambda>_.
     case read_position base of
       None \<Rightarrow> Inr None
     | Some original \<Rightarrow>
         and_then (outer_loop mc cfg target base (start original)) (\<lambda>s.
         if reductions s = 0 then Inr None
         else
           and_then (variant (vault_floor mc) base (fst (best s)) (snd (best s))) (\<lambda>v.
           and_then (ok_or v NoVariant) (\<lambda>minimized.
           and_then (run1 mc minimized) (\<lambda>result_v1.
           and_then (run2 mc minimized) (\<lambda>result_v2.
           and_then (health_after result_v1) (\<lambda>h1.
           and_then (health_after result_v2) (\<lambda>h2.
           Inr (Some (minimized_case base original s h1 h2 (outcome_of result_v1)
                        (outcome_of result_v2)))))))))))"

lemma outer_loop_advances:
  assumes "0 < collateral_granularity cfg" "0 < debt_granularity cfg"
  shows "outer_loop mc cfg target base s = Inr s' \<Longrightarrow> advances mc cfg target base s s'"
  using assms
proof (induction mc cfg target base s rule: outer_loop.induct)
  case (1 mc cfg target base s)
  obtain s1 where p: "search_pass mc cfg target base s = Inr s1"
    and rest: "(if best s1 = best s \<or> \<not> budget_left cfg s1 \<or>
        collateral_granularity cfg = 0 \<or> debt_granularity cfg = 0
      then Inr s1 else outer_loop mc cfg target base s1) = Inr s'"
    using 1(2) unfolding outer_loop.simps [of mc cfg target base s] and_then_Inr by metis
  note a = search_pass_advances [OF p 1(3,4)]
  show ?case
  proof (cases "best s1 = best s \<or> \<not> budget_left cfg s1 \<or>
        collateral_granularity cfg = 0 \<or> debt_granularity cfg = 0")
    case True
    with a rest show ?thesis by simp
  next
    case False
    then have "advances mc cfg target base s1 s'" using 1(1) [OF p False] rest 1(3,4) by simp
    with a show ?thesis by (rule advances_trans)
  qed
qed

end
