(* ===== verification/ShrinkProperties.thy ===== *)
theory ShrinkProperties
  imports Shrink
begin

text \<open>
  What the counterexample minimiser guarantees: a variant is a self-consistent state that differs
  from the fixture in nothing but the two amounts, what follows from them and the vault's balance;
  a minimised case was executed and reproduced the regression; and the search always returns when
  the executions do.
\<close>

section \<open>Variants\<close>

text \<open>How one account of a variant relates to the account it was made from.\<close>

definition account_varied :: "u64 \<Rightarrow> u8 list \<Rightarrow> u64 \<Rightarrow> NamedAccount \<Rightarrow> NamedAccount \<Rightarrow> bool" where
  "account_varied fl encoded collateral a b \<longleftrightarrow>
     (if na_label a = ''position'' then
        b = a\<lparr>na_account := (na_account a)\<lparr>snap_data := snap_data (na_account b)\<rparr>\<rparr> \<and>
        length (snap_data (na_account b)) = length (snap_data (na_account a)) \<and>
        take (length encoded) (snap_data (na_account b)) = encoded \<and>
        drop (length encoded) (snap_data (na_account b)) = drop (length encoded) (snap_data (na_account a))
      else if na_label a = ''vault'' then
        b = a\<lparr>na_account := (na_account a)\<lparr>snap_lamports := snap_lamports (na_account b)\<rparr>\<rparr> \<and>
        unat (snap_lamports (na_account b)) = unat fl + unat collateral
      else b = a)"

lemma variant_account_Inr:
  assumes "variant_account fl encoded collateral a = Inr (Some b)"
  shows "account_varied fl encoded collateral a b" "na_label b = na_label a" "na_address b = na_address a"
  using assms
  by (auto simp: variant_account_def account_varied_def Let_def result_simps unat_add_small
      split: if_splits)

lemma variant_accounts_Inr:
  "variant_accounts fl encoded collateral as = Inr (Some bs) \<Longrightarrow>
     list_all2 (\<lambda>a b. account_varied fl encoded collateral a b \<and> na_label b = na_label a \<and>
       na_address b = na_address a) as bs"
proof (induction as arbitrary: bs)
  case (Cons a as)
  then obtain b bs' where v: "variant_account fl encoded collateral a = Inr (Some b)"
    "variant_accounts fl encoded collateral as = Inr (Some bs')" "bs = b # bs'"
    by (auto simp: result_simps split: option.splits)
  with Cons.IH variant_account_Inr [OF v(1)] show ?case by simp
qed simp

lemma find_list_all2:
  "list_all2 (\<lambda>a b. R a b \<and> f b = f a) as bs \<Longrightarrow> find (\<lambda>a. f a = x) as = Some a \<Longrightarrow>
     \<exists>b. find (\<lambda>b. f b = x) bs = Some b \<and> R a b"
  by (induction rule: list_all2_induct) (auto split: if_splits)

lemma find_label: "find (\<lambda>a. f a = x) as = Some a \<Longrightarrow> f a = x"
  by (auto simp: find_Some_iff)

lemma read_position_Some:
  "read_position fixture = Some p \<longleftrightarrow>
     (\<exists>a. fixture_account fixture ''position'' = Some a \<and> wf_position p \<and>
        take POSITION_LEN (snap_data (na_account a)) = position_to_vec p)"
proof -
  have "take (min POSITION_LEN (length bs)) bs = take POSITION_LEN bs" for bs :: "u8 list"
    by (simp add: min_def)
  then show ?thesis
    by (auto simp: read_position_def Let_def Option.bind_eq_Some_conv position_codec.slice_Some)
qed

lemma wf_variant_position: "wf_position p \<Longrightarrow> wf_position (variant_position p c d)"
  by (simp add: wf_position_def variant_position_def)

lemma variant_parts:
  assumes "variant fl base c d = Inr (Some v)"
  obtains p as where "read_position base = Some p" "v = base\<lparr>fx_accounts := as\<rparr>"
    "variant_accounts fl (position_to_vec (variant_position p c d)) c (fx_accounts base) = Inr (Some as)"
  using assms by (auto simp: variant_def result_simps split: option.splits)

lemma variant_reads:
  assumes v: "variant fl base c d = Inr (Some v)" and p: "read_position base = Some p"
  shows "read_position v = Some (variant_position p c d)"
proof -
  let ?q = "variant_position p c d"
  obtain as where as: "v = base\<lparr>fx_accounts := as\<rparr>"
    "variant_accounts fl (position_to_vec ?q) c (fx_accounts base) = Inr (Some as)"
    using v p by (elim variant_parts) auto
  have wf: "wf_position ?q" and a: "\<exists>a. fixture_account base ''position'' = Some a"
    using p by (auto simp: read_position_Some wf_variant_position)
  then obtain a where fa: "find (\<lambda>a. na_label a = ''position'') (fx_accounts base) = Some a"
    by (auto simp: fixture_account_def)
  obtain b where b: "find (\<lambda>a. na_label a = ''position'') as = Some b"
    "account_varied fl (position_to_vec ?q) c a b"
    using find_list_all2 [of "\<lambda>a b. account_varied fl (position_to_vec ?q) c a b \<and> na_address b = na_address a"
        na_label "fx_accounts base" as] variant_accounts_Inr [OF as(2)] fa
    by (auto simp: conj_ac)
  have "take POSITION_LEN (snap_data (na_account b)) = position_to_vec ?q"
    using b(2) find_label [OF fa] length_position_to_vec [OF wf] by (simp add: account_varied_def)
  with b(1) wf show ?thesis by (simp add: read_position_Some fixture_account_def as(1))
qed

text \<open>C24. A candidate is a self-consistent state: its position carries the requested amounts and the
  health factor the reference arithmetic gives for them, the vault holds exactly its rent floor and
  the collateral, and everything else, in every account and in the rest of the fixture, is what the
  fixture had.\<close>

theorem variant_self_consistent:
  assumes "variant fl base c d = Inr (Some v)"
  shows "\<exists>p. read_position base = Some p \<and>
     read_position v = Some (p\<lparr>p_collateral_amount := c, p_debt_amount := d,
       p_health_factor := reference_health_factor c d (p_collateral_price p)
         (p_liquidation_threshold_bps p)\<rparr>) \<and>
     v = base\<lparr>fx_accounts := fx_accounts v\<rparr> \<and>
     list_all2 (account_varied fl (position_to_vec (variant_position p c d)) c)
       (fx_accounts base) (fx_accounts v)"
proof -
  obtain p as where p: "read_position base = Some p" "v = base\<lparr>fx_accounts := as\<rparr>"
    "variant_accounts fl (position_to_vec (variant_position p c d)) c (fx_accounts base) = Inr (Some as)"
    using assms by (rule variant_parts)
  have "list_all2 (account_varied fl (position_to_vec (variant_position p c d)) c)
       (fx_accounts base) as"
    using variant_accounts_Inr [OF p(3)] by (rule list_all2_mono) simp
  with p(1,2) variant_reads [OF assms p(1)] show ?thesis
    by (auto simp: variant_position_def)
qed

section \<open>The minimised case\<close>

lemma minimize_Inr:
  assumes "minimize mc base target cfg = Inr (Some m)"
  obtains original s where "read_position base = Some original"
    "outer_loop mc cfg target base (start original) = Inr s" "reductions s \<noteq> 0"
    "0 < collateral_granularity cfg" "0 < debt_granularity cfg"
    "best s = (mc_collateral_lamports m, mc_debt_micro_usd m)"
    "mc_probes m = probes s" "mc_reductions m = reductions s"
  using assms
  by (auto simp: minimize_def result_simps minimized_case_def split: option.splits if_splits)

text \<open>C22. A minimised case is a witness, never a guess: it is a variant of the fixture that was
  executed against both builds and showed the same regression signature; it is strictly smaller
  than the original and no field of it has grown; both amounts are whole granules and not zero; and
  the search respected its budget.\<close>

theorem minimize_sound:
  assumes "minimize mc base target cfg = Inr (Some m)"
  shows "\<exists>original v. read_position base = Some original \<and>
     variant (vault_floor mc) base (mc_collateral_lamports m) (mc_debt_micro_usd m) = Inr (Some v) \<and>
     shows_regression mc target v = Inr True \<and>
     mc_collateral_lamports m \<le> p_collateral_amount original \<and>
     mc_debt_micro_usd m \<le> p_debt_amount original \<and>
     size_of (mc_collateral_lamports m, mc_debt_micro_usd m) <
       size_of (p_collateral_amount original, p_debt_amount original) \<and>
     0 < mc_collateral_lamports m \<and> 0 < mc_debt_micro_usd m \<and>
     unat (collateral_granularity cfg) dvd unat (mc_collateral_lamports m) \<and>
     unat (debt_granularity cfg) dvd unat (mc_debt_micro_usd m) \<and>
     0 < mc_reductions m \<and> mc_probes m \<le> max_probes cfg"
proof -
  obtain original s where m: "read_position base = Some original"
    "outer_loop mc cfg target base (start original) = Inr s" "reductions s \<noteq> 0"
    and g: "0 < collateral_granularity cfg" "0 < debt_granularity cfg"
    and b: "best s = (mc_collateral_lamports m, mc_debt_micro_usd m)"
    "mc_probes m = probes s" "mc_reductions m = reductions s"
    using assms by (rule minimize_Inr)
  have a: "advances mc cfg target base (start original) s"
    by (rule outer_loop_advances [OF g m(2)])
  have "witnessed mc cfg target base (best s)" and "size_of (best s) < size_of (best (start original))"
    using a m(3) by (auto simp: advances_def start_def)
  moreover have "fst (best s) \<le> p_collateral_amount original" "snd (best s) \<le> p_debt_amount original"
    "probes s \<le> max_probes cfg"
    using a by (simp_all add: advances_def start_def)
  ultimately show ?thesis
    using m(1,3) g b by (auto simp: witnessed_def start_def intro: less_le_trans)
qed


section \<open>The search returns\<close>

text \<open>What the search relies on: an execution always yields a result, with compute units a
  signed 64-bit integer can hold, and no position account is shorter than a position.\<close>

definition executes :: "(Fixture \<Rightarrow> shrink_error + ExecutionResult) \<Rightarrow> bool" where
  "executes run \<longleftrightarrow>
     (\<forall>f. \<exists>r. run f = Inr r \<and> (\<forall>u. er_compute_units r = Some u \<longrightarrow> unat u < 2 ^ 63))"

definition positions_fit :: "Fixture \<Rightarrow> bool" where
  "positions_fit f \<longleftrightarrow>
     list_all (\<lambda>a. na_label a = ''position'' \<longrightarrow> POSITION_LEN \<le> length (snap_data (na_account a)))
       (fx_accounts f)"

lemma sint_u64_small:
  assumes "unat (w::u64) < 2 ^ 63"
  shows "sint w = int (unat w)"
proof -
  have "int (unat w) < int (2 ^ 63)" using assms by (simp only: of_nat_less_iff)
  then have "uint w < 2 ^ 63" unfolding of_nat_power of_nat_numeral uint_nat .
  moreover have "- (2 ^ 63) \<le> uint w" by (rule order.trans [OF _ uint_ge_0]) simp
  ultimately have "signed_take_bit 63 (uint w) = uint w" by (intro signed_take_bit_int_eq_self)
  then show ?thesis unfolding sint_uint uint_nat by simp
qed

lemma checked_i64_sub_small:
  assumes "unat a < 2 ^ 63" "unat b < 2 ^ 63"
  shows "checked_i64_sub b a = Inr (b - a)"
proof -
  have "int (unat a) < 2 ^ 63" "int (unat b) < 2 ^ 63"
    using assms by (metis of_nat_less_iff of_nat_numeral of_nat_power)+
  then have "- (2 ^ 63) \<le> int (unat b) - int (unat a) \<and> int (unat b) - int (unat a) < 2 ^ 63"
    by linarith
  then show ?thesis unfolding checked_i64_sub_def sint_u64_small [OF assms(1)] sint_u64_small [OF assms(2)]
    by (rule if_P)
qed

lemma compute_defined:
  assumes "\<And>u. v1 = Some u \<Longrightarrow> unat u < 2 ^ 63" "\<And>u. v2 = Some u \<Longrightarrow> unat u < 2 ^ 63"
  shows "\<exists>cs. compute_difference v1 v2 = Inr cs"
proof (cases v1)
  case (Some a)
  show ?thesis
  proof (cases v2)
    case (Some b)
    have "checked_i64_sub b a = Inr (b - a)"
      by (rule checked_i64_sub_small [OF assms(1) [OF \<open>v1 = Some a\<close>] assms(2) [OF Some]])
    then show ?thesis unfolding compute_difference_def Some \<open>v1 = Some a\<close> by simp
  qed (simp add: compute_difference_def Some)
qed (simp add: compute_difference_def)

lemma position_economics_defined: "\<exists>e. position_economics bs = Inr e"
  using economics_defined by (auto simp: position_economics_def result_simps split: Decoded.split) 

lemma post_economics_defined: "\<exists>e. post_economics r = Inr e"
  using position_economics_defined by (auto simp: post_economics_def split: option.split)

lemma evaluate_defined: "\<exists>e. evaluate f d = Inr e"
proof (cases "fixture_account f ''position''")
  case (Some a)
  obtain e e1 e2 where "position_economics (snap_data (na_account a)) = Inr e"
    "post_economics (sd_v1 d) = Inr e1" "post_economics (sd_v2 d) = Inr e2"
    using post_economics_defined position_economics_defined by metis
  with Some show ?thesis by (cases e) (simp_all add: evaluate_def)
qed (simp add: evaluate_def)

lemma shows_regression_defined:
  assumes "executes (run1 mc)" "executes (run2 mc)"
  shows "\<exists>r. shows_regression mc target v = Inr r"
proof -
  obtain r1 r2 where r: "run1 mc v = Inr r1" "run2 mc v = Inr r2"
    "\<And>u. er_compute_units r1 = Some u \<Longrightarrow> unat u < 2 ^ 63"
    "\<And>u. er_compute_units r2 = Some u \<Longrightarrow> unat u < 2 ^ 63"
    using assms unfolding executes_def by metis
  obtain cs where "compute_difference (er_compute_units r1) (er_compute_units r2) = Inr cs"
    using compute_defined [OF r(3,4)] by blast
  then obtain d where d: "compare (base58 mc) v r1 r2 = Inr d"
    by (auto simp: compare_def compare_with_decoder_def Let_def)
  obtain e where "evaluate v d = Inr e" using evaluate_defined by blast
  with r(1,2) d show ?thesis by (auto simp: shows_regression_def split: option.split)
qed

lemma variant_accounts_defined:
  "list_all (\<lambda>a. na_label a = ''position'' \<longrightarrow> length encoded \<le> length (snap_data (na_account a))) as \<Longrightarrow>
     \<exists>r. variant_accounts fl encoded collateral as = Inr r"
  by (induction as) (auto simp: variant_account_def Let_def split: option.split)

lemma variant_defined:
  assumes "positions_fit base"
  shows "\<exists>r. variant fl base c d = Inr r"
proof (cases "read_position base")
  case (Some p)
  then have "length (position_to_vec (variant_position p c d)) = POSITION_LEN"
    by (auto simp: read_position_Some intro!: length_position_to_vec wf_variant_position)
  then obtain r where
    "variant_accounts fl (position_to_vec (variant_position p c d)) c (fx_accounts base) = Inr r"
    using assms variant_accounts_defined
      [where encoded = "position_to_vec (variant_position p c d)" and as = "fx_accounts base"]
    by (auto simp: positions_fit_def)
  with Some show ?thesis by (auto simp: variant_def)
qed (simp add: variant_def)

lemma try_candidate_defined:
  assumes "executes (run1 mc)" "executes (run2 mc)" "positions_fit base"
  shows "\<exists>r. try_candidate mc cfg target base c d s = Inr r"
proof -
  let ?c = "quantize c (collateral_granularity cfg)" and ?d = "quantize d (debt_granularity cfg)"
  obtain v where v: "variant (vault_floor mc) base ?c ?d = Inr v"
    using variant_defined [OF assms(3)] by blast
  show ?thesis
  proof (cases v)
    case (Some w)
    obtain r where "shows_regression mc target w = Inr r"
      using shows_regression_defined [OF assms(1,2)] by blast
    with v Some show ?thesis by (auto simp: try_candidate_def Let_def reproduces_def)
  qed (use v in \<open>auto simp: try_candidate_def Let_def\<close>)
qed

lemma ratio_loop_defined:
  assumes "executes (run1 mc)" "executes (run2 mc)" "positions_fit base"
  shows "\<exists>r. ratio_loop mc cfg target base ratio s = Inr r"
  using assms
proof (induction mc cfg target base ratio s rule: ratio_loop.induct)
  case (1 mc cfg target base ratio s)
  obtain r s' where t: "try_candidate mc cfg target base (scaled ratio (fst (best s)))
      (scaled ratio (snd (best s))) s = Inr (r, s')"
    using try_candidate_defined [OF 1(2-4)] by (metis prod.collapse)
  show ?case
    unfolding ratio_loop.simps [of mc cfg target base ratio s] t and_then.simps fst_conv snd_conv
    using 1(1) [OF t] 1(2-4) by (cases r) simp_all
qed

lemma ratios_pass_defined:
  assumes "executes (run1 mc)" "executes (run2 mc)" "positions_fit base"
  shows "\<exists>r. ratios_pass mc cfg target base rs s = Inr r"
proof (induction rs arbitrary: s)
  case (Cons r rs)
  obtain s1 where "ratio_loop mc cfg target base r s = Inr s1"
    using ratio_loop_defined [OF assms] by blast
  with Cons.IH [of s1] show ?case by simp
qed simp

lemma collateral_loop_defined:
  assumes "executes (run1 mc)" "executes (run2 mc)" "positions_fit base"
  shows "\<exists>r. collateral_loop mc cfg target base step s = Inr r"
  using assms
proof (induction mc cfg target base step s rule: collateral_loop.induct)
  case (1 mc cfg target base step s)
  show ?case
  proof (cases "0 < collateral_granularity cfg \<and> collateral_granularity cfg \<le> step \<and> budget_left cfg s")
    case True
    obtain rs where t: "try_candidate mc cfg target base (saturating_sub (fst (best s)) step)
        (snd (best s)) s = Inr rs"
      using try_candidate_defined [OF 1(2-4)] by blast
    show ?thesis
      unfolding collateral_loop.simps [of mc cfg target base step s] t and_then.simps if_P [OF True]
      by (rule 1(1) [OF True t 1(2-4)])
  next
    case False
    then show ?thesis
      unfolding collateral_loop.simps [of mc cfg target base step s] if_not_P [OF False] by blast
  qed
qed

lemma debt_loop_defined:
  assumes "executes (run1 mc)" "executes (run2 mc)" "positions_fit base"
  shows "\<exists>r. debt_loop mc cfg target base step s = Inr r"
  using assms
proof (induction mc cfg target base step s rule: debt_loop.induct)
  case (1 mc cfg target base step s)
  show ?case
  proof (cases "0 < debt_granularity cfg \<and> debt_granularity cfg \<le> step \<and> budget_left cfg s")
    case True
    obtain rs where t: "try_candidate mc cfg target base (fst (best s))
        (saturating_sub (snd (best s)) step) s = Inr rs"
      using try_candidate_defined [OF 1(2-4)] by blast
    show ?thesis
      unfolding debt_loop.simps [of mc cfg target base step s] t and_then.simps if_P [OF True]
      by (rule 1(1) [OF True t 1(2-4)])
  next
    case False
    then show ?thesis
      unfolding debt_loop.simps [of mc cfg target base step s] if_not_P [OF False] by blast
  qed
qed

lemma search_pass_defined:
  assumes "executes (run1 mc)" "executes (run2 mc)" "positions_fit base"
  shows "\<exists>r. search_pass mc cfg target base s = Inr r"
proof -
  obtain s1 where 1: "ratios_pass mc cfg target base RATIOS s = Inr s1"
    using ratios_pass_defined [OF assms] by blast
  obtain s2 where 2: "collateral_loop mc cfg target base (fst (best s1) div 2) s1 = Inr s2"
    using collateral_loop_defined [OF assms] by blast
  obtain s3 where 3: "debt_loop mc cfg target base (snd (best s2) div 2) s2 = Inr s3"
    using debt_loop_defined [OF assms] by blast
  show ?thesis unfolding search_pass_def 1 and_then.simps 2 3 by blast
qed

lemma outer_loop_defined:
  assumes "executes (run1 mc)" "executes (run2 mc)" "positions_fit base"
  shows "\<exists>r. outer_loop mc cfg target base s = Inr r"
  using assms
proof (induction mc cfg target base s rule: outer_loop.induct)
  case (1 mc cfg target base s)
  obtain s' where p: "search_pass mc cfg target base s = Inr s'"
    using search_pass_defined [OF 1(2-4)] by blast
  show ?case
  proof (cases "best s' = best s \<or> \<not> budget_left cfg s' \<or>
      collateral_granularity cfg = 0 \<or> debt_granularity cfg = 0")
    case True
    then show ?thesis unfolding outer_loop.simps [of mc cfg target base s] p and_then.simps by simp
  next
    case False
    show ?thesis
      unfolding outer_loop.simps [of mc cfg target base s] p and_then.simps if_not_P [OF False]
      by (rule 1(1) [OF p False 1(2-4)])
  qed
qed

lemma health_after_defined: "\<exists>h. health_after r = Inr h"
  using post_economics_defined [of r] by (auto simp: health_after_def)



section \<open>Witnesses\<close>

definition ex_shrink_base :: Fixture where
  "ex_shrink_base = ex_fixture\<lparr>fx_accounts :=
     [\<lparr>na_label = ''position'', na_address = ''p'', na_account =
         \<lparr>snap_lamports = 1000000, snap_owner = ''o'', snap_data = position_to_vec (ex_diff_position 5),
          snap_executable = False, snap_rent_epoch = 0\<rparr>\<rparr>,
      \<lparr>na_label = ''vault'', na_address = ''v'', na_account =
         \<lparr>snap_lamports = 890880, snap_owner = ''o'', snap_data = [],
          snap_executable = False, snap_rent_epoch = 0\<rparr>\<rparr>]\<rparr>"

definition ex_machine :: machine where
  "ex_machine = \<lparr>run1 = (\<lambda>_. Inr (ex_execution (ex_diff_position 1003783))),
     run2 = (\<lambda>_. Inr ((ex_execution (ex_diff_position 998738))\<lparr>er_success := False\<rparr>)),
     base58 = ex_base58, vault_floor = 890880\<rparr>"

definition ex_config :: ShrinkConfig where
  "ex_config = \<lparr>max_probes = 1, collateral_granularity = 1, debt_granularity = 1\<rparr>"

lemma ex_executes: "executes (run1 ex_machine)" "executes (run2 ex_machine)"
  by (simp_all add: executes_def ex_machine_def ex_execution_def)

lemma ex_shrink_wf: "wf_position (ex_diff_position h)"
  by (simp add: wf_position_def ex_diff_position_def)

lemmas ex_position_length = length_position_to_vec [OF ex_shrink_wf]
  length_position_to_vec [OF wf_variant_position [OF ex_shrink_wf]]

lemma ex_positions_fit: "positions_fit ex_shrink_base"
  by (simp add: positions_fit_def ex_shrink_base_def ex_position_length)

lemma ex_reads: "read_position ex_shrink_base = Some (ex_diff_position 5)"
  by (simp add: read_position_Some fixture_account_def ex_shrink_base_def ex_position_length ex_shrink_wf)

lemma ex_variant: "c < 2 ^ 62 \<Longrightarrow> \<exists>v. variant 890880 ex_shrink_base c d = Inr (Some v)"
proof -
  assume "c < 2 ^ 62"
  then have "unat (890880 :: u64) + unat c < 2 ^ LENGTH(64)"
    by (simp add: word_less_nat_alt)
  then have "checked_add 890880 c = Some (890880 + c)" by (simp only: checked_add_def if_True)
  then have "\<exists>as. variant_accounts 890880 (position_to_vec (variant_position (ex_diff_position 5) c d)) c
      (fx_accounts ex_shrink_base) = Inr (Some as)"
    by (simp add: variant_account_def ex_shrink_base_def Let_def ex_position_length)
  then show ?thesis by (auto simp: variant_def ex_reads)
qed

theorem variant_self_consistent_witness:
  "\<exists>v. variant 890880 ex_shrink_base 7 9 = Inr (Some v) \<and>
     map_option p_debt_amount (read_position v) = Some 9"
proof -
  obtain v where v: "variant 890880 ex_shrink_base 7 9 = Inr (Some v)"
    using ex_variant [of 7 9] by auto
  then show ?thesis using variant_self_consistent [OF v] by (intro exI [of _ v]) auto
qed



text \<open>With a budget of one probe, the first ratio is tried and nothing after it.\<close>

lemma spent_search:
  assumes "\<not> budget_left cfg s"
  shows "ratio_loop mc cfg target base r s = Inr s" "collateral_loop mc cfg target base step s = Inr s"
    "debt_loop mc cfg target base step s = Inr s"
  using assms unfolding ratio_loop.simps [of mc cfg target base r s]
    collateral_loop.simps [of mc cfg target base step s] debt_loop.simps [of mc cfg target base step s]
  by (simp_all add: try_candidate_def)

lemma one_probe:
  assumes t: "try_candidate mc cfg target base (scaled (1, 2) (fst (best s)))
      (scaled (1, 2) (snd (best s))) s = Inr (True, s')"
    and spent: "\<not> budget_left cfg s'"
  shows "outer_loop mc cfg target base s = Inr s'"
proof -
  have "ratio_loop mc cfg target base (1, 2) s = Inr s'"
    unfolding ratio_loop.simps [of mc cfg target base "(1, 2)" s] t
    by (simp add: spent_search [OF spent])
  then have "search_pass mc cfg target base s = Inr s'"
    by (simp add: search_pass_def spent_search [OF spent])
  then show ?thesis unfolding outer_loop.simps [of mc cfg target base s] using spent by simp
qed

lemma position_decodes:
  assumes "read_position f = Some p" "p_tag p = ACCOUNT_TAG_POSITION"
  shows "\<exists>a. fixture_account f ''position'' = Some a \<and>
    decode (snap_data (na_account a)) = DecodedPosition p"
proof -
  obtain a where a: "fixture_account f ''position'' = Some a" "wf_position p"
    "take POSITION_LEN (snap_data (na_account a)) = position_to_vec p"
    using assms(1) by (auto simp: read_position_Some)
  then have "snap_data (na_account a) = position_to_vec p @ drop POSITION_LEN (snap_data (na_account a))"
    by (metis append_take_drop_id)
  with a assms(2) show ?thesis by (auto simp: decode_Position)
qed

lemma some_signature:
  assumes "executes (run1 mc)" "executes (run2 mc)"
    and "read_position v = Some p" "p_tag p = ACCOUNT_TAG_POSITION"
  shows "\<exists>target. shows_regression mc target v = Inr True"
proof -
  obtain r1 r2 where r: "run1 mc v = Inr r1" "run2 mc v = Inr r2"
    "\<And>u. er_compute_units r1 = Some u \<Longrightarrow> unat u < 2 ^ 63"
    "\<And>u. er_compute_units r2 = Some u \<Longrightarrow> unat u < 2 ^ 63"
    using assms(1,2) unfolding executes_def by metis
  obtain cs where "compute_difference (er_compute_units r1) (er_compute_units r2) = Inr cs"
    using compute_defined [OF r(3,4)] by blast
  then obtain d where d: "compare (base58 mc) v r1 r2 = Inr d"
    by (auto simp: compare_def compare_with_decoder_def Let_def)
  obtain a where "fixture_account v ''position'' = Some a"
    "decode (snap_data (na_account a)) = DecodedPosition p"
    using position_decodes [OF assms(3,4)] by blast
  moreover obtain e0 where "economics p = Inr e0" using economics_defined by blast
  moreover obtain e1 e2 where "post_economics (sd_v1 d) = Inr e1" "post_economics (sd_v2 d) = Inr e2"
    using post_economics_defined by metis
  ultimately obtain e where "evaluate v d = Inr (Some e)"
    by (auto simp: evaluate_def position_economics_def)
  with r(1,2) d show ?thesis by (intro exI [of _ "regression_signature v d e"]) (simp add: shows_regression_def)
qed

theorem minimize_sound_witness:
  "\<exists>target m. minimize ex_machine ex_shrink_base target ex_config = Inr (Some m) \<and>
     mc_debt_micro_usd m = 3965000000 \<and> 0 < mc_reductions m"
proof -
  let ?c = "49750000000 :: u64" and ?d = "3965000000 :: u64"
  let ?s = "start (ex_diff_position 5)"
  let ?s1 = "\<lparr>probes = 1, reductions = 1, best = (?c, ?d)\<rparr>"
  obtain v where v: "variant 890880 ex_shrink_base ?c ?d = Inr (Some v)"
    using ex_variant [of ?c ?d] by auto
  note reads = variant_reads [OF v ex_reads]
  obtain target where target: "shows_regression ex_machine target v = Inr True"
    using some_signature [OF ex_executes reads]
    by (auto simp: variant_position_def ex_diff_position_def)
  have "try_candidate ex_machine ex_config target ex_shrink_base (scaled (1, 2) (fst (best ?s)))
      (scaled (1, 2) (snd (best ?s))) ?s = Inr (True, ?s1)"
    using v target
    by (simp add: try_candidate_def ex_config_def budget_left_def start_def ex_diff_position_def
        scaled_def quantize_def ex_machine_def reproduces_def)
  then have s: "outer_loop ex_machine ex_config target ex_shrink_base ?s = Inr ?s1"
    by (rule one_probe) (simp add: budget_left_def ex_config_def)
  let ?r1 = "ex_execution (ex_diff_position 1003783)"
  let ?r2 = "(ex_execution (ex_diff_position 998738))\<lparr>er_success := False\<rparr>"
  obtain h1 h2 where h: "health_after ?r1 = Inr h1" "health_after ?r2 = Inr h2"
    using health_after_defined by metis
  have run: "run1 ex_machine v = Inr ?r1" "run2 ex_machine v = Inr ?r2" "vault_floor ex_machine = 890880"
    by (simp_all add: ex_machine_def)
  let ?m = "minimized_case ex_shrink_base (ex_diff_position 5) ?s1 h1 h2 (outcome_of ?r1) (outcome_of ?r2)"
  have m: "minimize ex_machine ex_shrink_base target ex_config = Inr (Some ?m)"
    unfolding minimize_def ex_reads option.case and_then.simps s
    by (simp add: run h v ensure_def ex_config_def)
  have "mc_debt_micro_usd ?m = ?d" by (simp add: minimized_case_def)
  with m minimize_sound [OF m] show ?thesis by blast
qed

end
