(* ===== verification/Json.thy ===== *)
theory Json
  imports OrderedMap RustStrings
begin

text \<open>
  JSON values as the engine reads them (\<open>serde_json::Value\<close>), with the accessors it uses, and the
  wide integers that travel as decimal strings (\<open>engine/src/numfmt.rs\<close>). Indexing a value that is
  not an object, or by a key it does not have, gives null. A floating-point number is kept as its
  64-bit pattern: no accessor below reads one.
\<close>

type_synonym message = string

datatype json_number = PosInt u64 | NegInt "64 word" | Float u64

datatype json =
    JNull | JBool bool | JNumber json_number | JString string | JArray "json list"
  | JObject "(string \<times> json) list"

section \<open>Accessors\<close>

fun json_get :: "json \<Rightarrow> string \<Rightarrow> json option" where
  "json_get (JObject m) k = map_of m k"
| "json_get _ k = None"

definition json_at :: "json \<Rightarrow> string \<Rightarrow> json" where
  "json_at j k = (case json_get j k of Some v \<Rightarrow> v | None \<Rightarrow> JNull)"

fun as_str :: "json \<Rightarrow> string option" where
  "as_str (JString s) = Some s"
| "as_str _ = None"

fun as_bool :: "json \<Rightarrow> bool option" where
  "as_bool (JBool b) = Some b"
| "as_bool _ = None"

fun as_array :: "json \<Rightarrow> json list option" where
  "as_array (JArray xs) = Some xs"
| "as_array _ = None"

fun json_nth :: "json \<Rightarrow> nat \<Rightarrow> json" where
  "json_nth (JArray xs) i = (if i < length xs then xs ! i else JNull)"
| "json_nth _ i = JNull"

fun number_as_u64 :: "json_number \<Rightarrow> u64 option" where
  "number_as_u64 (PosInt n) = Some n"
| "number_as_u64 _ = None"

fun number_as_i64 :: "json_number \<Rightarrow> 64 word option" where
  "number_as_i64 (PosInt n) = (if unat n < 2 ^ 63 then Some n else None)"
| "number_as_i64 (NegInt n) = Some n"
| "number_as_i64 (Float bits) = None"

fun as_u64 :: "json \<Rightarrow> u64 option" where
  "as_u64 (JNumber n) = number_as_u64 n"
| "as_u64 _ = None"

section \<open>Integers as decimal strings\<close>

datatype numfmt_error = NotAnInteger string | OutOfRange json_number | UnexpectedValue json

definition u64_string_serialize :: "u64 \<Rightarrow> json" where
  "u64_string_serialize v = JString (show_nat (unat v))"

fun u64_string_deserialize :: "json \<Rightarrow> numfmt_error + u64" where
  "u64_string_deserialize (JString text) = ok_or (parse_uint text) (NotAnInteger text)"
| "u64_string_deserialize (JNumber number) = ok_or (number_as_u64 number) (OutOfRange number)"
| "u64_string_deserialize other = Inl (UnexpectedValue other)"

definition i64_string_serialize :: "64 word \<Rightarrow> json" where
  "i64_string_serialize v = JString (show_int (sint v))"

fun i64_string_deserialize :: "json \<Rightarrow> numfmt_error + 64 word" where
  "i64_string_deserialize (JString text) = ok_or (parse_sint text) (NotAnInteger text)"
| "i64_string_deserialize (JNumber number) = ok_or (number_as_i64 number) (OutOfRange number)"
| "i64_string_deserialize other = Inl (UnexpectedValue other)"

text \<open>A wide integer is read back exactly, whatever its size and sign, and numbers written before
  the strings were introduced still read as themselves.\<close>

lemma wide_integers_round_trip:
  "u64_string_deserialize (u64_string_serialize v) = Inr v \<and>
   i64_string_deserialize (i64_string_serialize i) = Inr i \<and>
   u64_string_deserialize (JNumber (PosInt v)) = Inr v"
  by (simp add: u64_string_serialize_def i64_string_serialize_def)

end
