(* ===== verification/ConversionPlan.thy ===== *)
theory ConversionPlan
  imports Json ConversionProperties
begin

text \<open>
  Operator-supplied conversion plans (\<open>engine/src/conversion/mod.rs\<close>): the plan and its
  structural validation, the host's expected arithmetic, and the evidence every account of an
  execution bank must carry. Errors are the messages of the code. Reading a base-58 address is
  another crate's, the parameter \<open>parse_address\<close>; an instant is an integer. What is proved: the
  host's arithmetic is the program's (\<open>DemoConversion\<close>), and what a validated plan guarantees.
\<close>

type_synonym instant = int
type_synonym u32 = "32 word"

section \<open>The plan\<close>

datatype PlanProvenance = UserProposed | OperatorSupplied | IssuerVerified | PublicIssuerMechanism
datatype MechanismId = EplyxDemoCandidateConversion
datatype Rounding = Floor | Ceiling

fun rounding_code :: "Rounding \<Rightarrow> u8" where
  "rounding_code Floor = 0"
| "rounding_code Ceiling = 1"

datatype SourceConsumption = Burn
datatype ReplacementDelivery = ProposedReserveRelease
datatype CandidateAuthority = ProgramDerived
datatype AmountMode = Full | Custom

record ConversionTerms =
  ct_ratio_numerator :: u64
  ct_ratio_denominator :: u64
  ct_rounding :: Rounding
  ct_conversion_fee_bps :: u16

record AuthorityModel =
  am_holder_signs :: bool
  am_candidate_authority :: CandidateAuthority

record ReserveConfig =
  rv_funded_replacement_raw :: string

record ConversionPlan =
  cp_schema_version :: u32
  cp_id :: string
  cp_version :: u32
  cp_provenance :: PlanProvenance
  cp_mechanism :: MechanismId
  cp_adapter_id :: string
  cp_mechanism_ref :: string
  cp_source_mint :: string
  cp_replacement_mint :: string
  cp_source_account :: string
  cp_amount_mode :: AmountMode
  cp_amount_decimal :: "string option"
  cp_terms :: ConversionTerms
  cp_authority_model :: AuthorityModel
  cp_source_consumption :: SourceConsumption
  cp_replacement_delivery :: ReplacementDelivery
  cp_reserve :: ReserveConfig
  cp_effective_at :: "instant option"
  cp_deadline :: "instant option"

abbreviation ADAPTER_ID :: string where "ADAPTER_ID \<equiv> ''eplyx-demo-candidate-conversion/v1''"

definition valid_plan_terms :: "ConversionTerms \<Rightarrow> bool" where
  "valid_plan_terms t \<longleftrightarrow>
     0 < ct_ratio_numerator t \<and> 0 < ct_ratio_denominator t \<and> ct_conversion_fee_bps t \<le> 10000"

text \<open>\<open>parse::<u64>()\<close> of a proposed amount that must also be written canonically.\<close>

definition check_funding :: "string \<Rightarrow> message + unit" where
  "check_funding raw =
     and_then (ok_or (parse_uint raw) ''invalid proposed reserve funding'') (\<lambda>funded :: u64.
     ensure (show_nat (unat funded) = raw) ''noncanonical proposed reserve funding'')"

definition check_amount_mode :: "AmountMode \<Rightarrow> string option \<Rightarrow> message + unit" where
  "check_amount_mode mode amount =
     (case mode of
        Full \<Rightarrow> ensure (amount = None) ''full balance cannot include a custom amount''
      | Custom \<Rightarrow>
          and_then (ok_or amount ''custom amount required'') (\<lambda>a.
          ensure (a \<noteq> [] \<and> length a \<le> 280) ''invalid custom amount''))"

text \<open>\<open>for address in [..] { address.parse().context(..)?; }\<close>.\<close>

fun check_addresses :: "(string \<Rightarrow> address option) \<Rightarrow> string list \<Rightarrow> message + unit" where
  "check_addresses parse_address [] = Inr ()"
| "check_addresses parse_address (a # as) =
     and_then (ok_or (parse_address a) ''invalid plan address'') (\<lambda>_.
     check_addresses parse_address as)"

definition deadline_follows :: "instant option \<Rightarrow> instant option \<Rightarrow> bool" where
  "deadline_follows deadline effective =
     (case (deadline, effective) of (Some d, Some e) \<Rightarrow> e < d | _ \<Rightarrow> True)"

definition plan_validate :: "(string \<Rightarrow> address option) \<Rightarrow> ConversionPlan \<Rightarrow> message + unit" where
  "plan_validate parse_address p =
     and_then (ensure (cp_schema_version p = 1 \<and> 1 \<le> cp_version p)
                 ''unsupported conversion plan schema'') (\<lambda>_.
     and_then (ensure (cp_id p \<noteq> [] \<and> length (cp_id p) \<le> 64)
                 ''conversion plan needs a bounded identifier'') (\<lambda>_.
     and_then (ensure (cp_provenance p = OperatorSupplied)
                 ''only an OperatorSupplied candidate plan has an executable adapter; issuer-bound provenance requires independent evidence that does not exist'') (\<lambda>_.
     and_then (ensure (cp_mechanism p = EplyxDemoCandidateConversion \<and> cp_adapter_id p = ADAPTER_ID)
                 ''unknown candidate mechanism; only the registered repository mechanism runs'') (\<lambda>_.
     and_then (ensure (cp_mechanism_ref p \<noteq> [] \<and> length (cp_mechanism_ref p) \<le> 200)
                 ''declare the candidate mechanism reference'') (\<lambda>_.
     and_then (check_addresses parse_address
                 [cp_source_mint p, cp_replacement_mint p, cp_source_account p]) (\<lambda>_.
     and_then (ensure (cp_source_mint p \<noteq> cp_replacement_mint p)
                 ''the replacement mint must differ from the source mint'') (\<lambda>_.
     and_then (ensure (cp_source_account p \<noteq> cp_source_mint p \<and>
                       cp_source_account p \<noteq> cp_replacement_mint p)
                 ''the selected source account cannot be a mint'') (\<lambda>_.
     and_then (ensure (cp_source_consumption p = Burn \<and>
                       cp_replacement_delivery p = ProposedReserveRelease)
                 ''unsupported candidate source/replacement design'') (\<lambda>_.
     and_then (ensure (am_holder_signs (cp_authority_model p) \<and>
                       am_candidate_authority (cp_authority_model p) = ProgramDerived)
                 ''this mechanism requires holder signing and a program-derived candidate authority; no issuer key may be assumed'') (\<lambda>_.
     and_then (ensure (valid_plan_terms (cp_terms p))
                 ''conversion terms require a positive ratio and a fee within 0-10000 bps'') (\<lambda>_.
     and_then (check_funding (rv_funded_replacement_raw (cp_reserve p))) (\<lambda>_.
     and_then (check_amount_mode (cp_amount_mode p) (cp_amount_decimal p)) (\<lambda>_.
     ensure (deadline_follows (cp_deadline p) (cp_effective_at p))
       ''a candidate deadline must follow its effective time'')))))))))))))"

section \<open>The expected arithmetic\<close>

record ConversionExpectation =
  ce_consumed_raw :: string
  ce_conversion_fee_raw :: string
  ce_convertible_raw :: string
  ce_replacement_gross_raw :: string

definition expected_output :: "u64 \<Rightarrow> ConversionTerms \<Rightarrow> message + ConversionExpectation" where
  "expected_output consumed terms =
     and_then (ensure (valid_plan_terms terms) ''invalid conversion terms'') (\<lambda>_.
     let consumed_u128 = (ucast consumed :: u128) in
     and_then (ok_or (checked_mul consumed_u128 (ucast (ct_conversion_fee_bps terms)))
                 ''conversion fee overflow'') (\<lambda>scaled.
     let fee = scaled div 10000 in
     and_then (ok_or (checked_sub consumed_u128 fee) ''fee exceeds input'') (\<lambda>base.
     and_then (ok_or (checked_mul base (ucast (ct_ratio_numerator terms)))
                 ''conversion ratio overflow'') (\<lambda>numerator.
     let denominator = (ucast (ct_ratio_denominator terms) :: u128) in
     and_then (case ct_rounding terms of
                 Floor \<Rightarrow> Inr (numerator div denominator)
               | Ceiling \<Rightarrow>
                   and_then (ok_or (checked_add numerator (denominator - 1))
                               ''conversion rounding overflow'') (\<lambda>s. Inr (s div denominator)))
       (\<lambda>output.
     and_then (ensure (output \<le> 18446744073709551615 \<and> fee \<le> 18446744073709551615)
                 ''conversion output exceeds raw integer range'') (\<lambda>_.
     Inr \<lparr>ce_consumed_raw = show_nat (unat consumed), ce_conversion_fee_raw = show_nat (unat fee),
          ce_convertible_raw = show_nat (unat base),
          ce_replacement_gross_raw = show_nat (unat output)\<rparr>))))))"

section \<open>Evidence of an execution bank\<close>

datatype AccountOrigin = Observed | Proposed | DerivedForSearch | DerivedProposedForSearch

record FixtureAccount =
  fa_address :: string
  fa_origin :: AccountOrigin
  fa_role :: string
  fa_runtime_owner :: string
  fa_lamports :: u64
  fa_executable :: bool
  fa_data_len :: nat
  fa_data_sha256 :: string
  fa_rpc_record :: "nat option"
  fa_pointer :: "string option"
  fa_slot :: "u64 option"
  fa_derivation :: "string option"

definition validate_origin :: "FixtureAccount \<Rightarrow> message + unit" where
  "validate_origin a =
     (case fa_origin a of
        Observed \<Rightarrow>
          ensure (fa_rpc_record a \<noteq> None \<and> fa_pointer a \<noteq> None \<and> fa_slot a \<noteq> None \<and>
                  fa_derivation a = None)
            ''an observed account must carry its exact captured RPC pointer''
      | Proposed \<Rightarrow>
          ensure (fa_rpc_record a = None \<and> fa_pointer a = None \<and> fa_slot a = None \<and>
                  fa_derivation a \<noteq> None)
            ''a proposed account must have no captured RPC evidence and an explicit derivation''
      | DerivedForSearch \<Rightarrow>
          ensure (fa_rpc_record a \<noteq> None \<and> fa_pointer a \<noteq> None \<and> fa_slot a \<noteq> None \<and>
                  fa_derivation a \<noteq> None)
            ''a derived search account must retain its observed parent and typed derivation''
      | DerivedProposedForSearch \<Rightarrow>
          ensure (fa_rpc_record a = None \<and> fa_pointer a = None \<and> fa_slot a = None \<and>
                  fa_derivation a \<noteq> None)
            ''a derived proposed account cannot claim RPC evidence'')"

fun validate_origins :: "FixtureAccount list \<Rightarrow> message + unit" where
  "validate_origins [] = Inr ()"
| "validate_origins (a # as) = and_then (validate_origin a) (\<lambda>_. validate_origins as)"

section \<open>The host mirrors the program\<close>

text \<open>The terms as the candidate program reads them from its configuration account.\<close>

definition program_terms :: "ConversionTerms \<Rightarrow> Terms" where
  "program_terms t =
     \<lparr>ratio_numerator = ct_ratio_numerator t, ratio_denominator = ct_ratio_denominator t,
      rounding = rounding_code (ct_rounding t), conversion_fee_bps = ct_conversion_fee_bps t\<rparr>"

fun host_message :: "ConversionError \<Rightarrow> message" where
  "host_message InvalidTerms = ''invalid conversion terms''"
| "host_message _ = ''conversion output exceeds raw integer range''"


lemma valid_program_terms: "valid_terms (program_terms t) \<longleftrightarrow> valid_plan_terms t"
  by (auto simp: valid_terms_def valid_plan_terms_def program_terms_def word_gt_0)

lemma rounding_known: "\<not> 1 < rounding (program_terms t)"
  by (cases "ct_rounding t") (simp_all add: program_terms_def)

lemma expected_output_exact:
  "expected_output consumed t =
     (if \<not> valid_plan_terms t then Inl ''invalid conversion terms''
      else if 2 ^ 64 \<le> exact_output (unat consumed) (program_terms t)
      then Inl ''conversion output exceeds raw integer range''
      else Inr \<lparr>ce_consumed_raw = show_nat (unat consumed),
        ce_conversion_fee_raw = show_nat (exact_fee (unat consumed) (program_terms t)),
        ce_convertible_raw = show_nat (unat consumed - exact_fee (unat consumed) (program_terms t)),
        ce_replacement_gross_raw = show_nat (exact_output (unat consumed) (program_terms t))\<rparr>)"
proof (cases "valid_plan_terms t")
  case False
  then show ?thesis by (simp add: expected_output_def)
next
  case True
  let ?t = "program_terms t"
  have valid: "valid_terms ?t" using True by (simp add: valid_program_terms)
  then have dn: "ratio_denominator ?t \<noteq> 0" by (simp add: valid_terms_def)
  note f = convert_fee_base [OF valid, of consumed]
  let ?fee = "ucast consumed * ucast (conversion_fee_bps ?t) div 10000 :: u128"
  let ?base = "ucast consumed - ?fee"
  let ?num = "?base * ucast (ratio_numerator ?t)"
  have "unat ?base \<le> unat consumed" unfolding f(4) by simp
  note r = convert_ratio [OF this dn, of "ratio_numerator ?t"]
  define out :: u128 where
    "out = (if ct_rounding t = Floor then ?num div ucast (ratio_denominator ?t)
       else (?num + (ucast (ratio_denominator ?t) - 1)) div ucast (ratio_denominator ?t))"
  have code: "rounding ?t = 0 \<longleftrightarrow> ct_rounding t = Floor"
    by (cases "ct_rounding t") (simp_all add: program_terms_def)
  have o: "unat out = exact_output (unat consumed) ?t"
    by (simp add: out_def exact_output_def Let_def unat_div_128 r f code)
  have "unat ?fee < 2 ^ 64"
    unfolding f(2) by (rule le_less_trans [OF exact_fee_le [OF valid]]) simp
  then have fee: "?fee \<le> 18446744073709551615" by (simp add: word_le_nat_alt)
  have fields: "conversion_fee_bps ?t = ct_conversion_fee_bps t"
    "ratio_numerator ?t = ct_ratio_numerator t" "ratio_denominator ?t = ct_ratio_denominator t"
    by (simp_all add: program_terms_def)
  have "expected_output consumed t =
      (if out \<le> 18446744073709551615
       then Inr \<lparr>ce_consumed_raw = show_nat (unat consumed), ce_conversion_fee_raw = show_nat (unat ?fee),
          ce_convertible_raw = show_nat (unat ?base), ce_replacement_gross_raw = show_nat (unat out)\<rparr>
       else Inl ''conversion output exceeds raw integer range'')"
    using True f(1,3) r(1,3) fee
    by (cases "ct_rounding t")
      (simp_all add: expected_output_def Let_def out_def fields ensure_def del: unat_div)
  also have "out \<le> 18446744073709551615 \<longleftrightarrow> \<not> 2 ^ 64 \<le> exact_output (unat consumed) ?t"
    unfolding word_le_nat_alt o [symmetric] by auto
  finally show ?thesis using True by (simp add: o f(2,4))
qed

text \<open>C25. The host's expected output is the candidate program's own arithmetic: for every amount
  and every terms, the host refuses exactly what the program refuses, and otherwise states exactly
  the fee, the convertible rest and the output the program computes, as decimal strings.\<close>

theorem host_mirrors_program:
  "expected_output consumed t =
     (case convert_amount consumed (program_terms t) of
        Inl e \<Rightarrow> Inl (host_message e)
      | Inr (fee, out) \<Rightarrow>
          Inr \<lparr>ce_consumed_raw = show_nat (unat consumed), ce_conversion_fee_raw = show_nat (unat fee),
            ce_convertible_raw = show_nat (unat consumed - unat fee),
            ce_replacement_gross_raw = show_nat (unat out)\<rparr>)"
proof (cases "valid_plan_terms t \<and> \<not> 2 ^ 64 \<le> exact_output (unat consumed) (program_terms t)")
  case True
  then have valid: "valid_terms (program_terms t)" by (simp add: valid_program_terms)
  have "exact_fee (unat consumed) (program_terms t) < 2 ^ 64"
    by (rule le_less_trans [OF exact_fee_le [OF valid]]) simp
  then have "unat (of_nat (exact_fee (unat consumed) (program_terms t)) :: u64) =
      exact_fee (unat consumed) (program_terms t)" by (intro unat_of_nat_eq) simp
  moreover have "unat (of_nat (exact_output (unat consumed) (program_terms t)) :: u64) =
      exact_output (unat consumed) (program_terms t)" using True by (intro unat_of_nat_eq) simp
  ultimately show ?thesis
    using True valid rounding_known
    by (simp add: expected_output_exact convert_amount_exact_aux)
next
  case False
  then show ?thesis
    using rounding_known
    by (auto simp: expected_output_exact convert_amount_exact_aux valid_program_terms)
qed

end
