(* ===== verification/Package.thy ===== *)
theory Package
  imports ConversionPlan
begin

text \<open>
  Operator-supplied transition packages (\<open>engine/src/conversion/package.rs\<close>): the manifest and its
  strict validation, the invariant definitions, the package identity and the conversion plan a
  validated package yields. What other crates do is the parameter \<open>env\<close>: reading a base-58
  address, the canonical JSON text of a value, SHA-256, reading the JSON of a manifest or a
  configuration, and the bounded read of a member below the package directory. Where the code
  passes on the error of another crate, its message is a fixed text here.
\<close>

section \<open>Invariant definitions\<close>

datatype InvariantSeverity = Blocking | Warning
datatype RequiredPath = ReplacementConversion | OfficialTransition

datatype InvariantDefinition =
    ConversionOutputMatches InvariantSeverity
  | NoSelectedCaseFailed InvariantSeverity
  | RequiredPathAvailable InvariantSeverity RequiredPath
  | AuthorityModelSupported InvariantSeverity
  | NoPositiveBalanceStranded InvariantSeverity

fun inv_severity :: "InvariantDefinition \<Rightarrow> InvariantSeverity" where
  "inv_severity (ConversionOutputMatches s) = s"
| "inv_severity (NoSelectedCaseFailed s) = s"
| "inv_severity (RequiredPathAvailable s path) = s"
| "inv_severity (AuthorityModelSupported s) = s"
| "inv_severity (NoPositiveBalanceStranded s) = s"

fun inv_kind :: "InvariantDefinition \<Rightarrow> string" where
  "inv_kind (ConversionOutputMatches s) = ''conversion_output_matches''"
| "inv_kind (NoSelectedCaseFailed s) = ''no_selected_case_failed''"
| "inv_kind (RequiredPathAvailable s path) = ''required_path_available''"
| "inv_kind (AuthorityModelSupported s) = ''authority_model_supported''"
| "inv_kind (NoPositiveBalanceStranded s) = ''no_positive_balance_stranded''"

fun inv_scope :: "InvariantDefinition \<Rightarrow> string" where
  "inv_scope (ConversionOutputMatches s) = ''ExactCandidateConversion''"
| "inv_scope (RequiredPathAvailable s ReplacementConversion) = ''ExactCandidateConversion''"
| "inv_scope (RequiredPathAvailable s OfficialTransition) = ''ExactOfficialTransition''"
| "inv_scope (NoSelectedCaseFailed s) = ''SelectedStressCases''"
| "inv_scope (AuthorityModelSupported s) = ''SelectedAuthorityCases''"
| "inv_scope (NoPositiveBalanceStranded s) = ''ObservedPositiveBalancePopulation''"

fun required_path_name :: "RequiredPath \<Rightarrow> string" where
  "required_path_name ReplacementConversion = ''ReplacementConversion''"
| "required_path_name OfficialTransition = ''OfficialTransition''"

fun inv_config :: "InvariantDefinition \<Rightarrow> json" where
  "inv_config (RequiredPathAvailable s path) =
     JObject [(''path'', JString (required_path_name path))]"
| "inv_config _ = JObject []"

section \<open>The package\<close>

record CandidateProgram =
  pg_program_id :: string
  pg_artifact :: string
  pg_sha256 :: string

record PackageTerms =
  pt_numerator :: string
  pt_denominator :: string
  pt_rounding :: string
  pt_fee_bps :: u16

record Manifest =
  mf_schema_version :: u32
  mf_source_mint :: string
  mf_replacement_mint :: string
  mf_adapter :: string
  mf_candidate_program :: CandidateProgram
  mf_terms :: PackageTerms
  mf_effective_at :: instant
  mf_config :: string
  mf_config_sha256 :: string
  mf_invariant_schema_version :: "u32 option"
  mf_invariants :: "InvariantDefinition list option"

record PackageConfig =
  pc_public_owner :: string
  pc_source_account :: string
  pc_amount_decimal :: "string option"
  pc_reserve_funded_replacement_raw :: string

record ValidatedPackage =
  vp_manifest :: Manifest
  vp_config :: PackageConfig
  vp_program :: "u8 list"
  vp_program_sha256 :: string
  vp_config_sha256 :: string
  vp_transition_package_sha256 :: string

record package_env =
  env_parse_address :: "string \<Rightarrow> address option"
  env_canonical_key :: "string \<times> json \<Rightarrow> string"
  env_canonical_definition :: "InvariantDefinition \<Rightarrow> string"
  env_canonical_manifest :: "Manifest \<Rightarrow> string"
  env_canonical_json :: "json \<Rightarrow> string"
  env_sha256 :: "u8 list \<Rightarrow> string"
  env_read_manifest :: "u8 list \<Rightarrow> Manifest option"
  env_read_config :: "u8 list \<Rightarrow> PackageConfig option"
  env_member :: "string \<Rightarrow> nat \<Rightarrow> message + u8 list"

text \<open>\<open>str::as_bytes\<close>.\<close>

definition as_bytes :: "string \<Rightarrow> u8 list" where
  "as_bytes s = map (\<lambda>c. of_nat (of_char c)) s"

definition inv_id :: "package_env \<Rightarrow> InvariantDefinition \<Rightarrow> string" where
  "inv_id env d =
     ''inv-'' @ take 20 (env_sha256 env (as_bytes (env_canonical_definition env d)))"

abbreviation PACKAGE_ADAPTER :: string where "PACKAGE_ADAPTER \<equiv> ''fixed_ratio_conversion_v1''"
abbreviation MAX_INVARIANTS :: nat where "MAX_INVARIANTS \<equiv> 16"
abbreviation MAX_MANIFEST_BYTES :: nat where "MAX_MANIFEST_BYTES \<equiv> 16384"
abbreviation MAX_CONFIG_BYTES :: nat where "MAX_CONFIG_BYTES \<equiv> 16384"
abbreviation MAX_PROGRAM_BYTES :: nat where "MAX_PROGRAM_BYTES \<equiv> 2097152"
abbreviation DEMO_PROGRAM_ID :: string where
  "DEMO_PROGRAM_ID \<equiv> ''He4VZWmVgtbXVmHJ3tRmbLKuNDo9WG3tw5Gr36KupJUf''"

section \<open>Checks\<close>

definition canonical_decimal :: "string \<Rightarrow> message + u64" where
  "canonical_decimal input =
     and_then (ok_or (parse_uint input) ''invalid integer term'') (\<lambda>parsed :: u64.
     and_then (ensure (show_nat (unat parsed) = input) ''integer term is not canonical'') (\<lambda>_.
     Inr parsed))"

definition digest_char :: "char \<Rightarrow> bool" where
  "digest_char c \<longleftrightarrow> is_ascii_digit c \<or> (97 \<le> (of_char c :: nat) \<and> (of_char c :: nat) \<le> 102)"

definition valid_digest :: "string \<Rightarrow> bool" where
  "valid_digest input \<longleftrightarrow> length input = 64 \<and> list_all digest_char input"

definition validate_sbf :: "u8 list \<Rightarrow> message + unit" where
  "validate_sbf bytes =
     and_then (ensure (64 \<le> length bytes) ''candidate is not a supported SBF ELF'') (\<lambda>_.
     and_then (ensure (take 4 bytes = [0x7F, 0x45, 0x4C, 0x46] \<and> bytes ! 4 = 2 \<and> bytes ! 5 = 1)
                 ''candidate is not a 64-bit little-endian ELF'') (\<lambda>_.
     and_then (ensure ((from_le_bytes [bytes ! 16, bytes ! 17] :: u16) = 3)
                 ''candidate must be a loadable shared ELF'') (\<lambda>_.
     ensure (let machine = (from_le_bytes [bytes ! 18, bytes ! 19] :: u16) in
             machine = 247 \<or> machine = 263)
       ''candidate is not Solana SBF/BPF'')))"

definition conversion_terms :: "Manifest \<Rightarrow> message + ConversionTerms" where
  "conversion_terms m =
     and_then (if pt_rounding (mf_terms m) = ''floor'' then Inr Floor
               else if pt_rounding (mf_terms m) = ''ceiling'' then Inr Ceiling
               else Inl ''unsupported rounding rule'') (\<lambda>rounding_rule.
     and_then (canonical_decimal (pt_numerator (mf_terms m))) (\<lambda>numerator.
     and_then (canonical_decimal (pt_denominator (mf_terms m))) (\<lambda>denominator.
     let terms = \<lparr>ct_ratio_numerator = numerator, ct_ratio_denominator = denominator,
                  ct_rounding = rounding_rule, ct_conversion_fee_bps = pt_fee_bps (mf_terms m)\<rparr> in
     and_then (ensure (valid_plan_terms terms) ''invalid conversion terms'') (\<lambda>_.
     and_then (ensure (checked_mul (ucast (- 1 :: u64) :: u128) (ucast numerator) \<noteq> None)
                 ''ratio can overflow adapter arithmetic'') (\<lambda>_.
     Inr terms)))))"

text \<open>\<open>keys.windows(2).all(|pair| pair[0] != pair[1])\<close>.\<close>

fun adjacent_differ :: "'a list \<Rightarrow> bool" where
  "adjacent_differ (x # y # xs) \<longleftrightarrow> x \<noteq> y \<and> adjacent_differ (y # xs)"
| "adjacent_differ _ \<longleftrightarrow> True"

definition validate_invariants :: "package_env \<Rightarrow> Manifest \<Rightarrow> message + Manifest" where
  "validate_invariants env m =
     (if mf_schema_version m = 1 then
        and_then (ensure (mf_invariant_schema_version m = None \<and> mf_invariants m = None)
                    ''schema 1 cannot declare invariants'') (\<lambda>_.
        Inr m)
      else if mf_schema_version m = 2 then
        and_then (ensure (mf_invariant_schema_version m = Some 1) ''unsupported invariant schema'')
          (\<lambda>_.
        and_then (ok_or (mf_invariants m) ''schema 2 requires invariants'') (\<lambda>definitions.
        and_then (ensure (definitions \<noteq> [] \<and> length definitions \<le> MAX_INVARIANTS)
                    ''invariant count exceeds bounds'') (\<lambda>_.
        let keys = sort (map (\<lambda>d. env_canonical_key env (inv_kind d, inv_config d)) definitions) in
        and_then (ensure (adjacent_differ keys) ''duplicate invariant definition'') (\<lambda>_.
        Inr (m\<lparr>mf_invariants := Some (sort_key (env_canonical_definition env) definitions)\<rparr>)))))
      else Inl ''unsupported package schema'')"

definition validate_manifest :: "package_env \<Rightarrow> Manifest \<Rightarrow> message + Manifest" where
  "validate_manifest env manifest =
     and_then (validate_invariants env manifest) (\<lambda>m.
     and_then (ensure (mf_adapter m = PACKAGE_ADAPTER) ''unsupported package adapter'') (\<lambda>_.
     and_then (ok_or (env_parse_address env (mf_source_mint m)) ''invalid source mint'') (\<lambda>src.
     and_then (ok_or (env_parse_address env (mf_replacement_mint m)) ''invalid replacement mint'')
       (\<lambda>replacement.
     and_then (ensure (src \<noteq> replacement) ''source and replacement mints must differ'') (\<lambda>_.
     and_then (conversion_terms m) (\<lambda>_.
     and_then (ok_or (env_parse_address env (pg_program_id (mf_candidate_program m)))
                 ''invalid program ID'') (\<lambda>declared.
     and_then (ok_or (env_parse_address env DEMO_PROGRAM_ID) ''invalid program ID'') (\<lambda>registered.
     and_then (ensure (declared = registered) ''program ID is not registered for this adapter'')
       (\<lambda>_.
     and_then (ensure (valid_digest (pg_sha256 (mf_candidate_program m))) ''invalid program SHA-256'')
       (\<lambda>_.
     Inr m))))))))))"

definition validate_config :: "package_env \<Rightarrow> Manifest \<Rightarrow> u8 list \<Rightarrow> message + (PackageConfig \<times> string)" where
  "validate_config env m config_bytes =
     and_then (ensure (valid_digest (mf_config_sha256 m)) ''invalid config SHA-256'') (\<lambda>_.
     let config_sha256 = env_sha256 env config_bytes in
     and_then (ensure (config_sha256 = mf_config_sha256 m) ''package config SHA-256 mismatch'') (\<lambda>_.
     and_then (ok_or (env_read_config env config_bytes) ''invalid package config'') (\<lambda>cfg.
     and_then (ok_or (env_parse_address env (pc_public_owner cfg)) ''invalid public owner'') (\<lambda>_.
     and_then (ok_or (env_parse_address env (pc_source_account cfg)) ''invalid source account'') (\<lambda>_.
     and_then (canonical_decimal (pc_reserve_funded_replacement_raw cfg)) (\<lambda>_.
     and_then (ensure (case pc_amount_decimal cfg of
                         None \<Rightarrow> True | Some a \<Rightarrow> a \<noteq> [] \<and> length a \<le> 280)
                 ''invalid amount length'') (\<lambda>_.
     Inr (cfg, config_sha256))))))))"

text \<open>The members of a \<open>json!\<close> object are kept in key order.\<close>

definition identity :: "package_env \<Rightarrow> Manifest \<Rightarrow> string \<Rightarrow> string \<Rightarrow> string" where
  "identity env m program_sha256 config_sha256 =
     env_sha256 env (as_bytes (env_canonical_json env
       (JObject [(''adapter'', JString PACKAGE_ADAPTER),
                 (''config_sha256'', JString config_sha256),
                 (''manifest'', JString (env_canonical_manifest env m)),
                 (''program_sha256'', JString program_sha256),
                 (''schema_version'', JNumber (PosInt (ucast (mf_schema_version m))))])))"

definition load_package :: "package_env \<Rightarrow> message + ValidatedPackage" where
  "load_package env =
     and_then (env_member env ''eplyx.json'' MAX_MANIFEST_BYTES) (\<lambda>manifest_bytes.
     and_then (ok_or (env_read_manifest env manifest_bytes) ''invalid package manifest'') (\<lambda>manifest.
     and_then (validate_manifest env manifest) (\<lambda>m.
     and_then (env_member env (pg_artifact (mf_candidate_program m)) MAX_PROGRAM_BYTES) (\<lambda>program.
     and_then (validate_sbf program) (\<lambda>_.
     let program_sha256 = env_sha256 env program in
     and_then (ensure (program_sha256 = pg_sha256 (mf_candidate_program m))
                 ''candidate program SHA-256 mismatch'') (\<lambda>_.
     and_then (env_member env (mf_config m) MAX_CONFIG_BYTES) (\<lambda>config_bytes.
     and_then (validate_config env m config_bytes) (\<lambda>(cfg, config_sha256).
     Inr \<lparr>vp_manifest = m, vp_config = cfg, vp_program = program,
          vp_program_sha256 = program_sha256, vp_config_sha256 = config_sha256,
          vp_transition_package_sha256 = identity env m program_sha256 config_sha256\<rparr>))))))))"

definition declared_identity :: "package_env \<Rightarrow> u8 list \<Rightarrow> u8 list \<Rightarrow> message + (Manifest \<times> string)" where
  "declared_identity env manifest_bytes config_bytes =
     and_then (ensure (length manifest_bytes \<le> MAX_MANIFEST_BYTES \<and>
                       length config_bytes \<le> MAX_CONFIG_BYTES)
                 ''package manifest or config exceeds its bound'') (\<lambda>_.
     and_then (ok_or (env_read_manifest env manifest_bytes) ''invalid package manifest'') (\<lambda>manifest.
     and_then (validate_manifest env manifest) (\<lambda>m.
     and_then (validate_config env m config_bytes) (\<lambda>(cfg, config_sha256).
     Inr (m, identity env m (pg_sha256 (mf_candidate_program m)) config_sha256)))))"

definition package_conversion_plan :: "package_env \<Rightarrow> ValidatedPackage \<Rightarrow> message + ConversionPlan" where
  "package_conversion_plan env p =
     and_then (conversion_terms (vp_manifest p)) (\<lambda>terms.
     let plan = \<lparr>cp_schema_version = 1, cp_id = ''pkg-'' @ take 20 (vp_transition_package_sha256 p),
       cp_version = 1, cp_provenance = OperatorSupplied, cp_mechanism = EplyxDemoCandidateConversion,
       cp_adapter_id = ADAPTER_ID,
       cp_mechanism_ref = PACKAGE_ADAPTER @ ''@'' @ vp_program_sha256 p,
       cp_source_mint = mf_source_mint (vp_manifest p),
       cp_replacement_mint = mf_replacement_mint (vp_manifest p),
       cp_source_account = pc_source_account (vp_config p),
       cp_amount_mode = (if pc_amount_decimal (vp_config p) \<noteq> None then Custom else Full),
       cp_amount_decimal = pc_amount_decimal (vp_config p), cp_terms = terms,
       cp_authority_model = \<lparr>am_holder_signs = True, am_candidate_authority = ProgramDerived\<rparr>,
       cp_source_consumption = Burn, cp_replacement_delivery = ProposedReserveRelease,
       cp_reserve = \<lparr>rv_funded_replacement_raw = pc_reserve_funded_replacement_raw (vp_config p)\<rparr>,
       cp_effective_at = Some (mf_effective_at (vp_manifest p)), cp_deadline = None\<rparr> in
     and_then (plan_validate (env_parse_address env) plan) (\<lambda>_.
     Inr plan))"

end
