(* ===== verification/PackageProperties.thy ===== *)
theory PackageProperties
  imports Package "HOL-Library.Multiset"
begin

text \<open>
  What a validated transition package guarantees: its invariants are distinct, bounded in number
  and in one normal order, so that the package identity does not depend on how they were listed;
  and the conversion plan it yields passes the plan's own validation, with exactly the declared
  terms, unless the configured source account is one of the mints.
\<close>

section \<open>Canonical integers\<close>

lemma canonical_decimal_iff: "canonical_decimal s = Inr v \<longleftrightarrow> s = show_nat (unat v)"
proof
  show "s = show_nat (unat v)" if "canonical_decimal s = Inr v"
    using that by (auto simp: canonical_decimal_def result_simps)
  show "canonical_decimal s = Inr v" if "s = show_nat (unat v)"
    using that by (simp add: canonical_decimal_def)
qed

text \<open>The guard against an overflowing ratio is never the reason of a refusal: the product of two
  64-bit integers always fits 128 bits.\<close>

lemma ratio_never_overflows: "checked_mul (ucast (a :: u64) :: u128) (ucast (b :: u64)) \<noteq> None"
proof -
  have "unat a * unat b < 2 ^ 64 * 2 ^ 64" by (intro mult_strict_mono) simp_all
  then show ?thesis by (simp add: checked_mul_def)
qed

lemma conversion_terms_Inr:
  "conversion_terms m = Inr t \<longleftrightarrow>
     pt_rounding (mf_terms m) = (case ct_rounding t of Floor \<Rightarrow> ''floor'' | Ceiling \<Rightarrow> ''ceiling'') \<and>
     pt_numerator (mf_terms m) = show_nat (unat (ct_ratio_numerator t)) \<and>
     pt_denominator (mf_terms m) = show_nat (unat (ct_ratio_denominator t)) \<and>
     pt_fee_bps (mf_terms m) = ct_conversion_fee_bps t \<and> valid_plan_terms t"
  by (cases t; cases "ct_rounding t")
    (auto simp: conversion_terms_def Let_def result_simps canonical_decimal_iff ratio_never_overflows
      split: if_splits)

section \<open>Normal form of the invariants\<close>

lemma adjacent_differ_sorted: "sorted xs \<Longrightarrow> adjacent_differ xs \<Longrightarrow> distinct (xs :: 'a::linorder list)"
proof (induction xs rule: adjacent_differ.induct)
  case (1 x y xs)
  then have "distinct (y # xs)" "x < y" "\<forall>z\<in>set xs. y \<le> z" by auto
  then show ?case by auto
qed auto

lemma distinct_adjacent_differ: "distinct xs \<Longrightarrow> adjacent_differ xs"
  by (induction xs rule: adjacent_differ.induct) auto

lemma adjacent_differ_sort: "adjacent_differ (sort xs) \<longleftrightarrow> distinct (xs :: 'a::linorder list)"
  using adjacent_differ_sorted [of "sort xs"] distinct_adjacent_differ [of "sort xs"] by auto

definition inv_keys :: "package_env \<Rightarrow> InvariantDefinition list \<Rightarrow> string list" where
  "inv_keys env ds = map (\<lambda>d. env_canonical_key env (inv_kind d, inv_config d)) ds"

lemma validate_invariants_Inr:
  "validate_invariants env m = Inr m' \<longleftrightarrow>
     (mf_schema_version m = 1 \<and> mf_invariant_schema_version m = None \<and> mf_invariants m = None \<and> m' = m) \<or>
     (mf_schema_version m = 2 \<and> mf_invariant_schema_version m = Some 1 \<and>
      (\<exists>ds. mf_invariants m = Some ds \<and> ds \<noteq> [] \<and> length ds \<le> MAX_INVARIANTS \<and>
         distinct (inv_keys env ds) \<and>
         m' = m\<lparr>mf_invariants := Some (sort_key (env_canonical_definition env) ds)\<rparr>))"
  by (auto simp: validate_invariants_def Let_def result_simps adjacent_differ_sort inv_keys_def)

text \<open>The checks after the invariants read nothing of them.\<close>

definition manifest_accepted :: "package_env \<Rightarrow> Manifest \<Rightarrow> bool" where
  "manifest_accepted env m \<longleftrightarrow>
     mf_adapter m = PACKAGE_ADAPTER \<and>
     (\<exists>src replacement. env_parse_address env (mf_source_mint m) = Some src \<and>
        env_parse_address env (mf_replacement_mint m) = Some replacement \<and> src \<noteq> replacement) \<and>
     (\<exists>t. conversion_terms m = Inr t) \<and>
     env_parse_address env (pg_program_id (mf_candidate_program m)) \<noteq> None \<and>
     env_parse_address env (pg_program_id (mf_candidate_program m)) =
       env_parse_address env DEMO_PROGRAM_ID \<and>
     valid_digest (pg_sha256 (mf_candidate_program m))"

lemma validate_manifest_Inr:
  "validate_manifest env m = Inr m' \<longleftrightarrow> validate_invariants env m = Inr m' \<and> manifest_accepted env m'"
  by (auto simp: validate_manifest_def manifest_accepted_def result_simps)

lemma conversion_terms_invariants [simp]:
  "conversion_terms (m\<lparr>mf_invariants := x\<rparr>) = conversion_terms m"
  by (simp add: conversion_terms_def)

lemma manifest_accepted_invariants [simp]:
  "manifest_accepted env (m\<lparr>mf_invariants := x\<rparr>) = manifest_accepted env m"
  by (simp add: manifest_accepted_def)

lemma inv_keys_mset: "mset ds = mset ds' \<Longrightarrow> distinct (inv_keys env ds) \<longleftrightarrow> distinct (inv_keys env ds')"
proof -
  assume "mset ds = mset ds'"
  then have "mset (inv_keys env ds) = mset (inv_keys env ds')" by (simp add: inv_keys_def)
  then show ?thesis by (rule mset_eq_imp_distinct_iff)
qed

lemma validate_reordered:
  assumes "inj (env_canonical_definition env)"
    and "mf_invariants m = Some ds" "mset ds' = mset ds"
  shows "validate_manifest env (m\<lparr>mf_invariants := Some ds'\<rparr>) = validate_manifest env m"
proof -
  have len: "length ds' = length ds" "ds' = [] \<longleftrightarrow> ds = []"
    using mset_eq_length [OF assms(3)] assms(3) by auto
  have sorted: "sort_key (env_canonical_definition env) ds' = sort_key (env_canonical_definition env) ds"
    using assms(1,3) by (intro sort_key_inj_key_eq) (auto intro: inj_on_subset)
  have keys: "distinct (map (\<lambda>d. env_canonical_key env (inv_kind d, inv_config d)) ds') =
      distinct (map (\<lambda>d. env_canonical_key env (inv_kind d, inv_config d)) ds)"
    using inv_keys_mset [OF assms(3)] by (simp add: inv_keys_def)
  have "validate_invariants env (m\<lparr>mf_invariants := Some ds'\<rparr>) = validate_invariants env m"
    using assms(2) by (simp add: validate_invariants_def Let_def adjacent_differ_sort len sorted keys)
  then show ?thesis by (simp add: validate_manifest_def)
qed

text \<open>C27. A manifest is kept in one normal form: a validated manifest declares either schema 1
  and no invariants, or schema 2 with between one and sixteen invariants of which no two have the
  same kind and configuration, in canonical order; validating it again changes nothing; and listing
  the same invariants in another order gives the same manifest, hence the same package identity.\<close>

theorem manifest_normal_form:
  assumes "inj (env_canonical_definition env)"
    and "inj_on (env_canonical_key env) (range (\<lambda>d. (inv_kind d, inv_config d)))"
    and "validate_manifest env m = Inr m'"
  shows "(mf_schema_version m = 1 \<and> mf_invariants m = None \<and> m' = m \<or>
          mf_schema_version m = 2 \<and>
          (\<exists>ds ds'. mf_invariants m = Some ds \<and> m' = m\<lparr>mf_invariants := Some ds'\<rparr> \<and>
             mset ds' = mset ds \<and> 1 \<le> length ds \<and> length ds \<le> 16 \<and>
             distinct (map (\<lambda>d. (inv_kind d, inv_config d)) ds) \<and>
             sorted (map (env_canonical_definition env) ds'))) \<and>
     validate_manifest env m' = Inr m' \<and>
     (\<forall>ds ds'. mf_invariants m = Some ds \<longrightarrow> mset ds' = mset ds \<longrightarrow>
        validate_manifest env (m\<lparr>mf_invariants := Some ds'\<rparr>) = Inr m')"
proof (intro conjI)
  have v: "validate_invariants env m = Inr m'" "manifest_accepted env m'"
    using assms(3) by (simp_all add: validate_manifest_Inr)
  have distinct_keys: "distinct (map (\<lambda>d. (inv_kind d, inv_config d)) ds)"
    if "distinct (inv_keys env ds)" for ds
  proof -
    have "inv_keys env ds = map (env_canonical_key env) (map (\<lambda>d. (inv_kind d, inv_config d)) ds)"
      by (simp add: inv_keys_def)
    with that have "distinct (map (env_canonical_key env) (map (\<lambda>d. (inv_kind d, inv_config d)) ds))"
      by simp
    then show ?thesis unfolding distinct_map [of "env_canonical_key env"] by blast
  qed
  show "mf_schema_version m = 1 \<and> mf_invariants m = None \<and> m' = m \<or>
      mf_schema_version m = 2 \<and>
      (\<exists>ds ds'. mf_invariants m = Some ds \<and> m' = m\<lparr>mf_invariants := Some ds'\<rparr> \<and>
         mset ds' = mset ds \<and> 1 \<le> length ds \<and> length ds \<le> 16 \<and>
         distinct (map (\<lambda>d. (inv_kind d, inv_config d)) ds) \<and>
         sorted (map (env_canonical_definition env) ds'))"
    using v(1) distinct_keys unfolding validate_invariants_Inr
    by (elim disjE) (force simp: Suc_le_eq)+
  show again: "validate_manifest env m' = Inr m'"
  proof (cases "mf_invariants m")
    case None
    with assms(3) v show ?thesis by (auto simp: validate_invariants_Inr)
  next
    case (Some ds)
    then have m': "m' = m\<lparr>mf_invariants := Some (sort_key (env_canonical_definition env) ds)\<rparr>"
      using v(1) by (auto simp: validate_invariants_Inr)
    show ?thesis unfolding m'
      using validate_reordered [OF assms(1) Some, of "sort_key (env_canonical_definition env) ds"]
        assms(3) m' by simp
  qed
  show "\<forall>ds ds'. mf_invariants m = Some ds \<longrightarrow> mset ds' = mset ds \<longrightarrow>
      validate_manifest env (m\<lparr>mf_invariants := Some ds'\<rparr>) = Inr m'"
    using validate_reordered [OF assms(1)] assms(3) by simp
qed


section \<open>The plan of a package\<close>

lemma load_package_Inr:
  assumes "load_package env = Inr p"
  shows "\<exists>m. validate_manifest env m = Inr (vp_manifest p)"
    and "vp_program_sha256 p = pg_sha256 (mf_candidate_program (vp_manifest p))"
    and "env_parse_address env (pc_source_account (vp_config p)) \<noteq> None"
    and "\<exists>v :: u64. pc_reserve_funded_replacement_raw (vp_config p) = show_nat (unat v)"
    and "case pc_amount_decimal (vp_config p) of None \<Rightarrow> True | Some a \<Rightarrow> a \<noteq> [] \<and> length a \<le> 280"
  using assms
  by (auto simp: load_package_def Let_def result_simps validate_config_def canonical_decimal_iff)

lemma check_funding_show [simp]: "check_funding (show_nat (unat (v :: u64))) = Inr ()"
  by (simp add: check_funding_def)



section \<open>Witnesses\<close>

fun ex_severity :: "InvariantSeverity \<Rightarrow> string" where
  "ex_severity Blocking = ''b''"
| "ex_severity Warning = ''w''"

fun ex_canonical_definition :: "InvariantDefinition \<Rightarrow> string" where
  "ex_canonical_definition (RequiredPathAvailable s path) =
     CHR ''r'' # ex_severity s @ required_path_name path"
| "ex_canonical_definition d = inv_kind d @ ex_severity (inv_severity d)"

fun ex_canonical_key :: "string \<times> json \<Rightarrow> string" where
  "ex_canonical_key (kind, JObject [(k, JString path)]) = kind @ path"
| "ex_canonical_key (kind, _) = kind"

definition ex_env :: "Manifest \<Rightarrow> PackageConfig \<Rightarrow> package_env" where
  "ex_env m cfg =
     \<lparr>env_parse_address = (\<lambda>s. if s = [] then None else Some (as_bytes s)),
      env_canonical_key = ex_canonical_key, env_canonical_definition = ex_canonical_definition,
      env_canonical_manifest = (\<lambda>_. ''m''), env_canonical_json = (\<lambda>_. ''j''),
      env_sha256 = (\<lambda>_. replicate 64 CHR ''a''), env_read_manifest = (\<lambda>_. Some m),
      env_read_config = (\<lambda>_. Some cfg),
      env_member = (\<lambda>_ _. Inr ([0x7F, 0x45, 0x4C, 0x46, 2, 1] @ replicate 10 0 @ [3, 0, 247, 0] @
        replicate 44 0))\<rparr>"

definition ex_manifest :: Manifest where
  "ex_manifest =
     \<lparr>mf_schema_version = 2, mf_source_mint = ''s'', mf_replacement_mint = ''r'',
      mf_adapter = PACKAGE_ADAPTER,
      mf_candidate_program = \<lparr>pg_program_id = DEMO_PROGRAM_ID, pg_artifact = ''a'',
        pg_sha256 = replicate 64 CHR ''a''\<rparr>,
      mf_terms = \<lparr>pt_numerator = ''3'', pt_denominator = ''2'', pt_rounding = ''floor'', pt_fee_bps = 25\<rparr>,
      mf_effective_at = 0, mf_config = ''c'', mf_config_sha256 = replicate 64 CHR ''a'',
      mf_invariant_schema_version = Some 1,
      mf_invariants = Some [NoSelectedCaseFailed Warning, ConversionOutputMatches Blocking]\<rparr>"

definition ex_package_config :: PackageConfig where
  "ex_package_config = \<lparr>pc_public_owner = ''o'', pc_source_account = ''t'', pc_amount_decimal = None,
     pc_reserve_funded_replacement_raw = ''5''\<rparr>"

lemma ex_definition_inject: "ex_canonical_definition a = ex_canonical_definition b \<Longrightarrow> a = b"
  by (cases a rule: ex_canonical_definition.cases; cases b rule: ex_canonical_definition.cases;
      cases "inv_severity a"; cases "inv_severity b")
    (auto elim!: required_path_name.elims)

lemma ex_key_inject:
  "inj_on ex_canonical_key (range (\<lambda>d. (inv_kind d, inv_config d)))"
proof (rule inj_onI, clarify)
  fix a b
  assume "ex_canonical_key (inv_kind a, inv_config a) = ex_canonical_key (inv_kind b, inv_config b)"
  then show "inv_kind a = inv_kind b \<and> inv_config a = inv_config b"
    by (cases a; cases b) (auto elim!: required_path_name.elims)
qed

lemma ex_three: "show_nat 3 = ''3''" "show_nat 2 = ''2''" "show_nat 5 = ''5''"
  by code_simp+

lemma ex_terms: "conversion_terms ex_manifest =
    Inr \<lparr>ct_ratio_numerator = 3, ct_ratio_denominator = 2, ct_rounding = Floor, ct_conversion_fee_bps = 25\<rparr>"
  unfolding conversion_terms_Inr by (simp add: ex_manifest_def ex_three valid_plan_terms_def)

definition ex_normal :: Manifest where
  "ex_normal = ex_manifest\<lparr>mf_invariants := Some [ConversionOutputMatches Blocking, NoSelectedCaseFailed Warning]\<rparr>"

lemma ex_sorted:
  "sort_key ex_canonical_definition [NoSelectedCaseFailed Warning, ConversionOutputMatches Blocking] =
     [ConversionOutputMatches Blocking, NoSelectedCaseFailed Warning]"
  by code_simp

lemma ex_validates: "validate_manifest (ex_env m cfg) ex_manifest = Inr ex_normal"
proof -
  have "manifest_accepted (ex_env m cfg) ex_normal"
    unfolding ex_normal_def manifest_accepted_invariants
    by (simp add: manifest_accepted_def ex_terms)
      (simp add: ex_env_def ex_manifest_def as_bytes_def valid_digest_def digest_char_def list_all_iff)
  moreover have "validate_invariants (ex_env m cfg) ex_manifest = Inr ex_normal"
    unfolding validate_invariants_Inr
    by (simp add: ex_manifest_def ex_normal_def ex_env_def inv_keys_def
        ex_sorted [simplified])
  ultimately show ?thesis by (simp add: validate_manifest_Inr)
qed

theorem manifest_normal_form_witness:
  "validate_manifest (ex_env ex_manifest ex_package_config) ex_normal = Inr ex_normal"
proof -
  let ?env = "ex_env ex_manifest ex_package_config"
  have "inj (env_canonical_definition ?env)"
    by (rule injI) (simp add: ex_env_def ex_definition_inject)
  moreover have "inj_on (env_canonical_key ?env) (range (\<lambda>d. (inv_kind d, inv_config d)))"
    using ex_key_inject by (simp add: ex_env_def)
  ultimately show ?thesis using manifest_normal_form [OF _ _ ex_validates] by blast
qed


end
