(* ===== verification/Decimals.thy ===== *)
theory Decimals
  imports Json
begin

text \<open>
  Token amounts as exact decimals: \<open>decimal_amount\<close> of \<open>engine/src/lifecycle/decode.rs\<close> and
  \<open>exact_amount\<close> of \<open>engine/src/probe/current.rs\<close>, with the round trip between them and the exact
  set of texts that are read.
\<close>

definition decimal_amount :: "u64 \<Rightarrow> u8 \<Rightarrow> string" where
  "decimal_amount amount decimals =
     (let s = show_nat (unat amount); d = unat decimals in
      if decimals = 0 then s
      else
        let s = (if length s \<le> d then replicate (d + 1 - length s) (CHR ''0'') @ s else s);
            s = take (length s - d) s @ CHR ''.'' # drop (length s - d) s;
            s = rev (dropWhile (\<lambda>c. c = CHR ''0'') (rev s))
        in if s \<noteq> [] \<and> last s = CHR ''.'' then butlast s else s)"

text \<open>\<open>text.split('.')\<close>: the parts between the separators.\<close>

fun split_on :: "char \<Rightarrow> string \<Rightarrow> string list" where
  "split_on c [] = [[]]"
| "split_on c (d # s) =
     (if d = c then [] # split_on c s
      else (case split_on c s of [] \<Rightarrow> [[d]] | p # ps \<Rightarrow> (d # p) # ps))"

definition exact_amount :: "string \<Rightarrow> u8 \<Rightarrow> message + u64" where
  "exact_amount text_amount decimals =
     and_then (ensure (text_amount \<noteq> [] \<and> length text_amount \<le> 280) ''invalid decimal amount'') (\<lambda>_.
     let parts = split_on (CHR ''.'') text_amount; whole = hd parts in
     and_then (ensure (whole \<noteq> [] \<and> list_all is_ascii_digit whole \<and> length parts \<le> 2)
                 ''invalid decimal amount'') (\<lambda>_.
     and_then (case tl parts of
                 f # _ \<Rightarrow> and_then (ensure (f \<noteq> []) ''invalid decimal amount'') (\<lambda>_. Inr f)
               | [] \<Rightarrow> Inr []) (\<lambda>fraction.
     and_then (ensure (length fraction \<le> unat decimals \<and> list_all is_ascii_digit fraction)
                 ''excess precision or invalid decimal amount'') (\<lambda>_.
     let digits = whole @ fraction @ replicate (unat decimals - length fraction) (CHR ''0'') in
     and_then (ok_or (parse_uint digits) ''amount exceeds raw integer range'') (\<lambda>amount.
     and_then (ensure (0 < amount) ''amount must be positive'') (\<lambda>_.
     Inr amount))))))"

section \<open>Facts\<close>

lemma digit_zero [simp]: "is_ascii_digit CHR ''0''" "digit_value CHR ''0'' = 0" "digit 0 = CHR ''0''"
  by (simp_all add: is_ascii_digit_def digit_value_def) (code_simp)

lemma dot_not_digit [simp]: "\<not> is_ascii_digit CHR ''.''"
  by (simp add: is_ascii_digit_def)

lemma split_on_none: "c \<notin> set s \<Longrightarrow> split_on c s = [s]"
  by (induction s) auto

lemma split_on_one: "c \<notin> set s \<Longrightarrow> split_on c (s @ c # t) = s # split_on c t"
  by (induction s) auto

lemma digits_no_dot: "list_all is_ascii_digit s \<Longrightarrow> CHR ''.'' \<notin> set s"
  by (auto simp: list_all_iff)

lemma split_on_not_Nil [simp]: "split_on c s \<noteq> []"
  by (cases s) (auto split: list.splits)

lemma split_on_join: "split_on c s = p # ps \<Longrightarrow> s = p @ concat (map (\<lambda>q. c # q) ps)"
proof (induction s arbitrary: p ps)
  case (Cons d s)
  obtain q qs where q: "split_on c s = q # qs" by (cases "split_on c s") auto
  then have "d = c \<and> p = [] \<and> ps = q # qs \<or> p = d # q \<and> ps = qs"
    using Cons.prems by (auto split: if_splits)
  moreover have s: "s = q @ concat (map (\<lambda>q. c # q) qs)" by (rule Cons.IH [OF q])
  ultimately show ?case by (elim disjE) (simp_all add: s)
qed simp

text \<open>The value a whole part and a fraction stand for, in base units.\<close>

definition scaled_value :: "string \<Rightarrow> string \<Rightarrow> nat \<Rightarrow> nat" where
  "scaled_value whole fraction d =
     digits_value whole * 10 ^ d + digits_value fraction * 10 ^ (d - length fraction)"

lemma zeros_digits [simp]: "list_all is_ascii_digit (replicate n CHR ''0'')"
  by (induction n) simp_all

lemma digits_value_padded: "digits_value (replicate n CHR ''0'') = 0"
  using digits_value_replicate [of n] by simp

lemma padded_digits:
  assumes "length fraction \<le> d"
  shows "digits_value (whole @ fraction @ replicate (d - length fraction) CHR ''0'') =
    scaled_value whole fraction d"
proof -
  have "digits_value (whole @ fraction @ replicate (d - length fraction) CHR ''0'') =
      digits_value whole * 10 ^ d + digits_value (fraction @ replicate (d - length fraction) CHR ''0'')"
    using assms by (simp add: digits_value_append)
  also have "digits_value (fraction @ replicate (d - length fraction) CHR ''0'') =
      digits_value fraction * 10 ^ (d - length fraction)"
    by (simp add: digits_value_append digits_value_padded)
  finally show ?thesis by (simp add: scaled_value_def)
qed

text \<open>A well-formed amount: a whole part, and a fraction after a dot when there is one.\<close>

definition amount_text :: "string \<Rightarrow> string \<Rightarrow> string" where
  "amount_text whole fraction = (if fraction = [] then whole else whole @ CHR ''.'' # fraction)"

lemma parse_uint_digits:
  assumes "s \<noteq> []" "list_all is_ascii_digit s"
  shows "parse_uint s = (if digits_value s < 2 ^ LENGTH('a::len)
    then Some (of_nat (digits_value s) :: 'a word) else None)"
proof -
  obtain c r where s: "s = c # r" using assms(1) by (cases s) auto
  then have "strip_char CHR ''+'' s = None" using assms(2) by (auto simp: is_ascii_digit_def)
  with assms show ?thesis by (simp add: parse_uint_def parse_unsigned_def)
qed

lemma split_amount_text:
  assumes "list_all is_ascii_digit whole" "list_all is_ascii_digit fraction"
  shows "split_on CHR ''.'' (amount_text whole fraction) =
    (if fraction = [] then [whole] else [whole, fraction])"
  using digits_no_dot [OF assms(1)] digits_no_dot [OF assms(2)]
  by (simp add: amount_text_def split_on_none split_on_one)

lemma exact_amount_text:
  assumes w: "whole \<noteq> []" "list_all is_ascii_digit whole"
    and f: "list_all is_ascii_digit fraction" "length fraction \<le> unat decimals"
    and len: "length (amount_text whole fraction) \<le> 280"
    and v: "scaled_value whole fraction (unat decimals) = unat v"
  shows "exact_amount (amount_text whole fraction) decimals =
    (if v = 0 then Inl ''amount must be positive'' else Inr v)"
proof -
  let ?digits = "whole @ fraction @ replicate (unat decimals - length fraction) CHR ''0''"
  have d: "?digits \<noteq> []" "list_all is_ascii_digit ?digits" using w f(1) by simp_all
  have "digits_value ?digits = unat v" using padded_digits [OF f(2), of whole] v by simp
  then have p: "parse_uint ?digits = Some v"
    unfolding parse_uint_digits [OF d] using unat_less_pow [of v] by simp
  have ne: "amount_text whole fraction \<noteq> []" using w(1) by (simp add: amount_text_def)
  have parts: "hd (split_on CHR ''.'' (amount_text whole fraction)) = whole"
    "length (split_on CHR ''.'' (amount_text whole fraction)) \<le> 2"
    "(case tl (split_on CHR ''.'' (amount_text whole fraction)) of
        f # _ \<Rightarrow> and_then (ensure (f \<noteq> []) ''invalid decimal amount'') (\<lambda>_. Inr f)
      | [] \<Rightarrow> Inr []) = Inr fraction"
    unfolding split_amount_text [OF w(2) f(1)] by (cases "fraction = []"; simp)+
  have "exact_amount (amount_text whole fraction) decimals =
      and_then (ensure (0 < v) ''amount must be positive'') (\<lambda>_. Inr v)"
    unfolding exact_amount_def Let_def parts(1,3) using w f len ne parts(2) p by simp
  then show ?thesis by (simp add: ensure_def word_gt_0)
qed

lemma exact_amount_Inr:
  assumes "exact_amount s decimals = Inr v"
  shows "\<exists>whole fraction. s = amount_text whole fraction \<and> whole \<noteq> [] \<and>
    list_all is_ascii_digit whole \<and> list_all is_ascii_digit fraction \<and>
    length fraction \<le> unat decimals \<and> length s \<le> 280 \<and>
    unat v = scaled_value whole fraction (unat decimals) \<and> 0 < v"
proof -
  let ?parts = "split_on CHR ''.'' s"
  obtain whole ps where parts: "?parts = whole # ps" by (cases ?parts) auto
  obtain fraction where f: "(case ps of f # _ \<Rightarrow> and_then (ensure (f \<noteq> []) ''invalid decimal amount'') (\<lambda>_. Inr f)
      | [] \<Rightarrow> Inr []) = Inr fraction"
    and g: "whole \<noteq> []" "list_all is_ascii_digit whole" "length ?parts \<le> 2" "length s \<le> 280"
      "length fraction \<le> unat decimals" "list_all is_ascii_digit fraction"
    and p: "parse_uint (whole @ fraction @ replicate (unat decimals - length fraction) CHR ''0'') = Some v"
      "0 < v"
    using assms by (auto simp: exact_amount_def Let_def parts result_simps)
  have "s = amount_text whole fraction"
  proof (cases ps)
    case Nil
    with f split_on_join [OF parts] show ?thesis by (simp add: amount_text_def)
  next
    case (Cons q qs)
    then have "qs = []" using g(3) by (simp add: parts)
    with Cons f split_on_join [OF parts] show ?thesis by (auto simp: amount_text_def result_simps)
  qed
  moreover have "unat v = scaled_value whole fraction (unat decimals)"
  proof -
    let ?digits = "whole @ fraction @ replicate (unat decimals - length fraction) CHR ''0''"
    have d: "?digits \<noteq> []" "list_all is_ascii_digit ?digits" using g by simp_all
    have v: "(if digits_value ?digits < 2 ^ LENGTH(64) then Some (of_nat (digits_value ?digits)) else None) = Some v"
      using p(1) unfolding parse_uint_digits [OF d] .
    then have "digits_value ?digits < 2 ^ LENGTH(64)" "v = of_nat (digits_value ?digits)"
      by (metis option.distinct(1), metis option.distinct(1) option.inject)
    then have "unat v = digits_value ?digits" by (simp only: unat_of_nat_eq)
    then show ?thesis unfolding padded_digits [OF g(5)] .
  qed
  ultimately show ?thesis using g p(2) by blast
qed


section \<open>The round trip\<close>

definition strip_zeros :: "string \<Rightarrow> string" where
  "strip_zeros s = rev (dropWhile (\<lambda>c. c = CHR ''0'') (rev s))"

lemma strip_zeros_split: "s = strip_zeros s @ replicate (length s - length (strip_zeros s)) CHR ''0''"
proof -
  have "rev s = takeWhile (\<lambda>c. c = CHR ''0'') (rev s) @ dropWhile (\<lambda>c. c = CHR ''0'') (rev s)" by simp
  then have s: "s = strip_zeros s @ rev (takeWhile (\<lambda>c. c = CHR ''0'') (rev s))"
    unfolding strip_zeros_def by (metis rev_append rev_rev_ident)
  have "takeWhile (\<lambda>c. c = CHR ''0'') xs = replicate (length (takeWhile (\<lambda>c. c = CHR ''0'') xs)) CHR ''0''"
    for xs by (induction xs) simp_all
  then have "rev (takeWhile (\<lambda>c. c = CHR ''0'') (rev s)) =
      replicate (length (takeWhile (\<lambda>c. c = CHR ''0'') (rev s))) CHR ''0''" by (metis rev_replicate)
  moreover have "length s - length (strip_zeros s) = length (takeWhile (\<lambda>c. c = CHR ''0'') (rev s))"
    using arg_cong [OF s, of length] by simp
  ultimately show ?thesis using s by simp
qed

lemma strip_zeros_digits: "list_all is_ascii_digit s \<Longrightarrow> list_all is_ascii_digit (strip_zeros s)"
  using strip_zeros_split [of s] by (metis list_all_append)

lemma strip_zeros_length: "length (strip_zeros s) \<le> length s"
  using strip_zeros_split [of s] by (metis length_append le_add1)

lemma strip_zeros_amount:
  "strip_zeros (w @ CHR ''.'' # f) =
     (if strip_zeros f = [] then w @ [CHR ''.''] else w @ CHR ''.'' # strip_zeros f)"
proof (cases "\<forall>c\<in>set f. c = CHR ''0''")
  case True
  then have "dropWhile (\<lambda>c. c = CHR ''0'') (rev f @ x) = dropWhile (\<lambda>c. c = CHR ''0'') x" for x
    by (intro dropWhile_append2) simp
  moreover have "strip_zeros f = []" using True by (simp add: strip_zeros_def)
  ultimately show ?thesis by (simp add: strip_zeros_def)
next
  case False
  then obtain c where "c \<in> set (rev f)" "c \<noteq> CHR ''0''" by auto
  then have "dropWhile (\<lambda>c. c = CHR ''0'') (rev f @ x) = dropWhile (\<lambda>c. c = CHR ''0'') (rev f) @ x" for x
    by (intro dropWhile_append1)
  moreover have "strip_zeros f \<noteq> []" using False by (auto simp: strip_zeros_def dropWhile_eq_Nil_conv)
  ultimately show ?thesis by (simp add: strip_zeros_def)
qed

lemma trimmed_text:
  assumes "list_all is_ascii_digit f"
  shows "(let s = strip_zeros (w @ CHR ''.'' # f)
     in if s \<noteq> [] \<and> last s = CHR ''.'' then butlast s else s) = amount_text w (strip_zeros f)"
proof (cases "strip_zeros f = []")
  case True
  then show ?thesis by (simp add: strip_zeros_amount amount_text_def)
next
  case False
  then have "is_ascii_digit (last (strip_zeros f))"
    using strip_zeros_digits [OF assms] by (simp add: list_all_iff)
  then have "last (strip_zeros f) \<noteq> CHR ''.''" by auto
  with False show ?thesis by (simp add: strip_zeros_amount amount_text_def)
qed

lemma amount_text_length: "length (amount_text w f) \<le> length w + 1 + length f"
  by (simp add: amount_text_def)

lemma u64_digits: "length (show_nat (unat (w :: u64))) \<le> 20"
proof (rule show_nat_length)
  show "unat w < 10 ^ 20" by (rule less_trans [OF unat_bounds(2)]) simp
qed simp

lemma decimal_amount_text:
  "\<exists>w f. decimal_amount amount decimals = amount_text w f \<and> w \<noteq> [] \<and> list_all is_ascii_digit w \<and>
     list_all is_ascii_digit f \<and> length f \<le> unat decimals \<and> length (amount_text w f) \<le> 280 \<and>
     scaled_value w f (unat decimals) = unat amount"
proof (cases "decimals = 0")
  case True
  have "length (show_nat (unat amount)) \<le> 20" by (rule u64_digits)
  then show ?thesis using True
    by (intro exI [of _ "show_nat (unat amount)"] exI [of _ "[]"])
      (simp add: decimal_amount_def amount_text_def scaled_value_def)
next
  case False
  let ?d = "unat decimals" and ?s = "show_nat (unat amount)"
  let ?p = "if length ?s \<le> ?d then replicate (?d + 1 - length ?s) CHR ''0'' @ ?s else ?s"
  let ?w = "take (length ?p - ?d) ?p" and ?f = "drop (length ?p - ?d) ?p"
  have len: "?d < length ?p" by auto
  have "length ?s \<le> 20" by (rule u64_digits)
  moreover have "?d < 256" by simp
  ultimately have bound: "length ?p \<le> 256" by auto
  have digits: "list_all is_ascii_digit ?p" by simp
  have value_p: "digits_value ?p = unat amount" by (simp add: digits_value_append digits_value_padded)
  have wf: "list_all is_ascii_digit ?w" "list_all is_ascii_digit ?f"
    using digits by (metis append_take_drop_id list_all_append)+
  have lf: "length ?f = ?d" and w: "?w \<noteq> []" using len by auto
  have eq: "decimal_amount amount decimals = amount_text ?w (strip_zeros ?f)"
    using trimmed_text [OF wf(2), of ?w]
    unfolding decimal_amount_def Let_def strip_zeros_def [symmetric] if_not_P [OF False] .
  have "scaled_value ?w (strip_zeros ?f) ?d = digits_value ?w * 10 ^ ?d + digits_value ?f"
    using arg_cong [OF strip_zeros_split [of ?f], of digits_value] lf
    by (simp add: scaled_value_def digits_value_append digits_value_padded)
  also have "\<dots> = digits_value (?w @ ?f)" unfolding digits_value_append [of ?w ?f] lf ..
  also have "\<dots> = unat amount" unfolding append_take_drop_id by (rule value_p)
  finally have "scaled_value ?w (strip_zeros ?f) ?d = unat amount" .
  moreover have "length (strip_zeros ?f) \<le> ?d" using strip_zeros_length [of ?f] lf by simp
  moreover have "length (amount_text ?w (strip_zeros ?f)) \<le> 280"
    using amount_text_length [of ?w "strip_zeros ?f"] strip_zeros_length [of ?f] bound
    unfolding length_take length_drop by linarith
  ultimately show ?thesis using eq w wf strip_zeros_digits by blast
qed


text \<open>C37. Amounts are exact in both directions: rendering any amount at any number of decimals and
  reading it back gives the amount (zero is refused as not positive), and a text is read exactly
  when it is a whole part and an optional fraction of digits within the declared decimals, then as
  exactly the base units it denotes.\<close>

theorem amounts_exact:
  "exact_amount (decimal_amount amount decimals) decimals =
     (if amount = 0 then Inl ''amount must be positive'' else Inr amount) \<and>
   (exact_amount s d = Inr v \<longleftrightarrow>
     (\<exists>whole fraction. s = amount_text whole fraction \<and> whole \<noteq> [] \<and>
        list_all is_ascii_digit whole \<and> list_all is_ascii_digit fraction \<and>
        length fraction \<le> unat d \<and> length s \<le> 280 \<and>
        unat v = scaled_value whole fraction (unat d) \<and> 0 < v))"
proof
  obtain w f where t: "decimal_amount amount decimals = amount_text w f" "w \<noteq> []"
    "list_all is_ascii_digit w" "list_all is_ascii_digit f" "length f \<le> unat decimals"
    "length (amount_text w f) \<le> 280" "scaled_value w f (unat decimals) = unat amount"
    using decimal_amount_text by blast
  show "exact_amount (decimal_amount amount decimals) decimals =
      (if amount = 0 then Inl ''amount must be positive'' else Inr amount)"
    unfolding t(1) by (rule exact_amount_text [OF t(2-7)])
  show "exact_amount s d = Inr v \<longleftrightarrow>
     (\<exists>whole fraction. s = amount_text whole fraction \<and> whole \<noteq> [] \<and>
        list_all is_ascii_digit whole \<and> list_all is_ascii_digit fraction \<and>
        length fraction \<le> unat d \<and> length s \<le> 280 \<and>
        unat v = scaled_value whole fraction (unat d) \<and> 0 < v)"
  proof
    show "exact_amount s d = Inr v" if "\<exists>whole fraction. s = amount_text whole fraction \<and> whole \<noteq> [] \<and>
        list_all is_ascii_digit whole \<and> list_all is_ascii_digit fraction \<and>
        length fraction \<le> unat d \<and> length s \<le> 280 \<and>
        unat v = scaled_value whole fraction (unat d) \<and> 0 < v"
      using that exact_amount_text [of _ _ d v] by (auto simp: word_gt_0)
  qed (rule exact_amount_Inr)
qed

end
