(* ===== verification/LifecycleTypes.thy ===== *)
theory LifecycleTypes
  imports Decimals
begin

text \<open>
  Observed chain state (\<open>engine/src/lifecycle/mod.rs\<close>, \<open>engine/src/lifecycle/decode.rs\<close>), the
  account bytes of an RPC record, the classification of a token authority, and the statuses the
  later phases share (\<open>PathStatus\<close> of \<open>engine/src/resolution/mod.rs\<close>, \<open>Eligibility\<close> and the exact
  amounts of \<open>engine/src/expansion/mod.rs\<close>). Base 58, base 64, SHA-256, the curve
  test, program addresses, timestamps and the SPL layouts belong to other crates: the parameter
  \<open>chain\<close>.
\<close>

section \<open>Observed state\<close>

record RpcEvidence =
  rpc_id :: nat
  rpc_method :: string
  rpc_params :: json
  rpc_result :: json

record EvidenceRef =
  ev_rpc_id :: nat
  ev_pointer :: string
  ev_slot :: u64

datatype EntityType = WalletCompatible | ProgramOwnedAuthority | TokenMultisig | UnknownEntity

fun entity_type_name :: "EntityType \<Rightarrow> string" where
  "entity_type_name WalletCompatible = ''WalletCompatible''"
| "entity_type_name ProgramOwnedAuthority = ''ProgramOwnedAuthority''"
| "entity_type_name TokenMultisig = ''TokenMultisig''"
| "entity_type_name UnknownEntity = ''Unknown''"

record AuthorityObservation =
  ao_is_on_curve :: bool
  ao_account_exists :: bool
  ao_runtime_owner :: "string option"
  ao_executable :: "bool option"
  ao_multisig :: "json option"

record TokenExtension =
  te_extension_type :: string
  te_type_id :: "16 word"
  te_config :: json

record MintConfig =
  mint_token_program :: string
  mint_is_token_2022 :: bool
  mint_decimals :: u8
  mint_raw_supply :: string
  mint_decimal_supply :: string
  mint_mint_authority :: "string option"
  mint_freeze_authority :: "string option"
  mint_is_initialized :: bool
  mint_extensions :: "TokenExtension list"

record TokenAccountState =
  ta_mint :: string
  ta_owner :: string
  ta_raw_balance :: string
  ta_ui_balance :: string
  ta_ui_balance_basis :: string
  ta_account_state :: string
  ta_delegate :: "string option"
  ta_delegated_amount :: string
  ta_close_authority :: "string option"
  ta_native_reserve :: "string option"
  ta_is_frozen :: bool
  ta_is_initialized :: bool
  ta_has_active_delegate :: bool
  ta_extensions :: "TokenExtension list"

abbreviation SYSTEM_PROGRAM :: string where "SYSTEM_PROGRAM \<equiv> ''11111111111111111111111111111111''"
abbreviation LEGACY_PROGRAM :: string where
  "LEGACY_PROGRAM \<equiv> ''TokenkegQfeZyiNwAJbNbGKPFXCWuBvf9Ss623VQ5DA''"
abbreviation TOKEN_2022_PROGRAM :: string where
  "TOKEN_2022_PROGRAM \<equiv> ''TokenzQdBNbLqP5VEhdkAS6EPFLC1PHnBqCXEpPxuEb''"

text \<open>\<open>Multisig::LEN\<close>, and an unpacked multisig: threshold, size, signer slots.\<close>

abbreviation MULTISIG_LEN :: nat where "MULTISIG_LEN \<equiv> 355"

record Multisig =
  ms_m :: u8
  ms_n :: u8
  ms_signers :: "string list"

text \<open>What the SPL crates read from account data: the base layouts, and for Token-2022 accounts the
  extension types, the bytes after the base layout and the configuration of each extension.\<close>

datatype AccountState = Uninitialized | Initialized | Frozen

record spl_account =
  spa_mint :: "u8 list"
  spa_owner :: "u8 list"
  spa_amount :: u64
  spa_delegate :: "(u8 list) option"
  spa_state :: AccountState
  spa_is_native :: "u64 option"
  spa_delegated_amount :: u64
  spa_close_authority :: "(u8 list) option"

record spl_mint =
  spm_mint_authority :: "(u8 list) option"
  spm_supply :: u64
  spm_decimals :: u8
  spm_is_initialized :: bool
  spm_freeze_authority :: "(u8 list) option"

datatype AccountType = MintAccount | TokenAccount

record extension_type =
  xt_name :: string
  xt_id :: u16
  xt_account_type :: AccountType

record tlv_state =
  tlv_types :: "extension_type list option"
  tlv_data :: "u8 list"
  tlv_config :: "u16 \<Rightarrow> message + json"

record spl =
  spl_unpack_account :: "u8 list \<Rightarrow> spl_account option"
  spl_unpack_mint :: "u8 list \<Rightarrow> spl_mint option"
  spl_account_state :: "u8 list \<Rightarrow> (spl_account \<times> tlv_state) option"
  spl_uninitialized_state :: "u8 list \<Rightarrow> (spl_account \<times> tlv_state) option"
  spl_mint_state :: "u8 list \<Rightarrow> (spl_mint \<times> tlv_state) option"

record chain =
  ch_parse_address :: "string \<Rightarrow> (u8 list) option"
  ch_show_address :: "u8 list \<Rightarrow> string"
  ch_is_on_curve :: "u8 list \<Rightarrow> bool"
  ch_find_program_address :: "u8 list list \<Rightarrow> u8 list \<Rightarrow> u8 list \<times> u8"
  ch_base64 :: "string \<Rightarrow> (u8 list) option"
  ch_sha256 :: "u8 list \<Rightarrow> string"
  ch_parse_time :: "string \<Rightarrow> int option"
  ch_multisig :: "u8 list \<Rightarrow> Multisig option"
  ch_spl :: spl

section \<open>Account bytes\<close>

definition raw_account_bytes :: "chain \<Rightarrow> json \<Rightarrow> message + u8 list" where
  "raw_account_bytes chain raw =
     and_then (ensure (as_str (json_nth (json_at raw ''data'') 1) = Some ''base64'')
                 ''expected complete base64 account data'') (\<lambda>_.
     and_then (ok_or (as_str (json_nth (json_at raw ''data'') 0)) ''missing base64 data'') (\<lambda>encoded.
     and_then (ok_or (ch_base64 chain encoded) ''invalid base64 account data'') (\<lambda>bytes.
     and_then (case json_get raw ''space'' of
                 None \<Rightarrow> Inr ()
               | Some space \<Rightarrow>
                   ensure (as_u64 space = Some (of_nat (length bytes)))
                     ''truncated account data / space mismatch'') (\<lambda>_.
     Inr bytes))))"

definition account_bytes :: "chain \<Rightarrow> json \<Rightarrow> string \<Rightarrow> message + u8 list" where
  "account_bytes chain raw expected_program =
     and_then (ensure (as_str (json_at raw ''owner'') = Some expected_program)
                 ''account has unexpected runtime program owner'') (\<lambda>_.
     and_then (ensure (as_bool (json_at raw ''executable'') = Some False)
                 ''token account is executable or missing executable flag'') (\<lambda>_.
     raw_account_bytes chain raw))"

section \<open>Who controls a token account\<close>

definition multisig_json :: "Multisig \<Rightarrow> json" where
  "multisig_json m =
     JObject [(''required_signers'', JNumber (PosInt (ucast (ms_m m)))),
              (''signer_count'', JNumber (PosInt (ucast (ms_n m)))),
              (''signers'', JArray (map JString (take (unat (ms_n m)) (ms_signers m))))]"

definition classify_authority ::
  "chain \<Rightarrow> string \<Rightarrow> json \<Rightarrow> message + (EntityType \<times> AuthorityObservation \<times> string)" where
  "classify_authority chain owner raw =
     and_then (ok_or (ch_parse_address chain owner) ''invalid owner authority address'') (\<lambda>addr.
     let on_curve = ch_is_on_curve chain addr;
         observation = \<lparr>ao_is_on_curve = on_curve, ao_account_exists = (raw \<noteq> JNull),
           ao_runtime_owner = None, ao_executable = None, ao_multisig = None\<rparr> in
     if raw = JNull then
       Inr (UnknownEntity, observation,
         ''Authority account absent; address alone does not prove holder identity or control'')
     else
       and_then (ok_or (as_str (json_at raw ''owner'')) ''authority runtime owner missing'') (\<lambda>program.
       and_then (ok_or (ch_parse_address chain program) ''invalid authority runtime owner'') (\<lambda>_.
       and_then (map_err (\<lambda>_. ''invalid authority account evidence'') (raw_account_bytes chain raw))
         (\<lambda>bytes.
       and_then (ok_or (as_bool (json_at raw ''executable'')) ''authority executable flag missing'')
         (\<lambda>is_executable.
       let observation = observation\<lparr>ao_runtime_owner := Some program,
                                     ao_executable := Some is_executable\<rparr> in
       if is_executable then
         Inr (UnknownEntity, observation,
           ''Authority address is an executable account; token signing control is unproven'')
       else if (program = LEGACY_PROGRAM \<or> program = TOKEN_2022_PROGRAM) \<and> length bytes = MULTISIG_LEN then
         and_then (ok_or (ch_multisig chain bytes) ''malformed SPL multisig authority'') (\<lambda>m.
         and_then (ensure (0 < ms_m m \<and> ms_m m \<le> ms_n m \<and> ms_n m \<le> 11) ''invalid multisig threshold'')
           (\<lambda>_.
         Inr (TokenMultisig, observation\<lparr>ao_multisig := Some (multisig_json m)\<rparr>,
           ''Authority is an initialized SPL multisig account'')))
       else if program = SYSTEM_PROGRAM \<and> on_curve \<and> bytes = [] then
         Inr (WalletCompatible, observation,
           ''On-curve authority with an existing empty System-owned account; no human identity inferred'')
       else if program \<noteq> SYSTEM_PROGRAM then
         Inr (ProgramOwnedAuthority, observation,
           ''Authority account has a non-System runtime owner; signing program and protocol role remain unknown'')
       else
         Inr (UnknownEntity, observation,
           ''System-owned authority is off-curve or carries account data; control is unproven''))))))"

section \<open>Shared statuses\<close>

datatype PathStatus = Proven | Failed | Indeterminate | Unsupported | NotTested | NotApplicable

datatype Eligibility = ExecutableCandidate | CaptureRequired | UnsupportedEligibility | Invalid

fun eligibility_key :: "Eligibility \<Rightarrow> string" where
  "eligibility_key ExecutableCandidate = ''ExecutableCandidate''"
| "eligibility_key CaptureRequired = ''CaptureRequired''"
| "eligibility_key UnsupportedEligibility = ''Unsupported''"
| "eligibility_key Invalid = ''Invalid''"

text \<open>What a measured amount establishes, and the amounts that are tried.\<close>

datatype CoverageClassification =
    ProvenCoverage | PartiallyProven | UnsupportedCoverage | Untested

definition expansion_classify :: "u64 \<Rightarrow> u64 \<Rightarrow> bool \<Rightarrow> CoverageClassification" where
  "expansion_classify balance covered unsupported =
     (if 0 < balance \<and> covered = balance then ProvenCoverage
      else if 0 < covered then PartiallyProven
      else if unsupported then UnsupportedCoverage
      else Untested)"

record AmountPoint =
  ap_raw :: string
  ap_invalid_control :: bool
  ap_rationale :: string

definition percent_of :: "u64 \<Rightarrow> nat \<Rightarrow> u64" where
  "percent_of balance percent = of_nat (max (unat balance * percent div 100) 1)"

definition percent_rationale :: "nat \<Rightarrow> string" where
  "percent_rationale percent =
     ''max(1,floor(observed public balance * '' @ show_nat percent @
     ''/100)); directly measured point, no interpolation''"

text \<open>\<open>points.entry(n).or_insert_with(..)\<close>: the first percentage that gives a point names it.\<close>

definition amount_points :: "u64 \<Rightarrow> (u64, string) btree_map" where
  "amount_points balance =
     foldl (\<lambda>m p. bt_upsert (percent_of balance p)
              (\<lambda>e. case e of Some r \<Rightarrow> r | None \<Rightarrow> percent_rationale p) m) [] [1, 25, 50, 100]"

definition amount_matrix :: "u64 \<Rightarrow> AmountPoint list" where
  "amount_matrix balance =
     (if balance = 0 then []
      else
        map (\<lambda>(n, rationale). \<lparr>ap_raw = show_nat (unat n), ap_invalid_control = False,
               ap_rationale = rationale\<rparr>) (amount_points balance) @
        (case checked_add balance 1 of
           None \<Rightarrow> []
         | Some n \<Rightarrow> [\<lparr>ap_raw = show_nat (unat n), ap_invalid_control = True, ap_rationale =
             ''observed balance + 1; invalid control excluded from positive assurance even if a later balance differs''\<rparr>]))"

section \<open>Facts\<close>

lemma classify_wallet:
  assumes "classify_authority chain owner raw = Inr (WalletCompatible, observation, reason)"
  shows "\<exists>addr. ch_parse_address chain owner = Some addr \<and> ch_is_on_curve chain addr \<and>
    as_str (json_at raw ''owner'') = Some SYSTEM_PROGRAM \<and>
    as_bool (json_at raw ''executable'') = Some False \<and>
    raw_account_bytes chain raw = Inr [] \<and>
    observation = \<lparr>ao_is_on_curve = True, ao_account_exists = True,
      ao_runtime_owner = Some SYSTEM_PROGRAM, ao_executable = Some False, ao_multisig = None\<rparr>"
  using assms
  by (auto simp: classify_authority_def Let_def result_simps split: if_splits)

lemma of_nat_max_percent:
  "balance \<noteq> 0 \<Longrightarrow> p \<le> 100 \<Longrightarrow> unat (percent_of balance p) = max (unat balance * p div 100) 1"
proof -
  assume "balance \<noteq> 0" "p \<le> 100"
  have "unat balance * p div 100 \<le> unat balance * 100 div 100"
    by (rule div_le_mono) (use \<open>p \<le> 100\<close> in simp)
  then have "unat balance * p div 100 \<le> unat balance" by simp
  then have "unat balance * p div 100 < 2 ^ 64" by (rule le_less_trans) simp
  then have "max (unat balance * p div 100) 1 < 2 ^ 64" by simp
  then show ?thesis unfolding percent_of_def by (intro unat_of_nat_eq) simp
qed


lemma upserted_keys:
  "set (map fst (foldl (\<lambda>m p. bt_upsert (f p) (g p) m) m ps)) = f ` set ps \<union> set (map fst m)"
  "bt_wf m \<Longrightarrow> bt_wf (foldl (\<lambda>m p. bt_upsert (f p) (g p) m) m ps)"
proof (induction ps arbitrary: m)
  case (Cons p ps)
  { case 1 show ?case
      using Cons.IH(1) [of "bt_upsert (f p) (g p) m"]
      by (simp only: foldl_Cons list.set image_insert bt_upsert_def bt_insert_keys) simp }
  { case 2 then show ?case using Cons.IH(2) by (simp add: bt_upsert_def bt_insert_wf) }
qed simp_all

lemma amount_points_keys:
  "set (map fst (amount_points balance)) = percent_of balance ` {1, 25, 50, 100}"
  "bt_wf (amount_points balance)"
proof -
  show "set (map fst (amount_points balance)) = percent_of balance ` {1, 25, 50, 100}"
    unfolding amount_points_def upserted_keys(1) by simp
  show "bt_wf (amount_points balance)"
    unfolding amount_points_def by (rule upserted_keys(2)) (simp add: bt_wf_def)
qed

lemma strict_last:
  assumes "sorted_wrt (<) (ns :: nat list)" "x \<in> set ns" "\<And>y. y \<in> set ns \<Longrightarrow> y \<le> x"
  shows "last ns = x"
proof -
  have ne: "ns \<noteq> []" using assms(2) by auto
  then have "sorted_wrt (<) (butlast ns @ [last ns])" using assms(1) by simp
  then have "\<forall>y\<in>set (butlast ns). y < last ns" by (simp only: sorted_wrt_append) simp
  moreover have "x \<in> set (butlast ns) \<or> x = last ns"
    using assms(2) ne by (metis append_butlast_last_id in_set_butlast_appendI Un_iff empty_iff empty_set
      insert_iff list.simps(15) set_append)
  moreover have "last ns \<le> x" using assms(3) ne by simp
  ultimately show ?thesis by force
qed

text \<open>The amounts tried for a balance are exactly its four percentages rounded down, never less
  than one base unit, without repetition and in ascending order, the whole balance last; none
  exceeds the balance. The single invalid control is one above the balance, and it is left out
  exactly when no 64-bit amount is.\<close>

theorem amount_matrix_exact:
  "if balance = 0 then amount_matrix balance = []
   else \<exists>ns. sorted_wrt (<) ns \<and>
     set ns = {max (unat balance * p div 100) 1 | p. p \<in> {1, 25, 50, 100}} \<and>
     last ns = unat balance \<and>
     map ap_raw (filter (\<lambda>p. \<not> ap_invalid_control p) (amount_matrix balance)) = map show_nat ns \<and>
     map ap_raw (filter ap_invalid_control (amount_matrix balance)) =
       (if unat balance + 1 < 2 ^ 64 then [show_nat (unat balance + 1)] else [])"
proof (cases "balance = 0")
  case False
  let ?ns = "map unat (map fst (amount_points balance))"
  have keys: "set ?ns = {max (unat balance * p div 100) 1 | p. p \<in> {1, 25, 50, 100}}"
  proof -
    have "set ?ns = (\<lambda>p. unat (percent_of balance p)) ` {1, 25, 50, 100}"
      unfolding set_map [of unat] amount_points_keys(1) by (simp only: image_image)
    also have "\<dots> = (\<lambda>p. max (unat balance * p div 100) 1) ` {1, 25, 50, 100}"
      by (rule image_cong [OF refl]) (rule of_nat_max_percent [OF False], auto)
    finally show ?thesis by blast
  qed
  have sorted: "sorted_wrt (<) ?ns"
    using amount_points_keys(2) by (simp add: bt_wf_def sorted_wrt_map word_less_nat_alt)
  have pos: "0 < unat balance" using False by (simp add: unat_gt_0)
  have "last ?ns = unat balance"
  proof (rule strict_last [OF sorted])
    show "unat balance \<in> set ?ns" unfolding keys using pos by (auto intro!: exI [of _ 100])
    fix y
    assume "y \<in> set ?ns"
    then obtain p where p: "p \<in> {1, 25, 50, 100 :: nat}" "y = max (unat balance * p div 100) 1"
      unfolding keys by blast
    have "unat balance * p div 100 \<le> unat balance * 100 div 100"
      by (rule div_le_mono) (use p(1) in auto)
    with p(2) pos show "y \<le> unat balance" by simp
  qed
  moreover have "map ap_raw (filter (\<lambda>p. \<not> ap_invalid_control p) (amount_matrix balance)) = map show_nat ?ns"
    using False by (auto simp: amount_matrix_def filter_map o_def case_prod_beta split: option.split)
  moreover have "map ap_raw (filter ap_invalid_control (amount_matrix balance)) =
      (if unat balance + 1 < 2 ^ 64 then [show_nat (unat balance + 1)] else [])"
    using False
    by (auto simp: amount_matrix_def filter_map o_def case_prod_beta checked_add_def unat_add_small
        split: option.split)
  ultimately show ?thesis using False sorted keys by (simp only: if_False) blast
qed (simp add: amount_matrix_def)

end
