(* ===== verification/Stress.thy ===== *)
theory Stress
  imports LifecycleTypes ConversionPlan
begin

text \<open>
  Conversion stress testing (\<open>engine/src/stress/mod.rs\<close>): the budget and how an operator's
  environment may override it, the entities and cases of a run, its coverage records, and the
  structural check that keeps sampled evidence from becoming proof about anything else. Counts of
  type \<open>usize\<close> are natural numbers; the environment is the parameter \<open>num\<close>, the 64-bit number a
  variable holds.
\<close>

section \<open>Completeness and budget\<close>

datatype EnumerationCompleteness =
    CompleteForQuery | PartialEnumeration | Unavailable | UnsupportedEnumeration

fun enumeration_key :: "EnumerationCompleteness \<Rightarrow> string" where
  "enumeration_key CompleteForQuery = ''CompleteForQuery''"
| "enumeration_key PartialEnumeration = ''Partial''"
| "enumeration_key Unavailable = ''Unavailable''"
| "enumeration_key UnsupportedEnumeration = ''Unsupported''"

datatype AuthorityResolutionCompleteness = CompleteResolution | PartialResolution | NotPerformed

fun authority_completeness_key :: "AuthorityResolutionCompleteness \<Rightarrow> string" where
  "authority_completeness_key CompleteResolution = ''Complete''"
| "authority_completeness_key PartialResolution = ''Partial''"
| "authority_completeness_key NotPerformed = ''NotPerformed''"

datatype AuthorityResolution = Resolved | NotResolved

record StressBudget =
  sb_budget_version :: string
  sb_max_response_bytes :: u64
  sb_max_decoded_accounts :: nat
  sb_max_authority_lookups :: nat
  sb_authority_batch_size :: nat
  sb_max_selected_cases :: nat
  sb_executions_per_case :: nat
  sb_rpc_requests_per_case :: nat
  sb_max_concurrent_rpc_requests :: nat
  sb_max_concurrent_vm_executions :: nat
  sb_population_timeout_seconds :: u64
  sb_case_timeout_seconds :: u64
  sb_max_artifact_bytes :: u64

abbreviation BUDGET_VERSION :: string where
  "BUDGET_VERSION \<equiv> ''eplyx-conversion-stress-budget/v1''"

definition default_budget :: StressBudget where
  "default_budget =
     \<lparr>sb_budget_version = BUDGET_VERSION, sb_max_response_bytes = 134217728,
      sb_max_decoded_accounts = 100000, sb_max_authority_lookups = 40000,
      sb_authority_batch_size = 100, sb_max_selected_cases = 10, sb_executions_per_case = 1,
      sb_rpc_requests_per_case = 5, sb_max_concurrent_rpc_requests = 1,
      sb_max_concurrent_vm_executions = 1, sb_population_timeout_seconds = 900,
      sb_case_timeout_seconds = 120, sb_max_artifact_bytes = 201326592\<rparr>"

text \<open>\<open>v.clamp(lo, hi)\<close>, and \<open>if let Some(v) = num(key) { .. }\<close>.\<close>

definition clamp :: "'a::linorder \<Rightarrow> 'a \<Rightarrow> 'a \<Rightarrow> 'a" where
  "clamp lo hi v = (if v < lo then lo else if hi < v then hi else v)"

definition override :: "'v option \<Rightarrow> ('v \<Rightarrow> 's \<Rightarrow> 's) \<Rightarrow> 's \<Rightarrow> 's" where
  "override v set_to b = (case v of Some x \<Rightarrow> set_to x b | None \<Rightarrow> b)"

definition saturating_mul :: "'a::len word \<Rightarrow> 'a word \<Rightarrow> 'a word" where
  "saturating_mul a b = (case checked_mul a b of Some c \<Rightarrow> c | None \<Rightarrow> - 1)"

definition budget_from_env :: "(string \<Rightarrow> u64 option) \<Rightarrow> StressBudget" where
  "budget_from_env num =
     (let b = default_budget;
          b = override (num ''EPLYX_STRESS_MAX_ACCOUNTS'')
                (\<lambda>v b. b\<lparr>sb_max_decoded_accounts := clamp 1 500000 (unat v)\<rparr>) b;
          b = override (num ''EPLYX_STRESS_MAX_RESPONSE_MB'')
                (\<lambda>v b. b\<lparr>sb_max_response_bytes := clamp 1 536870912 (saturating_mul v 1048576)\<rparr>) b;
          b = override (num ''EPLYX_STRESS_MAX_AUTHORITIES'')
                (\<lambda>v b. b\<lparr>sb_max_authority_lookups := min (unat v) (sb_max_decoded_accounts b)\<rparr>) b;
          b = override (num ''EPLYX_STRESS_MAX_CASES'')
                (\<lambda>v b. b\<lparr>sb_max_selected_cases := clamp 1 32 (unat v)\<rparr>) b;
          b = override (num ''EPLYX_STRESS_POPULATION_TIMEOUT_SECONDS'')
                (\<lambda>v b. b\<lparr>sb_population_timeout_seconds := clamp 1 1800 v\<rparr>) b;
          b = b\<lparr>sb_max_authority_lookups := min (sb_max_authority_lookups b) (sb_max_decoded_accounts b)\<rparr>
      in b\<lparr>sb_max_artifact_bytes := saturating_add (sb_max_response_bytes b) 67108864\<rparr>)"

definition budget_validate :: "StressBudget \<Rightarrow> message + unit" where
  "budget_validate b =
     and_then (ensure (sb_budget_version b = BUDGET_VERSION) ''unknown stress budget version'') (\<lambda>_.
     and_then (ensure (0 < sb_max_response_bytes b \<and> sb_max_response_bytes b \<le> 536870912 \<and>
                       0 < sb_max_decoded_accounts b \<and> sb_max_decoded_accounts b \<le> 500000 \<and>
                       sb_max_authority_lookups b \<le> sb_max_decoded_accounts b \<and>
                       0 < sb_authority_batch_size b \<and> sb_authority_batch_size b \<le> 100)
                 ''population acquisition budget out of range'') (\<lambda>_.
     and_then (ensure (0 < sb_max_selected_cases b \<and> sb_max_selected_cases b \<le> 32 \<and>
                       sb_executions_per_case b = 1 \<and> sb_rpc_requests_per_case b = 5)
                 ''unsupported stress execution budget'') (\<lambda>_.
     and_then (ensure (sb_max_concurrent_rpc_requests b = 1 \<and> sb_max_concurrent_vm_executions b = 1)
                 ''this milestone executes serially by design'') (\<lambda>_.
     ensure (0 < sb_population_timeout_seconds b \<and> sb_population_timeout_seconds b \<le> 1800 \<and>
             0 < sb_case_timeout_seconds b \<and> sb_case_timeout_seconds b \<le> 600 \<and>
             0 < sb_max_artifact_bytes b)
       ''stress timeout or artifact budget out of range''))))"

section \<open>Entities and cases\<close>

record StressEntity =
  se_entity_id :: string
  se_token_account :: string
  se_mint :: string
  se_token_program :: string
  se_authority :: string
  se_authority_model :: EntityType
  se_authority_resolution :: AuthorityResolution
  se_authority_observation :: AuthorityObservation
  se_classification_reason :: string
  se_state :: TokenAccountState
  se_token_account_evidence :: EvidenceRef
  se_authority_evidence :: "EvidenceRef option"

definition entity_balance :: "StressEntity \<Rightarrow> message + u64" where
  "entity_balance e = ok_or (parse_uint (ta_raw_balance (se_state e))) ''invalid digit found in string''"

datatype SelectionReason = NewStateShape | NewBalanceBucket | HighestRemainingBalance

record SelectedCase =
  sel_case_id :: string
  sel_selection_order :: nat
  sel_selection_reason :: SelectionReason
  sel_selection_detail :: string
  sel_entity_id :: string
  sel_token_account :: string
  sel_authority :: string
  sel_authority_model :: EntityType
  sel_state_shape_sha256 :: string
  sel_shape_label :: string
  sel_balance_bucket :: u8
  sel_observed_balance_raw :: string
  sel_discovery_slot :: u64
  sel_selected_amount_raw :: string
  sel_selected_amount_decimal :: string
  sel_amount_policy :: string
  sel_amount_capped :: bool
  sel_case_plan :: ConversionPlan
  sel_case_plan_sha256 :: string

record CaseResult =
  cr_case_id :: string
  cr_entity_id :: string
  cr_token_account :: string
  cr_authority :: string
  cr_authority_model :: EntityType
  cr_state_shape_sha256 :: string
  cr_shape_label :: string
  cr_balance_bucket :: u8
  cr_selection_reason :: SelectionReason
  cr_selected_amount_raw :: string
  cr_selected_amount_decimal :: string
  cr_case_plan_sha256 :: string
  cr_candidate_program_sha256 :: string
  cr_status :: PathStatus
  cr_reason :: "string option"
  cr_execution_performed :: bool
  cr_local_execution_performed :: bool
  cr_signer_assumed_locally :: bool
  cr_signer_possession_known :: bool
  cr_candidate_authority_assumed_locally :: bool
  cr_issuer_binding_established :: bool
  cr_official_transition :: PathStatus
  cr_funds_moved :: bool
  cr_execution_fixture_sha256 :: "string option"
  cr_acquisition :: json
  cr_detail :: json
  cr_result_sha256 :: string

record ShapeCoverage =
  sc_state_shape_sha256 :: string
  sc_shape_label :: string
  sc_eligibility :: Eligibility
  sc_entities_in_shape :: nat
  sc_entities_selected :: nat
  sc_entities_executed :: nat
  sc_executed_entity_ids :: "string list"
  sc_entities_untested :: nat
  sc_represented_raw :: string
  sc_tested_raw :: string
  sc_proof_scope :: string

abbreviation SHAPE_PROOF_SCOPE :: string where
  "SHAPE_PROOF_SCOPE \<equiv>
     ''Evidence applies only to the exact executed entity ids listed here, at their exact tested amounts, case plans, candidate program build and captured banks. Every other member of this shape is untested.''"

section \<open>No proof inheritance\<close>

definition bound_to_case :: "SelectedCase \<Rightarrow> CaseResult \<Rightarrow> bool" where
  "bound_to_case c r \<longleftrightarrow>
     sel_case_id c = cr_case_id r \<and> sel_entity_id c = cr_entity_id r \<and>
     sel_token_account c = cr_token_account r \<and>
     sel_selected_amount_raw c = cr_selected_amount_raw r \<and>
     sel_case_plan_sha256 c = cr_case_plan_sha256 r \<and>
     sel_state_shape_sha256 c = cr_state_shape_sha256 r"

fun check_bound :: "(SelectedCase \<times> CaseResult) list \<Rightarrow> message + unit" where
  "check_bound [] = Inr ()"
| "check_bound ((c, r) # rest) =
     and_then (ensure (bound_to_case c r)
                 ''a stress result is bound to its exact frozen case; results may not be re-pointed after execution'') (\<lambda>_.
     check_bound rest)"

fun check_results :: "CaseResult list \<Rightarrow> message + unit" where
  "check_results [] = Inr ()"
| "check_results (r # rs) =
     and_then (if cr_status r = Proven then
                 ensure (cr_execution_performed r \<and> cr_local_execution_performed r)
                   ''Proven requires an actual local execution of the registered candidate program''
               else Inr ()) (\<lambda>_.
     and_then (ensure (cr_official_transition r = NotTested \<and> \<not> cr_issuer_binding_established r \<and>
                       \<not> cr_funds_moved r \<and> \<not> cr_signer_possession_known r)
                 ''a candidate conversion stress case never establishes issuer binding, signer possession, fund movement or an official transition'') (\<lambda>_.
     check_results rs))"

text \<open>\<open>entities_in_shape - entities_executed\<close> is reached only when it does not underflow.\<close>

fun check_shapes :: "string list \<Rightarrow> ShapeCoverage list \<Rightarrow> message + unit" where
  "check_shapes selected_ids [] = Inr ()"
| "check_shapes selected_ids (s # ss) =
     and_then (ensure (length (sc_executed_entity_ids s) = sc_entities_executed s \<and>
                       sc_entities_executed s \<le> sc_entities_selected s \<and>
                       sc_entities_selected s \<le> sc_entities_in_shape s \<and>
                       sc_entities_untested s = sc_entities_in_shape s - sc_entities_executed s)
                 ''shape coverage counts must stay consistent with exact executed entities'') (\<lambda>_.
     and_then (ensure (list_all (\<lambda>i. i \<in> set selected_ids) (sc_executed_entity_ids s))
                 ''a state shape cannot report evidence for entities that were never selected'') (\<lambda>_.
     and_then (ensure (sc_proof_scope s = SHAPE_PROOF_SCOPE)
                 ''shape coverage must carry its explicit non-inheritance scope'') (\<lambda>_.
     check_shapes selected_ids ss)))"

definition assert_no_proof_inheritance ::
  "SelectedCase list \<Rightarrow> CaseResult list \<Rightarrow> ShapeCoverage list \<Rightarrow> message + unit" where
  "assert_no_proof_inheritance selected results shapes =
     (let selected_ids = btree_set (map sel_entity_id selected);
          selected_cases = btree_set (map sel_case_id selected) in
      and_then (ensure (length selected_ids = length selected \<and> length selected_cases = length selected)
                  ''a stress plan cannot select the same entity or case identity twice'') (\<lambda>_.
      and_then (ensure (length results = length selected)
                  ''every selected case keeps exactly one result; unsuccessful cases are never removed or replaced'') (\<lambda>_.
      and_then (check_bound (zip selected results)) (\<lambda>_.
      let proven = btree_set (map cr_entity_id (filter (\<lambda>r. cr_status r = Proven) results)) in
      and_then (ensure (list_all (\<lambda>i. i \<in> set selected_ids) proven)
                  ''only an exact selected, executed and reconciled entity can be Proven'') (\<lambda>_.
      and_then (check_results results) (\<lambda>_.
      check_shapes selected_ids shapes))))))"

text \<open>\<open>fold(0u128, |a, b| a + u128::from(b))\<close>: the plain addition would panic on overflow, which a
  map of fewer than \<open>2 ^ 64\<close> balances cannot reach.\<close>

definition sum_once :: "(string, u64) btree_map \<Rightarrow> string" where
  "sum_once balances = show_nat (sum_list (map (\<lambda>(_, b). unat b) balances))"

definition stress_entity_id :: "string \<Rightarrow> string \<Rightarrow> string" where
  "stress_entity_id population_sha256 token_account =
     ''current-stress:'' @ population_sha256 @ '':'' @ token_account"

section \<open>Facts\<close>

lemma clamp_bounds: "lo \<le> hi \<Longrightarrow> lo \<le> clamp lo hi v" "lo \<le> hi \<Longrightarrow> clamp lo hi v \<le> hi"
  by (auto simp: clamp_def)

lemma override_inv: "P b \<Longrightarrow> (\<And>x. P (set_to x b)) \<Longrightarrow> P (override v set_to b)"
  by (simp add: override_def split: option.split)

text \<open>The part of the budget's range every override keeps.\<close>

definition overridable :: "StressBudget \<Rightarrow> bool" where
  "overridable b \<longleftrightarrow>
     sb_budget_version b = BUDGET_VERSION \<and>
     1 \<le> sb_max_response_bytes b \<and> sb_max_response_bytes b \<le> 536870912 \<and>
     1 \<le> sb_max_decoded_accounts b \<and> sb_max_decoded_accounts b \<le> 500000 \<and>
     sb_authority_batch_size b = 100 \<and>
     1 \<le> sb_max_selected_cases b \<and> sb_max_selected_cases b \<le> 32 \<and>
     sb_executions_per_case b = 1 \<and> sb_rpc_requests_per_case b = 5 \<and>
     sb_max_concurrent_rpc_requests b = 1 \<and> sb_max_concurrent_vm_executions b = 1 \<and>
     1 \<le> sb_population_timeout_seconds b \<and> sb_population_timeout_seconds b \<le> 1800 \<and>
     sb_case_timeout_seconds b = 120"

lemma overridable_default: "overridable default_budget"
  by (simp add: overridable_def default_budget_def)

lemma overridable_set:
  "overridable b \<Longrightarrow> overridable (b\<lparr>sb_max_decoded_accounts := clamp 1 500000 n\<rparr>)"
  "overridable b \<Longrightarrow> overridable (b\<lparr>sb_max_response_bytes := clamp 1 536870912 w\<rparr>)"
  "overridable b \<Longrightarrow> overridable (b\<lparr>sb_max_authority_lookups := m\<rparr>)"
  "overridable b \<Longrightarrow> overridable (b\<lparr>sb_max_selected_cases := clamp 1 32 n\<rparr>)"
  "overridable b \<Longrightarrow> overridable (b\<lparr>sb_population_timeout_seconds := clamp 1 1800 w\<rparr>)"
proof -
  have hi: "(1 :: u64) \<le> 536870912" "(1 :: u64) \<le> 1800" "(1 :: nat) \<le> 500000" "(1 :: nat) \<le> 32"
    by simp_all
  show "overridable b \<Longrightarrow> overridable (b\<lparr>sb_max_decoded_accounts := clamp 1 500000 n\<rparr>)"
    using clamp_bounds [OF hi(3), of n] by (simp add: overridable_def)
  show "overridable b \<Longrightarrow> overridable (b\<lparr>sb_max_response_bytes := clamp 1 536870912 w\<rparr>)"
    using clamp_bounds [OF hi(1), of w] by (simp add: overridable_def)
  show "overridable b \<Longrightarrow> overridable (b\<lparr>sb_max_authority_lookups := m\<rparr>)"
    by (simp add: overridable_def)
  show "overridable b \<Longrightarrow> overridable (b\<lparr>sb_max_selected_cases := clamp 1 32 n\<rparr>)"
    using clamp_bounds [OF hi(4), of n] by (simp add: overridable_def)
  show "overridable b \<Longrightarrow> overridable (b\<lparr>sb_population_timeout_seconds := clamp 1 1800 w\<rparr>)"
    using clamp_bounds [OF hi(2), of w] by (simp add: overridable_def)
qed

lemma overridable_valid:
  assumes "overridable b"
  shows "budget_validate (b\<lparr>sb_max_authority_lookups := min m (sb_max_decoded_accounts b),
    sb_max_artifact_bytes := saturating_add v 67108864\<rparr>) = Inr ()"
proof -
  have margin: "unat (67108864 :: u64) = 67108864" by simp
  have "0 < unat (saturating_add v (67108864 :: u64))"
    unfolding unat_saturating_add margin by simp
  then have margin_pos: "0 < saturating_add v (67108864 :: u64)" by (simp only: word_less_nat_alt unat_0)
  have pos: "1 \<le> w \<Longrightarrow> 0 < w" for w :: u64
    by (rule less_le_trans [of 0 1]) simp_all
  have "1 \<le> sb_max_response_bytes b" "1 \<le> sb_population_timeout_seconds b"
    using assms by (simp_all add: overridable_def)
  note positive = this [THEN pos]
  with margin_pos positive show ?thesis using assms by (simp add: budget_validate_def overridable_def)
qed

text \<open>No environment can put a bound out of range: whatever numbers the operator sets, the
  resulting budget passes validation.\<close>

theorem budget_always_valid: "budget_validate (budget_from_env num) = Inr ()"
proof -
  define b where "b = override (num ''EPLYX_STRESS_POPULATION_TIMEOUT_SECONDS'')
      (\<lambda>v b. b\<lparr>sb_population_timeout_seconds := clamp 1 1800 v\<rparr>)
    (override (num ''EPLYX_STRESS_MAX_CASES'')
      (\<lambda>v b. b\<lparr>sb_max_selected_cases := clamp 1 32 (unat v)\<rparr>)
    (override (num ''EPLYX_STRESS_MAX_AUTHORITIES'')
      (\<lambda>v b. b\<lparr>sb_max_authority_lookups := min (unat v) (sb_max_decoded_accounts b)\<rparr>)
    (override (num ''EPLYX_STRESS_MAX_RESPONSE_MB'')
      (\<lambda>v b. b\<lparr>sb_max_response_bytes := clamp 1 536870912 (saturating_mul v 1048576)\<rparr>)
    (override (num ''EPLYX_STRESS_MAX_ACCOUNTS'')
      (\<lambda>v b. b\<lparr>sb_max_decoded_accounts := clamp 1 500000 (unat v)\<rparr>) default_budget))))"
  have "overridable b"
    unfolding b_def
    by (intro override_inv [where P = overridable] overridable_default overridable_set)
  then show ?thesis
    unfolding budget_from_env_def Let_def b_def [symmetric] by (simp add: overridable_valid)
qed


section \<open>What a checked run shows\<close>

lemma check_bound_Inr: "check_bound crs = Inr u \<longleftrightarrow> list_all (\<lambda>(c, r). bound_to_case c r) crs"
  by (induction crs rule: check_bound.induct) (auto simp: result_simps)

lemma check_results_Inr:
  "check_results rs = Inr u \<longleftrightarrow> list_all (\<lambda>r.
     (cr_status r = Proven \<longrightarrow> cr_execution_performed r \<and> cr_local_execution_performed r) \<and>
     cr_official_transition r = NotTested \<and> \<not> cr_issuer_binding_established r \<and>
     \<not> cr_funds_moved r \<and> \<not> cr_signer_possession_known r) rs"
  by (induction rs) (auto simp: result_simps)

lemma check_shapes_Inr:
  "check_shapes ids ss = Inr u \<longleftrightarrow> list_all (\<lambda>s.
     length (sc_executed_entity_ids s) = sc_entities_executed s \<and>
     sc_entities_executed s \<le> sc_entities_selected s \<and>
     sc_entities_selected s \<le> sc_entities_in_shape s \<and>
     sc_entities_untested s = sc_entities_in_shape s - sc_entities_executed s \<and>
     set (sc_executed_entity_ids s) \<subseteq> set ids \<and> sc_proof_scope s = SHAPE_PROOF_SCOPE) ss"
  by (induction ss) (auto simp: result_simps list_all_iff)

lemma length_btree_set: "length (btree_set xs) = length xs \<longleftrightarrow> distinct xs"
  by (simp add: btree_set_def)

lemma no_inheritance_Inr:
  "assert_no_proof_inheritance selected results shapes = Inr u \<longleftrightarrow>
     distinct (map sel_entity_id selected) \<and> distinct (map sel_case_id selected) \<and>
     list_all2 bound_to_case selected results \<and> check_results results = Inr () \<and>
     check_shapes (btree_set (map sel_entity_id selected)) shapes = Inr ()"
proof -
  have bound: "length results = length selected \<Longrightarrow>
      list_all (\<lambda>(c, r). bound_to_case c r) (zip selected results) = list_all2 bound_to_case selected results"
    by (auto simp: list_all2_iff list_all_iff)
  have len: "list_all2 bound_to_case selected results \<Longrightarrow> length results = length selected"
    using list_all2_lengthD [of bound_to_case selected results] by simp
  have proven: "set (map cr_entity_id results) = set (map sel_entity_id selected)"
    if "list_all2 bound_to_case selected results"
  proof -
    have "map cr_entity_id results = map sel_entity_id selected"
      using that by (induction rule: list_all2_induct) (auto simp: bound_to_case_def)
    then show ?thesis by simp
  qed
  show ?thesis
    unfolding assert_no_proof_inheritance_def Let_def and_then_Inr ensure_Inr check_bound_Inr
      length_btree_set [of "map sel_entity_id selected", unfolded length_map]
      length_btree_set [of "map sel_case_id selected", unfolded length_map]
    using bound len proven by (auto simp: list_all_iff)
qed


definition ex_case_plan :: ConversionPlan where
  "ex_case_plan = \<lparr>cp_schema_version = 1, cp_id = ''p-s00'', cp_version = 1,
     cp_provenance = OperatorSupplied, cp_mechanism = EplyxDemoCandidateConversion,
     cp_adapter_id = ADAPTER_ID, cp_mechanism_ref = ''demo'', cp_source_mint = ''m'',
     cp_replacement_mint = ''n'', cp_source_account = ''a'', cp_amount_mode = Custom,
     cp_amount_decimal = Some ''0.000007'',
     cp_terms = \<lparr>ct_ratio_numerator = 1, ct_ratio_denominator = 1, ct_rounding = Floor,
       ct_conversion_fee_bps = 0\<rparr>,
     cp_authority_model = \<lparr>am_holder_signs = True, am_candidate_authority = ProgramDerived\<rparr>,
     cp_source_consumption = Burn, cp_replacement_delivery = ProposedReserveRelease,
     cp_reserve = \<lparr>rv_funded_replacement_raw = ''100''\<rparr>, cp_effective_at = None, cp_deadline = None\<rparr>"

definition ex_case :: SelectedCase where
  "ex_case = \<lparr>sel_case_id = ''case-00'', sel_selection_order = 0,
     sel_selection_reason = NewStateShape, sel_selection_detail = [], sel_entity_id = ''e:a'',
     sel_token_account = ''a'', sel_authority = ''w'', sel_authority_model = WalletCompatible,
     sel_state_shape_sha256 = ''s'', sel_shape_label = [], sel_balance_bucket = 0,
     sel_observed_balance_raw = ''7'', sel_discovery_slot = 5, sel_selected_amount_raw = ''7'',
     sel_selected_amount_decimal = ''0.000007'', sel_amount_policy = [], sel_amount_capped = False,
     sel_case_plan = ex_case_plan, sel_case_plan_sha256 = ''p''\<rparr>"

definition ex_result :: CaseResult where
  "ex_result = \<lparr>cr_case_id = ''case-00'', cr_entity_id = ''e:a'', cr_token_account = ''a'',
     cr_authority = ''w'', cr_authority_model = WalletCompatible, cr_state_shape_sha256 = ''s'',
     cr_shape_label = [], cr_balance_bucket = 0, cr_selection_reason = NewStateShape,
     cr_selected_amount_raw = ''7'', cr_selected_amount_decimal = ''0.000007'',
     cr_case_plan_sha256 = ''p'', cr_candidate_program_sha256 = [], cr_status = Proven,
     cr_reason = None, cr_execution_performed = True, cr_local_execution_performed = True,
     cr_signer_assumed_locally = True, cr_signer_possession_known = False,
     cr_candidate_authority_assumed_locally = True, cr_issuer_binding_established = False,
     cr_official_transition = NotTested, cr_funds_moved = False,
     cr_execution_fixture_sha256 = None, cr_acquisition = JNull, cr_detail = JNull,
     cr_result_sha256 = []\<rparr>"

definition ex_coverage :: ShapeCoverage where
  "ex_coverage = \<lparr>sc_state_shape_sha256 = ''s'', sc_shape_label = [],
     sc_eligibility = ExecutableCandidate, sc_entities_in_shape = 3, sc_entities_selected = 1,
     sc_entities_executed = 1, sc_executed_entity_ids = [''e:a''], sc_entities_untested = 2,
     sc_represented_raw = ''9'', sc_tested_raw = ''7'', sc_proof_scope = SHAPE_PROOF_SCOPE\<rparr>"


end
