(* ===== verification/StressClassify.thy ===== *)
theory StressClassify
  imports Stress
begin

text \<open>
  State shapes (\<open>engine/src/stress/classify.rs\<close>): the execution-relevant dimensions of an account,
  its presentational label, and whether the candidate conversion can be attempted for it at all.
  The label's separator is the UTF-8 encoding of a middle dot. What is proved: when an account is
  executable, and that an executable account's authority is a wallet in the captured chain state.
\<close>

record ShapeDimensions =
  sd_authority_model :: string
  sd_authority_resolved :: bool
  sd_authority_on_curve :: bool
  sd_authority_account_exists :: bool
  sd_authority_runtime_owner :: "string option"
  sd_authority_executable :: "bool option"
  sd_account_initialized :: bool
  sd_account_frozen :: bool
  sd_delegate_present :: bool
  sd_active_delegation :: bool
  sd_close_authority_present :: bool
  sd_account_extension_types :: "string list"
  sd_mint_token_program :: string
  sd_mint_paused :: bool
  sd_mint_transfer_hook_active :: bool
  sd_mint_transfer_fee_configured :: bool
  sd_mint_default_account_state :: "string option"
  sd_mint_permanent_delegate :: bool
  sd_mint_confidential_transfer :: bool
  sd_mint_confidential_mint_burn :: bool
  sd_mint_non_transferable :: bool
  sd_balance_positive :: bool

definition mint_extension :: "MintConfig \<Rightarrow> string \<Rightarrow> TokenExtension option" where
  "mint_extension mint name = find (\<lambda>e. te_extension_type e = name) (mint_extensions mint)"

definition extension_with :: "(json \<Rightarrow> bool) \<Rightarrow> TokenExtension option \<Rightarrow> bool" where
  "extension_with P e = (case e of None \<Rightarrow> False | Some e \<Rightarrow> P (te_config e))"

definition dimensions :: "StressEntity \<Rightarrow> MintConfig \<Rightarrow> ShapeDimensions" where
  "dimensions e mint =
     (let has = (\<lambda>name. mint_extension mint name \<noteq> None); s = se_state e in
      \<lparr>sd_authority_model = entity_type_name (se_authority_model e),
       sd_authority_resolved = (se_authority_resolution e = Resolved),
       sd_authority_on_curve = ao_is_on_curve (se_authority_observation e),
       sd_authority_account_exists = ao_account_exists (se_authority_observation e),
       sd_authority_runtime_owner = ao_runtime_owner (se_authority_observation e),
       sd_authority_executable = ao_executable (se_authority_observation e),
       sd_account_initialized = ta_is_initialized s,
       sd_account_frozen = ta_is_frozen s,
       sd_delegate_present = (ta_delegate s \<noteq> None),
       sd_active_delegation = ta_has_active_delegate s,
       sd_close_authority_present = (ta_close_authority s \<noteq> None),
       sd_account_extension_types = sort (map te_extension_type (ta_extensions s)),
       sd_mint_token_program = mint_token_program mint,
       sd_mint_paused =
         extension_with (\<lambda>c. as_bool (json_at c ''paused'') = Some True) (mint_extension mint ''Pausable''),
       sd_mint_transfer_hook_active =
         extension_with (\<lambda>c. json_at c ''programId'' \<noteq> JNull) (mint_extension mint ''TransferHook''),
       sd_mint_transfer_fee_configured = has ''TransferFeeConfig'',
       sd_mint_default_account_state =
         Option.bind (mint_extension mint ''DefaultAccountState'')
           (\<lambda>x. as_str (json_at (te_config x) ''state'')),
       sd_mint_permanent_delegate = has ''PermanentDelegate'',
       sd_mint_confidential_transfer = has ''ConfidentialTransferMint'',
       sd_mint_confidential_mint_burn = has ''ConfidentialMintBurn'',
       sd_mint_non_transferable = has ''NonTransferable'',
       sd_balance_positive = (ta_raw_balance s \<noteq> ''0'')\<rparr>)"

text \<open>\<open>Vec::join\<close> and \<open>str::contains\<close>.\<close>

fun join_with :: "string \<Rightarrow> string list \<Rightarrow> string" where
  "join_with sep [] = []"
| "join_with sep [x] = x"
| "join_with sep (x # y # xs) = x @ sep @ join_with sep (y # xs)"

fun str_contains :: "string \<Rightarrow> string \<Rightarrow> bool" where
  "str_contains pat [] \<longleftrightarrow> pat = []"
| "str_contains pat (c # s) \<longleftrightarrow> take (length pat) (c # s) = pat \<or> str_contains pat s"

definition shape_label :: "ShapeDimensions \<Rightarrow> string" where
  "shape_label d =
     (let authority =
            (if sd_authority_model d = ''WalletCompatible'' then ''Direct wallet authority''
             else if sd_authority_model d = ''ProgramOwnedAuthority'' then ''Program-controlled authority''
             else if sd_authority_model d = ''TokenMultisig'' then ''SPL multisig authority''
             else if \<not> sd_authority_resolved d then ''Unresolved authority model''
             else ''Unknown authority'');
          parts = [authority] @
            [if \<not> sd_account_initialized d then ''uninitialized''
             else if sd_account_frozen d then ''frozen'' else ''initialized''] @
            (if sd_active_delegation d then [''active delegation'']
             else if sd_delegate_present d then [''delegate set''] else []) @
            (if sd_close_authority_present d then [''close authority set''] else []) @
            (if sd_account_extension_types d \<noteq> []
             then [''account extensions: '' @ join_with '', '' (sd_account_extension_types d)] else []) @
            (if sd_mint_paused d then [''mint paused''] else []) @
            (if sd_mint_transfer_hook_active d then [''transfer hook active''] else []) @
            [if sd_balance_positive d then ''positive balance'' else ''zero balance'']
      in join_with [CHR '' '', CHR 0xC2, CHR 0xB7, CHR '' ''] parts)"

definition eligibility :: "ShapeDimensions \<Rightarrow> Eligibility \<times> string" where
  "eligibility d =
     (if \<not> sd_balance_positive d then (Invalid,
        ''Zero observed public balance. A zero balance is not conversion exposure and is never selected; it is also not evidence that an encrypted balance is zero.'')
      else if \<not> sd_account_initialized d then (UnsupportedEligibility,
        ''Uninitialized source token account. The candidate mechanism has no supported precondition for this state.'')
      else if sd_account_frozen d then (UnsupportedEligibility,
        ''Frozen source token account. The candidate burn cannot be attempted while the account is frozen, and no thaw authority is assumed.'')
      else if list_ex (str_contains ''Confidential'') (sd_account_extension_types d) then (UnsupportedEligibility,
        ''Confidential account state. Encrypted balances are outside this decoder and executor; the balance is unknown, not zero.'')
      else if sd_mint_paused d then (UnsupportedEligibility,
        ''The source mint is paused. No candidate burn can be attempted against a paused mint.'')
      else if sd_mint_confidential_mint_burn d then (UnsupportedEligibility,
        ''The source mint uses confidential mint/burn. The candidate burn path is unsupported for this configuration.'')
      else if \<not> sd_authority_resolved d then (CaptureRequired,
        ''This account's recorded authority was inside the population but outside the declared authority-lookup budget. Its authority model is unknown; resolving it requires further capture, and no signer is assumed meanwhile.'')
      else if sd_authority_model d = ''WalletCompatible'' then (ExecutableCandidate,
        ''On-curve, existing, non-executable System-owned authority with empty data. The candidate conversion can be attempted under locally assumed holder signing; key possession remains unknown.'')
      else if sd_authority_model d = ''ProgramOwnedAuthority'' then (UnsupportedEligibility,
        ''The recorded authority is owned by a non-System runtime program. The controlling program's signing path is not implemented, and no wallet signer is substituted for it.'')
      else if sd_authority_model d = ''TokenMultisig'' then (UnsupportedEligibility,
        ''The recorded authority is an initialized SPL multisig. Threshold signing is not implemented by this executor.'')
      else (UnsupportedEligibility,
        ''The recorded authority is off-curve, absent, executable or carries account data. Control is unproven, so no signer is assumed.''))"

definition assumed_local_signer :: "EntityType \<Rightarrow> AuthorityResolution \<Rightarrow> bool" where
  "assumed_local_signer model resolution \<longleftrightarrow> resolution = Resolved \<and> model = WalletCompatible"

section \<open>When an account is executable\<close>

text \<open>An entity whose classification is the one the captured authority record gives.\<close>

definition classified_from :: "chain \<Rightarrow> json \<Rightarrow> StressEntity \<Rightarrow> bool" where
  "classified_from chain raw e \<longleftrightarrow>
     classify_authority chain (se_authority e) raw =
       Inr (se_authority_model e, se_authority_observation e, se_classification_reason e)"

lemma entity_type_name_wallet: "entity_type_name m = ''WalletCompatible'' \<longleftrightarrow> m = WalletCompatible"
  by (cases m) simp_all

lemma executable_iff:
  "fst (eligibility (dimensions e mint)) = ExecutableCandidate \<longleftrightarrow>
     ta_raw_balance (se_state e) \<noteq> ''0'' \<and> ta_is_initialized (se_state e) \<and>
     \<not> ta_is_frozen (se_state e) \<and>
     \<not> list_ex (\<lambda>x. str_contains ''Confidential'' (te_extension_type x)) (ta_extensions (se_state e)) \<and>
     \<not> extension_with (\<lambda>c. as_bool (json_at c ''paused'') = Some True) (mint_extension mint ''Pausable'') \<and>
     mint_extension mint ''ConfidentialMintBurn'' = None \<and>
     se_authority_resolution e = Resolved \<and> se_authority_model e = WalletCompatible"
  by (simp add: eligibility_def dimensions_def Let_def entity_type_name_wallet list_ex_iff)

text \<open>C36. The candidate conversion is attempted only for accounts whose holder could sign it. An
  account is executable exactly when it has a balance, is initialised, not frozen, free of
  confidential state, its mint neither paused nor using confidential burns, and its authority was
  inspected and found to be a wallet; a local signer may then be assumed, and the captured record
  of the authority is that of an on-curve, non-executable, empty System-owned account.\<close>

theorem executable_only_for_wallets:
  assumes "classified_from chain raw e"
  shows "(fst (eligibility (dimensions e mint)) = ExecutableCandidate \<longleftrightarrow>
      ta_raw_balance (se_state e) \<noteq> ''0'' \<and> ta_is_initialized (se_state e) \<and>
      \<not> ta_is_frozen (se_state e) \<and>
      \<not> list_ex (\<lambda>x. str_contains ''Confidential'' (te_extension_type x)) (ta_extensions (se_state e)) \<and>
      \<not> extension_with (\<lambda>c. as_bool (json_at c ''paused'') = Some True) (mint_extension mint ''Pausable'') \<and>
      mint_extension mint ''ConfidentialMintBurn'' = None \<and>
      assumed_local_signer (se_authority_model e) (se_authority_resolution e)) \<and>
    (if fst (eligibility (dimensions e mint)) = ExecutableCandidate then
       (case ch_parse_address chain (se_authority e) of
          None \<Rightarrow> False | Some addr \<Rightarrow> ch_is_on_curve chain addr) \<and>
       as_str (json_at raw ''owner'') = Some SYSTEM_PROGRAM \<and>
       as_bool (json_at raw ''executable'') = Some False \<and> raw_account_bytes chain raw = Inr []
     else True)"
proof -
  have "(case ch_parse_address chain (se_authority e) of
          None \<Rightarrow> False | Some addr \<Rightarrow> ch_is_on_curve chain addr) \<and>
      as_str (json_at raw ''owner'') = Some SYSTEM_PROGRAM \<and>
      as_bool (json_at raw ''executable'') = Some False \<and> raw_account_bytes chain raw = Inr []"
    if "se_authority_model e = WalletCompatible"
    using classify_wallet [of chain "se_authority e" raw] assms that
    by (auto simp: classified_from_def)
  then show ?thesis
    unfolding executable_iff assumed_local_signer_def by auto
qed

definition ex_authority_raw :: json where
  "ex_authority_raw = JObject [(''data'', JArray [JString [], JString ''base64'']),
     (''executable'', JBool False), (''owner'', JString SYSTEM_PROGRAM)]"

definition ex_chain :: chain where
  "ex_chain = \<lparr>ch_parse_address = (\<lambda>s. Some (map (\<lambda>c. of_nat (of_char c)) s)),
     ch_show_address = map (\<lambda>b. char_of (unat b)), ch_is_on_curve = (\<lambda>_. True),
     ch_find_program_address = (\<lambda>seeds program. (concat seeds @ program, 255)),
     ch_base64 = (\<lambda>s. if s = [] then Some [] else None), ch_sha256 = (\<lambda>_. ''digest''),
     ch_parse_time = (\<lambda>s. Some (int (length s))), ch_multisig = (\<lambda>_. None),
     ch_spl = \<lparr>spl_unpack_account = (\<lambda>_. None), spl_unpack_mint = (\<lambda>_. None),
       spl_account_state = (\<lambda>_. None), spl_uninitialized_state = (\<lambda>_. None),
       spl_mint_state = (\<lambda>_. None)\<rparr>\<rparr>"

definition ex_entity :: "string \<Rightarrow> string \<Rightarrow> StressEntity" where
  "ex_entity acct held =
     \<lparr>se_entity_id = ''e:'' @ acct, se_token_account = acct, se_mint = ''m'',
      se_token_program = LEGACY_PROGRAM, se_authority = ''w'', se_authority_model = WalletCompatible,
      se_authority_resolution = Resolved,
      se_authority_observation = \<lparr>ao_is_on_curve = True, ao_account_exists = True,
        ao_runtime_owner = Some SYSTEM_PROGRAM, ao_executable = Some False, ao_multisig = None\<rparr>,
      se_classification_reason =
        ''On-curve authority with an existing empty System-owned account; no human identity inferred'',
      se_state = \<lparr>ta_mint = ''m'', ta_owner = ''w'', ta_raw_balance = held, ta_ui_balance = held,
        ta_ui_balance_basis = [], ta_account_state = ''Initialized'', ta_delegate = None,
        ta_delegated_amount = ''0'', ta_close_authority = None, ta_native_reserve = None,
        ta_is_frozen = False, ta_is_initialized = True, ta_has_active_delegate = False,
        ta_extensions = []\<rparr>,
      se_token_account_evidence = \<lparr>ev_rpc_id = 2, ev_pointer = ''/value/0'', ev_slot = 5\<rparr>,
      se_authority_evidence = None\<rparr>"

definition ex_mint :: MintConfig where
  "ex_mint = \<lparr>mint_token_program = LEGACY_PROGRAM, mint_is_token_2022 = False, mint_decimals = 6,
     mint_raw_supply = ''100'', mint_decimal_supply = ''0.0001'', mint_mint_authority = None,
     mint_freeze_authority = None, mint_is_initialized = True, mint_extensions = []\<rparr>"

theorem executable_only_for_wallets_witness:
  "fst (eligibility (dimensions (ex_entity ''a'' ''7'') ex_mint)) = ExecutableCandidate \<and>
   raw_account_bytes ex_chain ex_authority_raw = Inr []"
proof -
  have "classified_from ex_chain ex_authority_raw (ex_entity ''a'' ''7'')"
    by (simp add: classified_from_def classify_authority_def ex_chain_def ex_authority_raw_def
        ex_entity_def json_at_def raw_account_bytes_def Let_def)
  from executable_only_for_wallets [OF this, of ex_mint]
  show ?thesis
    by (simp add: ex_entity_def ex_mint_def mint_extension_def extension_with_def assumed_local_signer_def)
qed

end
