(* ===== verification/StressPopulation.thy ===== *)
theory StressPopulation
  imports StressClassify
begin

text \<open>
  The observed population of one mint (\<open>engine/src/stress/population.rs\<close>): what a capture establishes
  about its acquisition, its enumeration, its authorities and its accounts, and the failures of the
  account scan. Two axes are independent: whether every account was enumerated, and whether every
  authority was inspected.
\<close>

record UndecodedAccount =
  ud_address :: string
  ud_reason :: string
  ud_raw_data_sha256 :: "string option"
  ud_evidence :: EvidenceRef

record Acquisition =
  aq_started_at :: string
  aq_completed_at :: string
  aq_rpc_origin :: string
  aq_genesis_hash :: string
  aq_commitment :: string
  aq_context_slots :: "u64 list"
  aq_atomic_single_slot :: bool
  aq_consistency :: string
  aq_decoder :: string
  aq_rpc_methods :: "string list"

record Enumeration =
  en_method :: string
  en_program :: string
  en_filters :: json
  en_completeness :: EnumerationCompleteness
  en_enumeration_slot :: "u64 option"
  en_rows_returned :: nat
  en_rows_decoded :: nat
  en_rows_undecodable :: nat
  en_decode_limit :: nat
  en_response_byte_limit :: u64
  en_gaps :: "string list"
  en_scope :: string

record AuthoritySummary =
  as_completeness :: AuthorityResolutionCompleteness
  as_distinct_positive_balance_authorities :: nat
  as_authorities_inspected :: nat
  as_authorities_unresolved :: nat
  as_batches_performed :: nat
  as_lookup_limit :: nat
  as_batch_size :: nat
  as_gaps :: "string list"
  as_independence :: string

record PopulationCounts =
  pc_token_accounts_observed :: nat
  pc_positive_balance_accounts_observed :: nat
  pc_zero_balance_accounts_observed :: nat
  pc_undecodable_rows_observed :: nat
  pc_distinct_recorded_authorities :: nat
  pc_distinct_positive_balance_authorities :: nat
  pc_authority_model_counts :: "(string, nat) btree_map"
  pc_positive_balance_authority_model_counts :: "(string, nat) btree_map"
  pc_frozen_accounts :: nat
  pc_uninitialized_accounts :: nat
  pc_delegate_present_accounts :: nat
  pc_active_delegation_accounts :: nat
  pc_close_authority_accounts :: nat
  pc_account_extension_counts :: "(string, nat) btree_map"
  pc_observed_public_balance_raw :: string
  pc_terminology :: string

record PopulationObservation =
  po_schema_version :: u32
  po_kind :: string
  po_run_id :: string
  po_stress_id :: string
  po_mint :: string
  po_capture_sha256 :: string
  po_budget :: StressBudget
  po_mint_config :: "MintConfig option"
  po_mint_slot :: "u64 option"
  po_acquisition :: Acquisition
  po_enumeration :: Enumeration
  po_authority_resolution :: AuthoritySummary
  po_entities :: "StressEntity list"
  po_undecoded :: "UndecodedAccount list"
  po_summary :: PopulationCounts
  po_limitations :: "string list"

definition fully_resolved :: "PopulationObservation \<Rightarrow> bool" where
  "fully_resolved p \<longleftrightarrow>
     en_completeness (po_enumeration p) = CompleteForQuery \<and>
     as_completeness (po_authority_resolution p) = CompleteResolution"

definition positive_entities :: "PopulationObservation \<Rightarrow> StressEntity list" where
  "positive_entities p = filter (\<lambda>e. ta_raw_balance (se_state e) \<noteq> ''0'') (po_entities p)"

text \<open>A provider failure, mapped by its error code.\<close>

definition scan_failure :: "string \<Rightarrow> EnumerationCompleteness \<times> string" where
  "scan_failure error =
     (if str_contains ''-32601'' error \<or> str_contains ''-32010'' error then
        (UnsupportedEnumeration,
         ''The configured provider cannot return this filtered getProgramAccounts enumeration as one complete response. Population discovery is unsupported for this query; no saved population was substituted.'')
      else if str_contains ''exceeds observation budget'' error then
        (Unavailable,
         ''The enumeration response exceeded the declared response byte budget, so no rows were accepted. The number of current token accounts is unknown for this run.'')
      else
        (Unavailable,
         ''Population discovery incomplete: the enumeration request did not return usable rows ('' @ error @
         ''). No saved population was substituted.''))"

end
