(* ===== verification/TokenState.thy ===== *)
theory TokenState
  imports LifecycleTypes "HOL-Library.Multiset"
begin

text \<open>
  Decoding of mints and token accounts (\<open>engine/src/lifecycle/decode.rs\<close>). The SPL layouts are the
  parameter \<open>ch_spl\<close>; the code's own walk over the extension records, its checks and the decoded
  state are here. What is proved: the walk accounts for every byte after the base layout.
\<close>

section \<open>Extensions\<close>

text \<open>One extension: its record is a four-byte header and a payload inside the data. The payload
  length is two little-endian bytes; \<open>pos\<close> cannot overflow, being bounded by the length of a
  buffer plus \<open>65539\<close>.\<close>

definition tlv_length :: "u8 list \<Rightarrow> nat \<Rightarrow> nat" where
  "tlv_length tlv pos = of_le_nat [tlv ! (pos + 2), tlv ! (pos + 3)]"

definition decode_extension ::
  "tlv_state \<Rightarrow> AccountType \<Rightarrow> u16 list \<Rightarrow> nat \<Rightarrow> extension_type \<Rightarrow> message + (nat \<times> TokenExtension)"
where
  "decode_extension st expected seen pos t =
     and_then (ensure (xt_id t \<notin> set seen) ''duplicate Token-2022 extension'') (\<lambda>_.
     and_then (ensure (xt_account_type t = expected) ''extension on wrong account type'') (\<lambda>_.
     and_then (ensure (pos + 4 \<le> length (tlv_data st)) ''truncated TLV header'') (\<lambda>_.
     let pos = pos + (4 + tlv_length (tlv_data st) pos) in
     and_then (ensure (pos \<le> length (tlv_data st)) ''truncated TLV payload'') (\<lambda>_.
     and_then (ensure (xt_id t \<noteq> 0) ''unexpected uninitialized extension'') (\<lambda>_.
     and_then (tlv_config st (xt_id t)) (\<lambda>config.
     Inr (pos, \<lparr>te_extension_type = xt_name t, te_type_id = xt_id t, te_config = config\<rparr>)))))))"

fun decode_extension_list ::
  "tlv_state \<Rightarrow> AccountType \<Rightarrow> u16 list \<Rightarrow> nat \<Rightarrow> extension_type list \<Rightarrow>
   message + (nat \<times> TokenExtension list)" where
  "decode_extension_list st expected seen pos [] = Inr (pos, [])"
| "decode_extension_list st expected seen pos (t # ts) =
     and_then (decode_extension st expected seen pos t) (\<lambda>(pos, x).
     and_then (decode_extension_list st expected (xt_id t # seen) pos ts) (\<lambda>(pos, xs).
     Inr (pos, x # xs)))"

definition decode_extensions :: "tlv_state \<Rightarrow> AccountType \<Rightarrow> message + TokenExtension list" where
  "decode_extensions st expected =
     and_then (ok_or (tlv_types st) ''unsupported or malformed Token-2022 TLV'') (\<lambda>types.
     and_then (decode_extension_list st expected [] 0 types) (\<lambda>(pos, result).
     and_then (ensure (list_all (\<lambda>b. b = 0) (drop pos (tlv_data st)))
                 ''nonzero trailing Token-2022 TLV data'') (\<lambda>_.
     Inr (sort_key te_type_id result))))"

section \<open>Mints and accounts\<close>

definition check_program :: "string \<Rightarrow> message + unit" where
  "check_program p =
     ensure (p = LEGACY_PROGRAM \<or> p = TOKEN_2022_PROGRAM) (''unsupported token program '' @ p)"

definition decode_mint :: "chain \<Rightarrow> json \<Rightarrow> message + MintConfig" where
  "decode_mint chain raw =
     and_then (ok_or (as_str (json_at raw ''owner'')) ''mint lacks runtime owner'') (\<lambda>program.
     and_then (check_program program) (\<lambda>_.
     and_then (account_bytes chain raw program) (\<lambda>bytes.
     and_then (if program = TOKEN_2022_PROGRAM then
                 and_then (ok_or (spl_mint_state (ch_spl chain) bytes)
                             ''malformed or uninitialized Token-2022 mint'') (\<lambda>(base, st).
                 and_then (decode_extensions st MintAccount) (\<lambda>xs. Inr (base, xs)))
               else
                 and_then (ok_or (spl_unpack_mint (ch_spl chain) bytes)
                             ''malformed or uninitialized legacy mint'') (\<lambda>base. Inr (base, []))) (\<lambda>(m, xs).
     Inr \<lparr>mint_token_program = program, mint_is_token_2022 = (program = TOKEN_2022_PROGRAM),
          mint_decimals = spm_decimals m, mint_raw_supply = show_nat (unat (spm_supply m)),
          mint_decimal_supply = decimal_amount (spm_supply m) (spm_decimals m),
          mint_mint_authority = map_option (ch_show_address chain) (spm_mint_authority m),
          mint_freeze_authority = map_option (ch_show_address chain) (spm_freeze_authority m),
          mint_is_initialized = spm_is_initialized m, mint_extensions = xs\<rparr>))))"

abbreviation ACCOUNT_LEN :: nat where "ACCOUNT_LEN \<equiv> 165"

definition unpack_token_account ::
  "chain \<Rightarrow> string \<Rightarrow> u8 list \<Rightarrow> message + (spl_account \<times> TokenExtension list)" where
  "unpack_token_account chain program bytes =
     (if program = TOKEN_2022_PROGRAM then
        and_then (ensure (ACCOUNT_LEN \<le> length bytes) ''Token-2022 account shorter than base layout'') (\<lambda>_.
        and_then (ok_or (spl_unpack_account (ch_spl chain) (take ACCOUNT_LEN bytes))
                    ''malformed token account base'') (\<lambda>base.
        and_then (if spa_state base \<noteq> Uninitialized
                  then ok_or (spl_account_state (ch_spl chain) bytes) ''malformed Token-2022 account''
                  else ok_or (spl_uninitialized_state (ch_spl chain) bytes)
                         ''malformed uninitialized Token-2022 account'') (\<lambda>(base, st).
        and_then (decode_extensions st TokenAccount) (\<lambda>xs. Inr (base, xs)))))
      else
        and_then (ok_or (spl_unpack_account (ch_spl chain) bytes) ''malformed legacy token account'')
          (\<lambda>base. Inr (base, [])))"

fun account_state_name :: "AccountState \<Rightarrow> string" where
  "account_state_name Uninitialized = ''Uninitialized''"
| "account_state_name Initialized = ''Initialized''"
| "account_state_name Frozen = ''Frozen''"

definition decode_token_account ::
  "chain \<Rightarrow> json \<Rightarrow> string \<Rightarrow> string \<Rightarrow> u8 \<Rightarrow> message + TokenAccountState" where
  "decode_token_account chain raw program mint decimals =
     and_then (check_program program) (\<lambda>_.
     and_then (account_bytes chain raw program) (\<lambda>bytes.
     and_then (unpack_token_account chain program bytes) (\<lambda>(base, xs).
     and_then (ensure (ch_show_address chain (spa_mint base) = mint)
                 ''token account belongs to a different mint'') (\<lambda>_.
     Inr \<lparr>ta_mint = mint, ta_owner = ch_show_address chain (spa_owner base),
          ta_raw_balance = show_nat (unat (spa_amount base)),
          ta_ui_balance = decimal_amount (spa_amount base) decimals,
          ta_ui_balance_basis = ''raw_balance / 10^decimals; no UI transform'',
          ta_account_state = account_state_name (spa_state base),
          ta_delegate = map_option (ch_show_address chain) (spa_delegate base),
          ta_delegated_amount = show_nat (unat (spa_delegated_amount base)),
          ta_close_authority = map_option (ch_show_address chain) (spa_close_authority base),
          ta_native_reserve = map_option (\<lambda>v. show_nat (unat v)) (spa_is_native base),
          ta_is_frozen = (spa_state base = Frozen),
          ta_is_initialized = (spa_state base \<noteq> Uninitialized),
          ta_has_active_delegate = (spa_delegate base \<noteq> None \<and> 0 < spa_delegated_amount base),
          ta_extensions = xs\<rparr>))))"

section \<open>Facts\<close>

text \<open>The bytes of the records walked over, one after the other from the start of the data.\<close>

fun tlv_records :: "u8 list \<Rightarrow> nat \<Rightarrow> nat \<Rightarrow> nat \<Rightarrow> bool" where
  "tlv_records tlv pos 0 stop \<longleftrightarrow> pos = stop"
| "tlv_records tlv pos (Suc n) stop \<longleftrightarrow>
     pos + 4 \<le> length tlv \<and> pos + (4 + tlv_length tlv pos) \<le> length tlv \<and>
     tlv_records tlv (pos + (4 + tlv_length tlv pos)) n stop"

lemma decode_extension_list_Inr:
  assumes "decode_extension_list st expected seen pos ts = Inr (stop, xs)"
  shows "map te_type_id xs = map xt_id ts \<and> distinct (map xt_id ts) \<and> set (map xt_id ts) \<inter> set seen = {} \<and>
    list_all (\<lambda>t. xt_account_type t = expected \<and> xt_id t \<noteq> 0) ts \<and>
    tlv_records (tlv_data st) pos (length ts) stop"
  using assms
proof (induction ts arbitrary: seen pos xs)
  case (Cons t ts)
  then obtain pos' x ys where x: "decode_extension st expected seen pos t = Inr (pos', x)"
    and ys: "decode_extension_list st expected (xt_id t # seen) pos' ts = Inr (stop, ys)" "xs = x # ys"
    by (auto simp: result_simps)
  note IH = Cons.IH [OF ys(1)]
  from x have "xt_id t \<notin> set seen" "xt_account_type t = expected" "xt_id t \<noteq> 0" "te_type_id x = xt_id t"
    "pos + 4 \<le> length (tlv_data st)" "pos' = pos + (4 + tlv_length (tlv_data st) pos)"
    "pos' \<le> length (tlv_data st)"
    by (auto simp: decode_extension_def Let_def result_simps)
  with IH ys(2) show ?case by auto
qed simp

lemma tlv_records_stop: "tlv_records tlv pos n stop \<Longrightarrow> pos \<le> length tlv \<Longrightarrow> pos + 4 * n \<le> stop \<and> stop \<le> length tlv"
  by (induction n arbitrary: pos) force+

lemma strictly_sorted_ids:
  "distinct (map te_type_id xs) \<Longrightarrow> sorted_wrt (<) (map te_type_id (sort_key te_type_id xs))"
  by (simp add: strict_sorted_iff distinct_map inj_on_def)

text \<open>C32. The extensions of a Token-2022 account are decoded completely or refused: when they are
  accepted, each extension type occurs once, is one of this kind of account and is none of the
  uninitialised ones, the result is in strictly ascending order of type, and the records cover the
  data after the base layout from its first byte to the last, where only zero padding may follow.\<close>

theorem extensions_complete:
  assumes "decode_extensions st expected = Inr xs"
  shows "sorted_wrt (<) (map te_type_id xs) \<and>
    (case tlv_types st of None \<Rightarrow> False | Some ts \<Rightarrow>
       mset (map te_type_id xs) = mset (map xt_id ts) \<and>
       list_all (\<lambda>t. xt_account_type t = expected \<and> xt_id t \<noteq> 0) ts) \<and>
    (\<exists>stop. tlv_records (tlv_data st) 0 (length xs) stop \<and> 4 * length xs \<le> stop \<and>
       stop \<le> length (tlv_data st) \<and> list_all (\<lambda>b. b = 0) (drop stop (tlv_data st)))"
proof -
  obtain ts stop ys where t: "tlv_types st = Some ts"
    and w: "decode_extension_list st expected [] 0 ts = Inr (stop, ys)"
    and z: "list_all (\<lambda>b. b = 0) (drop stop (tlv_data st))" and xs: "xs = sort_key te_type_id ys"
    using assms by (auto simp: decode_extensions_def result_simps)
  note f = decode_extension_list_Inr [OF w]
  have len: "length xs = length ts" 
  proof -
    have "length (map te_type_id ys) = length (map xt_id ts)" using f by (simp only:)
    then show ?thesis using xs by simp
  qed
  have "sorted_wrt (<) (map te_type_id xs)" unfolding xs using f by (intro strictly_sorted_ids) simp
  moreover have "mset (map te_type_id xs) = mset (map xt_id ts)" using f xs by (metis mset_map mset_sort)
  moreover have "4 * length xs \<le> stop \<and> stop \<le> length (tlv_data st)"
    using tlv_records_stop [of "tlv_data st" 0 "length ts" stop] f len by simp
  ultimately show ?thesis using t z f len by (simp only: option.case) blast
qed

definition ex_tlv :: tlv_state where
  "ex_tlv = \<lparr>tlv_types = Some [\<lparr>xt_name = ''Pausable'', xt_id = 26, xt_account_type = MintAccount\<rparr>,
      \<lparr>xt_name = ''NonTransferable'', xt_id = 9, xt_account_type = MintAccount\<rparr>],
     tlv_data = [26, 0, 1, 0, 1, 9, 0, 0, 0, 0, 0], tlv_config = (\<lambda>_. Inr (JObject []))\<rparr>"

theorem extensions_complete_witness:
  "\<exists>xs. decode_extensions ex_tlv MintAccount = Inr xs \<and> sorted_wrt (<) (map te_type_id xs) \<and> length xs = 2"
proof -
  have "\<exists>xs. decode_extensions ex_tlv MintAccount = Inr xs \<and> length xs = 2"
    by (simp add: decode_extensions_def decode_extension_def ex_tlv_def tlv_length_def Let_def)
  then obtain xs where xs: "decode_extensions ex_tlv MintAccount = Inr xs" "length xs = 2" by blast
  with extensions_complete [OF xs(1)] show ?thesis by blast
qed

end
