(* ===== verification/StressCapture.thy ===== *)
theory StressCapture
  imports StressPopulation TokenState
begin

text \<open>
  Rebuilding a population from its raw capture (\<open>engine/src/stress/population.rs\<close>): the recorded
  requests are checked against what the mint and budget ask for, every accepted row is decoded or
  kept apart, authorities are resolved batch by batch as far as the capture goes, and nothing that
  is counted or classified is read from the capture file itself. JSON objects are in the key order
  of \<open>serde_json\<close> maps, which is ascending.
\<close>

section \<open>Captures\<close>

record Observation =
  ob_method :: string
  ob_params :: json
  ob_started_at :: string
  ob_completed_at :: string
  ob_result :: "json option"
  ob_error :: "string option"

record Capture =
  cap_schema_version :: u32
  cap_kind :: string
  cap_run_id :: string
  cap_stress_id :: string
  cap_mint :: string
  cap_budget :: StressBudget
  cap_rpc_origin :: string
  cap_started_at :: string
  cap_completed_at :: string
  cap_decoder :: string
  cap_observations :: "Observation list"

abbreviation MAINNET :: string where "MAINNET \<equiv> ''5eykt4UsFv8P8NJdTREpY1vzqKqZKvdpKuc147dw2N9d''"
abbreviation DECODER :: string where
  "DECODER \<equiv> ''spl-token-2022-interface/3.1.1; conversion-stress-population/v1''"
abbreviation DECODER_V2 :: string where
  "DECODER_V2 \<equiv> ''spl-token-2022-interface/3.1.1; conversion-stress-population/v2''"
abbreviation POPULATION_KIND :: string where "POPULATION_KIND \<equiv> ''conversion-stress-population''"

definition base_config :: json where
  "base_config = JObject [(''commitment'', JString ''finalized''), (''encoding'', JString ''base64'')]"

definition min_config :: "u64 \<Rightarrow> json" where
  "min_config slot =
     JObject [(''commitment'', JString ''finalized''), (''encoding'', JString ''base64''),
       (''minContextSlot'', JNumber (PosInt slot))]"

definition mint_filter :: "string \<Rightarrow> json" where
  "mint_filter mint =
     JArray [JObject [(''memcmp'', JObject [(''bytes'', JString mint), (''offset'', JNumber (PosInt 0))])]]"

definition enumeration_config :: "string \<Rightarrow> u64 \<Rightarrow> json" where
  "enumeration_config mint slot =
     JObject [(''commitment'', JString ''finalized''), (''encoding'', JString ''base64''),
       (''filters'', mint_filter mint), (''minContextSlot'', JNumber (PosInt slot)),
       (''withContext'', JBool True)]"

definition context_slot :: "json \<Rightarrow> message + u64" where
  "context_slot v =
     ok_or (as_u64 (json_at (json_at v ''context'') ''slot'')) ''missing RPC response context slot''"

text \<open>A record must answer the expected request, within the capture's interval, with either a result
  or an error. The message of an unreadable timestamp is the parser's.\<close>

definition checked :: "chain \<Rightarrow> Capture \<Rightarrow> nat \<Rightarrow> string \<Rightarrow> json \<Rightarrow> message + Observation" where
  "checked chain c i method params =
     (if i < length (cap_observations c) then
        let r = cap_observations c ! i; time = (\<lambda>s. ok_or (ch_parse_time chain s) ''invalid timestamp'') in
        and_then (ensure (ob_method r = method \<and> ob_params r = params)
                    (''population acquisition request binding mismatch at record '' @ show_nat i)) (\<lambda>_.
        and_then (time (ob_started_at r)) (\<lambda>start.
        and_then (time (ob_completed_at r)) (\<lambda>stop.
        and_then (time (cap_started_at c)) (\<lambda>cap_start.
        and_then (time (cap_completed_at c)) (\<lambda>cap_stop.
        and_then (ensure (start \<le> stop \<and> cap_start \<le> start \<and> stop \<le> cap_stop)
                    (''invalid population retrieval interval at record '' @ show_nat i)) (\<lambda>_.
        and_then (ensure ((ob_result r \<noteq> None) \<noteq> (ob_error r \<noteq> None))
                    (''ambiguous population acquisition outcome at record '' @ show_nat i)) (\<lambda>_.
        Inr r)))))))
      else Inl ''missing acquisition record'')"

section \<open>Rows\<close>

fun collect_rows :: "chain \<Rightarrow> string list \<Rightarrow> json list \<Rightarrow> message + (string \<times> json) list" where
  "collect_rows chain seen [] = Inr []"
| "collect_rows chain seen (entry # entries) =
     and_then (ok_or (as_str (json_at entry ''pubkey''))
                 ''enumeration row missing its account address'') (\<lambda>pubkey.
     and_then (ok_or (ch_parse_address chain pubkey) ''invalid enumeration row address'') (\<lambda>_.
     and_then (ensure (pubkey \<notin> set seen) ''duplicate account in enumeration response'') (\<lambda>_.
     and_then (collect_rows chain (pubkey # seen) entries) (\<lambda>rows.
     Inr ((pubkey, json_at entry ''account'') # rows)))))"

definition ordered_rows ::
  "chain \<Rightarrow> json \<Rightarrow> StressBudget \<Rightarrow> message + (nat \<times> (string \<times> json) list)" where
  "ordered_rows chain v budget =
     and_then (ok_or (as_array (json_at v ''value''))
                 ''enumeration response is not a contextual account array'') (\<lambda>entries.
     and_then (collect_rows chain [] entries) (\<lambda>rows.
     Inr (length rows, take (sb_max_decoded_accounts budget) (sort_key fst rows))))"

text \<open>The position of each address in the response, the last one winning.\<close>

definition original_indices :: "json list \<Rightarrow> (string, nat) btree_map" where
  "original_indices entries =
     bt_collect (List.map_filter
       (\<lambda>(index, row). map_option (\<lambda>address. (address, index)) (as_str (json_at row ''pubkey'')))
       (enumerate 0 entries))"

definition row_evidence ::
  "u32 \<Rightarrow> (string, nat) btree_map \<Rightarrow> u64 \<Rightarrow> nat \<Rightarrow> string \<Rightarrow> message + EvidenceRef" where
  "row_evidence schema_version indices slot index address =
     and_then (if schema_version = 2 then
                 map_sum id (\<lambda>i. ''/value/'' @ show_nat i @ ''/account'')
                   (ok_or (bt_get indices address) ''no entry found for key'')
               else Inr (''/value/'' @ show_nat index)) (\<lambda>pointer.
     Inr \<lparr>ev_rpc_id = 2, ev_pointer = pointer, ev_slot = slot\<rparr>)"

definition verify_row :: "chain \<Rightarrow> MintConfig \<Rightarrow> string \<Rightarrow> json \<Rightarrow> message + TokenAccountState" where
  "verify_row chain mc mint raw =
     and_then (ensure (as_str (json_at raw ''owner'') = Some (mint_token_program mc))
                 ''row is not owned by the mint's own token program'') (\<lambda>_.
     and_then (decode_token_account chain raw (mint_token_program mc) mint (mint_decimals mc))
       (\<lambda>state.
     and_then (ensure (ta_mint state = mint)
                 ''row belongs to a different mint than the selected asset'') (\<lambda>_.
     Inr state)))"

fun decode_rows ::
  "chain \<Rightarrow> MintConfig \<Rightarrow> string \<Rightarrow> (nat \<Rightarrow> string \<Rightarrow> message + EvidenceRef) \<Rightarrow> nat \<Rightarrow>
   (string \<times> json) list \<Rightarrow> message + ((string \<times> TokenAccountState) list \<times> UndecodedAccount list)" where
  "decode_rows chain mc mint evidence index [] = Inr ([], [])"
| "decode_rows chain mc mint evidence index ((address, raw) # rows) =
     and_then (evidence index address) (\<lambda>ev.
     and_then (decode_rows chain mc mint evidence (index + 1) rows) (\<lambda>(decoded, undecoded).
     Inr (case verify_row chain mc mint raw of
            Inr state \<Rightarrow> ((address, state) # decoded, undecoded)
          | Inl error \<Rightarrow>
              (decoded,
               \<lparr>ud_address = address, ud_reason = error,
                ud_raw_data_sha256 =
                  (case raw_account_bytes chain raw of
                     Inr b \<Rightarrow> Some (ch_sha256 chain b) | Inl _ \<Rightarrow> None),
                ud_evidence = ev\<rparr> # undecoded))))"

section \<open>Authorities\<close>

function chunks :: "nat \<Rightarrow> 'a list \<Rightarrow> 'a list list" where
  "chunks n xs = (if xs = [] \<or> n = 0 then [] else take n xs # chunks n (drop n xs))"
  by pat_completeness auto
termination by (relation "measure (\<lambda>(n, xs). length xs)") auto

declare chunks.simps [simp del]

type_synonym authority_record = "EntityType \<times> AuthorityObservation \<times> string \<times> EvidenceRef"

record resolution =
  rs_gaps :: "string list"
  rs_slots :: "u64 list"
  rs_batches :: nat
  rs_resolved :: "(string, authority_record) btree_map"

fun classify_batch ::
  "chain \<Rightarrow> nat \<Rightarrow> u64 \<Rightarrow> nat \<Rightarrow> (string \<times> json) list \<Rightarrow> (string, authority_record) btree_map \<Rightarrow>
   message + (string, authority_record) btree_map" where
  "classify_batch chain index slot offset [] resolved = Inr resolved"
| "classify_batch chain index slot offset ((address, raw) # rest) resolved =
     and_then (classify_authority chain address raw) (\<lambda>(model, observed, why).
     classify_batch chain index slot (offset + 1) rest
       (bt_insert address (model, observed, why,
          \<lparr>ev_rpc_id = index, ev_pointer = ''/value/'' @ show_nat offset, ev_slot = slot\<rparr>) resolved))"

definition error_text :: "Observation \<Rightarrow> string" where
  "error_text r = (case ob_error r of Some e \<Rightarrow> e | None \<Rightarrow> ''unknown error'')"

text \<open>Batch \<open>k\<close> is answered by record \<open>3 + k\<close>; a missing or failed record ends the resolution.\<close>

fun resolve_batches ::
  "chain \<Rightarrow> Capture \<Rightarrow> u64 \<Rightarrow> nat \<Rightarrow> string list list \<Rightarrow> resolution \<Rightarrow> message + resolution" where
  "resolve_batches chain c slot index [] s = Inr s"
| "resolve_batches chain c slot index (batch # batches) s =
     (if length (cap_observations c) \<le> index then
        Inr (s\<lparr>rs_gaps := rs_gaps s @
               [''Authority resolution stopped before every planned batch was requested.'']\<rparr>)
      else
        and_then (checked chain c index ''getMultipleAccounts''
                    (JArray [JArray (map JString batch), min_config slot])) (\<lambda>r.
        case ob_result r of
          None \<Rightarrow>
            and_then (ensure (length (cap_observations c) = index + 1)
                        ''authority records continue after a failed batch'') (\<lambda>_.
            Inr (s\<lparr>rs_gaps := rs_gaps s @
               [''An authority batch could not be retrieved ('' @ error_text r @
                ''). The authorities in it and every later batch stay unresolved.'']\<rparr>))
        | Some result \<Rightarrow>
            and_then (context_slot result) (\<lambda>batch_slot.
            and_then (ensure (slot \<le> batch_slot)
                        ''authority observation predates the enumeration context'') (\<lambda>_.
            and_then (ok_or (as_array (json_at result ''value''))
                        ''invalid authority batch response'') (\<lambda>vs.
            and_then (ensure (length vs = length batch) ''incomplete authority batch response'') (\<lambda>_.
            and_then (classify_batch chain index batch_slot 0 (zip batch vs) (rs_resolved s)) (\<lambda>resolved.
            resolve_batches chain c slot (index + 1) batches
              (s\<lparr>rs_slots := rs_slots s @ [batch_slot], rs_batches := rs_batches s + 1,
                 rs_resolved := resolved\<rparr>))))))))"

abbreviation NOT_INSPECTED :: string where
  "NOT_INSPECTED \<equiv> ''Authority account was not inspected in this capture; its model is unknown and no signing control is assumed.''"

definition stress_entity ::
  "chain \<Rightarrow> string \<Rightarrow> string \<Rightarrow> MintConfig \<Rightarrow> (string, authority_record) btree_map \<Rightarrow> string \<Rightarrow>
   TokenAccountState \<Rightarrow> EvidenceRef \<Rightarrow> StressEntity" where
  "stress_entity chain capture_sha256 mint mc resolved address state evidence =
     (let (model, observation, why, authority_evidence, how) =
            (case bt_get resolved (ta_owner state) of
               Some (m, obs, r, e) \<Rightarrow> (m, obs, r, Some e, Resolved)
             | None \<Rightarrow>
                 (UnknownEntity,
                  \<lparr>ao_is_on_curve =
                     (case ch_parse_address chain (ta_owner state) of
                        Some a \<Rightarrow> ch_is_on_curve chain a | None \<Rightarrow> False),
                   ao_account_exists = False, ao_runtime_owner = None, ao_executable = None,
                   ao_multisig = None\<rparr>,
                  NOT_INSPECTED, None, NotResolved)) in
      \<lparr>se_entity_id = stress_entity_id capture_sha256 address, se_token_account = address,
       se_mint = mint, se_token_program = mint_token_program mc, se_authority = ta_owner state,
       se_authority_model = model, se_authority_resolution = how,
       se_authority_observation = observation, se_classification_reason = why, se_state = state,
       se_token_account_evidence = evidence, se_authority_evidence = authority_evidence\<rparr>)"

fun build_entities ::
  "(string \<Rightarrow> TokenAccountState \<Rightarrow> EvidenceRef \<Rightarrow> StressEntity) \<Rightarrow>
   (nat \<Rightarrow> string \<Rightarrow> message + EvidenceRef) \<Rightarrow> nat \<Rightarrow> (string \<times> TokenAccountState) list \<Rightarrow>
   message + StressEntity list" where
  "build_entities mk evidence index [] = Inr []"
| "build_entities mk evidence index ((address, state) # rest) =
     and_then (evidence index address) (\<lambda>ev.
     and_then (build_entities mk evidence (index + 1) rest) (\<lambda>es.
     Inr (mk address state ev # es)))"

section \<open>The population\<close>

abbreviation AUTHORITY_INDEPENDENCE :: string where
  "AUTHORITY_INDEPENDENCE \<equiv> ''Authority resolution is independent of token-account enumeration. An incomplete authority resolution does not mean the token-account enumeration was incomplete, and a complete enumeration does not imply every authority model is known.''"
abbreviation TERMINOLOGY :: string where
  "TERMINOLOGY \<equiv> ''These are token accounts observed in this capture, not holders. No human ownership, legal ownership, identity or key possession is established anywhere in this milestone. Public base balances exclude encrypted balances and withheld fees; a public zero is not a known confidential zero.''"

record population_scan =
  ps_enumeration :: Enumeration
  ps_authority :: AuthoritySummary
  ps_entities :: "StressEntity list"
  ps_undecoded :: "UndecodedAccount list"
  ps_mint_config :: "MintConfig option"
  ps_mint_slot :: "u64 option"
  ps_slots :: "u64 list"

definition initial_scan :: "Capture \<Rightarrow> population_scan" where
  "initial_scan c =
     \<lparr>ps_enumeration =
        \<lparr>en_method = ''getProgramAccounts (memcmp on mint at offset 0; no dataSize filter)'',
         en_program = [], en_filters = mint_filter (cap_mint c), en_completeness = Unavailable,
         en_enumeration_slot = None, en_rows_returned = 0, en_rows_decoded = 0,
         en_rows_undecodable = 0, en_decode_limit = sb_max_decoded_accounts (cap_budget c),
         en_response_byte_limit = sb_max_response_bytes (cap_budget c), en_gaps = [],
         en_scope = ''All current token accounts of the selected mint under its own token program, at one finalized enumeration context.''\<rparr>,
      ps_authority =
        \<lparr>as_completeness = NotPerformed, as_distinct_positive_balance_authorities = 0,
         as_authorities_inspected = 0, as_authorities_unresolved = 0, as_batches_performed = 0,
         as_lookup_limit = sb_max_authority_lookups (cap_budget c),
         as_batch_size = sb_authority_batch_size (cap_budget c), as_gaps = [],
         as_independence = AUTHORITY_INDEPENDENCE\<rparr>,
      ps_entities = [], ps_undecoded = [], ps_mint_config = None, ps_mint_slot = None,
      ps_slots = []\<rparr>"

definition add_gap :: "string \<Rightarrow> Enumeration \<Rightarrow> Enumeration" where
  "add_gap gap e = e\<lparr>en_gaps := en_gaps e @ [gap]\<rparr>"

definition truncation_gap :: "nat \<Rightarrow> nat \<Rightarrow> string list" where
  "truncation_gap returned limit =
     [''The scan returned '' @ show_nat returned @ '' rows, above the declared decode budget of '' @
      show_nat limit @
      ''. A deterministic address-ordered subset was decoded; this run is not a complete population.'']"

definition wanted_authorities :: "(string \<times> TokenAccountState) list \<Rightarrow> string list" where
  "wanted_authorities decoded =
     btree_set (map (\<lambda>(_, state). ta_owner state)
       (filter (\<lambda>(_, state). ta_raw_balance state \<noteq> ''0'') decoded))"

text \<open>The decoded rows become entities once the authorities are resolved as far as the capture goes.\<close>

definition resolve_authorities ::
  "chain \<Rightarrow> Capture \<Rightarrow> u64 \<Rightarrow> (string \<times> TokenAccountState) list \<Rightarrow> AuthoritySummary \<Rightarrow> u64 list \<Rightarrow>
   message + (resolution \<times> AuthoritySummary)" where
  "resolve_authorities chain c slot decoded summary slots =
     (let wanted = wanted_authorities decoded; limit = sb_max_authority_lookups (cap_budget c);
          size = sb_authority_batch_size (cap_budget c);
          planned = take limit wanted;
          gaps = as_gaps summary @
            (if length planned < length wanted then
               [show_nat (length wanted) @
                '' distinct positive-balance authorities exceed the declared lookup budget of '' @
                show_nat limit @
                ''. The remainder stays explicitly unresolved and receives no assumed signer.'']
             else []);
          expected_batches = (length planned + max size 1 - 1) div max size 1 in
      and_then (resolve_batches chain c slot 3 (chunks size planned)
                  \<lparr>rs_gaps = gaps, rs_slots = slots, rs_batches = as_batches_performed summary,
                   rs_resolved = []\<rparr>) (\<lambda>s.
      and_then (ensure (length (cap_observations c) \<le> 3 + expected_batches)
                  ''unplanned authority records in the population capture'') (\<lambda>_.
      let inspected = length (rs_resolved s) in
      Inr (s, summary
        \<lparr>as_distinct_positive_balance_authorities := length wanted, as_gaps := rs_gaps s,
         as_batches_performed := rs_batches s, as_authorities_inspected := inspected,
         as_authorities_unresolved := length wanted - inspected,
         as_completeness :=
           (if inspected = length wanted then CompleteResolution
            else if inspected = 0 then NotPerformed else PartialResolution)\<rparr>))))"

definition scan_value ::
  "chain \<Rightarrow> Capture \<Rightarrow> string \<Rightarrow> MintConfig \<Rightarrow> u64 \<Rightarrow> json \<Rightarrow> population_scan \<Rightarrow>
   message + population_scan" where
  "scan_value chain c capture_sha256 mc mint_slot v s =
     and_then (context_slot v) (\<lambda>slot.
     and_then (ensure (mint_slot \<le> slot) ''enumeration context predates the mint observation'') (\<lambda>_.
     and_then (ordered_rows chain v (cap_budget c)) (\<lambda>(returned, rows).
     and_then (ok_or (as_array (json_at v ''value'')) ''missing enumeration rows'') (\<lambda>entries.
     let evidence = row_evidence (cap_schema_version c) (original_indices entries) slot;
         truncated = length rows < returned in
     and_then (decode_rows chain mc (cap_mint c) evidence 0 rows) (\<lambda>(decoded, undecoded).
     let e = (ps_enumeration s)
           \<lparr>en_enumeration_slot := Some slot, en_rows_returned := returned,
            en_rows_decoded := length decoded, en_rows_undecodable := length undecoded,
            en_gaps := en_gaps (ps_enumeration s) @
              (if truncated then truncation_gap returned (sb_max_decoded_accounts (cap_budget c)) else []) @
              (if undecoded \<noteq> [] then
                 [show_nat (length undecoded) @
                  '' returned rows could not be verified or decoded for this mint and token program. Their original bytes are retained and they are not counted as zero balances.'']
               else []),
            en_completeness :=
              (if truncated \<or> undecoded \<noteq> [] then PartialEnumeration else CompleteForQuery)\<rparr> in
     and_then (resolve_authorities chain c slot decoded (ps_authority s) (ps_slots s @ [slot])) (\<lambda>(r, a).
     and_then (build_entities (stress_entity chain capture_sha256 (cap_mint c) mc (rs_resolved r))
                 evidence 0 decoded) (\<lambda>es.
     Inr (s\<lparr>ps_enumeration := e, ps_authority := a, ps_entities := es, ps_undecoded := undecoded,
            ps_slots := rs_slots r\<rparr>))))))))"

definition scan_result ::
  "chain \<Rightarrow> Capture \<Rightarrow> string \<Rightarrow> MintConfig \<Rightarrow> u64 \<Rightarrow> Observation \<Rightarrow> population_scan \<Rightarrow>
   message + population_scan" where
  "scan_result chain c capture_sha256 mc slot scan s =
     (case ob_result scan of
        None \<Rightarrow>
          let (completeness, gap) = scan_failure (error_text scan) in
          and_then (ensure (length (cap_observations c) = 3)
                      ''authority records after a failed enumeration'') (\<lambda>_.
          Inr (s\<lparr>ps_enumeration :=
            add_gap gap ((ps_enumeration s)\<lparr>en_completeness := completeness\<rparr>)\<rparr>))
      | Some v \<Rightarrow> scan_value chain c capture_sha256 mc slot v s)"

definition scan_mint ::
  "chain \<Rightarrow> Capture \<Rightarrow> string \<Rightarrow> MintConfig \<Rightarrow> json \<Rightarrow> population_scan \<Rightarrow> message + population_scan"
where
  "scan_mint chain c capture_sha256 mc response s =
     and_then (context_slot response) (\<lambda>slot.
     let s = s\<lparr>ps_slots := ps_slots s @ [slot], ps_mint_slot := Some slot,
               ps_enumeration := (ps_enumeration s)\<lparr>en_program := mint_token_program mc\<rparr>\<rparr> in
     and_then (checked chain c 2 ''getProgramAccounts''
                 (JArray [JString (mint_token_program mc), enumeration_config (cap_mint c) slot])) (\<lambda>scan.
     and_then (scan_result chain c capture_sha256 mc slot scan s) (\<lambda>s.
     Inr (s\<lparr>ps_mint_config := Some mc\<rparr>))))"

definition mint_result ::
  "chain \<Rightarrow> Capture \<Rightarrow> string \<Rightarrow> Observation \<Rightarrow> population_scan \<Rightarrow> message + population_scan" where
  "mint_result chain c capture_sha256 mint_record s =
     (case ob_result mint_record of
        None \<Rightarrow>
          and_then (ensure (length (cap_observations c) = 2) ''records after a failed mint observation'') (\<lambda>_.
          Inr (s\<lparr>ps_enumeration := add_gap
            ''The current mint state could not be retrieved, so no population enumeration was attempted.''
            (ps_enumeration s)\<rparr>))
      | Some response \<Rightarrow>
          (case decode_mint chain (json_at response ''value'') of
             Inr mc \<Rightarrow> scan_mint chain c capture_sha256 mc response s
           | Inl error \<Rightarrow>
               and_then (ensure (length (cap_observations c) = 2) ''records after an undecodable mint'') (\<lambda>_.
               Inr (s\<lparr>ps_enumeration := add_gap
                 (''The selected address could not be decoded as a supported token mint, so no population enumeration was attempted: '' @ error)
                 ((ps_enumeration s)\<lparr>en_completeness := UnsupportedEnumeration\<rparr>)\<rparr>))))"

definition scan_capture ::
  "chain \<Rightarrow> Capture \<Rightarrow> string \<Rightarrow> string \<Rightarrow> message + population_scan" where
  "scan_capture chain c capture_sha256 genesis_hash =
     (let s = initial_scan c in
      if genesis_hash \<noteq> MAINNET then
        and_then (ensure (length (cap_observations c) = 1)
                    ''records after a failed cluster identity check'') (\<lambda>_.
        Inr (s\<lparr>ps_enumeration := add_gap
          ''Mainnet identity could not be confirmed, so no population enumeration was attempted.''
          (ps_enumeration s)\<rparr>))
      else
        and_then (checked chain c 1 ''getAccountInfo'' (JArray [JString (cap_mint c), base_config])) (\<lambda>m.
        mint_result chain c capture_sha256 m s))"

definition entity_key :: "StressEntity \<Rightarrow> string" where
  "entity_key e = entity_type_name (se_authority_model e)"

definition population_counts ::
  "StressEntity list \<Rightarrow> u64 list \<Rightarrow> UndecodedAccount list \<Rightarrow> AuthoritySummary \<Rightarrow> PopulationCounts" where
  "population_counts entities balances undecoded authority =
     (let count = (\<lambda>P. length (filter P entities));
          positive = filter (\<lambda>(_, b). 0 < b) (zip entities balances) in
      \<lparr>pc_token_accounts_observed = length entities,
       pc_positive_balance_accounts_observed = length positive,
       pc_zero_balance_accounts_observed = length (filter (\<lambda>b. \<not> 0 < b) balances),
       pc_undecodable_rows_observed = length undecoded,
       pc_distinct_recorded_authorities = length (btree_set (map se_authority entities)),
       pc_distinct_positive_balance_authorities = as_distinct_positive_balance_authorities authority,
       pc_authority_model_counts = bt_count entity_key entities,
       pc_positive_balance_authority_model_counts = bt_count (\<lambda>(e, _). entity_key e) positive,
       pc_frozen_accounts = count (\<lambda>e. ta_is_frozen (se_state e)),
       pc_uninitialized_accounts = count (\<lambda>e. \<not> ta_is_initialized (se_state e)),
       pc_delegate_present_accounts = count (\<lambda>e. ta_delegate (se_state e) \<noteq> None),
       pc_active_delegation_accounts = count (\<lambda>e. ta_has_active_delegate (se_state e)),
       pc_close_authority_accounts = count (\<lambda>e. ta_close_authority (se_state e) \<noteq> None),
       pc_account_extension_counts =
         bt_count id (concat (map (\<lambda>e. map te_extension_type (ta_extensions (se_state e))) entities)),
       pc_observed_public_balance_raw =
         sum_once (bt_collect (map (\<lambda>(e, b). (se_entity_id e, b)) positive)),
       pc_terminology = TERMINOLOGY\<rparr>)"

definition population_limitations :: "population_scan \<Rightarrow> string list" where
  "population_limitations s =
     [''This is one bounded read-only capture of current state. It is not an atomic validator bank and carries no guarantee about any later slot.'',
      ''Observed token accounts are not holders, wallets or people. No human identity, legal ownership or signing access is established.'',
      ''Zero public balances are excluded from exposure, and unknown or encrypted balances are never treated as zero.'',
      ''No historical population, balance or classification from an earlier phase is read, imported or substituted anywhere in this run.''] @
     (if en_completeness (ps_enumeration s) \<noteq> CompleteForQuery then
        [''Population discovery is incomplete for this run. Counts describe only what this capture actually observed and are not the token's holder population.'']
      else []) @
     (if as_completeness (ps_authority s) \<noteq> CompleteResolution then
        [''Some recorded authorities were not inspected. Their authority model is unknown, never assumed wallet-compatible, and never given an assumed local signer.'']
      else [])"

definition population_evaluate :: "chain \<Rightarrow> Capture \<Rightarrow> string \<Rightarrow> message + PopulationObservation" where
  "population_evaluate chain c capture_sha256 =
     and_then (ensure (((cap_schema_version c = 1 \<and> cap_decoder c = DECODER) \<or>
                        (cap_schema_version c = 2 \<and> cap_decoder c = DECODER_V2)) \<and>
                       cap_kind c = POPULATION_KIND) ''unsupported population capture version'') (\<lambda>_.
     and_then (budget_validate (cap_budget c)) (\<lambda>_.
     and_then (ok_or (ch_parse_address chain (cap_mint c)) ''invalid asset mint'') (\<lambda>_.
     and_then (ensure (cap_observations c \<noteq> [] \<and>
                       length (cap_observations c) \<le> 4 + sb_max_authority_lookups (cap_budget c))
                 ''incomplete or excessive population acquisition'') (\<lambda>_.
     and_then (checked chain c 0 ''getGenesisHash'' (JArray [])) (\<lambda>genesis.
     let genesis_hash = (case Option.bind (ob_result genesis) as_str of Some h \<Rightarrow> h | None \<Rightarrow> []) in
     and_then (scan_capture chain c capture_sha256 genesis_hash) (\<lambda>s.
     let entities = sort_key se_token_account (ps_entities s);
         undecoded = sort_key ud_address (ps_undecoded s) in
     and_then (try_map entity_balance entities) (\<lambda>balances.
     Inr \<lparr>po_schema_version = cap_schema_version c, po_kind = POPULATION_KIND,
          po_run_id = cap_run_id c, po_stress_id = cap_stress_id c, po_mint = cap_mint c,
          po_capture_sha256 = capture_sha256, po_budget = cap_budget c,
          po_mint_config = ps_mint_config s, po_mint_slot = ps_mint_slot s,
          po_acquisition =
            \<lparr>aq_started_at = cap_started_at c, aq_completed_at = cap_completed_at c,
             aq_rpc_origin = cap_rpc_origin c, aq_genesis_hash = genesis_hash,
             aq_commitment = ''finalized'', aq_context_slots = btree_set (ps_slots s),
             aq_atomic_single_slot = False,
             aq_consistency = ''The mint query, the account enumeration and each authority batch are separate finalized observations with their own contexts. No single-slot atomic population state is claimed.'',
             aq_decoder = cap_decoder c, aq_rpc_methods = map ob_method (cap_observations c)\<rparr>,
          po_enumeration = ps_enumeration s, po_authority_resolution = ps_authority s,
          po_entities = entities, po_undecoded = undecoded,
          po_summary = population_counts entities balances undecoded (ps_authority s),
          po_limitations = population_limitations s\<rparr>)))))))"

end
