(* ===== verification/StressRecord.thy ===== *)
theory StressRecord
  imports StressCapture
begin

text \<open>
  Taking a population capture (\<open>record\<close>, \<open>authority_plan\<close>, \<open>capture\<close> and \<open>evaluate_bytes\<close> of
  \<open>engine/src/stress/population.rs\<close>). The provider and the clock are parameters: \<open>provider k\<close> is
  how the \<open>k\<close>-th call of the run is answered, \<open>clock k\<close> the \<open>k\<close>-th reading of the time, counted
  from 0. Every call takes two readings, the capture one before and one after all of them.
\<close>

type_synonym provider = "nat \<Rightarrow> string \<Rightarrow> json \<Rightarrow> message + json"
type_synonym clock = "nat \<Rightarrow> string"

definition call_record :: "provider \<Rightarrow> clock \<Rightarrow> nat \<Rightarrow> string \<Rightarrow> json \<Rightarrow> Observation" where
  "call_record provider clock k method params =
     \<lparr>ob_method = method, ob_params = params, ob_started_at = clock (2 * k + 1),
      ob_completed_at = clock (2 * k + 2),
      ob_result = (case provider k method params of Inr v \<Rightarrow> Some v | Inl _ \<Rightarrow> None),
      ob_error = (case provider k method params of Inr _ \<Rightarrow> None | Inl e \<Rightarrow> Some e)\<rparr>"

definition record_call ::
  "provider \<Rightarrow> clock \<Rightarrow> Observation list \<Rightarrow> string \<Rightarrow> json \<Rightarrow> Observation list \<times> json option" where
  "record_call provider clock records method params =
     (let r = call_record provider clock (length records) method params in (records @ [r], ob_result r))"

definition authority_plan ::
  "chain \<Rightarrow> (string \<times> json) list \<Rightarrow> MintConfig \<Rightarrow> string \<Rightarrow> StressBudget \<Rightarrow> string list" where
  "authority_plan chain rows mc asset_mint budget =
     take (sb_max_authority_lookups budget)
       (btree_set (List.map_filter
          (\<lambda>(_, account).
             case decode_token_account chain account (mint_token_program mc) asset_mint (mint_decimals mc) of
               Inr state \<Rightarrow> if ta_raw_balance state \<noteq> ''0'' then Some (ta_owner state) else None
             | Inl _ \<Rightarrow> None) rows))"

text \<open>A failed batch ends the authority requests.\<close>

fun record_batches ::
  "provider \<Rightarrow> clock \<Rightarrow> u64 \<Rightarrow> string list list \<Rightarrow> Observation list \<Rightarrow> Observation list" where
  "record_batches provider clock slot [] records = records"
| "record_batches provider clock slot (batch # batches) records =
     (case record_call provider clock records ''getMultipleAccounts''
             (JArray [JArray (map JString batch), min_config slot]) of
        (records, None) \<Rightarrow> records
      | (records, Some _) \<Rightarrow> record_batches provider clock slot batches records)"

definition record_authorities ::
  "chain \<Rightarrow> provider \<Rightarrow> clock \<Rightarrow> string \<Rightarrow> StressBudget \<Rightarrow> MintConfig \<Rightarrow> json \<Rightarrow> Observation list \<Rightarrow>
   Observation list" where
  "record_authorities chain provider clock mint budget mc scan records =
     (case context_slot scan of
        Inl _ \<Rightarrow> records
      | Inr slot \<Rightarrow>
          (case ordered_rows chain scan budget of
             Inl _ \<Rightarrow> records
           | Inr (_, rows) \<Rightarrow>
               record_batches provider clock slot
                 (chunks (sb_authority_batch_size budget) (authority_plan chain rows mc mint budget)) records))"

definition record_enumeration ::
  "chain \<Rightarrow> provider \<Rightarrow> clock \<Rightarrow> string \<Rightarrow> StressBudget \<Rightarrow> MintConfig \<Rightarrow> u64 \<Rightarrow> Observation list \<Rightarrow>
   Observation list" where
  "record_enumeration chain provider clock mint budget mc mint_slot records =
     (case record_call provider clock records ''getProgramAccounts''
             (JArray [JString (mint_token_program mc), enumeration_config mint mint_slot]) of
        (records, None) \<Rightarrow> records
      | (records, Some scan) \<Rightarrow> record_authorities chain provider clock mint budget mc scan records)"

definition record_mint ::
  "chain \<Rightarrow> provider \<Rightarrow> clock \<Rightarrow> string \<Rightarrow> StressBudget \<Rightarrow> Observation list \<Rightarrow>
   message + Observation list" where
  "record_mint chain provider clock mint budget records =
     (case record_call provider clock records ''getAccountInfo'' (JArray [JString mint, base_config]) of
        (records, None) \<Rightarrow> Inr records
      | (records, Some response) \<Rightarrow>
          (case decode_mint chain (json_at response ''value'') of
             Inl _ \<Rightarrow> Inr records
           | Inr mc \<Rightarrow>
               and_then (context_slot response) (\<lambda>mint_slot.
               Inr (record_enumeration chain provider clock mint budget mc mint_slot records))))"

definition population_capture ::
  "chain \<Rightarrow> provider \<Rightarrow> clock \<Rightarrow> string \<Rightarrow> string \<Rightarrow> string \<Rightarrow> string \<Rightarrow> StressBudget \<Rightarrow> message + Capture"
where
  "population_capture chain provider clock origin mint run_id stress_id budget =
     and_then (budget_validate budget) (\<lambda>_.
     and_then (ok_or (ch_parse_address chain mint) ''invalid asset mint'') (\<lambda>_.
     let (records, genesis) = record_call provider clock [] ''getGenesisHash'' (JArray []) in
     and_then (if Option.bind genesis as_str = Some MAINNET
               then record_mint chain provider clock mint budget records else Inr records) (\<lambda>records.
     Inr \<lparr>cap_schema_version = 2, cap_kind = POPULATION_KIND, cap_run_id = run_id,
          cap_stress_id = stress_id, cap_mint = mint, cap_budget = budget, cap_rpc_origin = origin,
          cap_started_at = clock 0, cap_completed_at = clock (2 * length records + 1),
          cap_decoder = DECODER_V2, cap_observations = records\<rparr>)))"

text \<open>Reading a capture file; parsing its JSON is the parameter \<open>read\<close>.\<close>

definition evaluate_bytes ::
  "chain \<Rightarrow> (u8 list \<Rightarrow> message + Capture) \<Rightarrow> u8 list \<Rightarrow> StressBudget \<Rightarrow> message + PopulationObservation" where
  "evaluate_bytes chain read bytes budget =
     and_then (budget_validate budget) (\<lambda>_.
     and_then (ensure (length bytes \<le> unat (sb_max_artifact_bytes budget))
                 ''population capture exceeds the declared artifact budget'') (\<lambda>_.
     and_then (read bytes) (\<lambda>c.
     and_then (ensure (cap_budget c = budget)
                 ''population capture was taken under a different declared budget'') (\<lambda>_.
     population_evaluate chain c (ch_sha256 chain bytes)))))"

end
