(* ===== verification/StressSelect.thy ===== *)
theory StressSelect
  imports StressPopulation "HOL-Library.Product_Lexorder"
begin

text \<open>
  Test selection (\<open>engine/src/stress/select.rs\<close>): rank quartiles of the observed balances, the
  classification of every account with a balance, and the three phases that choose the cases of a
  bounded plan before anything is executed. The digests (SHA-256 of canonical JSON), the address
  parser and the timestamp parser belong to other crates: the parameter \<open>stress_env\<close>.
\<close>

record StressClassification =
  cf_entity_id :: string
  cf_token_account :: string
  cf_state_shape_sha256 :: string
  cf_eligibility :: Eligibility
  cf_balance_bucket :: u8
  cf_balance_raw :: string

record stress_env =
  sv_shape_digest :: "string \<times> ShapeDimensions \<Rightarrow> message + string"
  sv_rows_digest :: "string \<times> string \<times> StressClassification list \<Rightarrow> message + string"
  sv_plan_digest :: "ConversionPlan \<Rightarrow> message + string"
  sv_parse_address :: "string \<Rightarrow> address option"
  sv_parse_time :: "string \<Rightarrow> instant option"

abbreviation SELECTOR_VERSION :: string where
  "SELECTOR_VERSION \<equiv> ''eplyx-conversion-stress-select/v1''"
abbreviation SELECTOR_VERSION_V2 :: string where
  "SELECTOR_VERSION_V2 \<equiv> ''eplyx-conversion-stress-select/v2''"
abbreviation CLASSIFIER_VERSION :: string where
  "CLASSIFIER_VERSION \<equiv> ''eplyx-conversion-stress-shape/v1''"
abbreviation PLAN_KIND :: string where "PLAN_KIND \<equiv> ''conversion-stress-plan''"
abbreviation ORDERING_RULE :: string where
  "ORDERING_RULE \<equiv> ''Within any group: observed raw public balance descending, then token account address ascending. Fully deterministic and independent of execution outcomes.''"
abbreviation BUCKET_METHOD :: string where
  "BUCKET_METHOD \<equiv> ''Rank quartiles over the positive-balance accounts observed in this exact capture, ordered by raw balance ascending then address ascending. Buckets order tests; they are not economic classes and carry no valuation.''"
abbreviation BUCKET_NOTE :: string where
  "BUCKET_NOTE \<equiv> ''Selected across observed balance buckets. These cases are not a statistical sample and not representative holders.''"
abbreviation MAX_SHAPE_EXAMPLES :: nat where "MAX_SHAPE_EXAMPLES \<equiv> 10"

section \<open>Balance buckets\<close>

record BucketBoundary =
  bb_bucket :: u8
  bb_entities :: nat
  bb_min_raw :: string
  bb_max_raw :: string

record BalanceBuckets =
  bk_method :: string
  bk_bucket_count :: u8
  bk_population :: nat
  bk_boundaries :: "BucketBoundary list"
  bk_note :: string

definition ranked_balances :: "PopulationObservation \<Rightarrow> message + (u64 \<times> string) list" where
  "ranked_balances obs =
     and_then (try_map (\<lambda>e. and_then (entity_balance e) (\<lambda>b. Inr (b, se_token_account e)))
                 (positive_entities obs)) (\<lambda>ranked. Inr (sort ranked))"

definition rank_bucket :: "nat \<Rightarrow> nat \<Rightarrow> u8" where
  "rank_bucket n rank = of_nat (rank * 4 div n)"

definition bucket_boundary :: "u8 \<Rightarrow> u64 list \<Rightarrow> BucketBoundary" where
  "bucket_boundary bucket values =
     \<lparr>bb_bucket = bucket, bb_entities = length values,
      bb_min_raw = show_nat (unat (if values = [] then 0 else hd values)),
      bb_max_raw = show_nat (unat (if values = [] then 0 else last values))\<rparr>"

definition buckets :: "PopulationObservation \<Rightarrow> message + (BalanceBuckets \<times> (string, u8) btree_map)" where
  "buckets obs =
     and_then (ranked_balances obs) (\<lambda>ranked.
     let n = length ranked;
         rows = map (\<lambda>(rank, (b, account)). (rank_bucket n rank, b, account)) (enumerate 0 ranked);
         assignment = bt_collect (map (\<lambda>(bucket, b, account). (account, bucket)) rows);
         grouped = bt_group fst rows in
     Inr (\<lparr>bk_method = BUCKET_METHOD, bk_bucket_count = 4, bk_population = n,
           bk_boundaries =
             map (\<lambda>(bucket, members). bucket_boundary bucket (map (\<lambda>(_, b, _). b) members)) grouped,
           bk_note = BUCKET_NOTE\<rparr>,
          assignment))"

section \<open>Classification\<close>

record Classified =
  cl_entity :: StressEntity
  cl_balance :: u64
  cl_bucket :: u8
  cl_shape :: string
  cl_dimensions :: ShapeDimensions
  cl_eligibility :: Eligibility
  cl_reason :: string

definition shape_key :: "stress_env \<Rightarrow> ShapeDimensions \<Rightarrow> message + string" where
  "shape_key env d = sv_shape_digest env (CLASSIFIER_VERSION, d)"

definition classify_entity ::
  "stress_env \<Rightarrow> (string, u8) btree_map \<Rightarrow> MintConfig \<Rightarrow> StressEntity \<Rightarrow> message + Classified" where
  "classify_entity env assignment mint e =
     (let d = dimensions e mint; (elig, reason) = eligibility d in
      and_then (entity_balance e) (\<lambda>b.
      and_then (shape_key env d) (\<lambda>shape.
      Inr \<lparr>cl_entity = e, cl_balance = b,
           cl_bucket = (case bt_get assignment (se_token_account e) of Some k \<Rightarrow> k | None \<Rightarrow> 0),
           cl_shape = shape, cl_dimensions = d, cl_eligibility = elig, cl_reason = reason\<rparr>)))"

definition classify_all ::
  "stress_env \<Rightarrow> PopulationObservation \<Rightarrow> (string, u8) btree_map \<Rightarrow> message + Classified list" where
  "classify_all env obs assignment =
     and_then (ok_or (po_mint_config obs)
                 ''population has no decoded mint configuration to classify against'') (\<lambda>mint.
     try_map (classify_entity env assignment mint) (positive_entities obs))"

definition classification_row :: "Classified \<Rightarrow> StressClassification" where
  "classification_row c =
     \<lparr>cf_entity_id = se_entity_id (cl_entity c), cf_token_account = se_token_account (cl_entity c),
      cf_state_shape_sha256 = cl_shape c, cf_eligibility = cl_eligibility c,
      cf_balance_bucket = cl_bucket c, cf_balance_raw = show_nat (unat (cl_balance c))\<rparr>"

definition classification_digest ::
  "stress_env \<Rightarrow> Classified list \<Rightarrow> string \<Rightarrow> message + (string \<times> StressClassification list)" where
  "classification_digest env rows selector_version =
     (let full = sort_key cf_token_account (map classification_row rows) in
      and_then (sv_rows_digest env (selector_version, CLASSIFIER_VERSION, full)) (\<lambda>d.
      Inr (d, full)))"

definition case_plan ::
  "stress_env \<Rightarrow> ConversionPlan \<Rightarrow> nat \<Rightarrow> StressEntity \<Rightarrow> string \<Rightarrow> message + ConversionPlan" where
  "case_plan env base index e amount_decimal =
     (let plan = base\<lparr>cp_id := cp_id base @ ''-s'' @ zero_pad 2 (show_nat index)\<rparr> in
      and_then (ensure (length (cp_id plan) \<le> 64)
                  ''the candidate plan identifier is too long to derive bounded stress cases from'') (\<lambda>_.
      let plan = plan\<lparr>cp_source_account := se_token_account e, cp_amount_mode := Custom,
                      cp_amount_decimal := Some amount_decimal\<rparr> in
      and_then (plan_validate (sv_parse_address env) plan) (\<lambda>_. Inr plan)))"

section \<open>The three phases\<close>

text \<open>The order inside every group: balance descending, then account address ascending.\<close>

definition case_order :: "Classified \<Rightarrow> int \<times> string" where
  "case_order c = (- int (unat (cl_balance c)), se_token_account (cl_entity c))"

definition is_executable :: "Classified list \<Rightarrow> nat \<Rightarrow> bool" where
  "is_executable rows i \<longleftrightarrow> cl_eligibility (rows ! i) = ExecutableCandidate"

definition shape_members :: "Classified list \<Rightarrow> (string, nat list) btree_map" where
  "shape_members rows =
     map (\<lambda>(shape, members). (shape, sort_key (\<lambda>i. case_order (rows ! i)) members))
       (bt_group (\<lambda>i. cl_shape (rows ! i)) [0..<length rows])"

definition global_order :: "Classified list \<Rightarrow> nat list" where
  "global_order rows =
     sort_key (\<lambda>i. case_order (rows ! i)) (filter (is_executable rows) [0..<length rows])"

type_synonym pick = "nat \<times> SelectionReason \<times> string"

record selection =
  sn_taken :: "nat list"
  sn_covered :: "u8 list"
  sn_picks :: "pick list"

definition shape_detail :: "string \<Rightarrow> nat \<Rightarrow> string" where
  "shape_detail shape n =
     ''First executable case for state shape '' @ shape @ '', which covers '' @ show_nat n @
     '' observed positive-balance accounts.''"

definition bucket_detail :: "u8 \<Rightarrow> string" where
  "bucket_detail bucket =
     ''First executable case in observed balance bucket '' @ show_nat (unat bucket) @
     '', which no earlier case covered.''"

abbreviation BALANCE_DETAIL :: string where
  "BALANCE_DETAIL \<equiv> ''Remaining stress budget, highest observed public balance first.''"

fun shape_phase ::
  "Classified list \<Rightarrow> nat \<Rightarrow> (string \<times> nat list) list \<Rightarrow> selection \<Rightarrow> selection" where
  "shape_phase rows budget [] s = s"
| "shape_phase rows budget ((shape, members) # rest) s =
     (if budget \<le> length (sn_picks s) then s
      else case find (is_executable rows) members of
        None \<Rightarrow> shape_phase rows budget rest s
      | Some index \<Rightarrow>
          shape_phase rows budget rest
            \<lparr>sn_taken = index # sn_taken s, sn_covered = cl_bucket (rows ! index) # sn_covered s,
             sn_picks = sn_picks s @
               [(index, NewStateShape, shape_detail shape (length members))]\<rparr>)"

fun bucket_phase ::
  "Classified list \<Rightarrow> nat \<Rightarrow> nat list \<Rightarrow> u8 list \<Rightarrow> selection \<Rightarrow> selection" where
  "bucket_phase rows budget global [] s = s"
| "bucket_phase rows budget global (bucket # rest) s =
     (if budget \<le> length (sn_picks s) then s
      else if bucket \<in> set (sn_covered s) then bucket_phase rows budget global rest s
      else case find (\<lambda>i. i \<notin> set (sn_taken s) \<and> cl_bucket (rows ! i) = bucket) global of
        None \<Rightarrow> bucket_phase rows budget global rest s
      | Some index \<Rightarrow>
          bucket_phase rows budget global rest
            \<lparr>sn_taken = index # sn_taken s, sn_covered = bucket # sn_covered s,
             sn_picks = sn_picks s @ [(index, NewBalanceBucket, bucket_detail bucket)]\<rparr>)"

fun balance_phase :: "nat \<Rightarrow> nat list \<Rightarrow> selection \<Rightarrow> selection" where
  "balance_phase budget [] s = s"
| "balance_phase budget (index # rest) s =
     (if budget \<le> length (sn_picks s) then s
      else if index \<in> set (sn_taken s) then balance_phase budget rest s
      else
        balance_phase budget rest
          (s\<lparr>sn_taken := index # sn_taken s,
             sn_picks := sn_picks s @ [(index, HighestRemainingBalance, BALANCE_DETAIL)]\<rparr>))"

definition select_picks :: "Classified list \<Rightarrow> u8 \<Rightarrow> nat \<Rightarrow> pick list" where
  "select_picks rows bucket_count budget =
     (let s = shape_phase rows budget (shape_members rows)
                \<lparr>sn_taken = [], sn_covered = [], sn_picks = []\<rparr>;
          global = global_order rows;
          s = bucket_phase rows budget global (map of_nat [0..<unat bucket_count]) s
      in sn_picks (balance_phase budget global s))"

section \<open>The plan\<close>

record ShapeGroup =
  sg_state_shape_sha256 :: string
  sg_shape_label :: string
  sg_dimensions :: ShapeDimensions
  sg_eligibility :: Eligibility
  sg_eligibility_reason :: string
  sg_entities_in_shape :: nat
  sg_represented_raw :: string
  sg_balance_buckets :: "(u8, nat) btree_map"
  sg_highest_balance_entities :: "string list"
  sg_entities_selected :: nat
  sg_selected_entity_ids :: "string list"

record StressTestPlan =
  sp_schema_version :: u32
  sp_kind :: string
  sp_stress_id :: string
  sp_run_id :: string
  sp_asset_mint :: string
  sp_population_capture_sha256 :: string
  sp_enumeration_completeness :: EnumerationCompleteness
  sp_authority_resolution_completeness :: AuthorityResolutionCompleteness
  sp_candidate_plan :: ConversionPlan
  sp_candidate_plan_sha256 :: string
  sp_candidate_program_sha256 :: string
  sp_classifier_version :: string
  sp_selector_version :: string
  sp_ordering_rule :: string
  sp_selection_strategy :: "string list"
  sp_budget :: StressBudget
  sp_buckets :: BalanceBuckets
  sp_classification_sha256 :: string
  sp_positive_balance_entities :: nat
  sp_state_shapes :: "ShapeGroup list"
  sp_eligibility_counts :: "(string, nat) btree_map"
  sp_selected :: "SelectedCase list"
  sp_frozen_at :: string
  sp_limitations :: "string list"

abbreviation FULL_BALANCE_POLICY :: string where
  "FULL_BALANCE_POLICY \<equiv> ''FullObservedPublicBalance: the entire public balance observed for this exact account in the frozen population capture''"
abbreviation FULL_AT_FINAL_POLICY :: string where
  "FULL_AT_FINAL_POLICY \<equiv> ''FullAtFinalCapture: freeze the selected account and policy before execution, then use its entire positive public balance from the verified final account batch''"

definition SELECTION_STRATEGY :: "string list" where
  "SELECTION_STRATEGY =
     [''1. State-shape coverage: one executable case for each distinct discovered state shape, shape key ascending.'',
      ''2. Balance-bucket coverage: one executable case for each observed balance bucket not yet covered anywhere, bucket ascending.'',
      ''3. Remaining budget: highest observed public balance first.'']"

definition select_case ::
  "stress_env \<Rightarrow> ConversionPlan \<Rightarrow> bool \<Rightarrow> u8 \<Rightarrow> Classified list \<Rightarrow> nat \<times> pick \<Rightarrow>
   message + SelectedCase" where
  "select_case env base rebound decimals rows p =
     (case p of (order_index, index, why, detail) \<Rightarrow>
      let row = rows ! index;
          amount_decimal = decimal_amount (cl_balance row) decimals in
      and_then (exact_amount amount_decimal decimals) (\<lambda>exact.
      and_then (ensure (exact = cl_balance row)
                  ''the selected full balance does not round-trip exactly at this mint's decimal basis'') (\<lambda>_.
      and_then (case_plan env base order_index (cl_entity row) amount_decimal) (\<lambda>plan.
      and_then (sv_plan_digest env plan) (\<lambda>plan_sha256.
      Inr \<lparr>sel_case_id = ''case-'' @ zero_pad 2 (show_nat order_index),
           sel_selection_order = order_index, sel_selection_reason = why,
           sel_selection_detail = detail, sel_entity_id = se_entity_id (cl_entity row),
           sel_token_account = se_token_account (cl_entity row),
           sel_authority = se_authority (cl_entity row),
           sel_authority_model = se_authority_model (cl_entity row),
           sel_state_shape_sha256 = cl_shape row, sel_shape_label = shape_label (cl_dimensions row),
           sel_balance_bucket = cl_bucket row,
           sel_observed_balance_raw = show_nat (unat (cl_balance row)),
           sel_discovery_slot = ev_slot (se_token_account_evidence (cl_entity row)),
           sel_selected_amount_raw = show_nat (unat (cl_balance row)),
           sel_selected_amount_decimal = amount_decimal,
           sel_amount_policy = (if rebound then FULL_AT_FINAL_POLICY else FULL_BALANCE_POLICY),
           sel_amount_capped = False, sel_case_plan = plan, sel_case_plan_sha256 = plan_sha256\<rparr>)))))"

definition shape_group :: "Classified list \<Rightarrow> SelectedCase list \<Rightarrow> string \<times> nat list \<Rightarrow> ShapeGroup" where
  "shape_group rows selected p =
     (case p of (shape, members) \<Rightarrow>
      let first = rows ! hd members;
          represented =
            bt_collect (map (\<lambda>i. (se_entity_id (cl_entity (rows ! i)), cl_balance (rows ! i))) members);
          selected_ids = map sel_entity_id (filter (\<lambda>c. sel_state_shape_sha256 c = shape) selected) in
      \<lparr>sg_state_shape_sha256 = shape, sg_shape_label = shape_label (cl_dimensions first),
       sg_dimensions = cl_dimensions first, sg_eligibility = cl_eligibility first,
       sg_eligibility_reason = cl_reason first, sg_entities_in_shape = length members,
       sg_represented_raw = sum_once represented,
       sg_balance_buckets = bt_count (\<lambda>i. cl_bucket (rows ! i)) members,
       sg_highest_balance_entities =
         map (\<lambda>i. se_token_account (cl_entity (rows ! i))) (take MAX_SHAPE_EXAMPLES members),
       sg_entities_selected = length selected_ids, sg_selected_entity_ids = selected_ids\<rparr>)"

definition plan_limitations :: "PopulationObservation \<Rightarrow> bool \<Rightarrow> string list" where
  "plan_limitations obs rebound =
     [if rebound then
        ''This plan freezes selected identities, discovery observations and FullAtFinalCapture amount policy before results. Each positive final amount is resolved and bound before its one local VM execution.''
      else
        ''This plan was frozen before any capture or execution. Selected cases, amounts and expected classifications may not be rewritten afterwards.'',
      ''A state shape prioritizes and describes tests. It is never a proof equivalence class: no tested entity establishes anything about its peers.'',
      ''Balance buckets order tests across the observed range. They are not economic classes and the selected cases are not a representative sample.'',
      ''Only the registered repository candidate mechanism is executed, always locally, against a freshly captured bank plus an explicitly proposed rollout overlay.''] @
     (if en_completeness (po_enumeration obs) \<noteq> CompleteForQuery
      then [''Population discovery is incomplete for this capture, so this plan covers only the trustworthy observed subset.'']
      else []) @
     (if as_completeness (po_authority_resolution obs) \<noteq> CompleteResolution
      then [''Some authority models were not resolved. Those accounts are outside the executable candidate set and receive no assumed signer.'']
      else [])"

definition build_plan ::
  "stress_env \<Rightarrow> PopulationObservation \<Rightarrow> ConversionPlan \<Rightarrow> string \<Rightarrow> string \<Rightarrow>
   message + StressTestPlan" where
  "build_plan env obs candidate program_sha256 frozen_at =
     (let rebound = (po_schema_version obs = 2);
          selector_version = (if rebound then SELECTOR_VERSION_V2 else SELECTOR_VERSION) in
      and_then (plan_validate (sv_parse_address env) candidate) (\<lambda>_.
      and_then (budget_validate (po_budget obs)) (\<lambda>_.
      and_then (ensure (cp_source_mint candidate = po_mint obs)
                  ''the candidate plan's source mint is not the mint of this population capture'') (\<lambda>_.
      and_then (ensure (length program_sha256 = 64)
                  ''a stress plan must pin the candidate program build'') (\<lambda>_.
      and_then (ok_or (sv_parse_time env frozen_at) ''invalid plan freeze timestamp'') (\<lambda>_.
      and_then (ok_or (po_mint_config obs) ''a stress plan requires a decoded current mint'') (\<lambda>mint.
      and_then (buckets obs) (\<lambda>(bks, assignment).
      and_then (classify_all env obs assignment) (\<lambda>rows.
      and_then (classification_digest env rows selector_version) (\<lambda>(classification_sha256, _).
      let members = shape_members rows;
          picks = select_picks rows (bk_bucket_count bks) (sb_max_selected_cases (po_budget obs)) in
      and_then (try_map (select_case env candidate rebound (mint_decimals mint) rows)
                  (enumerate 0 picks)) (\<lambda>selected.
      and_then (sv_plan_digest env candidate) (\<lambda>candidate_sha256.
      Inr \<lparr>sp_schema_version = (if rebound then 2 else 1), sp_kind = PLAN_KIND,
           sp_stress_id = po_stress_id obs, sp_run_id = po_run_id obs, sp_asset_mint = po_mint obs,
           sp_population_capture_sha256 = po_capture_sha256 obs,
           sp_enumeration_completeness = en_completeness (po_enumeration obs),
           sp_authority_resolution_completeness = as_completeness (po_authority_resolution obs),
           sp_candidate_plan = candidate, sp_candidate_plan_sha256 = candidate_sha256,
           sp_candidate_program_sha256 = program_sha256,
           sp_classifier_version = CLASSIFIER_VERSION, sp_selector_version = selector_version,
           sp_ordering_rule = ORDERING_RULE, sp_selection_strategy = SELECTION_STRATEGY,
           sp_budget = po_budget obs, sp_buckets = bks,
           sp_classification_sha256 = classification_sha256,
           sp_positive_balance_entities = length rows,
           sp_state_shapes = map (shape_group rows selected) members,
           sp_eligibility_counts = bt_count (\<lambda>row. eligibility_key (cl_eligibility row)) rows,
           sp_selected = selected, sp_frozen_at = frozen_at,
           sp_limitations = plan_limitations obs rebound\<rparr>))))))))))))"

definition stress_plan_validate ::
  "stress_env \<Rightarrow> StressTestPlan \<Rightarrow> PopulationObservation \<Rightarrow> ConversionPlan \<Rightarrow> string \<Rightarrow>
   message + unit" where
  "stress_plan_validate env plan obs candidate program_sha256 =
     and_then (build_plan env obs candidate program_sha256 (sp_frozen_at plan)) (\<lambda>rebuilt.
     ensure (plan = rebuilt)
       ''the stress plan differs from the deterministic pre-execution selection over its population capture'')"

end
