(* ===== verification/StressProperties.thy ===== *)
theory StressProperties
  imports StressSelect
begin

text \<open>
  Selection: the three phases with their budget are a prefix of what an unlimited budget would
  choose, which is every executable account once. From it: what is covered, and what a built plan
  promises about each case.
\<close>

section \<open>The phases without a budget\<close>

definition shape_pick :: "Classified list \<Rightarrow> string \<times> nat list \<Rightarrow> pick option" where
  "shape_pick rows p = (case p of (shape, members) \<Rightarrow>
     map_option (\<lambda>i. (i, NewStateShape, shape_detail shape (length members)))
       (find (is_executable rows) members))"

definition bucket_pick :: "Classified list \<Rightarrow> nat list \<Rightarrow> u8 set \<Rightarrow> u8 \<Rightarrow> pick option" where
  "bucket_pick rows global covered bucket =
     (if bucket \<in> covered then None
      else map_option (\<lambda>i. (i, NewBalanceBucket, bucket_detail bucket))
        (find (\<lambda>i. cl_bucket (rows ! i) = bucket) global))"

definition balance_pick :: "nat \<Rightarrow> pick" where
  "balance_pick i = (i, HighestRemainingBalance, BALANCE_DETAIL)"

definition ideal_shapes :: "Classified list \<Rightarrow> pick list" where
  "ideal_shapes rows = List.map_filter (shape_pick rows) (shape_members rows)"

definition covered_by :: "Classified list \<Rightarrow> pick list \<Rightarrow> u8 set" where
  "covered_by rows picks = (\<lambda>p. cl_bucket (rows ! fst p)) ` set picks"

definition ideal_buckets :: "Classified list \<Rightarrow> u8 \<Rightarrow> pick list" where
  "ideal_buckets rows bucket_count =
     List.map_filter (bucket_pick rows (global_order rows) (covered_by rows (ideal_shapes rows)))
       (map of_nat [0..<unat bucket_count])"

definition ideal_picks :: "Classified list \<Rightarrow> u8 \<Rightarrow> pick list" where
  "ideal_picks rows bucket_count =
     (let covering = ideal_shapes rows @ ideal_buckets rows bucket_count in
      covering @ map balance_pick (filter (\<lambda>i. i \<notin> fst ` set covering) (global_order rows)))"

definition consistent :: "Classified list \<Rightarrow> selection \<Rightarrow> bool" where
  "consistent rows s \<longleftrightarrow>
     set (sn_taken s) = fst ` set (sn_picks s) \<and> set (sn_covered s) = covered_by rows (sn_picks s)"

lemma take_room: "k < b \<Longrightarrow> take (b - k) (x # xs) = x # take (b - Suc k) xs"
  by (simp add: take_Cons' Suc_diff_Suc)

lemma shape_phase_spec:
  assumes "consistent rows s" "length (sn_picks s) \<le> budget"
  shows "consistent rows (shape_phase rows budget ms s) \<and>
    sn_picks (shape_phase rows budget ms s) =
      sn_picks s @ take (budget - length (sn_picks s)) (List.map_filter (shape_pick rows) ms)"
  using assms
proof (induction ms arbitrary: s)
  case (Cons m ms)
  obtain shape members where m: "m = (shape, members)" by (cases m)
  show ?case
  proof (cases "budget \<le> length (sn_picks s)")
    case True
    then show ?thesis using Cons.prems m by simp
  next
    case False
    show ?thesis
    proof (cases "find (is_executable rows) members")
      case None
      then show ?thesis using False Cons.IH [OF Cons.prems] m by (simp add: shape_pick_def)
    next
      case (Some i)
      let ?s = "\<lparr>sn_taken = i # sn_taken s, sn_covered = cl_bucket (rows ! i) # sn_covered s,
        sn_picks = sn_picks s @ [(i, NewStateShape, shape_detail shape (length members))]\<rparr>"
      have c: "consistent rows ?s"
        using Cons.prems(1) by (simp add: consistent_def covered_by_def)
      have l: "length (sn_picks ?s) \<le> budget" using False by simp
      note t = take_room [of "length (sn_picks s)" budget]
      show ?thesis using Cons.IH [OF c l] False Some m by (simp add: shape_pick_def t)
    qed
  qed
qed simp

lemma bucket_pick_cong:
  "bucket \<noteq> b \<Longrightarrow> bucket_pick rows global (insert b C) bucket = bucket_pick rows global C bucket"
  by (simp add: bucket_pick_def)

lemma map_filter_cong': "(\<And>x. x \<in> set xs \<Longrightarrow> f x = g x) \<Longrightarrow> List.map_filter f xs = List.map_filter g xs"
  by (induction xs) (auto split: option.split)

lemma find_cong': "(\<And>x. x \<in> set xs \<Longrightarrow> P x = Q x) \<Longrightarrow> find P xs = find Q xs"
  by (rule find_cong) simp_all

lemma bucket_phase_spec:
  assumes "consistent rows s" "length (sn_picks s) \<le> budget" "distinct bs"
  shows "consistent rows (bucket_phase rows budget global bs s) \<and>
    sn_picks (bucket_phase rows budget global bs s) =
      sn_picks s @ take (budget - length (sn_picks s))
        (List.map_filter (bucket_pick rows global (covered_by rows (sn_picks s))) bs)"
  using assms
proof (induction bs arbitrary: s)
  case (Cons b bs)
  have bs: "distinct bs" "b \<notin> set bs" using Cons.prems(3) by simp_all
  note IH = Cons.IH [OF _ _ bs(1)]
  show ?case
  proof (cases "budget \<le> length (sn_picks s)")
    case True
    then show ?thesis using Cons.prems by simp
  next
    case False
    have cov: "b \<in> set (sn_covered s) \<longleftrightarrow> b \<in> covered_by rows (sn_picks s)"
      using Cons.prems(1) by (simp add: consistent_def)
    show ?thesis
    proof (cases "b \<in> set (sn_covered s)")
      case True
      then show ?thesis using False IH [OF Cons.prems(1,2)] cov by (simp add: bucket_pick_def)
    next
      case uncovered: False
      have fresh: "i \<notin> set (sn_taken s) \<and> cl_bucket (rows ! i) = b \<longleftrightarrow> cl_bucket (rows ! i) = b" for i
        using uncovered Cons.prems(1) by (auto simp: consistent_def covered_by_def)
      show ?thesis
      proof (cases "find (\<lambda>i. cl_bucket (rows ! i) = b) global")
        case None
        then show ?thesis
          using False uncovered IH [OF Cons.prems(1,2)] cov by (simp add: bucket_pick_def fresh)
      next
        case (Some i)
        let ?s = "\<lparr>sn_taken = i # sn_taken s, sn_covered = b # sn_covered s,
          sn_picks = sn_picks s @ [(i, NewBalanceBucket, bucket_detail b)]\<rparr>"
        have b: "cl_bucket (rows ! i) = b" using Some by (auto simp: find_Some_iff)
        have c: "consistent rows ?s"
          using Cons.prems(1) b by (simp add: consistent_def covered_by_def)
        have l: "length (sn_picks ?s) \<le> budget" using False by simp
        note t = take_room [of "length (sn_picks s)" budget]
        have ins: "covered_by rows (sn_picks ?s) = insert b (covered_by rows (sn_picks s))"
          using b by (simp add: covered_by_def)
        have mf: "List.map_filter (bucket_pick rows global (insert b (covered_by rows (sn_picks s)))) bs =
            List.map_filter (bucket_pick rows global (covered_by rows (sn_picks s))) bs"
          by (rule map_filter_cong', rule bucket_pick_cong) (use bs(2) in auto)
        have head: "bucket_pick rows global (covered_by rows (sn_picks s)) b =
            Some (i, NewBalanceBucket, bucket_detail b)"
          using Some uncovered cov by (simp add: bucket_pick_def)
        show ?thesis
          using IH [OF c l] False uncovered Some unfolding ins mf
          by (simp add: fresh head t)
      qed
    qed
  qed
qed simp

lemma balance_phase_spec:
  assumes "length (sn_picks s) \<le> budget" "distinct global"
  shows "sn_picks (balance_phase budget global s) =
    sn_picks s @ take (budget - length (sn_picks s))
      (map balance_pick (filter (\<lambda>i. i \<notin> set (sn_taken s)) global))"
  using assms
proof (induction global arbitrary: s)
  case (Cons i ks)
  show ?case
  proof (cases "budget \<le> length (sn_picks s) \<or> i \<in> set (sn_taken s)")
    case True
    then show ?thesis using Cons by auto
  next
    case False
    let ?s = "s\<lparr>sn_taken := i # sn_taken s,
      sn_picks := sn_picks s @ [(i, HighestRemainingBalance, BALANCE_DETAIL)]\<rparr>"
    have l: "length (sn_picks ?s) \<le> budget" and d: "distinct ks" using False Cons.prems by simp_all
    have f: "filter (\<lambda>j. j \<notin> set (sn_taken ?s)) ks = filter (\<lambda>j. j \<notin> set (sn_taken s)) ks"
      by (rule filter_cong [OF refl]) (use Cons.prems in auto)
    note t = take_room [of "length (sn_picks s)" budget]
    show ?thesis using Cons.IH [OF l d] False unfolding f by (simp add: balance_pick_def t)
  qed
qed simp

lemma global_order_simps [simp]:
  "distinct (global_order rows)"
  "set (global_order rows) = {i. i < length rows \<and> is_executable rows i}"
  "sorted (map (\<lambda>i. case_order (rows ! i)) (global_order rows))"
  by (auto simp: global_order_def)

lemma word_range_distinct: "distinct (map of_nat [0..<unat (bucket_count :: u8)] :: u8 list)"
proof -
  have "inj_on (of_nat :: nat \<Rightarrow> u8) {0..<unat bucket_count}"
  proof (rule inj_onI)
    fix x y :: nat
    assume "x \<in> {0..<unat bucket_count}" "y \<in> {0..<unat bucket_count}" and e: "of_nat x = (of_nat y :: u8)"
    then have "x < unat bucket_count" "y < unat bucket_count" by simp_all
    then have "x < 2 ^ LENGTH(8)" "y < 2 ^ LENGTH(8)"
      using less_trans [OF _ unat_less_pow [of bucket_count]] by blast+
    then show "x = y" using arg_cong [OF e, of unat] by (simp only: unat_of_nat_eq)
  qed
  then show ?thesis by (simp add: distinct_map)
qed

lemma select_picks_ideal: "select_picks rows bucket_count budget = take budget (ideal_picks rows bucket_count)"
proof -
  let ?s0 = "\<lparr>sn_taken = [], sn_covered = [], sn_picks = []\<rparr>"
  let ?bs = "map of_nat [0..<unat bucket_count] :: u8 list"
  define s1 where "s1 = shape_phase rows budget (shape_members rows) ?s0"
  define s2 where "s2 = bucket_phase rows budget (global_order rows) ?bs s1"
  have "consistent rows ?s0" by (simp add: consistent_def covered_by_def)
  then have s1: "consistent rows s1" "sn_picks s1 = take budget (ideal_shapes rows)"
    using shape_phase_spec [of rows ?s0 budget "shape_members rows"]
    by (simp_all add: s1_def ideal_shapes_def)
  have d: "distinct ?bs" by (rule word_range_distinct)
  have s2: "consistent rows s2" "sn_picks s2 = take budget (ideal_shapes rows @ ideal_buckets rows bucket_count)"
  proof -
    have l: "length (sn_picks s1) \<le> budget" using s1(2) by simp
    note spec = bucket_phase_spec [OF s1(1) l d, of "global_order rows", folded s2_def]
    show "consistent rows s2" using spec by blast
    show "sn_picks s2 = take budget (ideal_shapes rows @ ideal_buckets rows bucket_count)"
    proof (cases "length (ideal_shapes rows) \<le> budget")
      case True
      then have "sn_picks s1 = ideal_shapes rows" using s1(2) by simp
      then show ?thesis using spec True by (simp add: ideal_buckets_def)
    next
      case False
      then show ?thesis using spec s1(2) by simp
    qed
  qed
  have l: "length (sn_picks s2) \<le> budget" using s2(2) by simp
  have "sn_picks (balance_phase budget (global_order rows) s2) = take budget (ideal_picks rows bucket_count)"
  proof (cases "length (ideal_shapes rows @ ideal_buckets rows bucket_count) \<le> budget")
    case True
    then have "sn_picks s2 = ideal_shapes rows @ ideal_buckets rows bucket_count" using s2(2) by simp
    moreover from this have "set (sn_taken s2) = fst ` set (ideal_shapes rows @ ideal_buckets rows bucket_count)"
      using s2(1) by (simp add: consistent_def)
    ultimately show ?thesis
      using balance_phase_spec [OF l, of "global_order rows"] True by (simp add: ideal_picks_def Let_def)
  next
    case False
    then have full: "length (sn_picks s2) = budget" using s2(2) by simp
    have "take budget (ideal_picks rows bucket_count) =
        take budget (ideal_shapes rows @ ideal_buckets rows bucket_count)"
      using False by (simp add: ideal_picks_def Let_def)
    then show ?thesis
      using balance_phase_spec [OF l, of "global_order rows"] full s2(2) by simp
  qed
  then show ?thesis by (simp add: select_picks_def Let_def s1_def s2_def)
qed

section \<open>Every executable account, once\<close>

lemma sort_key_Nil_iff [simp]: "sort_key f xs = [] \<longleftrightarrow> xs = []" "[] = sort_key f xs \<longleftrightarrow> xs = []"
  by (metis length_0_conv length_sort)+

lemma find_SomeD: "find P xs = Some x \<Longrightarrow> x \<in> set xs \<and> P x"
  by (auto simp: find_Some_iff)

lemma shape_members_mem:
  "(shape, members) \<in> set (shape_members rows) \<Longrightarrow>
     set members = {i. i < length rows \<and> cl_shape (rows ! i) = shape} \<and> members \<noteq> [] \<and>
     distinct members \<and> sorted (map (\<lambda>i. case_order (rows ! i)) members)"
  by (auto simp: shape_members_def bt_group_mem filter_empty_conv dest: sym)

lemma shape_members_wf: "distinct (map fst (shape_members rows))"
  using bt_wf_distinct [OF bt_group_wf] by (simp add: shape_members_def case_prod_beta o_def)

lemma shape_members_complete:
  assumes "i < length rows"
  shows "\<exists>members. (cl_shape (rows ! i), members) \<in> set (shape_members rows) \<and> i \<in> set members"
proof -
  let ?g = "filter (\<lambda>j. cl_shape (rows ! j) = cl_shape (rows ! i)) [0..<length rows]"
  have i: "i \<in> set ?g" using assms by simp
  then have "?g \<noteq> []" by force
  then have g: "(cl_shape (rows ! i), ?g) \<in> set (bt_group (\<lambda>i. cl_shape (rows ! i)) [0..<length rows])"
    unfolding bt_group_mem by blast
  have "(cl_shape (rows ! i), sort_key (\<lambda>i. case_order (rows ! i)) ?g) \<in> set (shape_members rows)"
    unfolding shape_members_def set_map by (rule rev_image_eqI [OF g]) simp
  moreover have "i \<in> set (sort_key (\<lambda>i. case_order (rows ! i)) ?g)" using i by simp
  ultimately show ?thesis by blast
qed

lemma map_filter_set: "x \<in> set (List.map_filter f xs) \<longleftrightarrow> (\<exists>y\<in>set xs. f y = Some x)"
  by (induction xs) (auto split: option.splits)

lemma ideal_shapes_mem:
  "p \<in> set (ideal_shapes rows) \<longleftrightarrow>
     (\<exists>shape members. (shape, members) \<in> set (shape_members rows) \<and>
       shape_pick rows (shape, members) = Some p)"
  by (auto simp: ideal_shapes_def map_filter_set)

lemma shape_pick_member:
  assumes "m \<in> set (shape_members rows)" "shape_pick rows m = Some p"
  shows "fst p < length rows" "is_executable rows (fst p)" "cl_shape (rows ! fst p) = fst m"
    "find (is_executable rows) (snd m) = Some (fst p)"
proof -
  obtain shape members where m: "m = (shape, members)" by (cases m)
  show f: "find (is_executable rows) (snd m) = Some (fst p)"
    using assms(2) by (auto simp: m shape_pick_def)
  then have "fst p \<in> set members" and e: "is_executable rows (fst p)"
    using find_SomeD [of "is_executable rows" members] by (simp_all add: m)
  moreover have "set members = {i. i < length rows \<and> cl_shape (rows ! i) = shape}"
    using shape_members_mem [of shape members rows] assms(1) by (simp add: m)
  ultimately show "fst p < length rows" "cl_shape (rows ! fst p) = fst m" by (simp_all add: m)
  show "is_executable rows (fst p)" by (rule e)
qed

lemma ideal_shapes_sound:
  assumes "p \<in> set (ideal_shapes rows)"
  shows "fst p < length rows \<and> is_executable rows (fst p)"
  using assms shape_pick_member(1,2) unfolding ideal_shapes_mem by blast

lemma ideal_buckets_sound:
  "p \<in> set (ideal_buckets rows k) \<Longrightarrow> fst p < length rows \<and> is_executable rows (fst p) \<and>
     cl_bucket (rows ! fst p) \<notin> covered_by rows (ideal_shapes rows)"
proof -
  assume "p \<in> set (ideal_buckets rows k)"
  then obtain b i where f: "find (\<lambda>i. cl_bucket (rows ! i) = b) (global_order rows) = Some i" "fst p = i"
    and b: "b \<notin> covered_by rows (ideal_shapes rows)"
    by (auto simp: ideal_buckets_def map_filter_set bucket_pick_def split: if_splits)
  from f(1) have "i \<in> set (global_order rows)" "cl_bucket (rows ! i) = b"
    by (auto dest: find_SomeD)
  with f(2) b show ?thesis by simp
qed

lemma map_filter_tags:
  "(\<And>x p. x \<in> set xs \<Longrightarrow> f x = Some p \<Longrightarrow> tag (fst p) = lbl x) \<Longrightarrow>
     map (\<lambda>p. tag (fst p)) (List.map_filter f xs) = map lbl (filter (\<lambda>x. f x \<noteq> None) xs)"
  by (induction xs) (auto split: option.split)

lemma distinct_map_filter_by:
  assumes "distinct (map lbl xs)" "\<And>x p. x \<in> set xs \<Longrightarrow> f x = Some p \<Longrightarrow> tag (fst p) = lbl x"
  shows "distinct (map (\<lambda>p. tag (fst p)) (List.map_filter f xs))" "distinct (map fst (List.map_filter f xs))"
proof -
  show d: "distinct (map (\<lambda>p. tag (fst p)) (List.map_filter f xs))"
  proof -
    have "map (\<lambda>p. tag (fst p)) (List.map_filter f xs) = map lbl (filter (\<lambda>x. f x \<noteq> None) xs)"
      by (rule map_filter_tags) (rule assms(2))
    with distinct_map_filter [OF assms(1)] show ?thesis by simp
  qed
  then have "distinct (map tag (map fst (List.map_filter f xs)))" by (simp add: o_def)
  then show "distinct (map fst (List.map_filter f xs))" unfolding distinct_map [of tag] by blast
qed

lemma ideal_shapes_distinct: "distinct (map fst (ideal_shapes rows))"
  unfolding ideal_shapes_def
proof (rule distinct_map_filter_by(2) [where lbl = fst and tag = "\<lambda>i. cl_shape (rows ! i)"])
  show "distinct (map fst (shape_members rows))" by (rule shape_members_wf)
  show "cl_shape (rows ! fst p) = fst m" if "m \<in> set (shape_members rows)" "shape_pick rows m = Some p" for m p
    using shape_pick_member(3) [OF that] .
qed

lemma ideal_buckets_distinct:
  assumes "distinct (map of_nat [0..<unat k] :: u8 list)"
  shows "distinct (map fst (ideal_buckets rows k))"
  unfolding ideal_buckets_def
proof (rule distinct_map_filter_by(2) [where lbl = id and tag = "\<lambda>i. cl_bucket (rows ! i)"])
  show "distinct (map id (map of_nat [0..<unat k] :: u8 list))" using assms by simp
  show "cl_bucket (rows ! fst p) = id b"
    if "bucket_pick rows (global_order rows) (covered_by rows (ideal_shapes rows)) b = Some p" for b p
    using that by (auto simp: bucket_pick_def split: if_splits dest!: find_SomeD)
qed

lemma ideal_picks_exactly:
  "distinct (map fst (ideal_picks rows k))"
  "set (map fst (ideal_picks rows k)) = {i. i < length rows \<and> is_executable rows i}"
proof -
  let ?c = "ideal_shapes rows @ ideal_buckets rows k"
  have "fst p \<noteq> fst q" if "p \<in> set (ideal_shapes rows)" "q \<in> set (ideal_buckets rows k)" for p q
    using that ideal_buckets_sound [of q rows k] by (metis covered_by_def image_eqI)
  then have c: "distinct (map fst ?c)"
    using ideal_shapes_distinct [of rows] ideal_buckets_distinct [OF word_range_distinct, of rows k]
    by fastforce
  have snd: "fst ` set ?c \<subseteq> {i. i < length rows \<and> is_executable rows i}"
    using ideal_shapes_sound ideal_buckets_sound by auto
  have m: "map fst (ideal_picks rows k) =
      map fst ?c @ filter (\<lambda>i. i \<notin> fst ` set ?c) (global_order rows)"
    by (simp add: ideal_picks_def Let_def balance_pick_def o_def)
  show "distinct (map fst (ideal_picks rows k))" unfolding m using c by auto
  show "set (map fst (ideal_picks rows k)) = {i. i < length rows \<and> is_executable rows i}"
    unfolding m using snd by auto
qed

text \<open>C34. The budgeted selection is a prefix of one fixed order: what the three phases choose
  under a budget is what they would choose without one, cut to the budget; and without a budget
  they choose every executable account exactly once. So the budget is used up or no executable
  account is left, no account is chosen twice, and a larger budget only adds cases.\<close>

theorem selection_is_prefix:
  "select_picks rows bucket_count budget = take budget (ideal_picks rows bucket_count) \<and>
   distinct (map fst (select_picks rows bucket_count budget)) \<and>
   length (select_picks rows bucket_count budget) =
     min budget (length (filter (is_executable rows) [0..<length rows])) \<and>
   set (map fst (ideal_picks rows bucket_count)) =
     set (filter (is_executable rows) [0..<length rows])"
proof -
  let ?P = "ideal_picks rows bucket_count" and ?E = "filter (is_executable rows) [0..<length rows]"
  have s: "set (map fst ?P) = set ?E" unfolding ideal_picks_exactly(2) by auto
  have "length (map fst ?P) = length ?E"
    using arg_cong [OF s, of card] ideal_picks_exactly(1) by (simp only: distinct_card distinct_filter distinct_upt)
  then have "length (take budget ?P) = min budget (length ?E)" by simp
  moreover have "distinct (map fst (take budget ?P))"
    using ideal_picks_exactly(1) unfolding take_map [symmetric] by (rule distinct_take)
  ultimately show ?thesis using s unfolding select_picks_ideal by blast
qed

section \<open>Coverage\<close>

lemma find_sorted_min:
  "sorted (map f xs) \<Longrightarrow> find P xs = Some x \<Longrightarrow> y \<in> set xs \<Longrightarrow> P y \<Longrightarrow> f x \<le> f y"
  by (induction xs) (auto split: if_splits)

lemma shape_covered:
  assumes "i < length rows" "is_executable rows i"
  shows "\<exists>p\<in>set (ideal_shapes rows). cl_shape (rows ! fst p) = cl_shape (rows ! i) \<and>
    case_order (rows ! fst p) \<le> case_order (rows ! i)"
proof -
  obtain members where m: "(cl_shape (rows ! i), members) \<in> set (shape_members rows)" "i \<in> set members"
    using shape_members_complete [OF assms(1)] by blast
  obtain j where j: "find (is_executable rows) members = Some j"
    using m(2) assms(2) by (cases "find (is_executable rows) members") (auto simp: find_None_iff)
  obtain p where p: "shape_pick rows (cl_shape (rows ! i), members) = Some p" "fst p = j"
    using j by (auto simp: shape_pick_def)
  have "case_order (rows ! fst p) \<le> case_order (rows ! i)"
    unfolding p(2) using find_sorted_min [OF _ j m(2) assms(2)] shape_members_mem [OF m(1)] by blast
  moreover have "cl_shape (rows ! fst p) = cl_shape (rows ! i)"
    using shape_pick_member(3) [OF m(1) p(1)] by (simp only: fst_conv)
  moreover have "p \<in> set (ideal_shapes rows)" unfolding ideal_shapes_mem using m(1) p(1) by blast
  ultimately show ?thesis by blast
qed

lemma bucket_covered:
  assumes "i < length rows" "is_executable rows i" "cl_bucket (rows ! i) < k"
  shows "\<exists>p\<in>set (ideal_shapes rows @ ideal_buckets rows k). cl_bucket (rows ! fst p) = cl_bucket (rows ! i)"
proof (cases "cl_bucket (rows ! i) \<in> covered_by rows (ideal_shapes rows)")
  case True
  then obtain p where p: "cl_bucket (rows ! i) = cl_bucket (rows ! fst p)" "p \<in> set (ideal_shapes rows)"
    unfolding covered_by_def by (rule imageE)
  from p(2) have "p \<in> set (ideal_shapes rows @ ideal_buckets rows k)" unfolding set_append by (rule UnI1)
  then show ?thesis using p(1) [symmetric] by (rule rev_bexI)
next
  case False
  define b where "b = cl_bucket (rows ! i)"
  have "unat b \<in> set [0..<unat k]" using assms(3) by (simp add: b_def word_less_nat_alt)
  then have "of_nat (unat b) \<in> set (map of_nat [0..<unat k] :: u8 list)" unfolding set_map by (rule imageI)
  moreover have "of_nat (unat b) = b" by simp
  ultimately have b: "b \<in> set (map of_nat [0..<unat k])" by (simp only:)
  have "i \<in> set (global_order rows)" using assms(1,2) by simp
  then have "find (\<lambda>i. cl_bucket (rows ! i) = b) (global_order rows) \<noteq> None"
    unfolding find_None_iff b_def by blast
  then obtain j where j: "find (\<lambda>i. cl_bucket (rows ! i) = b) (global_order rows) = Some j" by blast
  then have m: "cl_bucket (rows ! j) = b" by (blast dest: find_SomeD)
  obtain p where p: "bucket_pick rows (global_order rows) (covered_by rows (ideal_shapes rows)) b = Some p"
    "fst p = j"
    using False j by (simp add: bucket_pick_def b_def)
  have "p \<in> set (ideal_buckets rows k)" using b p(1) unfolding ideal_buckets_def map_filter_set by blast
  then have "p \<in> set (ideal_shapes rows @ ideal_buckets rows k)" unfolding set_append by (rule UnI2)
  moreover have "cl_bucket (rows ! fst p) = cl_bucket (rows ! i)" unfolding p(2) m b_def ..
  ultimately show ?thesis by blast
qed

lemma ideal_shapes_count:
  "length (ideal_shapes rows) =
     length (remdups (map (\<lambda>i. cl_shape (rows ! i)) (filter (is_executable rows) [0..<length rows])))"
proof -
  let ?tags = "map (\<lambda>p. cl_shape (rows ! fst p)) (ideal_shapes rows)"
  have d: "distinct ?tags"
    unfolding ideal_shapes_def
    by (rule distinct_map_filter_by(1) [where lbl = fst and tag = "\<lambda>i. cl_shape (rows ! i)"])
      (rule shape_members_wf, rule shape_pick_member(3))
  have s: "set ?tags = set (map (\<lambda>i. cl_shape (rows ! i)) (filter (is_executable rows) [0..<length rows]))"
  proof (intro equalityI subsetI)
    fix x
    assume "x \<in> set ?tags"
    then obtain p where p: "p \<in> set (ideal_shapes rows)" "x = cl_shape (rows ! fst p)" by auto
    then show "x \<in> set (map (\<lambda>i. cl_shape (rows ! i)) (filter (is_executable rows) [0..<length rows]))"
      using ideal_shapes_sound [OF p(1)] by simp
  next
    fix x
    assume "x \<in> set (map (\<lambda>i. cl_shape (rows ! i)) (filter (is_executable rows) [0..<length rows]))"
    then obtain i where i: "i < length rows" "is_executable rows i" "x = cl_shape (rows ! i)" by auto
    obtain p where p: "p \<in> set (ideal_shapes rows)" "cl_shape (rows ! fst p) = cl_shape (rows ! i)"
      using shape_covered [OF i(1,2)] by blast
    show "x \<in> set ?tags" unfolding i(3) p(2) [symmetric] set_map using p(1) by (rule imageI)
  qed
  have "length ?tags = card (set ?tags)" using distinct_card [OF d] by (rule sym)
  then show ?thesis unfolding s length_remdups_card_conv length_map .
qed

text \<open>C35. The budget goes to diversity first. When it is at least the number of state shapes that
  have an executable account, every executable account is represented by a selected one of its
  shape whose balance is at least as high (ties by address), and with four cases more the same
  holds for the balance buckets; when it is not, no case is spent on anything but a new shape.\<close>

theorem selection_covers:
  "let executable = filter (is_executable rows) [0..<length rows];
       shapes = length (remdups (map (\<lambda>i. cl_shape (rows ! i)) executable));
       picks = select_picks rows bucket_count budget in
   (if shapes \<le> budget then
      list_all (\<lambda>i. list_ex (\<lambda>p. cl_shape (rows ! fst p) = cl_shape (rows ! i) \<and>
        case_order (rows ! fst p) \<le> case_order (rows ! i)) picks) executable
    else list_all (\<lambda>p. fst (snd p) = NewStateShape) picks) \<and>
   (if shapes + unat bucket_count \<le> budget then
      list_all (\<lambda>i. if cl_bucket (rows ! i) < bucket_count
        then list_ex (\<lambda>p. cl_bucket (rows ! fst p) = cl_bucket (rows ! i)) picks else True) executable
    else True)"
proof -
  let ?I = "ideal_shapes rows" and ?J = "ideal_buckets rows bucket_count"
  have len: "length ?J \<le> unat bucket_count"
    unfolding ideal_buckets_def List.map_filter_def length_map
    by (rule order_trans [OF length_filter_le]) simp
  have I: "set ?I \<subseteq> set (select_picks rows bucket_count budget)" if "length ?I \<le> budget"
    using that by (simp add: select_picks_ideal ideal_picks_def Let_def)
  have J: "set (?I @ ?J) \<subseteq> set (select_picks rows bucket_count budget)"
    if "length ?I + unat bucket_count \<le> budget"
    using that len by (auto simp: select_picks_ideal ideal_picks_def Let_def)
  have only: "list_all (\<lambda>p. fst (snd p) = NewStateShape) (select_picks rows bucket_count budget)"
    if "\<not> length ?I \<le> budget"
  proof -
    have "select_picks rows bucket_count budget = take budget ?I"
      using that by (simp add: select_picks_ideal ideal_picks_def Let_def)
    moreover have "fst (snd p) = NewStateShape" if "p \<in> set ?I" for p
      using that by (auto simp: ideal_shapes_mem shape_pick_def)
    ultimately show ?thesis by (auto simp: list_all_iff dest: in_set_takeD)
  qed
  have shapes: "list_ex (\<lambda>p. cl_shape (rows ! fst p) = cl_shape (rows ! i) \<and>
      case_order (rows ! fst p) \<le> case_order (rows ! i)) (select_picks rows bucket_count budget)"
    if le: "length ?I \<le> budget" and i: "i \<in> set (filter (is_executable rows) [0..<length rows])" for i
  proof -
    have "i < length rows" "is_executable rows i" using i by simp_all
    from shape_covered [OF this] I [OF le] show ?thesis unfolding list_ex_iff by blast
  qed
  have bks: "list_ex (\<lambda>p. cl_bucket (rows ! fst p) = cl_bucket (rows ! i)) (select_picks rows bucket_count budget)"
    if le: "length ?I + unat bucket_count \<le> budget"
      and i: "i \<in> set (filter (is_executable rows) [0..<length rows])" and b: "cl_bucket (rows ! i) < bucket_count" for i
  proof -
    have "i < length rows" "is_executable rows i" using i by simp_all
    from bucket_covered [OF this b] J [OF le] show ?thesis unfolding list_ex_iff by blast
  qed
  let ?E = "filter (is_executable rows) [0..<length rows]" and ?S = "select_picks rows bucket_count budget"
  have "if length ?I \<le> budget then
      list_all (\<lambda>i. list_ex (\<lambda>p. cl_shape (rows ! fst p) = cl_shape (rows ! i) \<and>
        case_order (rows ! fst p) \<le> case_order (rows ! i)) ?S) ?E
    else list_all (\<lambda>p. fst (snd p) = NewStateShape) ?S"
  proof (cases "length ?I \<le> budget")
    case True
    show ?thesis unfolding if_P [OF True] list_all_iff using shapes [OF True] by blast
  next
    case False
    show ?thesis unfolding if_not_P [OF False] by (rule only [OF False])
  qed
  moreover have "if length ?I + unat bucket_count \<le> budget then
      list_all (\<lambda>i. if cl_bucket (rows ! i) < bucket_count
        then list_ex (\<lambda>p. cl_bucket (rows ! fst p) = cl_bucket (rows ! i)) ?S else True) ?E else True"
  proof (cases "length ?I + unat bucket_count \<le> budget")
    case True
    have "if cl_bucket (rows ! i) < bucket_count
        then list_ex (\<lambda>p. cl_bucket (rows ! fst p) = cl_bucket (rows ! i)) ?S else True" if "i \<in> set ?E" for i
      using bks [OF True that] by (cases "cl_bucket (rows ! i) < bucket_count") (simp_all only: if_True if_False)
    then show ?thesis unfolding if_P [OF True] list_all_iff by blast
  qed (simp only: if_False)
  ultimately show ?thesis unfolding Let_def ideal_shapes_count [symmetric] by (rule conjI)
qed

end
