(* ===== verification/PopulationProperties.thy ===== *)
theory PopulationProperties
  imports StressCapture StressProperties
begin

text \<open>
  What a rebuilt population guarantees: no row is lost, doubled or invented, complete means complete,
  and every authority model comes from an account record that is in the capture. With it, an
  end-to-end statement about the cases a plan selects.
\<close>

section \<open>Rows\<close>

lemma collect_rows_Inr:
  "collect_rows chain seen es = Inr rows \<Longrightarrow>
     distinct (map fst rows) \<and> set (map fst rows) \<inter> set seen = {} \<and> length rows = length es"
proof (induction es arbitrary: seen rows)
  case (Cons e es)
  then obtain pubkey rest where r: "pubkey \<notin> set seen" "collect_rows chain (pubkey # seen) es = Inr rest"
    "rows = (pubkey, json_at e ''account'') # rest"
    by (auto simp: result_simps)
  show ?case using Cons.IH [OF r(2)] r(1,3) by auto
qed simp

lemma ordered_rows_Inr:
  assumes "ordered_rows chain v budget = Inr (returned, rows)"
  shows "distinct (map fst rows)" "length rows = min returned (sb_max_decoded_accounts budget)"
proof -
  obtain es all where all: "collect_rows chain [] es = Inr all" "returned = length all"
    "rows = take (sb_max_decoded_accounts budget) (sort_key fst all)"
    using assms by (auto simp: ordered_rows_def result_simps)
  have "distinct (map fst (sort_key fst all))"
    using collect_rows_Inr [OF all(1)] by (simp add: distinct_map inj_on_def)
  then show "distinct (map fst rows)" unfolding all(3) take_map [symmetric] by (rule distinct_take)
  show "length rows = min returned (sb_max_decoded_accounts budget)" unfolding all by simp
qed

lemma decode_rows_Inr:
  assumes "decode_rows chain mc mint evidence index rows = Inr (decoded, undecoded)"
  shows "length decoded + length undecoded = length rows \<and> set (map fst decoded) \<subseteq> set (map fst rows) \<and>
    (distinct (map fst rows) \<longrightarrow> distinct (map fst decoded)) \<and>
    ((a, s) \<in> set decoded \<longrightarrow> (\<exists>raw. (a, raw) \<in> set rows \<and> verify_row chain mc mint raw = Inr s))"
  using assms
proof (induction rows arbitrary: index decoded undecoded)
  case (Cons row rows)
  obtain address raw where row: "row = (address, raw)" by (cases row)
  from Cons.prems obtain ev ds us where t: "decode_rows chain mc mint evidence (index + 1) rows = Inr (ds, us)"
    and r: "(case verify_row chain mc mint raw of
        Inr state \<Rightarrow> ((address, state) # ds, us)
      | Inl error \<Rightarrow> (ds, \<lparr>ud_address = address, ud_reason = error,
          ud_raw_data_sha256 = (case raw_account_bytes chain raw of
             Inr b \<Rightarrow> Some (ch_sha256 chain b) | Inl _ \<Rightarrow> None), ud_evidence = ev\<rparr> # us)) = (decoded, undecoded)"
    by (auto simp: row result_simps)
  note IH = Cons.IH [OF t]
  show ?case
  proof (cases "verify_row chain mc mint raw")
    case (Inl e)
    then have "decoded = ds" "length undecoded = Suc (length us)" using r by auto
    then show ?thesis using IH by (auto simp: row)
  next
    case (Inr st)
    then have d: "decoded = (address, st) # ds" "undecoded = us" using r by auto
    have "\<exists>raw'. (a, raw') \<in> set (row # rows) \<and> verify_row chain mc mint raw' = Inr s"
      if "(a, s) \<in> set decoded"
    proof (cases "(a, s) \<in> set ds")
      case True
      then show ?thesis using IH by auto
    next
      case False
      then show ?thesis using that Inr by (auto simp: d row)
    qed
    moreover have "set (map fst decoded) \<subseteq> set (map fst (row # rows))"
      "distinct (map fst (row # rows)) \<longrightarrow> distinct (map fst decoded)"
      using IH by (auto simp: d row)
    ultimately show ?thesis using IH by (simp add: d)
  qed
qed simp

lemma build_entities_Inr:
  assumes "build_entities mk evidence index decoded = Inr es"
  shows "list_all2 (\<lambda>(a, s) e. \<exists>ev. e = mk a s ev) decoded es"
  using assms
proof (induction decoded arbitrary: index es)
  case (Cons d decoded)
  obtain a s where "d = (a, s)" by (cases d)
  with Cons show ?case by (auto simp: result_simps)
qed simp

lemma stress_entity_simps [simp]:
  "se_token_account (stress_entity chain sha mint mc resolved a s ev) = a"
  "se_mint (stress_entity chain sha mint mc resolved a s ev) = mint"
  "se_entity_id (stress_entity chain sha mint mc resolved a s ev) = stress_entity_id sha a"
  "se_state (stress_entity chain sha mint mc resolved a s ev) = s"
  "se_authority (stress_entity chain sha mint mc resolved a s ev) = ta_owner s"
  by (simp_all add: stress_entity_def Let_def split: option.splits prod.splits)

section \<open>Authorities\<close>

text \<open>The account record a piece of authority evidence points to.\<close>

definition captured_at :: "Capture \<Rightarrow> EvidenceRef \<Rightarrow> json \<Rightarrow> bool" where
  "captured_at c ev raw \<longleftrightarrow> ev_rpc_id ev < length (cap_observations c) \<and>
     (\<exists>result vs k. ob_result (cap_observations c ! ev_rpc_id ev) = Some result \<and>
        as_array (json_at result ''value'') = Some vs \<and> k < length vs \<and> vs ! k = raw \<and>
        ev_pointer ev = ''/value/'' @ show_nat k)"

definition from_capture :: "chain \<Rightarrow> Capture \<Rightarrow> (string, authority_record) btree_map \<Rightarrow> bool" where
  "from_capture chain c resolved \<longleftrightarrow> bt_wf resolved \<and>
     (\<forall>address m obs r ev. bt_get resolved address = Some (m, obs, r, ev) \<longrightarrow>
        (\<exists>raw. classify_authority chain address raw = Inr (m, obs, r) \<and> captured_at c ev raw))"

lemma from_capture_insert:
  assumes "from_capture chain c resolved" "classify_authority chain address raw = Inr (m, obs, r)"
    "captured_at c ev raw"
  shows "from_capture chain c (bt_insert address (m, obs, r, ev) resolved)"
  using assms unfolding from_capture_def by (auto simp: bt_insert_wf bt_get_insert split: if_splits)

lemma classify_batch_inv:
  assumes "classify_batch chain index slot offset (zip batch (drop offset vs)) resolved = Inr resolved'"
    "from_capture chain c resolved" "index < length (cap_observations c)"
    "ob_result (cap_observations c ! index) = Some result" "as_array (json_at result ''value'') = Some vs"
  shows "from_capture chain c resolved'"
  using assms
proof (induction batch arbitrary: offset resolved)
  case (Cons address batch)
  show ?case
  proof (cases "offset < length vs")
    case False
    then show ?thesis using Cons.prems by simp
  next
    case True
    then have d: "drop offset vs = vs ! offset # drop (Suc offset) vs" by (rule Cons_nth_drop_Suc [symmetric])
    from Cons.prems(1) obtain m obs r where cl: "classify_authority chain address (vs ! offset) = Inr (m, obs, r)"
      and rest: "classify_batch chain index slot (Suc offset) (zip batch (drop (Suc offset) vs))
        (bt_insert address (m, obs, r, \<lparr>ev_rpc_id = index, ev_pointer = ''/value/'' @ show_nat offset,
           ev_slot = slot\<rparr>) resolved) = Inr resolved'"
      by (auto simp: d result_simps)
    have "captured_at c \<lparr>ev_rpc_id = index, ev_pointer = ''/value/'' @ show_nat offset, ev_slot = slot\<rparr> (vs ! offset)"
      using Cons.prems(3-5) True by (auto simp: captured_at_def)
    from Cons.IH [OF rest from_capture_insert [OF Cons.prems(2) cl this] Cons.prems(3-5)]
    show ?thesis .
  qed
qed simp

lemma resolve_batches_inv:
  assumes "resolve_batches chain c slot index batches s = Inr s'" "from_capture chain c (rs_resolved s)"
  shows "from_capture chain c (rs_resolved s')"
  using assms
proof (induction batches arbitrary: index s)
  case (Cons batch batches)
  show ?case
  proof (cases "length (cap_observations c) \<le> index")
    case True
    then show ?thesis using Cons.prems by auto
  next
    case False
    then obtain r where r: "checked chain c index ''getMultipleAccounts''
        (JArray [JArray (map JString batch), min_config slot]) = Inr r"
      using Cons.prems(1) by (auto simp: result_simps)
    have at: "r = cap_observations c ! index"
      using r False by (auto simp: checked_def Let_def result_simps split: if_splits)
    show ?thesis
    proof (cases "ob_result r")
      case None
      then show ?thesis using Cons.prems False r by (auto simp: result_simps)
    next
      case (Some result)
      then obtain batch_slot vs resolved where v: "as_array (json_at result ''value'') = Some vs"
        and cb: "classify_batch chain index batch_slot 0 (zip batch vs) (rs_resolved s) = Inr resolved"
        and rest: "resolve_batches chain c slot (index + 1) batches
          (s\<lparr>rs_slots := rs_slots s @ [batch_slot], rs_batches := rs_batches s + 1,
             rs_resolved := resolved\<rparr>) = Inr s'"
        using Cons.prems(1) False r by (auto simp: result_simps)
      have "from_capture chain c resolved"
        by (rule classify_batch_inv [of chain index batch_slot 0 batch vs, OF _ Cons.prems(2)])
          (use cb False Some v at in simp_all)
      then show ?thesis using Cons.IH [OF rest] by simp
    qed
  qed
qed simp

text \<open>An entity's authority is what the capture says of it, or unknown.\<close>

definition faithful_authority :: "chain \<Rightarrow> Capture \<Rightarrow> StressEntity \<Rightarrow> bool" where
  "faithful_authority chain c e \<longleftrightarrow>
     (case (se_authority_resolution e, se_authority_evidence e) of
        (Resolved, Some ev) \<Rightarrow> \<exists>raw. captured_at c ev raw \<and> classified_from chain raw e
      | (NotResolved, None) \<Rightarrow> se_authority_model e = UnknownEntity
      | _ \<Rightarrow> False)"

lemma stress_entity_faithful:
  assumes "from_capture chain c resolved"
  shows "faithful_authority chain c (stress_entity chain sha mint mc resolved a s ev)"
proof (cases "bt_get resolved (ta_owner s)")
  case None
  then show ?thesis by (simp add: faithful_authority_def stress_entity_def Let_def)
next
  case (Some x)
  obtain m obs r e where x: "x = (m, obs, r, e)" by (cases x)
  with Some assms obtain raw where "classify_authority chain (ta_owner s) raw = Inr (m, obs, r)" "captured_at c e raw"
    unfolding from_capture_def by blast
  then show ?thesis
    using Some x by (auto simp: faithful_authority_def stress_entity_def Let_def classified_from_def)
qed

section \<open>Scans\<close>

definition good_entity :: "chain \<Rightarrow> Capture \<Rightarrow> string \<Rightarrow> StressEntity \<Rightarrow> bool" where
  "good_entity chain c sha e \<longleftrightarrow>
     faithful_authority chain c e \<and> se_mint e = cap_mint c \<and>
     se_entity_id e = stress_entity_id sha (se_token_account e)"

definition counted :: "Enumeration \<Rightarrow> nat \<Rightarrow> nat \<Rightarrow> nat \<Rightarrow> bool" where
  "counted e entities undecoded limit \<longleftrightarrow>
     en_rows_decoded e = entities \<and> en_rows_undecodable e = undecoded \<and>
     entities + undecoded = min (en_rows_returned e) limit \<and>
     (en_completeness e = CompleteForQuery \<longrightarrow> en_rows_returned e = entities \<and> undecoded = 0)"

definition good_scan :: "chain \<Rightarrow> Capture \<Rightarrow> string \<Rightarrow> population_scan \<Rightarrow> bool" where
  "good_scan chain c sha s \<longleftrightarrow>
     distinct (map se_token_account (ps_entities s)) \<and>
     list_all (good_entity chain c sha) (ps_entities s) \<and>
     counted (ps_enumeration s) (length (ps_entities s)) (length (ps_undecoded s))
       (sb_max_decoded_accounts (cap_budget c))"

lemma resolve_authorities_from_capture:
  assumes "resolve_authorities chain c slot decoded summary slots = Inr (r, a)"
  shows "from_capture chain c (rs_resolved r)"
proof -
  obtain batches s where "resolve_batches chain c slot 3 batches s = Inr r" "rs_resolved s = []"
    using assms by (auto simp: resolve_authorities_def Let_def result_simps)
  moreover have "from_capture chain c []" by (simp add: from_capture_def bt_wf_def bt_get_def)
  ultimately show ?thesis using resolve_batches_inv [of chain c slot 3 batches s r] by simp
qed

lemma built_entities:
  assumes b: "build_entities (stress_entity chain sha (cap_mint c) mc resolved) evidence 0 decoded = Inr es"
    and r: "from_capture chain c resolved"
  shows "map se_token_account es = map fst decoded" "list_all (good_entity chain c sha) es"
proof -
  note l = build_entities_Inr [OF b]
  then show "map se_token_account es = map fst decoded"
    by (induction rule: list_all2_induct) auto
  from l show "list_all (good_entity chain c sha) es"
    by (induction rule: list_all2_induct) (auto simp: good_entity_def stress_entity_faithful [OF r])
qed

lemma scan_value_good:
  assumes "scan_value chain c sha mc mint_slot v s = Inr s'"
  shows "good_scan chain c sha s'"
proof -
  obtain slot returned rows entries evidence decoded undecoded r a es
    where rows: "ordered_rows chain v (cap_budget c) = Inr (returned, rows)"
    and dec: "decode_rows chain mc (cap_mint c) evidence 0 rows = Inr (decoded, undecoded)"
    and ra: "resolve_authorities chain c slot decoded (ps_authority s) (ps_slots s @ [slot]) = Inr (r, a)"
    and es: "build_entities (stress_entity chain sha (cap_mint c) mc (rs_resolved r)) evidence 0 decoded = Inr es"
    and s': "ps_entities s' = es" "ps_undecoded s' = undecoded"
      "en_rows_decoded (ps_enumeration s') = length decoded"
      "en_rows_undecodable (ps_enumeration s') = length undecoded"
      "en_rows_returned (ps_enumeration s') = returned"
      "en_completeness (ps_enumeration s') =
        (if length rows < returned \<or> undecoded \<noteq> [] then PartialEnumeration else CompleteForQuery)"
    using assms by (force simp: scan_value_def Let_def result_simps)
  note r = resolve_authorities_from_capture [OF ra]
  have "length es = length decoded"
    using built_entities(1) [OF es r] by (metis length_map)
  moreover have "length decoded + length undecoded = length rows" "distinct (map fst decoded)"
    using decode_rows_Inr [OF dec] ordered_rows_Inr(1) [OF rows] by blast+
  ultimately show ?thesis
    using built_entities [OF es r] ordered_rows_Inr(2) [OF rows]
    by (auto simp: good_scan_def counted_def s' split: if_splits)
qed

lemma scan_failure_incomplete: "fst (scan_failure e) \<noteq> CompleteForQuery"
  by (simp add: scan_failure_def)

definition fresh_scan :: "population_scan \<Rightarrow> bool" where
  "fresh_scan s \<longleftrightarrow> ps_entities s = [] \<and> ps_undecoded s = [] \<and>
     en_rows_decoded (ps_enumeration s) = 0 \<and> en_rows_undecodable (ps_enumeration s) = 0 \<and>
     en_rows_returned (ps_enumeration s) = 0 \<and> en_completeness (ps_enumeration s) \<noteq> CompleteForQuery"

lemma fresh_scan_good: "fresh_scan s \<Longrightarrow> good_scan chain c sha s"
  by (simp add: fresh_scan_def good_scan_def counted_def)

lemma fresh_scan_simps [simp]:
  "fresh_scan (initial_scan c)"
  "fresh_scan s \<Longrightarrow> fresh_scan (s\<lparr>ps_slots := sl, ps_mint_slot := ms,
     ps_enumeration := (ps_enumeration s)\<lparr>en_program := pr\<rparr>\<rparr>)"
  "fresh_scan s \<Longrightarrow> fresh_scan (s\<lparr>ps_enumeration := add_gap g (ps_enumeration s)\<rparr>)"
  "fresh_scan s \<Longrightarrow> k \<noteq> CompleteForQuery \<Longrightarrow>
     fresh_scan (s\<lparr>ps_enumeration := add_gap g ((ps_enumeration s)\<lparr>en_completeness := k\<rparr>)\<rparr>)"
  by (simp_all add: fresh_scan_def initial_scan_def add_gap_def)

lemma scan_result_good:
  assumes "scan_result chain c sha mc slot scan s = Inr s'" "fresh_scan s"
  shows "good_scan chain c sha s'"
proof (cases "ob_result scan")
  case None
  obtain k g where f: "scan_failure (error_text scan) = (k, g)" by fastforce
  then have "k \<noteq> CompleteForQuery" using scan_failure_incomplete [of "error_text scan"] by simp
  moreover have "s' = s\<lparr>ps_enumeration := add_gap g ((ps_enumeration s)\<lparr>en_completeness := k\<rparr>)\<rparr>"
    using assms(1) None f by (auto simp: scan_result_def result_simps)
  ultimately show ?thesis using assms(2) by (intro fresh_scan_good) simp
next
  case (Some v)
  then show ?thesis using assms(1) scan_value_good by (simp add: scan_result_def)
qed

lemma scan_mint_good:
  assumes "scan_mint chain c sha mc response s = Inr s'" "fresh_scan s"
  shows "good_scan chain c sha s'"
proof -
  obtain slot scan s1 where "scan_result chain c sha mc slot scan
      (s\<lparr>ps_slots := ps_slots s @ [slot], ps_mint_slot := Some slot,
         ps_enumeration := (ps_enumeration s)\<lparr>en_program := mint_token_program mc\<rparr>\<rparr>) = Inr s1"
    and s': "s' = s1\<lparr>ps_mint_config := Some mc\<rparr>"
    using assms(1) by (auto simp: scan_mint_def Let_def result_simps)
  then have "good_scan chain c sha s1" using assms(2) by (auto intro: scan_result_good)
  then show ?thesis by (simp add: s' good_scan_def)
qed

lemma mint_result_good:
  assumes "mint_result chain c sha m s = Inr s'" "fresh_scan s"
  shows "good_scan chain c sha s'"
proof (cases "ob_result m")
  case None
  with assms show ?thesis by (auto simp: mint_result_def result_simps intro!: fresh_scan_good)
next
  case (Some response)
  show ?thesis
  proof (cases "decode_mint chain (json_at response ''value'')")
    case (Inl e)
    with Some assms show ?thesis by (auto simp: mint_result_def result_simps intro!: fresh_scan_good)
  next
    case (Inr mc)
    with Some assms show ?thesis by (auto simp: mint_result_def intro: scan_mint_good)
  qed
qed

lemma scan_capture_good:
  assumes "scan_capture chain c sha genesis = Inr s"
  shows "good_scan chain c sha s"
proof (cases "genesis = MAINNET")
  case False
  with assms show ?thesis by (auto simp: scan_capture_def Let_def result_simps intro!: fresh_scan_good)
next
  case True
  then obtain m where "mint_result chain c sha m (initial_scan c) = Inr s"
    using assms by (auto simp: scan_capture_def Let_def result_simps)
  then show ?thesis by (rule mint_result_good) simp
qed

section \<open>Populations\<close>

lemma population_evaluate_Inr:
  assumes "population_evaluate chain c sha = Inr p"
  shows "\<exists>s balances. good_scan chain c sha s \<and> po_entities p = sort_key se_token_account (ps_entities s) \<and>
    po_undecoded p = sort_key ud_address (ps_undecoded s) \<and> po_enumeration p = ps_enumeration s \<and>
    po_authority_resolution p = ps_authority s \<and> po_mint p = cap_mint c \<and> po_budget p = cap_budget c \<and>
    po_capture_sha256 p = sha \<and> po_mint_config p = ps_mint_config s \<and>
    budget_validate (cap_budget c) = Inr () \<and>
    try_map entity_balance (po_entities p) = Inr balances \<and>
    po_summary p = population_counts (po_entities p) balances (po_undecoded p) (ps_authority s)"
  using assms
  by (auto simp: population_evaluate_def Let_def result_simps dest!: scan_capture_good)

lemma positive_zip:
  assumes "try_map entity_balance es = Inr bs"
  shows "length (filter (\<lambda>(_, b). 0 < b) (zip es bs)) + length (filter (\<lambda>b. \<not> 0 < b) bs) = length es"
proof -
  have "length (filter (\<lambda>(_, b). 0 < b) (zip es bs)) = length (filter (\<lambda>b. 0 < b) bs)"
    if "length es = length bs" for es :: "StressEntity list"
    using that by (induction es bs rule: list_induct2) auto
  then show ?thesis
    using try_map_length [OF assms] sum_length_filter_compl [of "\<lambda>b. 0 < b" bs] by simp
qed



section \<open>An example\<close>

definition ex_spl :: spl where
  "ex_spl =
     \<lparr>spl_unpack_account = (\<lambda>_. Some \<lparr>spa_mint = [109], spa_owner = [119], spa_amount = 7,
        spa_delegate = None, spa_state = Initialized, spa_is_native = None, spa_delegated_amount = 0,
        spa_close_authority = None\<rparr>),
      spl_unpack_mint = (\<lambda>_. Some \<lparr>spm_mint_authority = None, spm_supply = 100, spm_decimals = 6,
        spm_is_initialized = True, spm_freeze_authority = None\<rparr>),
      spl_account_state = (\<lambda>_. None), spl_uninitialized_state = (\<lambda>_. None),
      spl_mint_state = (\<lambda>_. None)\<rparr>"

definition ex_account :: "string \<Rightarrow> json" where
  "ex_account program =
     JObject [(''data'', JArray [JString [], JString ''base64'']), (''executable'', JBool False),
       (''owner'', JString program)]"

definition ex_response :: "json \<Rightarrow> json" where
  "ex_response v =
     JObject [(''context'', JObject [(''slot'', JNumber (PosInt 5))]), (''value'', v)]"

definition ex_observation :: "string \<Rightarrow> json \<Rightarrow> json \<Rightarrow> Observation" where
  "ex_observation method params result =
     \<lparr>ob_method = method, ob_params = params, ob_started_at = ''t'', ob_completed_at = ''t'',
      ob_result = Some result, ob_error = None\<rparr>"

definition ex_capture :: Capture where
  "ex_capture =
     \<lparr>cap_schema_version = 2, cap_kind = POPULATION_KIND, cap_run_id = ''r'', cap_stress_id = ''s'',
      cap_mint = ''m'', cap_budget = default_budget, cap_rpc_origin = [], cap_started_at = ''t'',
      cap_completed_at = ''t'', cap_decoder = DECODER_V2,
      cap_observations =
        [ex_observation ''getGenesisHash'' (JArray []) (JString MAINNET),
         ex_observation ''getAccountInfo'' (JArray [JString ''m'', base_config])
           (ex_response (ex_account LEGACY_PROGRAM)),
         ex_observation ''getProgramAccounts'' (JArray [JString LEGACY_PROGRAM, enumeration_config ''m'' 5])
           (ex_response (JArray [JObject [(''account'', ex_account LEGACY_PROGRAM), (''pubkey'', JString ''a'')]])),
         ex_observation ''getMultipleAccounts'' (JArray [JArray [JString ''w''], min_config 5])
           (ex_response (JArray [ex_account SYSTEM_PROGRAM]))]\<rparr>"

definition ex_population_chain :: chain where
  "ex_population_chain = ex_chain\<lparr>ch_spl := ex_spl\<rparr>"

lemmas ex_chain_defs = ex_population_chain_def ex_chain_def ex_spl_def
lemmas ex_json_defs = ex_response_def ex_account_def json_at_def context_slot_def

definition ex_mint_config :: MintConfig where
  "ex_mint_config = \<lparr>mint_token_program = LEGACY_PROGRAM, mint_is_token_2022 = False, mint_decimals = 6,
     mint_raw_supply = show_nat 100, mint_decimal_supply = decimal_amount 100 6,
     mint_mint_authority = None, mint_freeze_authority = None, mint_is_initialized = True,
     mint_extensions = []\<rparr>"

lemma ex_bytes: "raw_account_bytes ex_population_chain (ex_account p) = Inr []"
  by (simp add: raw_account_bytes_def ex_account_def json_at_def ex_chain_defs)

lemma ex_account_bytes: "account_bytes ex_population_chain (ex_account p) p = Inr []"
  by (simp add: account_bytes_def ex_bytes) (simp add: ex_account_def json_at_def)

lemma ex_owner: "as_str (json_at (ex_account p) ''owner'') = Some p"
  by (simp add: ex_account_def json_at_def)

lemma ex_decode_mint: "decode_mint ex_population_chain (ex_account LEGACY_PROGRAM) = Inr ex_mint_config"
  unfolding decode_mint_def ex_owner
  by (simp add: ex_account_bytes check_program_def ex_mint_config_def) (simp add: ex_chain_defs)

lemma ex_strings: "char_of (109 :: nat) = CHR ''m''" "char_of (119 :: nat) = CHR ''w''"
    "show_nat 7 = ''7''" "show_nat 0 = ''0''"
  by code_simp+

definition ex_state :: TokenAccountState where
  "ex_state = \<lparr>ta_mint = ''m'', ta_owner = ''w'', ta_raw_balance = ''7'',
     ta_ui_balance = decimal_amount 7 6, ta_ui_balance_basis = ''raw_balance / 10^decimals; no UI transform'',
     ta_account_state = ''Initialized'', ta_delegate = None, ta_delegated_amount = ''0'',
     ta_close_authority = None, ta_native_reserve = None, ta_is_frozen = False,
     ta_is_initialized = True, ta_has_active_delegate = False, ta_extensions = []\<rparr>"

lemma ex_verify_row: "verify_row ex_population_chain ex_mint_config ''m'' (ex_account LEGACY_PROGRAM) = Inr ex_state"
proof -
  have "decode_token_account ex_population_chain (ex_account LEGACY_PROGRAM) LEGACY_PROGRAM ''m'' 6 = Inr ex_state"
    unfolding decode_token_account_def ex_account_bytes
    by (simp add: check_program_def unpack_token_account_def ex_state_def) (simp add: ex_chain_defs ex_strings)
  then show ?thesis by (simp add: verify_row_def ex_owner ex_mint_config_def ex_state_def)
qed

definition ex_authority :: authority_record where
  "ex_authority = (WalletCompatible, \<lparr>ao_is_on_curve = True, ao_account_exists = True,
       ao_runtime_owner = Some SYSTEM_PROGRAM, ao_executable = Some False, ao_multisig = None\<rparr>,
     ''On-curve authority with an existing empty System-owned account; no human identity inferred'',
     \<lparr>ev_rpc_id = 3, ev_pointer = ''/value/0'', ev_slot = 5\<rparr>)"

lemma ex_classify: "classify_authority ex_population_chain ''w'' (ex_account SYSTEM_PROGRAM) =
    Inr (fst ex_authority, fst (snd ex_authority), fst (snd (snd ex_authority)))"
proof -
  have n: "ex_account SYSTEM_PROGRAM \<noteq> JNull" by (simp add: ex_account_def)
  have e: "as_bool (json_at (ex_account SYSTEM_PROGRAM) ''executable'') = Some False"
    by (simp add: ex_account_def json_at_def)
  have c: "ch_parse_address ex_population_chain s \<noteq> None" "ch_is_on_curve ex_population_chain a" for s a
    by (simp_all add: ex_chain_defs)
  then obtain a b where "ch_parse_address ex_population_chain ''w'' = Some a"
    "ch_parse_address ex_population_chain SYSTEM_PROGRAM = Some b" by blast
  then show ?thesis
    by (simp add: classify_authority_def Let_def n e c(2) ex_bytes ex_owner ex_authority_def)
qed

lemma ex_checked:
  "checked ex_population_chain ex_capture 0 ''getGenesisHash'' (JArray []) =
     Inr (ex_observation ''getGenesisHash'' (JArray []) (JString MAINNET))"
  "checked ex_population_chain ex_capture 1 ''getAccountInfo'' (JArray [JString ''m'', base_config]) =
     Inr (ex_observation ''getAccountInfo'' (JArray [JString ''m'', base_config])
           (ex_response (ex_account LEGACY_PROGRAM)))"
  "checked ex_population_chain ex_capture 2 ''getProgramAccounts''
       (JArray [JString LEGACY_PROGRAM, enumeration_config ''m'' 5]) =
     Inr (ex_observation ''getProgramAccounts'' (JArray [JString LEGACY_PROGRAM, enumeration_config ''m'' 5])
       (ex_response (JArray [JObject [(''account'', ex_account LEGACY_PROGRAM), (''pubkey'', JString ''a'')]])))"
  "checked ex_population_chain ex_capture 3 ''getMultipleAccounts'' (JArray [JArray [JString ''w''], min_config 5]) =
     Inr (ex_observation ''getMultipleAccounts'' (JArray [JArray [JString ''w''], min_config 5])
       (ex_response (JArray [ex_account SYSTEM_PROGRAM])))"
  by (simp_all add: checked_def ex_capture_def ex_observation_def ex_chain_defs Let_def numeral_3_eq_3)

lemma ex_response_simps:
  "context_slot (ex_response v) = Inr 5" "json_at (ex_response v) ''value'' = v"
  by (simp_all add: ex_json_defs)

lemma ex_budget: "cap_budget ex_capture = default_budget" "sb_max_decoded_accounts default_budget = 100000"
  "sb_max_authority_lookups default_budget = 40000" "sb_authority_batch_size default_budget = 100"
  by (simp_all add: ex_capture_def default_budget_def)

lemma ex_rows:
  "ordered_rows ex_population_chain
     (ex_response (JArray [JObject [(''account'', ex_account LEGACY_PROGRAM), (''pubkey'', JString ''a'')]]))
     default_budget = Inr (1, [(''a'', ex_account LEGACY_PROGRAM)])"
  by (simp add: ordered_rows_def ex_response_simps ex_budget) (simp add: json_at_def ex_chain_defs)

lemma ex_resolve:
  "\<exists>r a. resolve_authorities ex_population_chain ex_capture 5 [(''a'', ex_state)] summary slots = Inr (r, a) \<and>
     bt_get (rs_resolved r) ''w'' = Some ex_authority"
proof -
  have "wanted_authorities [(''a'', ex_state)] = [''w'']"
    by (simp add: wanted_authorities_def ex_state_def btree_set_def)
  moreover have "chunks 100 [''w''] = [[''w'']]" by (simp add: chunks.simps)
  moreover have "length (cap_observations ex_capture) = 4" by (simp add: ex_capture_def)
  moreover have "ob_result (ex_observation m p v) = Some v" for m p v by (simp add: ex_observation_def)
  ultimately show ?thesis
    using ex_classify
    by (simp add: resolve_authorities_def Let_def ex_budget ex_checked(4) ex_response_simps ex_authority_def bt_get_def ex_strings(4))
qed

text \<open>The one account of the example: balance 7, a wallet authority.\<close>

definition ex_held :: "StressEntity \<Rightarrow> bool" where
  "ex_held e \<longleftrightarrow> se_state e = ex_state \<and> se_authority_model e = WalletCompatible \<and>
     se_authority_resolution e = Resolved \<and> se_token_account e = ''a''"

definition ex_single :: "StressEntity list \<Rightarrow> bool" where
  "ex_single es \<longleftrightarrow> (\<exists>e. es = [e] \<and> ex_held e)"

lemma ex_scan_value:
  "\<exists>s'. scan_value ex_population_chain ex_capture ''c'' ex_mint_config 5
     (ex_response (JArray [JObject [(''account'', ex_account LEGACY_PROGRAM), (''pubkey'', JString ''a'')]])) s = Inr s' \<and>
     ex_single (ps_entities s') \<and> en_completeness (ps_enumeration s') = CompleteForQuery"
proof -
  let ?entries = "[JObject [(''account'', ex_account LEGACY_PROGRAM), (''pubkey'', JString ''a'')]]"
  have i: "bt_get (original_indices ?entries) ''a'' = Some 0"
    by (simp add: original_indices_def json_at_def bt_collect_def bt_get_def)
  have v: "verify_row ex_population_chain ex_mint_config ''m'' (ex_account LEGACY_PROGRAM) = Inr ex_state"
    by (rule ex_verify_row)
  have c: "cap_schema_version ex_capture = 2" "cap_mint ex_capture = ''m''" by (simp_all add: ex_capture_def)
  obtain r a where "resolve_authorities ex_population_chain ex_capture 5 [(''a'', ex_state)]
      (ps_authority s) (ps_slots s @ [5]) = Inr (r, a)" "bt_get (rs_resolved r) ''w'' = Some ex_authority"
    using ex_resolve [of "ps_authority s" "ps_slots s @ [5]"] by (elim exE conjE)
  moreover have "ta_owner ex_state = ''w''" by (simp add: ex_state_def)
  moreover have "ex_held (stress_entity ex_population_chain ''c'' ''m'' ex_mint_config (rs_resolved r) ''a'' ex_state ev)"
    for ev
    using calculation(2,3) by (simp add: ex_held_def stress_entity_def ex_authority_def)
  moreover note calculation(1)
  ultimately
  show ?thesis
    by (simp add: scan_value_def ex_response_simps ex_budget ex_rows Let_def row_evidence_def ex_single_def c i v)
qed

lemma population_evaluate_ok:
  assumes "cap_schema_version c = 2" "cap_decoder c = DECODER_V2" "cap_kind c = POPULATION_KIND"
    "budget_validate (cap_budget c) = Inr ()" "ch_parse_address chain (cap_mint c) = Some a"
    "cap_observations c \<noteq> []" "length (cap_observations c) \<le> 4 + sb_max_authority_lookups (cap_budget c)"
    "checked chain c 0 ''getGenesisHash'' (JArray []) = Inr g" "Option.bind (ob_result g) as_str = Some h"
    "scan_capture chain c sha h = Inr s"
    "try_map entity_balance (sort_key se_token_account (ps_entities s)) = Inr bs"
  shows "\<exists>p. population_evaluate chain c sha = Inr p \<and>
    po_entities p = sort_key se_token_account (ps_entities s) \<and> po_enumeration p = ps_enumeration s \<and>
    po_mint_config p = ps_mint_config s \<and> po_budget p = cap_budget c \<and> po_mint p = cap_mint c \<and>
    po_schema_version p = 2"
  using assms by (simp add: population_evaluate_def Let_def)

lemma ex_capture_simps:
  "cap_mint ex_capture = ''m''" "cap_observations ex_capture \<noteq> []" "length (cap_observations ex_capture) = 4"
  "cap_kind ex_capture = POPULATION_KIND" "cap_schema_version ex_capture = 2" "cap_decoder ex_capture = DECODER_V2"
  by (simp_all add: ex_capture_def)

lemma scan_capture_ok:
  assumes "checked chain c 1 ''getAccountInfo'' (JArray [JString (cap_mint c), base_config]) = Inr m"
    "ob_result m = Some response" "decode_mint chain (json_at response ''value'') = Inr mc"
    "context_slot response = Inr slot"
    "checked chain c 2 ''getProgramAccounts''
       (JArray [JString (mint_token_program mc), enumeration_config (cap_mint c) slot]) = Inr scan"
    "ob_result scan = Some v"
    "\<And>s. \<exists>s'. scan_value chain c sha mc slot v s = Inr s' \<and> P (ps_entities s') \<and>
       en_completeness (ps_enumeration s') = CompleteForQuery"
  shows "\<exists>s. scan_capture chain c sha MAINNET = Inr s \<and> P (ps_entities s) \<and>
     en_completeness (ps_enumeration s) = CompleteForQuery \<and> ps_mint_config s = Some mc"
proof -
  let ?s = "(initial_scan c)\<lparr>ps_slots := ps_slots (initial_scan c) @ [slot], ps_mint_slot := Some slot,
    ps_enumeration := (ps_enumeration (initial_scan c))\<lparr>en_program := mint_token_program mc\<rparr>\<rparr>"
  obtain s' where s': "scan_value chain c sha mc slot v ?s = Inr s'"
    "P (ps_entities s')" "en_completeness (ps_enumeration s') = CompleteForQuery"
    using assms(7) [of ?s] by (elim exE conjE)
  have "scan_capture chain c sha MAINNET = Inr (s'\<lparr>ps_mint_config := Some mc\<rparr>)"
    using assms(1-6) s'(1) by (simp add: scan_capture_def mint_result_def scan_mint_def scan_result_def Let_def)
  with s'(2,3) show ?thesis by (intro exI [of _ "s'\<lparr>ps_mint_config := Some mc\<rparr>"]) simp
qed

lemma ex_observation_result: "ob_result (ex_observation m p v) = Some v"
  by (simp add: ex_observation_def)

lemma ex_scan_capture:
  "\<exists>s. scan_capture ex_population_chain ex_capture ''c'' MAINNET = Inr s \<and>
     ex_single (ps_entities s) \<and> en_completeness (ps_enumeration s) = CompleteForQuery \<and>
     ps_mint_config s = Some ex_mint_config"
proof (rule scan_capture_ok [where P = ex_single])
  show "decode_mint ex_population_chain (json_at (ex_response (ex_account LEGACY_PROGRAM)) ''value'') = Inr ex_mint_config"
    unfolding ex_response_simps by (rule ex_decode_mint)
  show "checked ex_population_chain ex_capture 1 ''getAccountInfo'' (JArray [JString (cap_mint ex_capture), base_config]) =
     Inr (ex_observation ''getAccountInfo'' (JArray [JString ''m'', base_config])
           (ex_response (ex_account LEGACY_PROGRAM)))"
    unfolding ex_capture_simps(1) by (rule ex_checked(2))
  show "checked ex_population_chain ex_capture 2 ''getProgramAccounts''
       (JArray [JString (mint_token_program ex_mint_config), enumeration_config (cap_mint ex_capture) 5]) =
     Inr (ex_observation ''getProgramAccounts'' (JArray [JString LEGACY_PROGRAM, enumeration_config ''m'' 5])
       (ex_response (JArray [JObject [(''account'', ex_account LEGACY_PROGRAM), (''pubkey'', JString ''a'')]])))"
    unfolding ex_capture_simps(1) ex_mint_config_def MintConfig.simps by (rule ex_checked(3))
qed (rule ex_observation_result ex_response_simps ex_scan_value)+

lemma ex_balance:
  assumes "se_state e = ex_state"
  shows "entity_balance e = Inr 7"
proof -
  have "ta_raw_balance ex_state = show_nat (unat (7 :: u64))" by (simp add: ex_state_def ex_strings)
  then show ?thesis by (simp only: entity_balance_def assms parse_uint_show ok_or.simps)
qed

lemma ex_guards:
  "ch_parse_address ex_population_chain (cap_mint ex_capture) = Some [109]"
  by (simp add: ex_chain_defs ex_capture_simps(1))

lemma ex_genesis:
  "Option.bind (ob_result (ex_observation ''getGenesisHash'' (JArray []) (JString MAINNET))) as_str = Some MAINNET"
  unfolding ex_observation_result bind.bind_lunit as_str.simps ..

lemma ex_budget_valid: "budget_validate (cap_budget ex_capture) = Inr ()"
  unfolding ex_budget(1) by (simp add: budget_validate_def default_budget_def)

lemma ex_length: "length (cap_observations ex_capture) \<le> 4 + sb_max_authority_lookups (cap_budget ex_capture)"
  unfolding ex_capture_simps(3) by (rule le_add1)

lemma ex_population:
  "\<exists>p. population_evaluate ex_population_chain ex_capture ''c'' = Inr p \<and> ex_single (po_entities p) \<and>
     en_completeness (po_enumeration p) = CompleteForQuery \<and> po_mint_config p = Some ex_mint_config \<and>
     po_budget p = default_budget \<and> po_mint p = ''m'' \<and> po_schema_version p = 2"
proof -
  obtain s where scan: "scan_capture ex_population_chain ex_capture ''c'' MAINNET = Inr s"
    and s: "ex_single (ps_entities s)" "en_completeness (ps_enumeration s) = CompleteForQuery"
      "ps_mint_config s = Some ex_mint_config"
    using ex_scan_capture by (elim exE conjE)
  have o: "sort_key se_token_account (ps_entities s) = ps_entities s" using s(1) by (auto simp: ex_single_def)
  have bs: "try_map entity_balance (sort_key se_token_account (ps_entities s)) = Inr [7]"
    using s(1) unfolding o by (auto simp: ex_single_def ex_held_def ex_balance)
  obtain p where p: "population_evaluate ex_population_chain ex_capture ''c'' = Inr p"
    "po_entities p = sort_key se_token_account (ps_entities s)" "po_enumeration p = ps_enumeration s"
    "po_mint_config p = ps_mint_config s" "po_budget p = cap_budget ex_capture"
    "po_mint p = cap_mint ex_capture" "po_schema_version p = 2"
    using population_evaluate_ok [OF ex_capture_simps(5,6,4) ex_budget_valid ex_guards ex_capture_simps(2) ex_length
        ex_checked(1) ex_genesis scan bs]
    by (elim exE conjE)
  show ?thesis
    by (rule exI [of _ p]) (simp add: p s o ex_budget(1) ex_capture_simps(1))
qed



end
