(* ===== verification/PlanProperties.thy ===== *)
theory PlanProperties
  imports PopulationProperties
begin

text \<open>
  From the capture to the frozen plan: what every selected case rests on. The theorem composes the
  rebuilt population, the classification of its accounts, the three-phase selection and the case
  plans.
\<close>

section \<open>Rows and cases\<close>

lemma classify_entity_Inr:
  assumes "classify_entity env assignment mint e = Inr r"
  shows "cl_entity r = e" "cl_eligibility r = fst (eligibility (dimensions e mint))"
    "entity_balance e = Inr (cl_balance r)"
  using assms by (auto simp: classify_entity_def Let_def result_simps split: prod.splits)

lemma classify_all_Inr:
  assumes "classify_all env obs assignment = Inr rows"
  shows "\<exists>mint. po_mint_config obs = Some mint \<and> map cl_entity rows = positive_entities obs \<and>
    list_all (\<lambda>r. cl_eligibility r = fst (eligibility (dimensions (cl_entity r) mint))) rows"
proof -
  obtain mint where m: "po_mint_config obs = Some mint"
    "list_all2 (\<lambda>e r. classify_entity env assignment mint e = Inr r) (positive_entities obs) rows"
    using assms by (auto simp: classify_all_def result_simps try_map_Inr)
  from m(2) have "map cl_entity rows = positive_entities obs \<and>
      list_all (\<lambda>r. cl_eligibility r = fst (eligibility (dimensions (cl_entity r) mint))) rows"
    by (induction rule: list_all2_induct) (auto dest: classify_entity_Inr)
  with m(1) show ?thesis by blast
qed

lemma case_plan_Inr:
  assumes "case_plan env base index e amount = Inr plan"
  shows "plan_validate (sv_parse_address env) plan = Inr ()" "cp_source_account plan = se_token_account e"
    "cp_terms plan = cp_terms base" "cp_amount_mode plan = Custom" "cp_amount_decimal plan = Some amount"
    "cp_source_mint plan = cp_source_mint base" "cp_replacement_mint plan = cp_replacement_mint base"
  using assms by (auto simp: case_plan_def Let_def result_simps)

text \<open>A selected case and the row it was selected for.\<close>

definition case_of_row :: "stress_env \<Rightarrow> ConversionPlan \<Rightarrow> u8 \<Rightarrow> Classified \<Rightarrow> SelectedCase \<Rightarrow> bool" where
  "case_of_row env base decimals row k \<longleftrightarrow>
     sel_token_account k = se_token_account (cl_entity row) \<and>
     sel_authority k = se_authority (cl_entity row) \<and>
     exact_amount (sel_selected_amount_decimal k) decimals = Inr (cl_balance row) \<and>
     sel_selected_amount_raw k = show_nat (unat (cl_balance row)) \<and>
     plan_validate (sv_parse_address env) (sel_case_plan k) = Inr () \<and>
     cp_source_account (sel_case_plan k) = sel_token_account k \<and>
     cp_amount_decimal (sel_case_plan k) = Some (sel_selected_amount_decimal k) \<and>
     cp_terms (sel_case_plan k) = cp_terms base"

lemma select_case_Inr:
  assumes "select_case env base rebound decimals rows (order_index, index, why, detail) = Inr k"
  shows "case_of_row env base decimals (rows ! index) k" "sel_selection_order k = order_index"
  using assms
  by (auto simp: select_case_def Let_def result_simps case_of_row_def dest: case_plan_Inr)

lemma build_plan_Inr:
  assumes "build_plan env obs candidate program_sha256 frozen_at = Inr plan"
  shows "\<exists>mint (bks :: BalanceBuckets) assignment rows. po_mint_config obs = Some mint \<and>
    budget_validate (po_budget obs) = Inr () \<and> classify_all env obs assignment = Inr rows \<and>
    try_map (select_case env candidate (po_schema_version obs = 2) (mint_decimals mint) rows)
      (enumerate 0 (select_picks rows (bk_bucket_count bks) (sb_max_selected_cases (po_budget obs)))) =
      Inr (sp_selected plan)"
  using assms unfolding build_plan_def Let_def
  by (auto simp: result_simps split: prod.splits) blast

lemma selected_rows:
  assumes "try_map (select_case env base rebound decimals rows) (enumerate 0 picks) = Inr ks"
  shows "list_all2 (\<lambda>p k. case_of_row env base decimals (rows ! fst p) k) picks ks"
proof -
  have "list_all2 (\<lambda>p k. case_of_row env base decimals (rows ! fst p) k) picks ks"
    if "list_all2 (\<lambda>x y. select_case env base rebound decimals rows x = Inr y) (enumerate n picks) ks" for n
    using that
  proof (induction picks arbitrary: n ks)
    case (Cons p picks)
    obtain i why detail where "p = (i, why, detail)" by (cases p) auto
    with Cons show ?case by (auto simp: list_all2_Cons1 dest: select_case_Inr)
  qed simp
  from this [of 0] assms show ?thesis by (simp add: try_map_Inr)
qed

section \<open>From capture to plan\<close>

definition captured_wallet :: "chain \<Rightarrow> Capture \<Rightarrow> string \<Rightarrow> bool" where
  "captured_wallet chain c authority \<longleftrightarrow>
     (\<exists>ev raw addr. captured_at c ev raw \<and> ch_parse_address chain authority = Some addr \<and>
        ch_is_on_curve chain addr \<and> as_str (json_at raw ''owner'') = Some SYSTEM_PROGRAM \<and>
        as_bool (json_at raw ''executable'') = Some False \<and> raw_account_bytes chain raw = Inr [])"

lemma executable_is_wallet:
  assumes "faithful_authority chain c e" "fst (eligibility (dimensions e mint)) = ExecutableCandidate"
  shows "captured_wallet chain c (se_authority e)"
proof -
  have w: "se_authority_resolution e = Resolved" "se_authority_model e = WalletCompatible"
    using assms(2) by (simp_all add: executable_iff)
  then obtain ev raw where r: "captured_at c ev raw" "classified_from chain raw e"
    using assms(1) by (auto simp: faithful_authority_def split: option.splits)
  from classify_wallet [of chain "se_authority e" raw] r(2) w(2) r(1) show ?thesis
    unfolding classified_from_def captured_wallet_def by metis
qed

lemma selected_distinct:
  assumes "map cl_entity rows = es" "distinct (map se_token_account es)" "distinct (map fst picks)"
    "list_all (\<lambda>p. fst p < length rows) picks"
    "list_all2 (\<lambda>p k. case_of_row env base decimals (rows ! fst p) k) picks ks"
  shows "distinct (map sel_token_account ks)"
proof -
  have m: "map sel_token_account ks = map (\<lambda>i. map se_token_account es ! i) (map fst picks)"
    using assms(5,4)
  proof (induction rule: list_all2_induct)
    case (Cons p ps k ks)
    have "map se_token_account es ! fst p = se_token_account (cl_entity (rows ! fst p))"
      using Cons.prems assms(1) [symmetric] by simp
    with Cons show ?case by (simp add: case_of_row_def)
  qed simp
  have l: "length (map se_token_account es) = length rows" using assms(1) by auto
  have "inj_on (\<lambda>i. map se_token_account es ! i) (set (map fst picks))"
  proof (rule inj_onI)
    fix i j
    assume "i \<in> set (map fst picks)" "j \<in> set (map fst picks)"
      and e: "map se_token_account es ! i = map se_token_account es ! j"
    then have "i < length (map se_token_account es)" "j < length (map se_token_account es)"
      using assms(4) unfolding l by (auto simp: list_all_iff)
    with e show "i = j" using nth_eq_iff_index_eq [OF assms(2)] by blast
  qed
  with assms(3) show ?thesis unfolding m distinct_map [of _ "map fst picks"] by (rule conjI)
qed


section \<open>A plan over the example population\<close>

definition ex_env :: stress_env where
  "ex_env = \<lparr>sv_shape_digest = (\<lambda>_. Inr ''s''), sv_rows_digest = (\<lambda>_. Inr ''r''),
     sv_plan_digest = (\<lambda>_. Inr ''p''), sv_parse_address = (\<lambda>_. Some []), sv_parse_time = (\<lambda>_. Some 0)\<rparr>"

definition ex_program_sha256 :: string where "ex_program_sha256 = replicate 64 (CHR ''0'')"

lemma ex_seven: "show_nat (unat (7 :: u64)) = ''7''"
  by code_simp

lemma ex_decimal: "decimal_amount 7 6 = ''0.000007''"
proof -
  have d: "unat (6 :: u8) = 6" "(6 :: u8) \<noteq> 0" by simp_all
  show ?thesis unfolding decimal_amount_def Let_def ex_seven d(1) using d(2) by (simp add: eval_nat_numeral)
qed

lemma ex_exact: "exact_amount ''0.000007'' 6 = Inr 7"
proof -
  obtain w f where t: "decimal_amount 7 6 = amount_text w f" "w \<noteq> []" "list_all is_ascii_digit w"
    "list_all is_ascii_digit f" "length f \<le> unat (6 :: u8)" "length (amount_text w f) \<le> 280"
    "scaled_value w f (unat (6 :: u8)) = unat (7 :: u64)"
    using decimal_amount_text by blast
  show ?thesis unfolding ex_decimal [symmetric] t(1) exact_amount_text [OF t(2-7)] by simp
qed

lemma ex_funding: "check_funding ''100'' = Inr ()"
proof -
  have f: "show_nat (unat (100 :: u64)) = ''100''" by code_simp
  have "parse_uint ''100'' = Some (100 :: u64)" unfolding f [symmetric] by (rule parse_uint_show)
  then show ?thesis using f by (simp add: check_funding_def ensure_def)
qed

lemma ex_plan_valid:
  "plan_validate (sv_parse_address ex_env)
     (ex_case_plan\<lparr>cp_id := i, cp_source_account := ''a'', cp_amount_mode := Custom, cp_amount_decimal := Some ''0.000007''\<rparr>) =
     Inr ()" if "i \<noteq> []" "length i \<le> 64"
  using that
  by (simp add: plan_validate_def ex_case_plan_def ex_env_def check_amount_mode_def valid_plan_terms_def
      ex_funding deadline_follows_def)

lemma ex_eligible:
  assumes "ex_held e"
  shows "fst (eligibility (dimensions e ex_mint_config)) = ExecutableCandidate" "entity_balance e = Inr 7"
proof -
  have e: "se_state e = ex_state" "se_authority_model e = WalletCompatible" "se_authority_resolution e = Resolved"
    using assms by (simp_all add: ex_held_def)
  show "entity_balance e = Inr 7" by (rule ex_balance [OF e(1)])
  have "sd_balance_positive (dimensions e ex_mint_config)" "sd_account_initialized (dimensions e ex_mint_config)"
    "\<not> sd_account_frozen (dimensions e ex_mint_config)" "sd_account_extension_types (dimensions e ex_mint_config) = []"
    "\<not> sd_mint_paused (dimensions e ex_mint_config)" "\<not> sd_mint_confidential_mint_burn (dimensions e ex_mint_config)"
    "sd_authority_resolved (dimensions e ex_mint_config)"
    "sd_authority_model (dimensions e ex_mint_config) = ''WalletCompatible''"
    by (simp_all add: dimensions_def Let_def e ex_state_def ex_mint_config_def mint_extension_def extension_with_def)
  then show "fst (eligibility (dimensions e ex_mint_config)) = ExecutableCandidate"
    by (simp add: eligibility_def)
qed

lemma ex_select:
  assumes "is_executable [r] 0"
  shows "\<exists>why detail. select_picks [r] k 10 = [(0, why, detail)]"
proof -
  have "set (map fst (ideal_picks [r] k)) = {0}"
    unfolding ideal_picks_exactly(2) using assms by auto
  moreover have "distinct (map fst (ideal_picks [r] k))" by (rule ideal_picks_exactly(1))
  ultimately have "set (map fst (ideal_picks [r] k)) = {0}" "distinct (map fst (ideal_picks [r] k))" by simp_all
  then have "map fst (ideal_picks [r] k) = [0]"
    using sorted_distinct_set_unique [of "map fst (ideal_picks [r] k)" "[0]"]
    by (cases "map fst (ideal_picks [r] k)") (auto simp: sorted_wrt_iff_nth_less subset_singleton_iff)
  then show ?thesis by (auto simp: select_picks_ideal)
qed


lemma build_plan_ok:
  assumes "plan_validate (sv_parse_address env) candidate = Inr ()" "budget_validate (po_budget obs) = Inr ()"
    "cp_source_mint candidate = po_mint obs" "length program_sha256 = 64"
    "sv_parse_time env frozen_at = Some t" "po_mint_config obs = Some mint"
    "buckets obs = Inr (bks, assignment)" "classify_all env obs assignment = Inr rows"
    "classification_digest env rows (if po_schema_version obs = 2 then SELECTOR_VERSION_V2 else SELECTOR_VERSION) = Inr d"
    "try_map (select_case env candidate (po_schema_version obs = 2) (mint_decimals mint) rows)
       (enumerate 0 (select_picks rows (bk_bucket_count bks) (sb_max_selected_cases (po_budget obs)))) = Inr ks"
    "sv_plan_digest env candidate = Inr h"
  shows "\<exists>plan. build_plan env obs candidate program_sha256 frozen_at = Inr plan \<and> sp_selected plan = ks"
  using assms by (cases d) (simp add: build_plan_def Let_def)

lemma classify_entity_ok:
  assumes "entity_balance e = Inr b" "shape_key env (dimensions e mint) = Inr shape"
  shows "\<exists>r. classify_entity env assignment mint e = Inr r \<and> cl_entity r = e \<and> cl_balance r = b \<and>
    cl_eligibility r = fst (eligibility (dimensions e mint))"
  using assms by (cases "eligibility (dimensions e mint)") (simp add: classify_entity_def)

lemma select_case_ok:
  assumes "decimal_amount (cl_balance (rows ! i)) decimals = s" "exact_amount s decimals = Inr (cl_balance (rows ! i))"
    "case_plan env base n (cl_entity (rows ! i)) s = Inr plan" "sv_plan_digest env plan = Inr h"
  shows "\<exists>k. select_case env base rebound decimals rows (n, i, why, detail) = Inr k"
  using assms by (simp add: select_case_def Let_def ensure_def)

lemma ex_case_plan_ok:
  assumes "se_token_account e = ''a''"
  shows "\<exists>p. case_plan ex_env ex_case_plan 0 e ''0.000007'' = Inr p"
proof -
  have "zero_pad 2 (show_nat 0) = ''00''" by code_simp
  then show ?thesis
    using ex_plan_valid [of "cp_id ex_case_plan @ ''-s00''"] assms
    by (simp add: case_plan_def Let_def ensure_def) (simp add: ex_case_plan_def)
qed


lemma ex_buckets:
  assumes "positive_entities obs = [e]" "entity_balance e = Inr 7"
  shows "\<exists>bks assignment. buckets obs = Inr (bks, assignment)"
  using assms by (simp add: buckets_def ranked_balances_def Let_def)

lemma ex_build:
  assumes "ex_single (po_entities obs)" "po_mint_config obs = Some ex_mint_config"
    "po_budget obs = default_budget" "po_mint obs = ''m''"
  shows "\<exists>plan. build_plan ex_env obs ex_case_plan ex_program_sha256 ''t'' = Inr plan \<and>
    length (sp_selected plan) = 1"
proof -
  obtain e where e: "po_entities obs = [e]" "ex_held e" using assms(1) by (auto simp: ex_single_def)
  note el = ex_eligible [OF e(2)]
  have pos: "positive_entities obs = [e]"
    using e by (simp add: positive_entities_def ex_held_def ex_state_def)
  obtain bks assignment where b: "buckets obs = Inr (bks, assignment)" using ex_buckets [OF pos el(2)] by blast
  have sh: "shape_key ex_env d = Inr ''s''" for d by (simp add: shape_key_def ex_env_def)
  obtain r where r: "classify_entity ex_env assignment ex_mint_config e = Inr r" "cl_entity r = e"
    "cl_balance r = 7" "cl_eligibility r = ExecutableCandidate"
    using classify_entity_ok [OF el(2) sh] el(1) by metis
  have rows: "classify_all ex_env obs assignment = Inr [r]"
    using r(1) by (simp add: classify_all_def assms(2) pos)
  obtain d where d: "classification_digest ex_env [r]
      (if po_schema_version obs = 2 then SELECTOR_VERSION_V2 else SELECTOR_VERSION) = Inr d"
    by (simp add: classification_digest_def ex_env_def Let_def)
  obtain why detail where pk: "select_picks [r] (bk_bucket_count bks) 10 = [(0, why, detail)]"
    using ex_select [of r "bk_bucket_count bks"] r(4) by (auto simp: is_executable_def)
  obtain p where p: "case_plan ex_env ex_case_plan 0 e ''0.000007'' = Inr p"
    using ex_case_plan_ok e(2) unfolding ex_held_def by blast
  have dec: "mint_decimals ex_mint_config = 6" by (simp add: ex_mint_config_def)
  have "\<exists>k. select_case ex_env ex_case_plan (po_schema_version obs = 2) 6 [r] (0, 0, why, detail) = Inr k"
  proof (rule select_case_ok)
    show "decimal_amount (cl_balance ([r] ! 0)) 6 = ''0.000007''" using r(3) ex_decimal by simp
    show "exact_amount ''0.000007'' 6 = Inr (cl_balance ([r] ! 0))" using r(3) ex_exact by simp
    show "case_plan ex_env ex_case_plan 0 (cl_entity ([r] ! 0)) ''0.000007'' = Inr p" using r(2) p by simp
    show "sv_plan_digest ex_env p = Inr ''p''" by (simp add: ex_env_def)
  qed
  then obtain k where k: "select_case ex_env ex_case_plan (po_schema_version obs = 2) 6 [r] (0, 0, why, detail) = Inr k"
    by blast
  have sel: "try_map (select_case ex_env ex_case_plan (po_schema_version obs = 2) (mint_decimals ex_mint_config) [r])
      (enumerate 0 (select_picks [r] (bk_bucket_count bks) (sb_max_selected_cases (po_budget obs)))) = Inr [k]"
    using k by (simp add: assms(3) default_budget_def pk dec)
  have v: "plan_validate (sv_parse_address ex_env) ex_case_plan = Inr ()"
    using ex_plan_valid [of "cp_id ex_case_plan"] by (simp add: ex_case_plan_def)
  have src: "cp_source_mint ex_case_plan = po_mint obs" "length ex_program_sha256 = 64"
    "sv_parse_time ex_env ''t'' = Some 0" "sv_plan_digest ex_env ex_case_plan = Inr ''p''"
    by (simp_all add: ex_case_plan_def assms(4) ex_program_sha256_def ex_env_def)
  have bud: "budget_validate (po_budget obs) = Inr ()"
    using ex_budget_valid by (simp add: assms(3) ex_budget(1))
  from build_plan_ok [OF v bud src(1-3) assms(2) b rows d sel src(4)] show ?thesis by auto
qed


end
