(* ===== verification/StressReplay.thy ===== *)
theory StressReplay
  imports StressRecord PlanProperties
begin

text \<open>
  A capture that was taken replays: the requests made while recording are the requests the replay
  expects, in the same order and under the same budget.
\<close>

section \<open>What is relied on\<close>

text \<open>The provider's documented contract: a context slot no older than the one asked for, a
  contextual account array of distinct addresses, one entry per address asked for. An entry for an
  authority must be an account the classifier can read.\<close>

definition good_scan_answer :: "chain \<Rightarrow> StressBudget \<Rightarrow> u64 \<Rightarrow> json \<Rightarrow> bool" where
  "good_scan_answer chain budget slot v \<longleftrightarrow>
     (case context_slot v of Inr s \<Rightarrow> slot \<le> s | Inl _ \<Rightarrow> False) \<and>
     (case ordered_rows chain v budget of Inr _ \<Rightarrow> True | Inl _ \<Rightarrow> False)"

definition good_batch_answer :: "chain \<Rightarrow> u64 \<Rightarrow> string list \<Rightarrow> json \<Rightarrow> bool" where
  "good_batch_answer chain slot batch v \<longleftrightarrow>
     (case context_slot v of Inr s \<Rightarrow> slot \<le> s | Inl _ \<Rightarrow> False) \<and>
     (case as_array (json_at v ''value'') of
        None \<Rightarrow> False
      | Some vs \<Rightarrow> length vs = length batch \<and>
          list_all (\<lambda>(a, raw). case classify_authority chain a raw of Inr _ \<Rightarrow> True | Inl _ \<Rightarrow> False)
            (zip batch vs))"

definition honest_provider :: "chain \<Rightarrow> provider \<Rightarrow> string \<Rightarrow> StressBudget \<Rightarrow> bool" where
  "honest_provider chain provider mint budget \<longleftrightarrow>
     (\<forall>k program slot v.
        provider k ''getProgramAccounts'' (JArray [JString program, enumeration_config mint slot]) = Inr v \<longrightarrow>
        good_scan_answer chain budget slot v) \<and>
     (\<forall>k batch slot v.
        provider k ''getMultipleAccounts'' (JArray [JArray (map JString batch), min_config slot]) = Inr v \<longrightarrow>
        good_batch_answer chain slot batch v)"

definition steady_clock :: "chain \<Rightarrow> clock \<Rightarrow> bool" where
  "steady_clock chain clock \<longleftrightarrow>
     (\<exists>t. mono t \<and> (\<forall>k. ch_parse_time chain (clock k) = Some (t k)))"

section \<open>Records\<close>

lemma call_record_simps [simp]:
  "ob_method (call_record provider clock k m p) = m" "ob_params (call_record provider clock k m p) = p"
  "ob_result (call_record provider clock k m p) = None \<longleftrightarrow> (\<exists>e. provider k m p = Inl e)"
  "ob_result (call_record provider clock k m p) = Some v \<longleftrightarrow> provider k m p = Inr v"
  "ob_error (call_record provider clock k m p) = None \<longleftrightarrow> (\<exists>v. provider k m p = Inr v)"
  "ob_started_at (call_record provider clock k m p) = clock (2 * k + 1)"
  "ob_completed_at (call_record provider clock k m p) = clock (2 * k + 2)"
  by (simp_all add: call_record_def split: sum.splits)

text \<open>A capture whose records are those of a run over the provider and the clock.\<close>

definition recorded :: "provider \<Rightarrow> clock \<Rightarrow> Capture \<Rightarrow> bool" where
  "recorded provider clock c \<longleftrightarrow> cap_started_at c = clock 0 \<and>
     cap_completed_at c = clock (2 * length (cap_observations c) + 1)"

lemma checked_recorded:
  assumes "recorded provider clock c" "steady_clock chain clock"
    "cap_observations c = pre @ call_record provider clock (length pre) m p # post"
  shows "checked chain c (length pre) m p = Inr (call_record provider clock (length pre) m p)"
proof -
  let ?r = "call_record provider clock (length pre) m p"
  obtain t where t: "mono t" "\<And>k. ch_parse_time chain (clock k) = Some (t k)"
    using assms(2) by (auto simp: steady_clock_def)
  have "t (2 * length pre + 1) \<le> t (2 * length pre + 2)" "t 0 \<le> t (2 * length pre + 1)"
    "t (2 * length pre + 2) \<le> t (2 * length (cap_observations c) + 1)"
    using assms(3) by (auto intro!: monoD [OF t(1)])
  moreover have "cap_observations c ! length pre = ?r" "length pre < length (cap_observations c)"
    using assms(3) by simp_all
  moreover have "(ob_result ?r \<noteq> None) \<noteq> (ob_error ?r \<noteq> None)"
    by (cases "provider (length pre) m p") simp_all
  ultimately show ?thesis
    using assms(1) by (simp add: checked_def Let_def recorded_def t(2) ensure_def)
qed

fun batch_records :: "provider \<Rightarrow> clock \<Rightarrow> u64 \<Rightarrow> nat \<Rightarrow> string list list \<Rightarrow> Observation list" where
  "batch_records provider clock slot k [] = []"
| "batch_records provider clock slot k (batch # batches) =
     (let p = JArray [JArray (map JString batch), min_config slot];
          r = call_record provider clock k ''getMultipleAccounts'' p in
      r # (if ob_result r = None then [] else batch_records provider clock slot (k + 1) batches))"

lemma record_batches_append:
  "record_batches provider clock slot batches records =
     records @ batch_records provider clock slot (length records) batches"
proof (induction batches arbitrary: records)
  case (Cons batch batches)
  show ?case
    using Cons.IH by (auto simp: record_call_def Let_def split: option.splits)
qed simp

lemma batch_records_length: "length (batch_records provider clock slot k batches) \<le> length batches"
  by (induction batches arbitrary: k) (auto simp: Let_def)

lemma classify_batch_ok:
  "list_all (\<lambda>(a, raw). case classify_authority chain a raw of Inr _ \<Rightarrow> True | Inl _ \<Rightarrow> False) ps \<Longrightarrow>
   \<exists>r. classify_batch chain index slot offset ps resolved = Inr r"
proof (induction ps arbitrary: offset resolved)
  case (Cons p ps)
  obtain a raw where p: "p = (a, raw)" by (cases p)
  with Cons.prems obtain m ob w where "classify_authority chain a raw = Inr (m, ob, w)"
    by (auto split: sum.splits)
  with Cons show ?case by (simp add: p)
qed simp

lemma resolve_batches_ok:
  assumes "recorded provider clock c" "steady_clock chain clock"
    and h: "honest_provider chain provider mint budget"
    and "cap_observations c = pre @ batch_records provider clock slot (length pre) batches"
  shows "\<exists>s'. resolve_batches chain c slot (length pre) batches s = Inr s'"
  using assms(4)
proof (induction batches arbitrary: pre s)
  case (Cons batch batches)
  let ?p = "JArray [JArray (map JString batch), min_config slot]"
  let ?r = "call_record provider clock (length pre) ''getMultipleAccounts'' ?p"
  let ?post = "if ob_result ?r = None then [] else batch_records provider clock slot (length pre + 1) batches"
  have obs: "cap_observations c = pre @ ?r # ?post" using Cons.prems by (simp add: Let_def)
  note ck = checked_recorded [OF assms(1,2) obs]
  have len: "\<not> length (cap_observations c) \<le> length pre" using obs by simp
  show ?case
  proof (cases "provider (length pre) ''getMultipleAccounts'' ?p")
    case (Inl e)
    then have r: "ob_result ?r = None" by simp
    then have "length (cap_observations c) = length pre + 1" using obs by simp
    then show ?thesis using ck r by (simp add: ensure_def del: call_record_simps(3))
  next
    case (Inr v)
    then have r: "ob_result ?r = Some v" by simp
    have "good_batch_answer chain slot batch v" using h Inr unfolding honest_provider_def by blast
    then obtain bs vs where v: "context_slot v = Inr bs" "slot \<le> bs" "as_array (json_at v ''value'') = Some vs"
      "length vs = length batch"
      "list_all (\<lambda>(a, raw). case classify_authority chain a raw of Inr _ \<Rightarrow> True | Inl _ \<Rightarrow> False) (zip batch vs)"
      by (auto simp: good_batch_answer_def split: sum.splits option.splits)
    obtain resolved where cb: "classify_batch chain (length pre) bs 0 (zip batch vs) (rs_resolved s) = Inr resolved"
      using classify_batch_ok [OF v(5)] by blast
    have "cap_observations c = (pre @ [?r]) @ batch_records provider clock slot (length (pre @ [?r])) batches"
      using obs r by simp
    from Cons.IH [OF this] show ?thesis
      using len v(1-4) cb by (simp add: ck r ensure_def)
  qed
qed simp

lemma length_chunks: "length (chunks n xs) = (length xs + max n 1 - 1) div max n 1" if "0 < n"
  using that
proof (induction n xs rule: chunks.induct)
  case (1 n xs)
  show ?case
  proof (cases "xs = []")
    case False
    then have "length (chunks n xs) = Suc ((length xs - n + n - 1) div n)"
      using 1 by (subst chunks.simps) simp
    also have "\<dots> = (length xs + n - 1) div n"
    proof (cases "n \<le> length xs")
      case True
      then have "length xs + n - 1 = (length xs - n + n - 1) + n" using 1(2) False by (cases xs) auto
      then show ?thesis using 1(2) by (metis add.commute add_Suc_right div_add_self2 not_gr_zero plus_1_eq_Suc Suc_eq_plus1)
    next
      case n: False
      have l: "0 < length xs" using False by simp
      have "(length xs - n + n - 1) div n = 0" using n 1(2) by simp
      moreover have e: "length xs + n - 1 = n + (length xs - 1)" using l by linarith
      have "(length xs - 1) div n = 0" by (rule div_less) (use n l in linarith)
      then have "(length xs + n - 1) div n = 1" unfolding e using 1(2) by (simp add: div_add_self1)
      ultimately show ?thesis by simp
    qed
    finally show ?thesis using 1(2) by (cases "n = 1") (simp_all add: max_def)
  qed (use 1(2) in \<open>simp add: chunks.simps\<close>)
qed

section \<open>The same rows, the same authorities\<close>

lemma decode_token_account_Inr:
  assumes "decode_token_account chain raw program mint decimals = Inr state"
  shows "as_str (json_at raw ''owner'') = Some program" "ta_mint state = mint"
    "\<exists>b :: u64. ta_raw_balance state = show_nat (unat b)"
  using assms
  by (auto simp: decode_token_account_def account_bytes_def result_simps split: prod.splits)

lemma verify_row_decode:
  "verify_row chain mc mint raw = Inr state \<longleftrightarrow>
     decode_token_account chain raw (mint_token_program mc) mint (mint_decimals mc) = Inr state"
  by (auto simp: verify_row_def result_simps dest: decode_token_account_Inr)

lemma decode_rows_ok:
  assumes "\<And>i a. a \<in> fst ` set rows \<Longrightarrow> \<exists>ev. evidence i a = Inr ev"
  shows "\<exists>ds us. decode_rows chain mc mint evidence index rows = Inr (ds, us) \<and>
    ds = List.map_filter (\<lambda>(a, raw). case verify_row chain mc mint raw of
       Inr state \<Rightarrow> Some (a, state) | Inl _ \<Rightarrow> None) rows"
  using assms
proof (induction rows arbitrary: index)
  case (Cons row rows)
  obtain a raw where row: "row = (a, raw)" by (cases row)
  obtain ev where "evidence index a = Inr ev" using Cons.prems [of a index] row by auto
  moreover obtain ds us where "decode_rows chain mc mint evidence (index + 1) rows = Inr (ds, us)"
    "ds = List.map_filter (\<lambda>(a, raw). case verify_row chain mc mint raw of
       Inr state \<Rightarrow> Some (a, state) | Inl _ \<Rightarrow> None) rows"
    using Cons.IH [of "index + 1"] Cons.prems by auto
  ultimately show ?case by (auto simp: row map_filter_simps split: sum.splits)
qed (simp add: map_filter_simps)

lemma wanted_plan:
  assumes "ds = List.map_filter (\<lambda>(a, raw). case verify_row chain mc mint raw of
       Inr state \<Rightarrow> Some (a, state) | Inl _ \<Rightarrow> None) rows"
  shows "take (sb_max_authority_lookups budget) (wanted_authorities ds) = authority_plan chain rows mc mint budget"
proof -
  have "(case verify_row chain mc mint raw of Inr state \<Rightarrow> Some (a, state) | Inl _ \<Rightarrow> None) =
    (case decode_token_account chain raw (mint_token_program mc) mint (mint_decimals mc) of
       Inr state \<Rightarrow> Some (a, state) | Inl _ \<Rightarrow> None)" for a :: string and raw
  proof (cases "decode_token_account chain raw (mint_token_program mc) mint (mint_decimals mc)")
    case (Inr state)
    then show ?thesis using verify_row_decode by (metis sum.case(2))
  next
    case (Inl e)
    show ?thesis
    proof (cases "verify_row chain mc mint raw")
      case (Inr state)
      with Inl verify_row_decode [of chain mc mint raw state] show ?thesis by simp
    qed (simp add: Inl)
  qed
  then have "map (\<lambda>(_, state). ta_owner state) (filter (\<lambda>(_, state). ta_raw_balance state \<noteq> ''0'') ds) =
    List.map_filter (\<lambda>(_, account).
       case decode_token_account chain account (mint_token_program mc) mint (mint_decimals mc) of
         Inr state \<Rightarrow> if ta_raw_balance state \<noteq> ''0'' then Some (ta_owner state) else None
       | Inl _ \<Rightarrow> None) rows"
    unfolding assms by (induction rows) (auto simp: map_filter_simps split: sum.splits)
  then show ?thesis by (simp add: wanted_authorities_def authority_plan_def)
qed

lemma index_present:
  assumes "ordered_rows chain v budget = Inr (returned, rows)" "as_array (json_at v ''value'') = Some entries"
    "address \<in> fst ` set rows"
  shows "bt_get (original_indices entries) address \<noteq> None"
proof -
  obtain all where all: "collect_rows chain [] entries = Inr all" "set rows \<subseteq> set all"
    using assms(1,2) set_take_subset [of "sb_max_decoded_accounts budget" "sort_key fst _"]
    by (fastforce simp: ordered_rows_def result_simps)
  have "\<exists>i. (address, i) \<in> set (List.map_filter
      (\<lambda>(index, row). map_option (\<lambda>address. (address, index)) (as_str (json_at row ''pubkey''))) (enumerate n entries))"
    if "collect_rows chain seen entries = Inr all" "address \<in> fst ` set all" for n seen
    using that
  proof (induction entries arbitrary: n seen all)
    case (Cons entry entries)
    then obtain pubkey rest where e: "as_str (json_at entry ''pubkey'') = Some pubkey"
      "collect_rows chain (pubkey # seen) entries = Inr rest" "all = (pubkey, json_at entry ''account'') # rest"
      by (auto simp: result_simps)
    show ?case
    proof (cases "address = pubkey")
      case True
      then show ?thesis using e by (auto simp: map_filter_simps)
    next
      case False
      then show ?thesis using Cons.IH [OF e(2), of "Suc n"] e Cons.prems(2) by (auto simp: map_filter_simps)
    qed
  qed simp
  moreover have "address \<in> fst ` set all" using assms(3) all(2) by blast
  ultimately obtain i where "(address, i) \<in> set (List.map_filter
      (\<lambda>(index, row). map_option (\<lambda>address. (address, index)) (as_str (json_at row ''pubkey''))) (enumerate 0 entries))"
    using all(1) by blast
  then have "address \<in> fst ` set (rev (List.map_filter
      (\<lambda>(index, row). map_option (\<lambda>address. (address, index)) (as_str (json_at row ''pubkey''))) (enumerate 0 entries)))"
    by (simp add: rev_image_eqI)
  then show ?thesis by (simp only: original_indices_def bt_collect_get map_of_eq_None_iff not_not)
qed

lemma build_entities_ok:
  assumes "\<And>i a. a \<in> fst ` set ds \<Longrightarrow> \<exists>ev. evidence i a = Inr ev"
  shows "\<exists>es. build_entities mk evidence index ds = Inr es"
  using assms
proof (induction ds arbitrary: index)
  case (Cons d ds)
  obtain a st where d: "d = (a, st)" by (cases d)
  obtain ev where "evidence index a = Inr ev" using Cons.prems [of a index] d by auto
  moreover obtain es where "build_entities mk evidence (index + 1) ds = Inr es"
    using Cons.IH [of "index + 1"] Cons.prems by auto
  ultimately show ?case by (simp add: d)
qed simp

definition readable_balance :: "StressEntity \<Rightarrow> bool" where
  "readable_balance e \<longleftrightarrow> (\<exists>b. entity_balance e = Inr b)"

lemma built_balances:
  assumes "build_entities (stress_entity chain sha mint mc resolved) evidence index ds = Inr es"
    "list_all (\<lambda>(_, st). \<exists>b :: u64. ta_raw_balance st = show_nat (unat b)) ds"
  shows "list_all readable_balance es"
  using build_entities_Inr [OF assms(1)] assms(2)
  by (induction rule: list_all2_induct)
    (auto simp: readable_balance_def entity_balance_def parse_uint_show)

lemma decoded_balances:
  assumes "ds = List.map_filter (\<lambda>(a, raw). case verify_row chain mc mint raw of
       Inr state \<Rightarrow> Some (a, state) | Inl _ \<Rightarrow> None) rows"
  shows "list_all (\<lambda>(_, st). \<exists>b :: u64. ta_raw_balance st = show_nat (unat b)) ds"
    "fst ` set ds \<subseteq> fst ` set rows"
proof -
  show "list_all (\<lambda>(_, st). \<exists>b :: u64. ta_raw_balance st = show_nat (unat b)) ds"
    unfolding assms
    by (induction rows)
      (auto simp: map_filter_simps verify_row_decode split: sum.splits dest: decode_token_account_Inr(3))
  show "fst ` set ds \<subseteq> fst ` set rows"
    unfolding assms by (force simp: map_filter_set image_iff split: sum.splits)
qed

section \<open>The replay\<close>

lemma resolve_authorities_ok:
  assumes "recorded provider clock c" "steady_clock chain clock" "honest_provider chain provider mint budget"
    "0 < sb_authority_batch_size (cap_budget c)"
    and obs: "cap_observations c = pre @ batch_records provider clock slot 3
      (chunks (sb_authority_batch_size (cap_budget c))
        (take (sb_max_authority_lookups (cap_budget c)) (wanted_authorities ds)))" "length pre = 3"
  shows "\<exists>r a. resolve_authorities chain c slot ds summary slots = Inr (r, a)"
proof -
  let ?planned = "take (sb_max_authority_lookups (cap_budget c)) (wanted_authorities ds)"
  let ?size = "sb_authority_batch_size (cap_budget c)"
  have obs': "cap_observations c = pre @ batch_records provider clock slot (length pre) (chunks ?size ?planned)"
    using obs by simp
  have "length (cap_observations c) \<le> 3 + (length ?planned + max ?size 1 - 1) div max ?size 1"
    using obs(2) batch_records_length [of provider clock slot 3 "chunks ?size ?planned"]
    unfolding obs(1) length_append length_chunks [OF assms(4), symmetric] by linarith
  moreover obtain r where "resolve_batches chain c slot 3 (chunks ?size ?planned)
      \<lparr>rs_gaps = as_gaps summary @
        (if length ?planned < length (wanted_authorities ds) then
           [show_nat (length (wanted_authorities ds)) @
            '' distinct positive-balance authorities exceed the declared lookup budget of '' @
            show_nat (sb_max_authority_lookups (cap_budget c)) @
            ''. The remainder stays explicitly unresolved and receives no assumed signer.'']
         else []), rs_slots = slots, rs_batches = as_batches_performed summary, rs_resolved = []\<rparr> = Inr r"
    using resolve_batches_ok [OF assms(1-3) obs'] unfolding obs(2) by blast
  ultimately show ?thesis unfolding resolve_authorities_def Let_def by (simp add: ensure_def)
qed

lemma scan_value_ok:
  assumes r: "recorded provider clock c" "steady_clock chain clock" "honest_provider chain provider mint budget"
    and c: "0 < sb_authority_batch_size (cap_budget c)" "cap_schema_version c = 2"
    and v: "context_slot v = Inr slot" "mint_slot \<le> slot" "ordered_rows chain v (cap_budget c) = Inr (returned, rows)"
    and obs: "cap_observations c = pre @ batch_records provider clock slot 3
      (chunks (sb_authority_batch_size (cap_budget c)) (authority_plan chain rows mc (cap_mint c) (cap_budget c)))"
      "length pre = 3"
  shows "\<exists>s'. scan_value chain c sha mc mint_slot v s = Inr s' \<and> list_all readable_balance (ps_entities s')"
proof -
  obtain entries where e: "as_array (json_at v ''value'') = Some entries"
    using v(3) by (auto simp: ordered_rows_def result_simps)
  let ?evidence = "row_evidence 2 (original_indices entries) slot"
  have ev: "\<exists>ev. ?evidence i a = Inr ev" if "a \<in> fst ` set rows" for i a
    using index_present [OF v(3) e that] by (auto simp: row_evidence_def)
  obtain ds us where d: "decode_rows chain mc (cap_mint c) ?evidence 0 rows = Inr (ds, us)"
    "ds = List.map_filter (\<lambda>(a, raw). case verify_row chain mc (cap_mint c) raw of
       Inr state \<Rightarrow> Some (a, state) | Inl _ \<Rightarrow> None) rows"
    using decode_rows_ok [of rows ?evidence chain mc "cap_mint c" 0] ev by (elim meta_impE exE conjE)
  have plan: "take (sb_max_authority_lookups (cap_budget c)) (wanted_authorities ds) =
      authority_plan chain rows mc (cap_mint c) (cap_budget c)"
    by (rule wanted_plan [OF d(2)])
  obtain rs a where ra: "resolve_authorities chain c slot ds (ps_authority s) (ps_slots s @ [slot]) = Inr (rs, a)"
    using resolve_authorities_ok [OF r c(1) obs(1) [folded plan] obs(2),
        of "ps_authority s" "ps_slots s @ [slot]"]
    by (elim exE)
  have "\<exists>ev. ?evidence i a = Inr ev" if "a \<in> fst ` set ds" for i a
    by (rule ev [OF subsetD [OF decoded_balances(2) [OF d(2)] that]])
  with build_entities_ok [of ds ?evidence "stress_entity chain sha (cap_mint c) mc (rs_resolved rs)" 0]
  obtain es where es: "build_entities (stress_entity chain sha (cap_mint c) mc (rs_resolved rs)) ?evidence 0 ds = Inr es"
    by (elim meta_impE exE)
  have "list_all readable_balance es" by (rule built_balances [OF es decoded_balances(1) [OF d(2)]])
  then show ?thesis
    by (simp add: scan_value_def Let_def ensure_def v e d(1) ra es c(2))
qed

lemma record_mint_replays:
  assumes r: "recorded provider clock c" "steady_clock chain clock" "honest_provider chain provider (cap_mint c) (cap_budget c)"
    and b: "0 < sb_authority_batch_size (cap_budget c)" "cap_schema_version c = 2"
    and rec: "record_mint chain provider clock (cap_mint c) (cap_budget c) [g] = Inr (cap_observations c)"
    and s: "ps_entities s = []"
  shows "\<exists>m s'. checked chain c 1 ''getAccountInfo'' (JArray [JString (cap_mint c), base_config]) = Inr m \<and>
    mint_result chain c sha m s = Inr s' \<and> list_all readable_balance (ps_entities s')"
proof -
  let ?mp = "JArray [JString (cap_mint c), base_config]"
  let ?m = "call_record provider clock 1 ''getAccountInfo'' ?mp"
  have ck1: "checked chain c 1 ''getAccountInfo'' ?mp = Inr ?m" if "cap_observations c = g # ?m # post" for post
    using checked_recorded [OF r(1,2), of "[g]" "''getAccountInfo''" ?mp post] that by simp
  consider (failed) "ob_result ?m = None" | (answered) response where "ob_result ?m = Some response"
    by (cases "ob_result ?m") auto
  then show ?thesis
  proof cases
    case failed
    have obs: "cap_observations c = [g, ?m]"
      using rec failed by (simp add: record_mint_def record_call_def Let_def del: call_record_simps)
    show ?thesis using ck1 [OF obs] obs failed s
      by (simp add: mint_result_def ensure_def del: call_record_simps)
  next
    case (answered response)
    show ?thesis
    proof (cases "decode_mint chain (json_at response ''value'')")
      case (Inl e)
      have obs: "cap_observations c = [g, ?m]"
        using rec answered Inl by (simp add: record_mint_def record_call_def Let_def del: call_record_simps)
      show ?thesis using ck1 [OF obs] obs answered Inl s
        by (simp add: mint_result_def ensure_def del: call_record_simps)
    next
      case (Inr mc)
      obtain slot where slot: "context_slot response = Inr slot"
        and en: "record_enumeration chain provider clock (cap_mint c) (cap_budget c) mc slot [g, ?m] = cap_observations c"
        using rec answered Inr
        by (auto simp: record_mint_def record_call_def Let_def result_simps simp del: call_record_simps)
      let ?sp = "JArray [JString (mint_token_program mc), enumeration_config (cap_mint c) slot]"
      let ?scan = "call_record provider clock 2 ''getProgramAccounts'' ?sp"
      have ck2: "checked chain c 2 ''getProgramAccounts'' ?sp = Inr ?scan"
        if "cap_observations c = g # ?m # ?scan # post" for post
        using checked_recorded [OF r(1,2), of "[g, ?m]" "''getProgramAccounts''" ?sp post] that
        by (simp add: numeral_2_eq_2)
      show ?thesis
      proof (cases "ob_result ?scan")
        case None
        have obs: "cap_observations c = [g, ?m, ?scan]"
          using en None
          by (simp add: record_enumeration_def record_call_def Let_def numeral_2_eq_2 del: call_record_simps)
        show ?thesis using ck1 [OF obs] ck2 [OF obs] obs answered Inr slot None s
          by (auto simp: mint_result_def scan_mint_def scan_result_def Let_def ensure_def
              simp del: call_record_simps split: prod.splits)
      next
        case (Some v)
        then have "provider 2 ''getProgramAccounts'' ?sp = Inr v" by simp
        then have "good_scan_answer chain (cap_budget c) slot v" using r(3) unfolding honest_provider_def by blast
        then obtain slot2 returned rows where v: "context_slot v = Inr slot2" "slot \<le> slot2"
          "ordered_rows chain v (cap_budget c) = Inr (returned, rows)"
          by (auto simp: good_scan_answer_def split: sum.splits)
        have obs: "cap_observations c = [g, ?m, ?scan] @ batch_records provider clock slot2 3
            (chunks (sb_authority_batch_size (cap_budget c)) (authority_plan chain rows mc (cap_mint c) (cap_budget c)))"
          using en Some v
          by (simp add: record_enumeration_def record_call_def record_authorities_def record_batches_append Let_def
              numeral_2_eq_2 numeral_3_eq_3 del: call_record_simps)
        have l: "length [g, ?m, ?scan] = 3" by simp
        note obs2 = obs [unfolded append_Cons append_Nil]
        let ?s = "s\<lparr>ps_slots := ps_slots s @ [slot], ps_mint_slot := Some slot,
          ps_enumeration := (ps_enumeration s)\<lparr>en_program := mint_token_program mc\<rparr>\<rparr>"
        obtain s' where sv: "scan_value chain c sha mc slot v ?s = Inr s'"
          "list_all readable_balance (ps_entities s')"
          using scan_value_ok [OF r b v obs l, of sha ?s] by (elim exE conjE)
        have "mint_result chain c sha ?m s = Inr (s'\<lparr>ps_mint_config := Some mc\<rparr>)"
          using sv(1) answered Inr slot Some ck2 [OF obs2]
          by (simp add: mint_result_def scan_mint_def scan_result_def Let_def del: call_record_simps)
        with ck1 [OF obs2] sv(2) show ?thesis
          by (intro exI [of _ ?m] exI [of _ "s'\<lparr>ps_mint_config := Some mc\<rparr>"]) simp
      qed
    qed
  qed
qed

lemma length_chunks_le: "length (chunks n xs) \<le> length xs"
proof (induction n xs rule: chunks.induct)
  case (1 n xs)
  then show ?case by (subst chunks.simps) (cases xs; cases n; auto simp: order_trans)
qed

lemma record_authorities_grows:
  "\<exists>post. record_authorities chain provider clock mint budget mc scan records = records @ post \<and>
     length post \<le> sb_max_authority_lookups budget"
proof -
  have "length (batch_records provider clock slot k (chunks n (authority_plan chain rows mc mint budget)))
      \<le> sb_max_authority_lookups budget" for slot k n rows
    by (rule order_trans [OF batch_records_length order_trans [OF length_chunks_le]]) (simp add: authority_plan_def)
  then show ?thesis
    by (cases "context_slot scan"; cases "ordered_rows chain scan budget")
      (auto simp: record_authorities_def record_batches_append)
qed

lemma record_enumeration_grows:
  "\<exists>post. record_enumeration chain provider clock mint budget mc slot records = records @ post \<and>
     length post \<le> 1 + sb_max_authority_lookups budget"
proof -
  let ?r = "call_record provider clock (length records) ''getProgramAccounts''
    (JArray [JString (mint_token_program mc), enumeration_config mint slot])"
  show ?thesis
  proof (cases "ob_result ?r")
    case None
    then show ?thesis
      by (simp add: record_enumeration_def record_call_def Let_def del: call_record_simps)
  next
    case (Some v)
    then show ?thesis
      using record_authorities_grows [of chain provider clock mint budget mc v "records @ [?r]"]
      by (auto simp: record_enumeration_def record_call_def Let_def simp del: call_record_simps)
  qed
qed

lemma record_mint_grows:
  assumes "record_mint chain provider clock mint budget records = Inr records'"
  shows "\<exists>post. records' = records @ post \<and> length post \<le> 2 + sb_max_authority_lookups budget"
proof -
  let ?r = "call_record provider clock (length records) ''getAccountInfo'' (JArray [JString mint, base_config])"
  consider "records' = records @ [?r]"
    | mc slot where "records' = record_enumeration chain provider clock mint budget mc slot (records @ [?r])"
    using assms
    by (auto simp: record_mint_def record_call_def Let_def result_simps simp del: call_record_simps
        split: option.splits sum.splits)
  then show ?thesis
  proof cases
    case (2 mc slot)
    then show ?thesis
      using record_enumeration_grows [of chain provider clock mint budget mc slot "records @ [?r]"] by auto
  qed simp
qed

lemma population_evaluate_replays:
  assumes r: "recorded provider clock c" "steady_clock chain clock" "honest_provider chain provider (cap_mint c) (cap_budget c)"
    and c: "cap_schema_version c = 2" "cap_kind c = POPULATION_KIND" "cap_decoder c = DECODER_V2"
      "budget_validate (cap_budget c) = Inr ()" "ch_parse_address chain (cap_mint c) = Some a"
    and g: "g = call_record provider clock 0 ''getGenesisHash'' (JArray [])"
    and rec: "(if Option.bind (ob_result g) as_str = Some MAINNET
       then record_mint chain provider clock (cap_mint c) (cap_budget c) [g] else Inr [g]) = Inr (cap_observations c)"
  shows "\<exists>p. population_evaluate chain c sha = Inr p"
proof -
  have b: "0 < sb_authority_batch_size (cap_budget c)"
    using c(4) by (auto simp: budget_validate_def result_simps)
  obtain post where post: "cap_observations c = g # post" "length post \<le> 2 + sb_max_authority_lookups (cap_budget c)"
  proof (cases "Option.bind (ob_result g) as_str = Some MAINNET")
    case True
    then show ?thesis
      using rec record_mint_grows [of chain provider clock "cap_mint c" "cap_budget c" "[g]" "cap_observations c"] that
      by auto
  next
    case False
    then show ?thesis using rec that [of "[]"] by simp
  qed
  have ck0: "checked chain c 0 ''getGenesisHash'' (JArray []) = Inr g"
    using checked_recorded [OF r(1,2), of "[]" "''getGenesisHash''" "JArray []" post] post(1) g by simp
  let ?h = "case Option.bind (ob_result g) as_str of Some h \<Rightarrow> h | None \<Rightarrow> []"
  have "\<exists>s. scan_capture chain c sha ?h = Inr s \<and> list_all readable_balance (ps_entities s)"
  proof (cases "Option.bind (ob_result g) as_str = Some MAINNET")
    case True
    then have "record_mint chain provider clock (cap_mint c) (cap_budget c) [g] = Inr (cap_observations c)"
      using rec by simp
    from record_mint_replays [OF r b c(1) this, of "initial_scan c" sha] True show ?thesis
      by (auto simp: scan_capture_def Let_def initial_scan_def)
  next
    case False
    then have "?h \<noteq> MAINNET" "cap_observations c = [g]" using rec by (auto split: option.splits)
    then show ?thesis by (simp add: scan_capture_def Let_def ensure_def initial_scan_def)
  qed
  then obtain s where s: "scan_capture chain c sha ?h = Inr s" "list_all readable_balance (ps_entities s)" by blast
  have "list_all readable_balance (sort_key se_token_account (ps_entities s))"
    using s(2) by (simp add: list_all_iff)
  moreover have "list_all readable_balance es \<Longrightarrow> \<exists>bs. try_map entity_balance es = Inr bs" for es
    by (induction es) (auto simp: readable_balance_def)
  ultimately obtain bs where bs: "try_map entity_balance (sort_key se_token_account (ps_entities s)) = Inr bs" by blast
  show ?thesis
    using c post s(1) bs ck0 by (simp add: population_evaluate_def Let_def ensure_def)
qed


definition ex_rows_answer :: json where
  "ex_rows_answer = ex_response (JArray [JObject [(''account'', ex_account LEGACY_PROGRAM), (''pubkey'', JString ''a'')]])"

definition ex_provider :: provider where
  "ex_provider k method params =
     (if method = ''getGenesisHash'' then Inr (JString MAINNET)
      else if method = ''getAccountInfo'' then Inr (ex_response (ex_account LEGACY_PROGRAM))
      else if method = ''getProgramAccounts'' \<and> params = JArray [JString LEGACY_PROGRAM, enumeration_config ''m'' 5]
        then Inr ex_rows_answer
      else if method = ''getMultipleAccounts'' \<and> params = JArray [JArray [JString ''w''], min_config 5]
        then Inr (ex_response (JArray [ex_account SYSTEM_PROGRAM]))
      else Inl ''unavailable'')"

definition ex_clock :: clock where
  "ex_clock k = replicate k (CHR ''0'')"

lemma ex_honest: "honest_provider ex_population_chain ex_provider ''m'' default_budget"
proof -
  have "ordered_rows ex_population_chain ex_rows_answer default_budget = Inr (1, [(''a'', ex_account LEGACY_PROGRAM)])"
    unfolding ex_rows_answer_def by (rule ex_rows)
  then have "good_scan_answer ex_population_chain default_budget 5 ex_rows_answer"
    by (simp add: good_scan_answer_def) (simp add: ex_rows_answer_def ex_response_simps)
  moreover have "good_batch_answer ex_population_chain 5 [''w''] (ex_response (JArray [ex_account SYSTEM_PROGRAM]))"
    using ex_classify by (simp add: good_batch_answer_def ex_response_simps)
  moreover have "slot = 5" if "enumeration_config mint slot = enumeration_config mint' 5" for mint mint' slot
    using that by (simp add: enumeration_config_def)
  moreover have "min_config slot = min_config 5 \<longleftrightarrow> slot = 5" for slot by (simp add: min_config_def)
  ultimately show ?thesis
    unfolding honest_provider_def ex_provider_def by (auto split: if_splits)
qed

lemma ex_steady: "steady_clock ex_population_chain ex_clock"
  by (auto simp: steady_clock_def ex_chain_defs ex_clock_def mono_def intro!: exI [of _ int])


end
