(* ===== verification/Dlmm.thy ===== *)
theory Dlmm
  imports TokenState
begin

text \<open>
  Meteora DLMM pools (\<open>decode_pool\<close> of \<open>engine/src/lifecycle/exposure/meteora_dlmm.rs\<close>): the byte
  layout of an \<open>LbPair\<close> account, read field by field in the order of the struct, and the checks
  that bind a pool and its vaults to their program addresses.
\<close>

abbreviation DLMM_PROGRAM :: string where "DLMM_PROGRAM \<equiv> ''LBUZKhRxPF3XUpBCjp4YzTKgLccjZhTSDM9YuVaPwxo''"
abbreviation DLMM_ACCOUNT_LEN :: nat where "DLMM_ACCOUNT_LEN \<equiv> 904"

definition DISCRIMINATOR :: "u8 list" where
  "DISCRIMINATOR = [33, 11, 49, 98, 181, 101, 177, 13]"

text \<open>The fields the code reads; the others are skipped by their widths.\<close>

record LbPairLayout =
  lb_bump_seed :: u8
  lb_bin_step_seed :: "u8 list"
  lb_pair_type :: u8
  lb_active_id :: "32 word"
  lb_bin_step :: u16
  lb_status :: u8
  lb_require_base_factor_seed :: u8
  lb_activation_type :: u8
  lb_creator_pool_on_off_control :: u8
  lb_token_x_mint :: "u8 list"
  lb_token_y_mint :: "u8 list"
  lb_reserve_x :: "u8 list"
  lb_reserve_y :: "u8 list"
  lb_base_key :: "u8 list"
  lb_token_mint_x_program_flag :: u8
  lb_token_mint_y_program_flag :: u8
  lb_version :: u8

definition LB_PAIR_WIDTHS :: "nat list" where
  "LB_PAIR_WIDTHS =
     [32, 32, 1, 2, 1, 4, 2, 1, 1, 2, 1, 1, 32, 32, 32, 32, 16, 32, 288, 32, 128, 8, 32, 32, 32,
      8, 8, 8, 8, 32, 1, 1, 1, 21]"

text \<open>Borsh reads one field after the other and must end where the bytes end.\<close>

fun split_widths :: "nat list \<Rightarrow> 'a list \<Rightarrow> 'a list list option" where
  "split_widths [] xs = (if xs = [] then Some [] else None)"
| "split_widths (n # ns) xs =
     (if length xs < n then None else map_option ((#) (take n xs)) (split_widths ns (drop n xs)))"

definition lb_pair_layout :: "u8 list \<Rightarrow> LbPairLayout option" where
  "lb_pair_layout bytes =
     map_option (\<lambda>f.
       \<lparr>lb_bump_seed = f ! 2 ! 0, lb_bin_step_seed = f ! 3, lb_pair_type = f ! 4 ! 0,
        lb_active_id = from_le_bytes (f ! 5), lb_bin_step = from_le_bytes (f ! 6),
        lb_status = f ! 7 ! 0, lb_require_base_factor_seed = f ! 8 ! 0,
        lb_activation_type = f ! 10 ! 0, lb_creator_pool_on_off_control = f ! 11 ! 0,
        lb_token_x_mint = f ! 12, lb_token_y_mint = f ! 13, lb_reserve_x = f ! 14,
        lb_reserve_y = f ! 15, lb_base_key = f ! 24, lb_token_mint_x_program_flag = f ! 30 ! 0,
        lb_token_mint_y_program_flag = f ! 31 ! 0, lb_version = f ! 32 ! 0\<rparr>)
       (split_widths LB_PAIR_WIDTHS bytes)"

text \<open>Arrays of two are pairs.\<close>

record DecodedPool =
  dp_pool :: "u8 list"
  dp_mints :: "u8 list \<times> u8 list"
  dp_vaults :: "u8 list \<times> u8 list"
  dp_token_programs :: "string \<times> string"
  dp_decoded_fields :: json

definition token_program_of_flag :: "u8 \<Rightarrow> message + string" where
  "token_program_of_flag flag =
     (if flag = 0 then Inr LEGACY_PROGRAM
      else if flag = 1 then Inr TOKEN_2022_PROGRAM
      else Inl ''unsupported DLMM token-program flag'')"

text \<open>\<open>serde_json::to_value\<close> of an \<open>i32\<close>.\<close>

definition json_i32 :: "32 word \<Rightarrow> json" where
  "json_i32 w = JNumber (if 0 \<le> sint w then PosInt (ucast w) else NegInt (scast w))"

definition pool_fields :: "chain \<Rightarrow> LbPairLayout \<Rightarrow> u8 \<Rightarrow> json" where
  "pool_fields chain l bump =
     JObject
       [(''account_type'', JString ''LbPair''), (''active_bin_id'', json_i32 (lb_active_id l)),
        (''base_key'', JString (ch_show_address chain (lb_base_key l))),
        (''bin_step'', JNumber (PosInt (ucast (lb_bin_step l)))),
        (''pair_type'', JString ''PermissionlessV2''), (''pool_bump'', JNumber (PosInt (ucast bump))),
        (''state_version'', JNumber (PosInt (ucast (lb_version l)))),
        (''status'', JString (if lb_status l = 0 then ''Enabled'' else ''Disabled'')),
        (''token_program_flags'',
           JArray [JNumber (PosInt (ucast (lb_token_mint_x_program_flag l))),
                   JNumber (PosInt (ucast (lb_token_mint_y_program_flag l)))])]"

definition check_layout :: "LbPairLayout \<Rightarrow> message + unit" where
  "check_layout l =
     and_then (ensure (lb_version l = 1 \<and> lb_pair_type l = 3)
                 ''unsupported DLMM state version / pair type (only version 1 PermissionlessV2)'') (\<lambda>_.
     and_then (ensure (lb_status l \<le> 1 \<and> lb_activation_type l \<le> 1 \<and>
                       lb_require_base_factor_seed l \<le> 1 \<and> lb_creator_pool_on_off_control l \<le> 1)
                 ''invalid DLMM enum/boolean field'') (\<lambda>_.
     ensure (0 < lb_bin_step l \<and> lb_bin_step_seed l = to_le_bytes (lb_bin_step l))
       ''invalid DLMM bin-step seed''))"

definition sorted_mints :: "LbPairLayout \<Rightarrow> u8 list \<times> u8 list" where
  "sorted_mints l =
     (if lb_token_x_mint l < lb_token_y_mint l then (lb_token_x_mint l, lb_token_y_mint l)
      else (lb_token_y_mint l, lb_token_x_mint l))"

definition reserve_address :: "chain \<Rightarrow> u8 list \<Rightarrow> u8 list \<Rightarrow> u8 list \<Rightarrow> u8 list" where
  "reserve_address chain program pool mint = fst (ch_find_program_address chain [pool, mint] program)"

text \<open>The relations between a decoded layout, and the pool it was read from.\<close>

definition pool_of_layout ::
  "chain \<Rightarrow> u8 list \<Rightarrow> u8 list \<Rightarrow> LbPairLayout \<Rightarrow> message + DecodedPool" where
  "pool_of_layout chain program pool l =
     (let (derived_pool, bump) =
            ch_find_program_address chain
              [lb_base_key l, fst (sorted_mints l), snd (sorted_mints l)] program in
      and_then (ensure (derived_pool = pool \<and> lb_bump_seed l = bump) ''DLMM pool PDA / bump mismatch'') (\<lambda>_.
      and_then (ensure (reserve_address chain program pool (lb_token_x_mint l) = lb_reserve_x l)
                  ''DLMM reserve is not canonical pool/mint PDA'') (\<lambda>_.
      and_then (ensure (reserve_address chain program pool (lb_token_y_mint l) = lb_reserve_y l)
                  ''DLMM reserve is not canonical pool/mint PDA'') (\<lambda>_.
      and_then (token_program_of_flag (lb_token_mint_x_program_flag l)) (\<lambda>x.
      and_then (token_program_of_flag (lb_token_mint_y_program_flag l)) (\<lambda>y.
      Inr \<lparr>dp_pool = pool, dp_mints = (lb_token_x_mint l, lb_token_y_mint l),
           dp_vaults = (lb_reserve_x l, lb_reserve_y l), dp_token_programs = (x, y),
           dp_decoded_fields = pool_fields chain l bump\<rparr>))))))"

definition decode_pool :: "chain \<Rightarrow> string \<Rightarrow> json \<Rightarrow> string \<Rightarrow> message + DecodedPool" where
  "decode_pool chain pool raw target_mint =
     and_then (ok_or (ch_parse_address chain pool) ''invalid DLMM pool address'') (\<lambda>pool.
     and_then (map_err (\<lambda>_. ''candidate is not a non-executable DLMM-owned pool'')
                 (account_bytes chain raw DLMM_PROGRAM)) (\<lambda>bytes.
     and_then (ensure (length bytes = DLMM_ACCOUNT_LEN)
                 ''unsupported DLMM account length (expected 904)'') (\<lambda>_.
     and_then (ensure (take 8 bytes = DISCRIMINATOR) ''candidate lacks DLMM LbPair discriminator'') (\<lambda>_.
     and_then (ok_or (lb_pair_layout (drop 8 bytes)) ''malformed DLMM LbPair layout'') (\<lambda>l.
     and_then (check_layout l) (\<lambda>_.
     and_then (ensure (lb_token_x_mint l \<noteq> lb_token_y_mint l \<and> lb_reserve_x l \<noteq> lb_reserve_y l)
                 ''duplicate DLMM assets/vaults'') (\<lambda>_.
     and_then (ensure (ch_show_address chain (lb_token_x_mint l) = target_mint \<or>
                       ch_show_address chain (lb_token_y_mint l) = target_mint)
                 ''candidate pool does not contain lifecycle mint'') (\<lambda>_.
     and_then (ok_or (ch_parse_address chain DLMM_PROGRAM) ''invalid address'') (\<lambda>program.
     pool_of_layout chain program pool l)))))))))"

section \<open>Facts\<close>

lemma split_widths_Some:
  "split_widths ns xs = Some f \<longleftrightarrow> concat f = xs \<and> map length f = ns"
proof (induction ns arbitrary: xs f)
  case (Cons n ns)
  show ?case
  proof
    assume "split_widths (n # ns) xs = Some f"
    then obtain g where g: "split_widths ns (drop n xs) = Some g" "f = take n xs # g" "n \<le> length xs"
      by (auto split: if_splits)
    with Cons.IH show "concat f = xs \<and> map length f = n # ns" by auto
  next
    assume f: "concat f = xs \<and> map length f = n # ns"
    then obtain a g where "f = a # g" "length a = n" "map length g = ns" by (cases f) auto
    with f Cons.IH [of "drop n xs" g] show "split_widths (n # ns) xs = Some f" by auto
  qed
qed (auto simp: Nil_eq_concat_conv)

lemma split_widths_total: "length xs = sum_list ns \<Longrightarrow> \<exists>f. split_widths ns xs = Some f"
  by (induction ns arbitrary: xs) auto

text \<open>An account of the expected length always has the layout: the layout error cannot happen.\<close>

lemma layout_total: "length bytes = DLMM_ACCOUNT_LEN \<Longrightarrow> \<exists>l. lb_pair_layout (drop 8 bytes) = Some l"
  using split_widths_total [of "drop 8 bytes" LB_PAIR_WIDTHS]
  by (auto simp: lb_pair_layout_def LB_PAIR_WIDTHS_def)

text \<open>A pool proved by its bytes: it and its vaults are the program addresses of the layout.\<close>

definition proven_pool :: "chain \<Rightarrow> u8 list \<Rightarrow> DecodedPool \<Rightarrow> bool" where
  "proven_pool chain program p \<longleftrightarrow>
     (\<exists>base least greatest. fst (ch_find_program_address chain [base, least, greatest] program) = dp_pool p \<and>
        {least, greatest} = {fst (dp_mints p), snd (dp_mints p)}) \<and>
     fst (dp_vaults p) = reserve_address chain program (dp_pool p) (fst (dp_mints p)) \<and>
     snd (dp_vaults p) = reserve_address chain program (dp_pool p) (snd (dp_mints p))"

lemma pool_of_layout_Inr:
  assumes "pool_of_layout chain program pool l = Inr p"
  shows "dp_pool p = pool" "dp_mints p = (lb_token_x_mint l, lb_token_y_mint l)"
    "dp_vaults p = (lb_reserve_x l, lb_reserve_y l)" "proven_pool chain program p"
proof -
  obtain d bump where f: "ch_find_program_address chain
      [lb_base_key l, fst (sorted_mints l), snd (sorted_mints l)] program = (d, bump)" by fastforce
  from assms have q: "dp_pool p = pool \<and> dp_mints p = (lb_token_x_mint l, lb_token_y_mint l) \<and>
      dp_vaults p = (lb_reserve_x l, lb_reserve_y l) \<and> d = pool \<and>
      reserve_address chain program pool (lb_token_x_mint l) = lb_reserve_x l \<and>
      reserve_address chain program pool (lb_token_y_mint l) = lb_reserve_y l"
    unfolding pool_of_layout_def f Let_def prod.case by (auto simp: result_simps)
  then show "dp_pool p = pool" "dp_mints p = (lb_token_x_mint l, lb_token_y_mint l)"
    "dp_vaults p = (lb_reserve_x l, lb_reserve_y l)" by simp_all
  have "fst (ch_find_program_address chain [lb_base_key l, fst (sorted_mints l), snd (sorted_mints l)] program) = dp_pool p"
    using q by (simp add: f)
  moreover have "{fst (sorted_mints l), snd (sorted_mints l)} = {fst (dp_mints p), snd (dp_mints p)}"
    using q by (auto simp: sorted_mints_def)
  ultimately show "proven_pool chain program p"
    unfolding proven_pool_def using q by (metis fst_conv snd_conv)
qed

lemma decode_pool_Inr:
  assumes "decode_pool chain pool raw target = Inr p"
  shows "\<exists>program. ch_parse_address chain pool = Some (dp_pool p) \<and>
    ch_parse_address chain DLMM_PROGRAM = Some program \<and>
    as_str (json_at raw ''owner'') = Some DLMM_PROGRAM \<and> proven_pool chain program p \<and>
    fst (dp_vaults p) \<noteq> snd (dp_vaults p) \<and> fst (dp_mints p) \<noteq> snd (dp_mints p) \<and>
    target \<in> {ch_show_address chain (fst (dp_mints p)), ch_show_address chain (snd (dp_mints p))}"
  using assms
  by (auto simp: decode_pool_def account_bytes_def result_simps pool_of_layout_Inr dest: pool_of_layout_Inr)

end
