(* ===== verification/StressAuthority.thy ===== *)
theory StressAuthority
  imports Dlmm StressCapture "HOL-Library.Product_Lexorder"
begin

text \<open>
  Second-layer control resolution (\<open>engine/src/stress/authority.rs\<close> and
  \<open>stress/authority/meteora.rs\<close>): the bounded plan over the non-wallet authorities of a population,
  the resolution of one selected account from the captured bytes, and the report with its coverage.
  Canonical sizes, digests and the serialised capture are the parameter \<open>authority_env\<close>.
\<close>

section \<open>Plans and reports\<close>

abbreviation AUTHORITY_SELECTOR_VERSION :: string where
  "AUTHORITY_SELECTOR_VERSION \<equiv> ''eplyx-authority-resolution-select/v1''"
abbreviation RESOLVER_VERSION :: string where "RESOLVER_VERSION \<equiv> ''eplyx-authority-resolution/v1''"

record AuthorityBudget =
  ab_max_cases :: nat
  ab_max_linked_accounts_per_case :: nat
  ab_max_adapters_per_case :: nat
  ab_max_executable_program_cases :: nat
  ab_max_concurrent_rpc_requests :: nat
  ab_max_concurrent_vm_executions :: nat
  ab_rpc_timeout_seconds :: u64
  ab_vm_timeout_seconds :: u64
  ab_max_response_bytes :: u64
  ab_max_artifact_bytes :: u64

definition authority_budget :: AuthorityBudget where
  "authority_budget =
     \<lparr>ab_max_cases = 20, ab_max_linked_accounts_per_case = 8, ab_max_adapters_per_case = 3,
      ab_max_executable_program_cases = 5, ab_max_concurrent_rpc_requests = 1,
      ab_max_concurrent_vm_executions = 1, ab_rpc_timeout_seconds = 120, ab_vm_timeout_seconds = 120,
      ab_max_response_bytes = 2097152, ab_max_artifact_bytes = 4194304\<rparr>"

definition authority_budget_validate :: "AuthorityBudget \<Rightarrow> message + unit" where
  "authority_budget_validate b =
     ensure (b = authority_budget) ''authority-resolution bounds are server controlled''"

record AuthoritySelection =
  asl_token_account :: string
  asl_recorded_authority :: string
  asl_initial_classification :: EntityType
  asl_observed_balance_raw :: string
  asl_control_type_hint :: string
  asl_selection_reason :: string

record AuthorityPlan =
  ap_selector_version :: string
  ap_population_digest :: string
  ap_run_id :: string
  ap_mint :: string
  ap_budget :: AuthorityBudget
  ap_selected :: "AuthoritySelection list"

datatype ResolutionStatus =
    ResolvedDirectWallet | ResolvedProgramControlled | ResolvedPDA | ResolvedMultisig
  | ResolvedProtocolInternal | ResolvedNeedsPrivateAuthorization | ResolvedExecutionUnsupported
  | PartiallyResolved | Unresolved

datatype InvocationKind =
  DirectSigner | ProgramInstruction | MultisigExecution | PDAProgramInvocation | UnsupportedInvocation

record ControlPath =
  pth_token_account :: string
  pth_recorded_authority :: string
  pth_controller_program :: "string option"
  pth_controller_state :: "string option"
  pth_pda_derivation :: "json option"
  pth_invocation_kind :: InvocationKind
  pth_required_accounts :: "string list"
  pth_required_signers :: "string list"
  pth_multisig_threshold :: "u8 option"
  pth_multisig_members :: "string list"
  pth_preconditions :: "string list"
  pth_evidence :: "string list"

record AuthorityCase =
  ac_selection :: AuthoritySelection
  ac_authority_exists :: bool
  ac_on_curve :: bool
  ac_runtime_owner :: "string option"
  ac_executable :: "bool option"
  ac_data_len :: "nat option"
  ac_raw_data_sha256 :: "string option"
  ac_lamports :: "u64 option"
  ac_resolution :: ResolutionStatus
  ac_conversion :: PathStatus
  ac_execution_supported :: bool
  ac_signer_assumed_locally :: bool
  ac_reason :: string
  ac_control_path :: ControlPath

record BalanceGroup =
  bg_accounts :: nat
  bg_public_balance_raw :: string

record AuthorityCoverage =
  av_positive_balance_accounts_observed :: nat
  av_cases_selected :: nat
  av_population_initial :: "(string, BalanceGroup) btree_map"
  av_initial :: "(string, BalanceGroup) btree_map"
  av_resolved :: "(string, BalanceGroup) btree_map"
  av_unselected_non_wallet_accounts :: nat
  av_unselected_non_wallet_raw :: string

record AuthorityReport =
  ar_resolver_version :: string
  ar_plan_sha256 :: string
  ar_population_digest :: string
  ar_cases :: "AuthorityCase list"
  ar_coverage :: AuthorityCoverage

record authority_env =
  ae_capture_bytes :: "Capture \<Rightarrow> message + u8 list"
  ae_plan_len :: "AuthorityPlan \<Rightarrow> message + nat"
  ae_report_len :: "AuthorityReport \<Rightarrow> message + nat"
  ae_plan_digest :: "AuthorityPlan \<Rightarrow> message + string"

section \<open>The captured bytes of an authority\<close>

text \<open>\<open>serde_json::Value::pointer\<close>.\<close>

fun unescape_token :: "string \<Rightarrow> string" where
  "unescape_token (CHR ''~'' # CHR ''1'' # s) = CHR ''/'' # unescape_token s"
| "unescape_token (CHR ''~'' # CHR ''0'' # s) = CHR ''~'' # unescape_token s"
| "unescape_token (c # s) = c # unescape_token s"
| "unescape_token [] = []"

definition pointer_index :: "string \<Rightarrow> u64 option" where
  "pointer_index s =
     (if (s \<noteq> [] \<and> hd s = CHR ''+'') \<or> (s \<noteq> [] \<and> hd s = CHR ''0'' \<and> length s \<noteq> 1) then None
      else parse_uint s)"

fun pointer_step :: "json \<Rightarrow> string \<Rightarrow> json option" where
  "pointer_step (JObject m) token = map_of m token"
| "pointer_step (JArray xs) token =
     Option.bind (pointer_index token) (\<lambda>i. if unat i < length xs then Some (xs ! unat i) else None)"
| "pointer_step _ token = None"

fun pointer_walk :: "json \<Rightarrow> string list \<Rightarrow> json option" where
  "pointer_walk j [] = Some j"
| "pointer_walk j (token # tokens) = Option.bind (pointer_step j token) (\<lambda>j. pointer_walk j tokens)"

definition json_pointer :: "json \<Rightarrow> string \<Rightarrow> json option" where
  "json_pointer j pointer =
     (if pointer = [] then Some j
      else if hd pointer \<noteq> CHR ''/'' then None
      else pointer_walk j (map unescape_token (tl (split_on (CHR ''/'') pointer))))"

definition raw_authority :: "Capture \<Rightarrow> StressEntity \<Rightarrow> message + json" where
  "raw_authority c e =
     and_then (ok_or (se_authority_evidence e) ''selected authority was never captured'') (\<lambda>ev.
     ok_or (if ev_rpc_id ev < length (cap_observations c)
            then Option.bind (ob_result (cap_observations c ! ev_rpc_id ev)) (\<lambda>r. json_pointer r (ev_pointer ev))
            else None)
       ''selected authority evidence pointer is missing'')"

section \<open>The plan\<close>

definition hint :: "StressEntity \<Rightarrow> string" where
  "hint e =
     entity_type_name (se_authority_model e) @ ''/'' @
     (case ao_runtime_owner (se_authority_observation e) of Some p \<Rightarrow> p | None \<Rightarrow> ''absent'')"

definition balance_or_zero :: "StressEntity \<Rightarrow> u64" where
  "balance_or_zero e = (case entity_balance e of Inr b \<Rightarrow> b | Inl _ \<Rightarrow> 0)"

definition candidates :: "PopulationObservation \<Rightarrow> StressEntity list" where
  "candidates obs =
     sort_key (\<lambda>e. (- int (unat (balance_or_zero e)), se_token_account e))
       (filter (\<lambda>e. se_authority_model e \<noteq> WalletCompatible \<and> se_authority_resolution e = Resolved)
          (positive_entities obs))"

type_synonym choice = "StressEntity \<times> string"

text \<open>First one candidate for each new control type, then by balance, to the case limit. A type is
  marked as seen before the account is, as the short-circuit conjunction of the two insertions does.\<close>

fun type_choices ::
  "nat \<Rightarrow> StressEntity list \<Rightarrow> string list \<Rightarrow> string list \<Rightarrow> choice list \<Rightarrow> string list \<times> choice list" where
  "type_choices limit [] types accounts chosen = (accounts, chosen)"
| "type_choices limit (e # es) types accounts chosen =
     (if hint e \<in> set types then type_choices limit es types accounts chosen
      else if se_token_account e \<in> set accounts then type_choices limit es (hint e # types) accounts chosen
      else
        let accounts = se_token_account e # accounts; chosen = chosen @ [(e, ''NewControlType'')] in
        if length chosen = limit then (accounts, chosen)
        else type_choices limit es (hint e # types) accounts chosen)"

fun balance_choices :: "nat \<Rightarrow> StressEntity list \<Rightarrow> string list \<Rightarrow> choice list \<Rightarrow> choice list" where
  "balance_choices limit [] accounts chosen = chosen"
| "balance_choices limit (e # es) accounts chosen =
     (if se_token_account e \<in> set accounts then balance_choices limit es accounts chosen
      else
        let chosen = chosen @ [(e, ''HighestPositiveBalance'')] in
        if length chosen = limit then chosen
        else balance_choices limit es (se_token_account e # accounts) chosen)"

definition choices :: "nat \<Rightarrow> StressEntity list \<Rightarrow> choice list" where
  "choices limit es =
     (let (accounts, chosen) = type_choices limit es [] [] [] in
      if length chosen < limit then balance_choices limit es accounts chosen else chosen)"

definition select_authority :: "choice \<Rightarrow> message + AuthoritySelection" where
  "select_authority p =
     (case p of (e, why) \<Rightarrow>
      and_then (entity_balance e) (\<lambda>b.
      Inr \<lparr>asl_token_account = se_token_account e, asl_recorded_authority = se_authority e,
           asl_initial_classification = se_authority_model e,
           asl_observed_balance_raw = show_nat (unat b), asl_control_type_hint = hint e,
           asl_selection_reason = why\<rparr>))"

definition plan_authorities :: "authority_env \<Rightarrow> PopulationObservation \<Rightarrow> message + AuthorityPlan" where
  "plan_authorities env obs =
     and_then (try_map select_authority (choices (ab_max_cases authority_budget) (candidates obs))) (\<lambda>selected.
     let frozen = \<lparr>ap_selector_version = AUTHORITY_SELECTOR_VERSION,
       ap_population_digest = po_capture_sha256 obs, ap_run_id = po_run_id obs, ap_mint = po_mint obs,
       ap_budget = authority_budget, ap_selected = selected\<rparr> in
     and_then (ae_plan_len env frozen) (\<lambda>len.
     and_then (ensure (len \<le> unat (ab_max_artifact_bytes authority_budget))
                 ''authority-resolution plan exceeds artifact bound'') (\<lambda>_.
     Inr frozen)))"

section \<open>One case\<close>

type_synonym adapter_outcome = "ResolutionStatus \<times> PathStatus \<times> string \<times> ControlPath"

definition dlmm_can_resolve :: "StressEntity \<Rightarrow> bool" where
  "dlmm_can_resolve e \<longleftrightarrow> se_authority_model e = ProgramOwnedAuthority \<and>
     ao_runtime_owner (se_authority_observation e) = Some DLMM_PROGRAM"

abbreviation POOL_RULE :: string where
  "POOL_RULE \<equiv> ''find_program_address([base_key, mint_bytes_min, mint_bytes_max], program)''"
abbreviation VAULT_RULE :: string where "VAULT_RULE \<equiv> ''find_program_address([pool, source_mint], program)''"

definition dlmm_derivation :: "chain \<Rightarrow> DecodedPool \<Rightarrow> string \<Rightarrow> string \<Rightarrow> json" where
  "dlmm_derivation chain p mint token_account =
     (let pool = ch_show_address chain (dp_pool p) in
      JObject
        [(''base_key'', json_at (dp_decoded_fields p) ''base_key''), (''derived_pool'', JString pool),
         (''derived_source_vault'', JString token_account),
         (''pool_bump'', json_at (dp_decoded_fields p) ''pool_bump''), (''pool_rule'', JString POOL_RULE),
         (''program'', JString DLMM_PROGRAM), (''source_vault_rule'', JString VAULT_RULE),
         (''source_vault_seeds'', JArray [JString pool, JString mint])])"

definition dlmm_resolve ::
  "chain \<Rightarrow> StressEntity \<Rightarrow> json \<Rightarrow> string \<Rightarrow> ControlPath \<Rightarrow> message + adapter_outcome" where
  "dlmm_resolve chain e raw mint path =
     (case decode_pool chain (se_authority e) raw mint of
        Inl _ \<Rightarrow> Inr (PartiallyResolved, Indeterminate,
          ''DLMM runtime owner observed, but exact pool PDA/layout proof failed'', path)
      | Inr p \<Rightarrow>
          (let show_addr = ch_show_address chain;
               found = (if show_addr (fst (dp_vaults p)) = se_token_account e then Some (fst (dp_mints p))
                        else if show_addr (snd (dp_vaults p)) = se_token_account e then Some (snd (dp_mints p))
                        else None) in
           case found of
             None \<Rightarrow> Inr (PartiallyResolved, Indeterminate,
               ''DLMM pool decoded, but this token account is not its verified source vault'', path)
           | Some m \<Rightarrow>
               and_then (ensure (show_addr m = mint) ''DLMM vault is not paired with source mint'') (\<lambda>_.
               Inr (ResolvedProtocolInternal, Unsupported,
                 ''Verified DLMM pool PDA and source vault relationship; no position or owner authorization was captured for sequential withdrawal and conversion'',
                 path\<lparr>pth_controller_program := Some DLMM_PROGRAM,
                   pth_controller_state := Some (show_addr (dp_pool p)),
                   pth_pda_derivation := Some (dlmm_derivation chain p mint (se_token_account e)),
                   pth_invocation_kind := ProgramInstruction,
                   pth_required_accounts := [show_addr (dp_pool p), se_token_account e],
                   pth_preconditions :=
                     [''Native liquidity withdrawal requires an independently captured position and owner authority'']\<rparr>))))"

definition multisig_resolve :: "StressEntity \<Rightarrow> ControlPath \<Rightarrow> message + adapter_outcome" where
  "multisig_resolve e path =
     and_then (ok_or (ao_multisig (se_authority_observation e))
                 ''multisig classification lacks decoded state'') (\<lambda>multisig.
     and_then (ok_or (as_u64 (json_at multisig ''required_signers'')) ''multisig threshold absent'') (\<lambda>threshold.
     and_then (ok_or (as_array (json_at multisig ''signers'')) ''multisig members absent'') (\<lambda>signers.
     let members = map (\<lambda>v. case as_str v of Some s \<Rightarrow> s | None \<Rightarrow> []) signers;
         shown = show_nat (unat threshold) in
     and_then (ensure (0 < threshold \<and> unat threshold \<le> length members) ''invalid multisig threshold'') (\<lambda>_.
     Inr (ResolvedNeedsPrivateAuthorization, Unsupported,
       ''Exact SPL Token multisig decoded; '' @ shown @ '' member approvals unavailable'',
       path\<lparr>pth_controller_program := ao_runtime_owner (se_authority_observation e),
         pth_controller_state := Some (se_authority e), pth_invocation_kind := MultisigExecution,
         pth_required_accounts := [se_authority e], pth_multisig_threshold := Some (ucast threshold),
         pth_multisig_members := members,
         pth_preconditions :=
           [''At least '' @ shown @ '' actual member approvals; private authorization unavailable'']\<rparr>)))))"

text \<open>The control path before any controller is known.\<close>

definition initial_path :: "StressEntity \<Rightarrow> ControlPath" where
  "initial_path e =
     \<lparr>pth_token_account = se_token_account e, pth_recorded_authority = se_authority e,
      pth_controller_program = None, pth_controller_state = None, pth_pda_derivation = None,
      pth_invocation_kind = UnsupportedInvocation, pth_required_accounts = [],
      pth_required_signers = [], pth_multisig_threshold = None, pth_multisig_members = [],
      pth_preconditions = [],
      pth_evidence = (case se_authority_evidence e of
         Some ev \<Rightarrow> [''population:'' @ show_nat (ev_rpc_id ev) @ '':'' @ ev_pointer ev] | None \<Rightarrow> [])\<rparr>"

definition control_of ::
  "chain \<Rightarrow> StressEntity \<Rightarrow> json option \<Rightarrow> string \<Rightarrow> message + adapter_outcome" where
  "control_of chain e captured mint =
     (let path = initial_path e in
      if se_authority_resolution e = NotResolved then
        Inr (Unresolved, Indeterminate,
          ''Authority lookup budget or provider stopped before inspection'', path)
      else if se_authority_model e = TokenMultisig then multisig_resolve e path
      else if dlmm_can_resolve e then
        and_then (ok_or captured ''selected DLMM authority evidence missing'') (\<lambda>raw.
        dlmm_resolve chain e raw mint path)
      else if se_authority_model e = ProgramOwnedAuthority then
        Inr (PartiallyResolved, Indeterminate,
          ''Authority runtime owner is known; no trusted control adapter proves a signing path'', path)
      else
        Inr (Unresolved, Indeterminate,
          ''Account existence, curve status and runtime owner do not establish a controller or PDA seeds'', path))"

text \<open>\<open>option.map(f).transpose()?\<close>.\<close>

fun try_option :: "('a \<Rightarrow> message + 'b) \<Rightarrow> 'a option \<Rightarrow> message + 'b option" where
  "try_option f None = Inr None"
| "try_option f (Some x) = and_then (f x) (\<lambda>y. Inr (Some y))"

definition check_classification :: "chain \<Rightarrow> StressEntity \<Rightarrow> json \<Rightarrow> message + unit" where
  "check_classification chain e raw =
     and_then (classify_authority chain (se_authority e) raw) (\<lambda>(model, observation, why).
     ensure (model = se_authority_model e \<and> observation = se_authority_observation e \<and>
             why = se_classification_reason e)
       ''initial authority classification differs from captured authority bytes'')"

definition resolve_one ::
  "chain \<Rightarrow> AuthoritySelection \<Rightarrow> StressEntity \<Rightarrow> Capture \<Rightarrow> string \<Rightarrow> message + AuthorityCase" where
  "resolve_one chain sel e c mint =
     and_then (ensure (asl_recorded_authority sel = se_authority e \<and>
                       asl_initial_classification sel = se_authority_model e \<and>
                       asl_observed_balance_raw sel = ta_raw_balance (se_state e))
                 ''initial authority classification or account scope changed'') (\<lambda>_.
     and_then (if se_authority_resolution e = Resolved then map_sum id Some (raw_authority c e)
               else Inr None) (\<lambda>captured.
     and_then (try_option (check_classification chain e) captured) (\<lambda>_.
     let present = (case captured of Some r \<Rightarrow> if r = JNull then None else Some r | None \<Rightarrow> None) in
     and_then (try_option (raw_account_bytes chain) present) (\<lambda>bytes.
     and_then (try_option (\<lambda>r. ok_or (as_u64 (json_at r ''lamports''))
                                  ''captured authority lamports missing'') present) (\<lambda>held.
     and_then (control_of chain e captured mint) (\<lambda>(resolution, conversion, why, path).
     and_then (ok_or (ch_parse_address chain (se_authority e)) ''invalid address'') (\<lambda>addr.
     Inr \<lparr>ac_selection = sel, ac_authority_exists = (present \<noteq> None),
          ac_on_curve = ch_is_on_curve chain addr,
          ac_runtime_owner = ao_runtime_owner (se_authority_observation e),
          ac_executable = ao_executable (se_authority_observation e),
          ac_data_len = map_option length bytes, ac_raw_data_sha256 = map_option (ch_sha256 chain) bytes,
          ac_lamports = held, ac_resolution = resolution, ac_conversion = conversion,
          ac_execution_supported = False, ac_signer_assumed_locally = False, ac_reason = why,
          ac_control_path = path\<rparr>)))))))"

section \<open>The report\<close>

definition empty_balance_group :: BalanceGroup where
  "empty_balance_group = \<lparr>bg_accounts = 0, bg_public_balance_raw = ''0''\<rparr>"

definition add_group ::
  "(string, BalanceGroup) btree_map \<Rightarrow> string \<Rightarrow> u64 \<Rightarrow> message + (string, BalanceGroup) btree_map" where
  "add_group m k amount =
     (let item = (case bt_get m k of Some g \<Rightarrow> g | None \<Rightarrow> empty_balance_group) in
      and_then (ok_or (parse_uint (bg_public_balance_raw item)) ''invalid digit found in string'') (\<lambda>total :: u128.
      and_then (ok_or (checked_add total (ucast amount)) ''authority coverage balance overflow'') (\<lambda>total.
      Inr (bt_insert k \<lparr>bg_accounts = bg_accounts item + 1,
                        bg_public_balance_raw = show_nat (unat total)\<rparr> m))))"

definition zero_groups :: "string list \<Rightarrow> (string, BalanceGroup) btree_map" where
  "zero_groups ks = bt_collect (map (\<lambda>k. (k, empty_balance_group)) ks)"

fun outcome_key :: "ResolutionStatus \<Rightarrow> string" where
  "outcome_key ResolvedProgramControlled = ''ResolvedExecutable''"
| "outcome_key ResolvedPDA = ''ResolvedExecutable''"
| "outcome_key ResolvedNeedsPrivateAuthorization = ''ResolvedNeedsPrivateAuthorization''"
| "outcome_key ResolvedProtocolInternal = ''ResolvedProtocolInternal''"
| "outcome_key ResolvedExecutionUnsupported = ''ResolvedExecutionUnsupported''"
| "outcome_key ResolvedMultisig = ''ResolvedExecutionUnsupported''"
| "outcome_key PartiallyResolved = ''PartiallyResolved''"
| "outcome_key _ = ''StillUnresolved''"

record resolved_cases =
  rv_cases :: "AuthorityCase list"
  rv_initial :: "(string, BalanceGroup) btree_map"
  rv_resolved :: "(string, BalanceGroup) btree_map"

fun resolve_cases ::
  "chain \<Rightarrow> Capture \<Rightarrow> string \<Rightarrow> (string, StressEntity) btree_map \<Rightarrow> AuthoritySelection list \<Rightarrow>
   resolved_cases \<Rightarrow> message + resolved_cases" where
  "resolve_cases chain c mint entities [] s = Inr s"
| "resolve_cases chain c mint entities (sel # sels) s =
     and_then (ok_or (bt_get entities (asl_token_account sel)) ''selected authority account vanished'') (\<lambda>e.
     and_then (resolve_one chain sel e c mint) (\<lambda>k.
     and_then (ensure (\<not> ac_signer_assumed_locally k \<and> \<not> ac_execution_supported k)
                 ''non-wallet authority cannot inherit a direct signer or execution proof'') (\<lambda>_.
     and_then (entity_balance e) (\<lambda>amount.
     and_then (add_group (rv_initial s) (entity_type_name (asl_initial_classification sel)) amount) (\<lambda>initial.
     and_then (add_group (rv_resolved s) (outcome_key (ac_resolution k)) amount) (\<lambda>resolved.
     resolve_cases chain c mint entities sels
       \<lparr>rv_cases = rv_cases s @ [k], rv_initial = initial, rv_resolved = resolved\<rparr>))))))"

record unselected =
  un_population :: "(string, BalanceGroup) btree_map"
  un_count :: nat
  un_raw :: u128

text \<open>The sum of the unselected balances is a plain addition: it would take \<open>2 ^ 64\<close> accounts to
  leave the 128 bits.\<close>

fun group_population ::
  "string list \<Rightarrow> StressEntity list \<Rightarrow> unselected \<Rightarrow> message + unselected" where
  "group_population selected [] s = Inr s"
| "group_population selected (e # es) s =
     (if se_authority_model e = WalletCompatible then group_population selected es s
      else
        and_then (entity_balance e) (\<lambda>amount.
        and_then (add_group (un_population s)
                    (if se_authority_resolution e = NotResolved then ''Unresolved''
                     else entity_type_name (se_authority_model e)) amount) (\<lambda>population.
        group_population selected es
          (if se_token_account e \<in> set selected then s\<lparr>un_population := population\<rparr>
           else \<lparr>un_population = population, un_count = un_count s + 1,
                 un_raw = un_raw s + ucast amount\<rparr>))))"

definition resolve_authority ::
  "chain \<Rightarrow> authority_env \<Rightarrow> AuthorityPlan \<Rightarrow> PopulationObservation \<Rightarrow> Capture \<Rightarrow>
   message + AuthorityReport" where
  "resolve_authority chain env plan obs c =
     and_then (authority_budget_validate (ap_budget plan)) (\<lambda>_.
     and_then (ae_capture_bytes env c) (\<lambda>bytes.
     and_then (ensure (ch_sha256 chain bytes = po_capture_sha256 obs)
                 ''authority resolution capture digest mismatch'') (\<lambda>_.
     and_then (plan_authorities env obs) (\<lambda>rebuilt.
     and_then (ensure (plan = rebuilt)
                 ''frozen authority-resolution plan differs from capture'') (\<lambda>_.
     let entities = bt_collect (map (\<lambda>e. (se_token_account e, e)) (po_entities obs)) in
     and_then (resolve_cases chain c (ap_mint plan) entities (ap_selected plan)
                 \<lparr>rv_cases = [], rv_initial = [],
                  rv_resolved = zero_groups [''ResolvedExecutable'', ''ResolvedExecutionUnsupported'',
                    ''ResolvedNeedsPrivateAuthorization'', ''ResolvedProtocolInternal'',
                    ''PartiallyResolved'', ''StillUnresolved'']\<rparr>) (\<lambda>s.
     and_then (group_population (map asl_token_account (ap_selected plan)) (positive_entities obs)
                 \<lparr>un_population = zero_groups [''ProgramOwnedAuthority'', ''TokenMultisig'', ''Unknown'', ''Unresolved''],
                  un_count = 0, un_raw = 0\<rparr>) (\<lambda>u.
     and_then (ae_plan_digest env plan) (\<lambda>plan_sha256.
     let report = \<lparr>ar_resolver_version = RESOLVER_VERSION, ar_plan_sha256 = plan_sha256,
       ar_population_digest = ap_population_digest plan, ar_cases = rv_cases s,
       ar_coverage =
         \<lparr>av_positive_balance_accounts_observed = pc_positive_balance_accounts_observed (po_summary obs),
          av_cases_selected = length (ap_selected plan), av_population_initial = un_population u,
          av_initial = rv_initial s, av_resolved = rv_resolved s,
          av_unselected_non_wallet_accounts = un_count u,
          av_unselected_non_wallet_raw = show_nat (unat (un_raw u))\<rparr>\<rparr> in
     and_then (ae_report_len env report) (\<lambda>len.
     and_then (ensure (len \<le> unat (ab_max_artifact_bytes (ap_budget plan)))
                 ''authority-resolution report exceeds artifact bound'') (\<lambda>_.
     Inr report))))))))))"

end
