(* ===== verification/AuthorityProperties.thy ===== *)
theory AuthorityProperties
  imports StressAuthority PopulationProperties
begin

text \<open>
  What control resolution can and cannot say: it selects at most twenty distinct accounts in a fixed
  order, it never grants a signer or an executable path, one pool explains one vault, and its
  coverage accounts for every selected and unselected account.
\<close>

section \<open>The selection\<close>

text \<open>The first candidate of each control type, and the others.\<close>

fun first_of_type :: "string list \<Rightarrow> StressEntity list \<Rightarrow> StressEntity list" where
  "first_of_type types [] = []"
| "first_of_type types (e # es) =
     (if hint e \<in> set types then first_of_type types es else e # first_of_type (hint e # types) es)"

definition ideal_choices :: "StressEntity list \<Rightarrow> choice list" where
  "ideal_choices es =
     (let firsts = first_of_type [] es in
      map (\<lambda>e. (e, ''NewControlType'')) firsts @
      map (\<lambda>e. (e, ''HighestPositiveBalance'')) (filter (\<lambda>e. e \<notin> set firsts) es))"

lemma first_of_type_subset: "set (first_of_type types es) \<subseteq> set es"
  by (induction es arbitrary: types) auto

lemma first_of_type_distinct: "distinct es \<Longrightarrow> distinct (first_of_type types es)"
  by (induction es arbitrary: types) (auto dest: subsetD [OF first_of_type_subset])

lemma first_of_type_hints:
  "hint ` set (first_of_type types es) = hint ` set es - set types"
  "distinct (map hint (first_of_type types es))"
proof -
  show h: "hint ` set (first_of_type types es) = hint ` set es - set types" for types es
    by (induction es arbitrary: types) auto
  show "distinct (map hint (first_of_type types es))"
    by (induction es arbitrary: types) (simp_all add: h)
qed

lemma type_choices_spec:
  assumes "distinct (map se_token_account es)" "set accounts \<inter> set (map se_token_account es) = {}"
    "length chosen < limit"
  shows "\<exists>n. n = length (first_of_type types es) \<and>
    type_choices limit es types accounts chosen =
      (rev (map se_token_account (take (limit - length chosen) (first_of_type types es))) @ accounts,
       chosen @ map (\<lambda>e. (e, ''NewControlType'')) (take (limit - length chosen) (first_of_type types es)))"
  using assms
proof (induction es arbitrary: types accounts chosen)
  case (Cons e es)
  show ?case
  proof (cases "hint e \<in> set types")
    case True
    then show ?thesis using Cons by auto
  next
    case False
    have acct: "se_token_account e \<notin> set accounts" using Cons.prems(2) by auto
    obtain m where m: "limit - length chosen = Suc m" "m = limit - Suc (length chosen)"
      using Cons.prems(3) by (metis Suc_diff_Suc)
    show ?thesis
    proof (cases "Suc (length chosen) = limit")
      case True
      then show ?thesis using False acct by (auto simp: Let_def)
    next
      case more: False
      have "set (se_token_account e # accounts) \<inter> set (map se_token_account es) = {}"
        using Cons.prems(1,2) by auto
      from Cons.IH [of "se_token_account e # accounts" "chosen @ [(e, ''NewControlType'')]" "hint e # types"]
      show ?thesis using False acct more m Cons.prems by (auto simp: Let_def)
    qed
  qed
qed simp

lemma balance_choices_spec:
  assumes "distinct (map se_token_account es)" "length chosen < limit"
  shows "balance_choices limit es accounts chosen =
    chosen @ map (\<lambda>e. (e, ''HighestPositiveBalance''))
      (take (limit - length chosen) (filter (\<lambda>e. se_token_account e \<notin> set accounts) es))"
  using assms
proof (induction es arbitrary: accounts chosen)
  case (Cons e es)
  show ?case
  proof (cases "se_token_account e \<in> set accounts")
    case True
    then show ?thesis using Cons by simp
  next
    case False
    have f: "filter (\<lambda>e'. se_token_account e' \<noteq> se_token_account e \<and> se_token_account e' \<notin> set accounts) es =
        filter (\<lambda>e'. se_token_account e' \<notin> set accounts) es"
      using Cons.prems(1) by (intro filter_cong refl) (auto, metis imageI)
    obtain m where m: "limit - length chosen = Suc m" "m = limit - Suc (length chosen)"
      using Cons.prems(2) by (metis Suc_diff_Suc)
    show ?thesis
    proof (cases "Suc (length chosen) = limit")
      case True
      then show ?thesis using False by (auto simp: Let_def)
    next
      case more: False
      with Cons.IH [of "chosen @ [(e, ''HighestPositiveBalance'')]" "se_token_account e # accounts"] Cons.prems
      show ?thesis using False m by (simp add: Let_def f)
    qed
  qed
qed simp

lemma choices_ideal:
  assumes "distinct (map se_token_account es)" "0 < limit"
  shows "choices limit es = take limit (ideal_choices es)"
proof -
  let ?firsts = "first_of_type [] es"
  note t = type_choices_spec [OF assms(1), of "[]" "[]" limit "[]"]
  have tc: "type_choices limit es [] [] [] =
      (rev (map se_token_account (take limit ?firsts)), map (\<lambda>e. (e, ''NewControlType'')) (take limit ?firsts))"
    using t assms(2) by simp
  have sub: "set ?firsts \<subseteq> set es" by (rule first_of_type_subset)
  have inj: "inj_on se_token_account (set es)" using assms(1) by (simp add: distinct_map)
  show ?thesis
  proof (cases "length ?firsts < limit")
    case True
    have "se_token_account e \<in> se_token_account ` set ?firsts \<longleftrightarrow> e \<in> set ?firsts" if "e \<in> set es" for e
      using that sub inj by (auto simp: inj_on_def)
    then have "filter (\<lambda>e. se_token_account e \<notin> se_token_account ` set ?firsts) es = filter (\<lambda>e. e \<notin> set ?firsts) es"
      by (intro filter_cong) auto
    then show ?thesis
      using True by (simp add: choices_def tc ideal_choices_def Let_def balance_choices_spec [OF assms(1)] take_map)
  next
    case False
    then show ?thesis by (simp add: choices_def tc ideal_choices_def Let_def take_map)
  qed
qed

lemma candidates_set:
  "set (candidates obs) = {e \<in> set (positive_entities obs). se_authority_model e \<noteq> WalletCompatible \<and> se_authority_resolution e = Resolved}"
  by (auto simp: candidates_def)

lemma candidates_distinct:
  "distinct (map se_token_account (po_entities obs)) \<Longrightarrow> distinct (map se_token_account (candidates obs))"
proof -
  assume d: "distinct (map se_token_account (po_entities obs))"
  let ?c = "filter (\<lambda>e. se_authority_model e \<noteq> WalletCompatible \<and> se_authority_resolution e = Resolved)
    (positive_entities obs)"
  have "distinct (map se_token_account ?c)"
    using distinct_map_filter [OF distinct_map_filter [OF d]] by (simp add: positive_entities_def)
  then show ?thesis by (simp add: candidates_def distinct_map)
qed

definition selection_of :: "choice \<Rightarrow> AuthoritySelection \<Rightarrow> bool" where
  "selection_of p sel \<longleftrightarrow> asl_token_account sel = se_token_account (fst p) \<and>
     asl_recorded_authority sel = se_authority (fst p) \<and>
     asl_initial_classification sel = se_authority_model (fst p) \<and>
     (\<exists>b. entity_balance (fst p) = Inr b \<and> asl_observed_balance_raw sel = show_nat (unat b)) \<and>
     asl_control_type_hint sel = hint (fst p) \<and> asl_selection_reason sel = snd p"

lemma select_authority_Inr: "select_authority p = Inr sel \<Longrightarrow> selection_of p sel"
  by (auto simp: select_authority_def selection_of_def result_simps split: prod.splits)

lemma plan_authorities_Inr:
  assumes "plan_authorities env obs = Inr plan"
  shows "list_all2 selection_of (choices 20 (candidates obs)) (ap_selected plan)"
    "ap_budget plan = authority_budget" "ap_mint plan = po_mint obs"
    "ap_population_digest plan = po_capture_sha256 obs"
proof -
  have "try_map select_authority (choices 20 (candidates obs)) = Inr (ap_selected plan)"
    using assms by (auto simp: plan_authorities_def Let_def result_simps authority_budget_def)
  then show "list_all2 selection_of (choices 20 (candidates obs)) (ap_selected plan)"
    unfolding try_map_Inr by (rule list_all2_mono) (rule select_authority_Inr)
qed (use assms in \<open>auto simp: plan_authorities_def Let_def result_simps\<close>)

lemma ideal_choices_facts:
  assumes "distinct (map se_token_account es)"
  shows "distinct (map (se_token_account \<circ> fst) (ideal_choices es))" "set (map fst (ideal_choices es)) = set es"
proof -
  let ?f = "first_of_type [] es"
  have m: "map fst (ideal_choices es) = ?f @ filter (\<lambda>e. e \<notin> set ?f) es"
    by (simp add: ideal_choices_def Let_def o_def)
  show s: "set (map fst (ideal_choices es)) = set es"
    unfolding m using first_of_type_subset [of "[]" es] by auto
  have d: "distinct es" using assms by (simp add: distinct_map)
  have "distinct (map fst (ideal_choices es))"
    unfolding m using first_of_type_distinct [OF d] d by auto
  moreover have "inj_on se_token_account (set (map fst (ideal_choices es)))"
    using assms unfolding s by (simp add: distinct_map)
  ultimately have "distinct (map se_token_account (map fst (ideal_choices es)))"
    unfolding distinct_map by blast
  then show "distinct (map (se_token_account \<circ> fst) (ideal_choices es))" by simp
qed

lemma selected_accounts_distinct:
  assumes "distinct (map se_token_account (po_entities obs))" "plan_authorities env obs = Inr plan"
  shows "distinct (map asl_token_account (ap_selected plan))"
proof -
  have d: "distinct (map se_token_account (candidates obs))" by (rule candidates_distinct [OF assms(1)])
  have "list_all2 selection_of (take 20 (ideal_choices (candidates obs))) (ap_selected plan)"
    using plan_authorities_Inr(1) [OF assms(2)] choices_ideal [OF d, of 20] by simp
  then have "map (se_token_account \<circ> fst) (take 20 (ideal_choices (candidates obs))) = map asl_token_account (ap_selected plan)"
    by (induction rule: list_all2_induct) (simp_all add: selection_of_def)
  then show ?thesis
    using distinct_take [OF ideal_choices_facts(1) [OF d], of 20] by (simp add: take_map)
qed

text \<open>C40. The control plan over a population is the first twenty of a fixed order of its inspected
  non-wallet accounts with a balance, each of them once: first the highest balance of every control
  type, each type once, then the rest by balance and address. So with at most twenty types every
  type is in the plan, and with fewer than twenty accounts every account is.\<close>

theorem authority_plan_ordered:
  assumes "distinct (map se_token_account (po_entities obs))" "plan_authorities env obs = Inr plan"
  shows "list_all2 selection_of (take 20 (ideal_choices (candidates obs))) (ap_selected plan) \<and>
    set (map fst (ideal_choices (candidates obs))) =
      {e \<in> set (positive_entities obs). se_authority_model e \<noteq> WalletCompatible \<and> se_authority_resolution e = Resolved} \<and>
    distinct (map asl_token_account (ap_selected plan)) \<and> length (ap_selected plan) \<le> 20 \<and>
    distinct (map hint (first_of_type [] (candidates obs))) \<and>
    set (map hint (first_of_type [] (candidates obs))) = set (map hint (candidates obs)) \<and>
    sorted (map (\<lambda>e. (- int (unat (balance_or_zero e)), se_token_account e)) (candidates obs))"
proof -
  have d: "distinct (map se_token_account (candidates obs))" by (rule candidates_distinct [OF assms(1)])
  note i = ideal_choices_facts [OF d]
  have l: "list_all2 selection_of (take 20 (ideal_choices (candidates obs))) (ap_selected plan)"
    using plan_authorities_Inr(1) [OF assms(2)] choices_ideal [OF d, of 20] by simp
  have "distinct (map asl_token_account (ap_selected plan))" by (rule selected_accounts_distinct [OF assms])
  moreover have "length (ap_selected plan) \<le> 20" using list_all2_lengthD [OF l] by simp
  moreover have "set (map fst (ideal_choices (candidates obs))) = {e \<in> set (positive_entities obs).
      se_authority_model e \<noteq> WalletCompatible \<and> se_authority_resolution e = Resolved}"
    unfolding i(2) candidates_set ..
  moreover have "set (map hint (first_of_type [] (candidates obs))) = set (map hint (candidates obs))"
    using first_of_type_hints(1) [of "[]" "candidates obs"] by simp
  moreover have "sorted (map (\<lambda>e. (- int (unat (balance_or_zero e)), se_token_account e)) (candidates obs))"
    by (simp add: candidates_def)
  ultimately show ?thesis using l first_of_type_hints(2) [of "[]" "candidates obs"] by blast
qed

section \<open>One case\<close>

text \<open>The account is the vault of the pool its authority is: the program address of the pool and the
  mint asked for.\<close>

definition vault_of :: "chain \<Rightarrow> string \<Rightarrow> string \<Rightarrow> string \<Rightarrow> bool" where
  "vault_of chain mint authority token_account \<longleftrightarrow>
     (\<exists>program pool m. ch_parse_address chain DLMM_PROGRAM = Some program \<and>
        ch_parse_address chain authority = Some pool \<and> ch_show_address chain m = mint \<and>
        token_account = ch_show_address chain (reserve_address chain program pool m))"

definition no_control :: "chain \<Rightarrow> string \<Rightarrow> AuthorityCase \<Rightarrow> bool" where
  "no_control chain mint k \<longleftrightarrow> \<not> ac_execution_supported k \<and> \<not> ac_signer_assumed_locally k \<and>
     pth_required_signers (ac_control_path k) = [] \<and>
     (ac_resolution k, ac_conversion k) \<in> {(Unresolved, Indeterminate), (PartiallyResolved, Indeterminate),
       (ResolvedNeedsPrivateAuthorization, Unsupported), (ResolvedProtocolInternal, Unsupported)} \<and>
     (if ac_resolution k = ResolvedProtocolInternal
      then vault_of chain mint (asl_recorded_authority (ac_selection k)) (pth_token_account (ac_control_path k))
      else True)"

lemma initial_path_simps [simp]:
  "pth_token_account (initial_path e) = se_token_account e" "pth_required_signers (initial_path e) = []"
  by (simp_all add: initial_path_def)

lemma dlmm_resolve_Inr:
  assumes "dlmm_resolve chain e raw mint path = Inr (r, cv, why, path')"
  shows "(r, cv) \<in> {(PartiallyResolved, Indeterminate), (ResolvedProtocolInternal, Unsupported)} \<and>
    pth_token_account path' = pth_token_account path \<and> pth_required_signers path' = pth_required_signers path \<and>
    (r = ResolvedProtocolInternal \<longrightarrow> vault_of chain mint (se_authority e) (se_token_account e))"
proof (cases "decode_pool chain (se_authority e) raw mint")
  case (Inl err)
  with assms show ?thesis by (auto simp: dlmm_resolve_def)
next
  case (Inr p)
  then obtain program where p: "ch_parse_address chain (se_authority e) = Some (dp_pool p)"
    "ch_parse_address chain DLMM_PROGRAM = Some program" "proven_pool chain program p"
    using decode_pool_Inr by blast
  have "vault_of chain mint (se_authority e) (se_token_account e)"
    if "(ch_show_address chain (fst (dp_vaults p)) = se_token_account e \<and> ch_show_address chain (fst (dp_mints p)) = mint) \<or>
      (ch_show_address chain (snd (dp_vaults p)) = se_token_account e \<and> ch_show_address chain (snd (dp_mints p)) = mint)"
    using that p unfolding vault_of_def proven_pool_def by metis
  with assms Inr show ?thesis
    by (auto simp: dlmm_resolve_def Let_def result_simps split: if_splits)
qed

lemma multisig_resolve_Inr:
  assumes "multisig_resolve e path = Inr (r, cv, why, path')"
  shows "(r, cv) = (ResolvedNeedsPrivateAuthorization, Unsupported) \<and>
    pth_token_account path' = pth_token_account path \<and> pth_required_signers path' = pth_required_signers path"
  using assms by (auto simp: multisig_resolve_def Let_def result_simps)

lemma control_of_Inr:
  assumes "control_of chain e captured mint = Inr (r, cv, why, path)"
  shows "(r, cv) \<in> {(Unresolved, Indeterminate), (PartiallyResolved, Indeterminate),
      (ResolvedNeedsPrivateAuthorization, Unsupported), (ResolvedProtocolInternal, Unsupported)} \<and>
    pth_token_account path = se_token_account e \<and> pth_required_signers path = [] \<and>
    (r = ResolvedProtocolInternal \<longrightarrow> vault_of chain mint (se_authority e) (se_token_account e))"
proof -
  consider (plain) "(r, cv) \<in> {(Unresolved, Indeterminate), (PartiallyResolved, Indeterminate)}" "path = initial_path e"
    | (multisig) "multisig_resolve e (initial_path e) = Inr (r, cv, why, path)"
    | (dlmm) raw where "dlmm_resolve chain e raw mint (initial_path e) = Inr (r, cv, why, path)"
    using assms by (auto simp: control_of_def Let_def result_simps split: if_splits)
  then show ?thesis
  proof cases
    case plain
    then show ?thesis by auto
  next
    case multisig
    from multisig_resolve_Inr [OF this] show ?thesis by simp
  next
    case dlmm
    from dlmm_resolve_Inr [OF this] show ?thesis by auto
  qed
qed

lemma resolve_one_Inr:
  assumes "resolve_one chain sel e c mint = Inr k"
  shows "no_control chain mint k" "ac_selection k = sel" "pth_token_account (ac_control_path k) = se_token_account e"
proof -
  obtain captured r cv why path where "control_of chain e captured mint = Inr (r, cv, why, path)"
    "asl_recorded_authority sel = se_authority e" "ac_resolution k = r" "ac_conversion k = cv"
    "ac_control_path k = path" "ac_selection k = sel" "\<not> ac_execution_supported k" "\<not> ac_signer_assumed_locally k"
    using assms by (auto simp: resolve_one_def Let_def result_simps)
  with control_of_Inr show "no_control chain mint k" "ac_selection k = sel"
    "pth_token_account (ac_control_path k) = se_token_account e"
    unfolding no_control_def by auto
qed

section \<open>The report\<close>

lemma entity_by_account:
  assumes "bt_get (bt_collect (map (\<lambda>e. (se_token_account e, e)) es)) a = Some e"
  shows "e \<in> set es" "se_token_account e = a"
  using assms by (auto simp: bt_collect_get dest!: map_of_SomeD)

definition case_of_selection :: "chain \<Rightarrow> string \<Rightarrow> AuthoritySelection \<Rightarrow> AuthorityCase \<Rightarrow> bool" where
  "case_of_selection chain mint sel k \<longleftrightarrow> no_control chain mint k \<and> ac_selection k = sel \<and>
     pth_token_account (ac_control_path k) = asl_token_account sel"

lemma resolve_cases_Inr:
  assumes "resolve_cases chain c mint (bt_collect (map (\<lambda>e. (se_token_account e, e)) es)) sels s = Inr s'"
  shows "\<exists>ks. rv_cases s' = rv_cases s @ ks \<and> list_all2 (case_of_selection chain mint) sels ks"
  using assms
proof (induction sels arbitrary: s)
  case (Cons sel sels)
  from Cons.prems obtain e k initial resolved where
    e: "bt_get (bt_collect (map (\<lambda>e. (se_token_account e, e)) es)) (asl_token_account sel) = Some e"
    and k: "resolve_one chain sel e c mint = Inr k"
    and r: "resolve_cases chain c mint (bt_collect (map (\<lambda>e. (se_token_account e, e)) es)) sels
       \<lparr>rv_cases = rv_cases s @ [k], rv_initial = initial, rv_resolved = resolved\<rparr> = Inr s'"
    by (auto simp: result_simps)
  have "case_of_selection chain mint sel k"
    using resolve_one_Inr [OF k] entity_by_account [OF e] by (simp add: case_of_selection_def)
  moreover obtain ks where "rv_cases s' = (rv_cases s @ [k]) @ ks" "list_all2 (case_of_selection chain mint) sels ks"
    using Cons.IH [OF r] by auto
  ultimately show ?case by (intro exI [of _ "k # ks"]) simp
qed simp

lemma resolve_authority_Inr:
  assumes "resolve_authority chain env plan obs c = Inr report"
  shows "\<exists>s u bytes. resolve_cases chain c (ap_mint plan)
      (bt_collect (map (\<lambda>e. (se_token_account e, e)) (po_entities obs))) (ap_selected plan)
      \<lparr>rv_cases = [], rv_initial = [],
       rv_resolved = zero_groups [''ResolvedExecutable'', ''ResolvedExecutionUnsupported'',
         ''ResolvedNeedsPrivateAuthorization'', ''ResolvedProtocolInternal'',
         ''PartiallyResolved'', ''StillUnresolved'']\<rparr> = Inr s \<and>
    group_population (map asl_token_account (ap_selected plan)) (positive_entities obs)
      \<lparr>un_population = zero_groups [''ProgramOwnedAuthority'', ''TokenMultisig'', ''Unknown'', ''Unresolved''],
       un_count = 0, un_raw = 0\<rparr> = Inr u \<and>
    plan_authorities env obs = Inr plan \<and> ae_capture_bytes env c = Inr bytes \<and>
    ch_sha256 chain bytes = po_capture_sha256 obs \<and> ar_cases report = rv_cases s \<and>
    av_cases_selected (ar_coverage report) = length (ap_selected plan) \<and>
    av_initial (ar_coverage report) = rv_initial s \<and> av_resolved (ar_coverage report) = rv_resolved s \<and>
    av_population_initial (ar_coverage report) = un_population u \<and>
    av_unselected_non_wallet_accounts (ar_coverage report) = un_count u \<and>
    av_unselected_non_wallet_raw (ar_coverage report) = show_nat (unat (un_raw u))"
  using assms unfolding resolve_authority_def Let_def
  by (simp only: and_then_Inr ensure_Inr authority_budget_validate_def Inr_inject sum.inject) (elim exE conjE, hypsubst, simp)

lemma report_cases:
  assumes "resolve_authority chain env plan obs c = Inr report"
  shows "list_all2 (case_of_selection chain (po_mint obs)) (ap_selected plan) (ar_cases report)"
    "plan_authorities env obs = Inr plan"
proof -
  obtain s where s: "resolve_cases chain c (ap_mint plan)
      (bt_collect (map (\<lambda>e. (se_token_account e, e)) (po_entities obs))) (ap_selected plan)
      \<lparr>rv_cases = [], rv_initial = [],
       rv_resolved = zero_groups [''ResolvedExecutable'', ''ResolvedExecutionUnsupported'',
         ''ResolvedNeedsPrivateAuthorization'', ''ResolvedProtocolInternal'',
         ''PartiallyResolved'', ''StillUnresolved'']\<rparr> = Inr s"
    and p: "plan_authorities env obs = Inr plan" and c: "ar_cases report = rv_cases s"
    using resolve_authority_Inr [OF assms] by (elim exE conjE)
  show "plan_authorities env obs = Inr plan" by (rule p)
  from resolve_cases_Inr [OF s] show "list_all2 (case_of_selection chain (po_mint obs)) (ap_selected plan) (ar_cases report)"
    unfolding c plan_authorities_Inr(3) [OF p] by auto
qed

lemma vault_unique:
  assumes "inj (ch_show_address chain)" "vault_of chain mint authority a" "vault_of chain mint authority b"
  shows "a = b"
  using assms by (auto simp: vault_of_def dest: injD)

text \<open>C38. Resolution never turns an identified controller into a signer. In a report every selected
  account keeps its one case, in the order of the plan; no case has an assumed signer, a required
  signer or a supported execution, none is proven, and an account is protocol internal only when it
  is the vault address of the pool its authority is. One pool explains one account: no two protocol
  internal cases share an authority.\<close>

theorem authority_grants_nothing:
  assumes r: "resolve_authority chain env plan obs c = Inr report"
    and "distinct (map se_token_account (po_entities obs))" "inj (ch_show_address chain)"
  shows "map ac_selection (ar_cases report) = ap_selected plan \<and>
    list_all (no_control chain (po_mint obs)) (ar_cases report) \<and>
    distinct (map (\<lambda>k. asl_recorded_authority (ac_selection k))
      (filter (\<lambda>k. ac_resolution k = ResolvedProtocolInternal) (ar_cases report)))"
proof -
  note cs = report_cases [OF r]
  have m: "map ac_selection (ar_cases report) = ap_selected plan"
    using cs(1) by (induction rule: list_all2_induct) (simp_all add: case_of_selection_def)
  have k: "list_all (\<lambda>k. case_of_selection chain (po_mint obs) (ac_selection k) k) (ar_cases report)"
    using cs(1) by (induction rule: list_all2_induct) (simp_all add: case_of_selection_def)
  then have n: "list_all (no_control chain (po_mint obs)) (ar_cases report)"
    by (rule list.pred_mono_strong) (simp add: case_of_selection_def)
  let ?int = "filter (\<lambda>k. ac_resolution k = ResolvedProtocolInternal) (ar_cases report)"
  have d: "distinct (map (\<lambda>k. asl_token_account (ac_selection k)) (ar_cases report))"
    using selected_accounts_distinct [OF assms(2) cs(2)] by (simp add: o_def flip: m)
  have di: "distinct (map (\<lambda>k. asl_token_account (ac_selection k)) ?int)" by (rule distinct_map_filter [OF d])
  have "inj_on (\<lambda>k. asl_recorded_authority (ac_selection k)) (set ?int)"
  proof (rule inj_onI)
    fix k l
    assume kl: "k \<in> set ?int" "l \<in> set ?int"
      "asl_recorded_authority (ac_selection k) = asl_recorded_authority (ac_selection l)"
    have v: "vault_of chain (po_mint obs) (asl_recorded_authority (ac_selection x)) (asl_token_account (ac_selection x))"
      if "x \<in> set ?int" for x
      using that k by (auto simp: list_all_iff case_of_selection_def no_control_def)
    have "asl_token_account (ac_selection k) = asl_token_account (ac_selection l)"
      using vault_unique [OF assms(3) v [OF kl(1)]] v [OF kl(2)] kl(3) by simp
    with di kl(1,2) show "k = l" unfolding distinct_map by (auto dest: inj_onD)
  qed
  then have "distinct (map (\<lambda>k. asl_recorded_authority (ac_selection k)) ?int)"
    using di unfolding distinct_map by blast
  with m n show ?thesis by blast
qed

section \<open>Coverage\<close>

definition group_raw :: "BalanceGroup \<Rightarrow> nat" where
  "group_raw g = (case parse_uint (bg_public_balance_raw g) of Some (v :: u128) \<Rightarrow> unat v | None \<Rightarrow> 0)"

definition total_accounts :: "(string, BalanceGroup) btree_map \<Rightarrow> nat" where
  "total_accounts m = sum_list (map (bg_accounts \<circ> snd) m)"

definition total_raw :: "(string, BalanceGroup) btree_map \<Rightarrow> nat" where
  "total_raw m = sum_list (map (group_raw \<circ> snd) m)"

lemma bt_get_fresh: "sorted_wrt (<) (k # map fst m) \<Longrightarrow> bt_get m k = None" for k :: "'k::linorder"
proof -
  assume s: "sorted_wrt (<) (k # map fst m)"
  then have "\<forall>y\<in>set (map fst m). k < y" by simp
  then have "k \<notin> set (map fst m)" by (metis less_irrefl)
  then show ?thesis by (simp add: bt_get_def map_of_eq_None_iff)
qed

lemma sum_bt_insert:
  "bt_wf m \<Longrightarrow> sum_list (map (f \<circ> snd) (bt_insert k v m)) + (case bt_get m k of Some x \<Rightarrow> f x | None \<Rightarrow> 0) =
     sum_list (map (f \<circ> snd) m) + (f v :: nat)"
proof (induction m)
  case (Cons p m)
  obtain k' v' where p: "p = (k', v')" by (cases p)
  have wf: "bt_wf m" "sorted_wrt (<) (k' # map fst m)" using Cons.prems by (auto simp: bt_wf_def p)
  consider "k < k'" | "k = k'" | "k' < k" by fastforce
  then show ?case
  proof cases
    case 1
    then have "bt_get (p # m) k = None" using wf(2) by (intro bt_get_fresh) (auto simp: p intro: less_trans)
    with 1 show ?thesis by (simp add: p)
  next
    case 2
    then show ?thesis by (simp add: p bt_get_def)
  next
    case 3
    then show ?thesis using Cons.IH [OF wf(1)] by (auto simp: p bt_get_def)
  qed
qed (simp add: bt_get_def)

lemma empty_group_simps [simp]: "bg_accounts empty_balance_group = 0" "group_raw empty_balance_group = 0"
proof -
  have "parse_uint (show_nat (unat (0 :: u128))) = Some (0 :: u128)" by (rule parse_uint_show)
  moreover have "show_nat (unat (0 :: u128)) = ''0''" by code_simp
  ultimately show "bg_accounts empty_balance_group = 0" "group_raw empty_balance_group = 0"
    by (simp_all add: empty_balance_group_def group_raw_def)
qed

lemma add_group_Inr:
  assumes "add_group m k amount = Inr m'" "bt_wf m"
  shows "bt_wf m' \<and> total_accounts m' = total_accounts m + 1 \<and> total_raw m' = total_raw m + unat amount"
proof -
  let ?item = "case bt_get m k of Some g \<Rightarrow> g | None \<Rightarrow> empty_balance_group"
  obtain t :: u128 where t: "parse_uint (bg_public_balance_raw ?item) = Some t" "unat t + unat amount < 2 ^ 128"
    "m' = bt_insert k \<lparr>bg_accounts = bg_accounts ?item + 1,
      bg_public_balance_raw = show_nat (unat (t + ucast amount))\<rparr> m"
    using assms(1) by (auto simp: add_group_def Let_def result_simps)
  have g: "group_raw ?item = unat t" using t(1) by (simp add: group_raw_def)
  have "unat (t + ucast amount) = unat t + unat amount"
    using t(2) by (subst unat_add_small) simp_all
  moreover have "group_raw \<lparr>bg_accounts = bg_accounts ?item + 1,
      bg_public_balance_raw = show_nat (unat (t + ucast amount))\<rparr> = unat (t + ucast amount)"
    unfolding group_raw_def BalanceGroup.simps parse_uint_show by simp
  ultimately have r: "group_raw \<lparr>bg_accounts = bg_accounts ?item + 1,
      bg_public_balance_raw = show_nat (unat (t + ucast amount))\<rparr> = group_raw ?item + unat amount"
    unfolding g by simp
  have c: "(case bt_get m k of Some x \<Rightarrow> f x | None \<Rightarrow> 0) = f ?item" if "f empty_balance_group = (0 :: nat)" for f
    using that by (simp split: option.splits)
  have "total_accounts m' = total_accounts m + 1"
    using sum_bt_insert [OF assms(2), of bg_accounts k "\<lparr>bg_accounts = bg_accounts ?item + 1,
      bg_public_balance_raw = show_nat (unat (t + ucast amount))\<rparr>"]
    unfolding total_accounts_def t(3) c [of bg_accounts, simplified] by simp
  moreover have "total_raw m' = total_raw m + unat amount"
    using sum_bt_insert [OF assms(2), of group_raw k "\<lparr>bg_accounts = bg_accounts ?item + 1,
      bg_public_balance_raw = show_nat (unat (t + ucast amount))\<rparr>"]
    unfolding total_raw_def t(3) c [of group_raw, simplified] r by simp
  ultimately show ?thesis using bt_insert_wf [OF assms(2)] unfolding t(3) by blast
qed

lemma zero_groups_totals: "bt_wf (zero_groups ks)" "total_accounts (zero_groups ks) = 0" "total_raw (zero_groups ks) = 0"
proof -
  show wf: "bt_wf (zero_groups ks)" unfolding zero_groups_def by (rule bt_collect_wf)
  have "g = empty_balance_group" if "(k, g) \<in> set (zero_groups ks)" for k g
  proof -
    have "bt_get (zero_groups ks) k = Some g" using that bt_get_mem [OF wf] by simp
    then show ?thesis unfolding zero_groups_def bt_collect_get by (auto dest!: map_of_SomeD)
  qed
  then show "total_accounts (zero_groups ks) = 0" "total_raw (zero_groups ks) = 0"
    by (force simp: total_accounts_def total_raw_def sum_list_eq_0_iff)+
qed

definition selection_balance :: "AuthoritySelection \<Rightarrow> nat" where
  "selection_balance sel = (case parse_uint (asl_observed_balance_raw sel) of Some (b :: u64) \<Rightarrow> unat b | None \<Rightarrow> 0)"

lemma resolve_cases_totals:
  assumes "resolve_cases chain c mint entities sels s = Inr s'" "bt_wf (rv_initial s)" "bt_wf (rv_resolved s)"
  shows "total_accounts (rv_initial s') = total_accounts (rv_initial s) + length sels \<and>
    total_accounts (rv_resolved s') = total_accounts (rv_resolved s) + length sels \<and>
    total_raw (rv_initial s') = total_raw (rv_initial s) + sum_list (map selection_balance sels) \<and>
    total_raw (rv_resolved s') = total_raw (rv_resolved s) + sum_list (map selection_balance sels)"
  using assms
proof (induction sels arbitrary: s)
  case (Cons sel sels)
  from Cons.prems(1) obtain e k amount initial resolved where
    k: "resolve_one chain sel e c mint = Inr k" and amount: "entity_balance e = Inr amount"
    and i: "add_group (rv_initial s) (entity_type_name (asl_initial_classification sel)) amount = Inr initial"
    and r: "add_group (rv_resolved s) (outcome_key (ac_resolution k)) amount = Inr resolved"
    and rest: "resolve_cases chain c mint entities sels
       \<lparr>rv_cases = rv_cases s @ [k], rv_initial = initial, rv_resolved = resolved\<rparr> = Inr s'"
    by (auto simp: result_simps)
  have "asl_observed_balance_raw sel = ta_raw_balance (se_state e)"
    using k by (auto simp: resolve_one_def result_simps)
  then have b: "selection_balance sel = unat amount"
    using amount by (simp add: selection_balance_def entity_balance_def result_simps)
  note ii = add_group_Inr [OF i Cons.prems(2)] and rr = add_group_Inr [OF r Cons.prems(3)]
  from Cons.IH [OF rest] ii rr show ?case by (simp add: b)
qed simp

lemma group_population_totals:
  assumes "group_population selected es u = Inr u'" "bt_wf (un_population u)"
  shows "total_accounts (un_population u') = total_accounts (un_population u) +
      length (filter (\<lambda>e. se_authority_model e \<noteq> WalletCompatible) es) \<and>
    un_count u' = un_count u + length (filter (\<lambda>e. se_authority_model e \<noteq> WalletCompatible \<and>
      se_token_account e \<notin> set selected) es)"
  using assms
proof (induction es arbitrary: u)
  case (Cons e es)
  show ?case
  proof (cases "se_authority_model e = WalletCompatible")
    case True
    then show ?thesis using Cons by simp
  next
    case False
    then obtain amount population where
      g: "add_group (un_population u) (if se_authority_resolution e = NotResolved then ''Unresolved''
            else entity_type_name (se_authority_model e)) amount = Inr population"
      and rest: "group_population selected es
        (if se_token_account e \<in> set selected then u\<lparr>un_population := population\<rparr>
         else \<lparr>un_population = population, un_count = un_count u + 1, un_raw = un_raw u + ucast amount\<rparr>) = Inr u'"
      using Cons.prems(1) by (auto simp: result_simps)
    note gg = add_group_Inr [OF g Cons.prems(2)]
    from Cons.IH [OF rest] gg False show ?thesis by (auto split: if_splits)
  qed
qed simp

lemma selected_are_candidates:
  assumes "plan_authorities env obs = Inr plan" "distinct (map se_token_account (po_entities obs))"
  shows "set (map asl_token_account (ap_selected plan)) \<subseteq> se_token_account ` set (candidates obs)"
proof -
  have d: "distinct (map se_token_account (candidates obs))" by (rule candidates_distinct [OF assms(2)])
  have "list_all2 selection_of (take 20 (ideal_choices (candidates obs))) (ap_selected plan)"
    using plan_authorities_Inr(1) [OF assms(1)] choices_ideal [OF d, of 20] by simp
  then have "map (se_token_account \<circ> fst) (take 20 (ideal_choices (candidates obs))) = map asl_token_account (ap_selected plan)"
    by (induction rule: list_all2_induct) (simp_all add: selection_of_def)
  then have "set (map asl_token_account (ap_selected plan)) =
      (se_token_account \<circ> fst) ` set (take 20 (ideal_choices (candidates obs)))" by (metis set_map)
  also have "\<dots> \<subseteq> se_token_account ` set (map fst (ideal_choices (candidates obs)))"
    by (auto dest!: in_set_takeD)
  finally show ?thesis unfolding ideal_choices_facts(2) [OF d] .
qed


section \<open>A pool and its vault\<close>

definition ex_pool_fields :: "u8 list list" where
  "ex_pool_fields = [replicate 32 0, replicate 32 0, [255], [10, 0], [3], [0, 0, 0, 0], [10, 0], [0], [0],
     [0, 0], [0], [0], replicate 32 1, replicate 32 2, replicate 32 1, replicate 32 2, replicate 16 0,
     replicate 32 0, replicate 288 0, replicate 32 0, replicate 128 0, replicate 8 0, replicate 32 0,
     replicate 32 0, replicate 32 7, replicate 8 0, replicate 8 0, replicate 8 0, replicate 8 0,
     replicate 32 0, [0], [0], [1], replicate 21 0]"

text \<open>Addresses are written as their bytes; the address of a pool is 32 sevens, that of a vault the
  mint it is for.\<close>

definition ex_pool_chain :: chain where
  "ex_pool_chain = ex_chain\<lparr>
     ch_find_program_address := (\<lambda>seeds program. (if length seeds = 3 then hd seeds else seeds ! 1, 255)),
     ch_base64 := (\<lambda>s. Some (DISCRIMINATOR @ concat ex_pool_fields))\<rparr>"

definition ex_show :: "u8 list \<Rightarrow> string" where
  "ex_show = map (\<lambda>b. char_of (unat b))"

definition ex_pool_account :: json where
  "ex_pool_account = JObject [(''data'', JArray [JString ''pool'', JString ''base64'']),
     (''executable'', JBool False), (''lamports'', JNumber (PosInt 9)), (''owner'', JString DLMM_PROGRAM)]"

lemma ex_show_inj: "inj ex_show"
proof (rule injI)
  fix a b :: "u8 list" assume "ex_show a = ex_show b"
  then show "a = b"
  proof (induction a arbitrary: b)
    case (Cons x a)
    then obtain y c where b: "b = y # c" "char_of (unat x) = (char_of (unat y) :: char)" "ex_show a = ex_show c"
      by (cases b) (auto simp: ex_show_def)
    then have "of_char (char_of (unat x)) = (of_char (char_of (unat y)) :: nat)" by simp
    then have "x = y" by (simp add: word_unat_eq_iff)
    with b Cons.IH show ?case by simp
  qed (simp add: ex_show_def)
qed

lemma ex_pool_chain_simps:
  "ch_show_address ex_pool_chain = ex_show" "ch_is_on_curve ex_pool_chain a"
  "ch_parse_address ex_pool_chain s = Some (map (\<lambda>c. of_nat (of_char c)) s)"
  "ch_base64 ex_pool_chain s = Some (DISCRIMINATOR @ concat ex_pool_fields)"
  "ch_sha256 ex_pool_chain b = ''digest''"
  "fst (ch_find_program_address ex_pool_chain [x, y, z] p) = x"
  "snd (ch_find_program_address ex_pool_chain ss p) = 255"
  "reserve_address ex_pool_chain p x y = y"
  by (simp_all add: ex_pool_chain_def ex_chain_def ex_show_def fun_eq_iff reserve_address_def)

lemma ex_parse_show: "ch_parse_address ex_pool_chain (ex_show a) = Some a"
  by (simp add: ex_pool_chain_simps ex_show_def o_def)

lemma ex_layout: "lb_pair_layout (concat ex_pool_fields) = Some
  \<lparr>lb_bump_seed = 255, lb_bin_step_seed = [10, 0], lb_pair_type = 3, lb_active_id = 0, lb_bin_step = 10,
   lb_status = 0, lb_require_base_factor_seed = 0, lb_activation_type = 0,
   lb_creator_pool_on_off_control = 0, lb_token_x_mint = replicate 32 1, lb_token_y_mint = replicate 32 2,
   lb_reserve_x = replicate 32 1, lb_reserve_y = replicate 32 2, lb_base_key = replicate 32 7,
   lb_token_mint_x_program_flag = 0, lb_token_mint_y_program_flag = 0, lb_version = 1\<rparr>"
proof -
  have "map length ex_pool_fields = LB_PAIR_WIDTHS"
    by (simp add: ex_pool_fields_def LB_PAIR_WIDTHS_def)
  then have "split_widths LB_PAIR_WIDTHS (concat ex_pool_fields) = Some ex_pool_fields"
    unfolding split_widths_Some by simp
  then show ?thesis
    by (simp add: lb_pair_layout_def) (simp add: ex_pool_fields_def from_le_bytes_def nth_Cons')
qed

definition ex_pool_name :: string where "ex_pool_name = ex_show (replicate 32 7)"
definition ex_mint_name :: string where "ex_mint_name = ex_show (replicate 32 1)"

definition ex_pool :: DecodedPool where
  "ex_pool = \<lparr>dp_pool = replicate 32 7, dp_mints = (replicate 32 1, replicate 32 2),
     dp_vaults = (replicate 32 1, replicate 32 2), dp_token_programs = (LEGACY_PROGRAM, LEGACY_PROGRAM),
     dp_decoded_fields = pool_fields ex_pool_chain (the (lb_pair_layout (concat ex_pool_fields))) 255\<rparr>"

lemma ex_pool_bytes: "raw_account_bytes ex_pool_chain ex_pool_account = Inr (DISCRIMINATOR @ concat ex_pool_fields)"
  by (simp add: raw_account_bytes_def ex_pool_account_def json_at_def ex_pool_chain_simps)

lemma ex_bin_step: "to_le_bytes (10 :: u16) = [10, 0]"
  by code_simp

lemma ex_check_layout: "check_layout (the (lb_pair_layout (concat ex_pool_fields))) = Inr ()"
  by (simp add: check_layout_def ex_layout ex_bin_step)

lemma ex_replicate: "replicate 32 (1 :: u8) \<noteq> replicate 32 2"
proof -
  have "hd (replicate 32 (1 :: u8)) \<noteq> hd (replicate 32 2)" by simp
  then show ?thesis by metis
qed

lemma ex_pool_of_layout:
  "pool_of_layout ex_pool_chain program (replicate 32 7) (the (lb_pair_layout (concat ex_pool_fields))) = Inr ex_pool"
proof -
  let ?l = "the (lb_pair_layout (concat ex_pool_fields))"
  have f: "lb_base_key ?l = replicate 32 7" "lb_bump_seed ?l = 255" "lb_token_x_mint ?l = replicate 32 1"
    "lb_token_y_mint ?l = replicate 32 2" "lb_reserve_x ?l = replicate 32 1" "lb_reserve_y ?l = replicate 32 2"
    "lb_token_mint_x_program_flag ?l = 0" "lb_token_mint_y_program_flag ?l = 0"
    by (simp_all only: ex_layout option.sel LbPairLayout.simps)
  have p: "ch_find_program_address ex_pool_chain [replicate 32 7, a, b] program = (replicate 32 7, 255)" for a b
    by (rule prod_eqI) (simp_all only: ex_pool_chain_simps fst_conv snd_conv)
  show ?thesis
    unfolding pool_of_layout_def p f Let_def prod.case ex_pool_chain_simps token_program_of_flag_def ex_pool_def
    by simp
qed

lemma ex_pool_length: "length (DISCRIMINATOR @ concat ex_pool_fields) = DLMM_ACCOUNT_LEN"
  by (simp add: DISCRIMINATOR_def ex_pool_fields_def)

lemma ex_pool_split:
  "take 8 (DISCRIMINATOR @ concat ex_pool_fields) = DISCRIMINATOR"
  "drop 8 (DISCRIMINATOR @ concat ex_pool_fields) = concat ex_pool_fields"
  by (simp_all add: DISCRIMINATOR_def)

lemma ex_pool_account_bytes:
  "account_bytes ex_pool_chain ex_pool_account DLMM_PROGRAM = Inr (DISCRIMINATOR @ concat ex_pool_fields)"
  unfolding account_bytes_def ex_pool_bytes by (simp add: ex_pool_account_def json_at_def)

lemma decode_pool_ok:
  assumes "ch_parse_address chain pool = Some a" "account_bytes chain raw DLMM_PROGRAM = Inr bytes"
    "length bytes = DLMM_ACCOUNT_LEN" "take 8 bytes = DISCRIMINATOR" "lb_pair_layout (drop 8 bytes) = Some l"
    "check_layout l = Inr ()" "lb_token_x_mint l \<noteq> lb_token_y_mint l" "lb_reserve_x l \<noteq> lb_reserve_y l"
    "ch_show_address chain (lb_token_x_mint l) = target" "ch_parse_address chain DLMM_PROGRAM = Some program"
    "pool_of_layout chain program a l = Inr p"
  shows "decode_pool chain pool raw target = Inr p"
  using assms by (simp add: decode_pool_def)

lemma ex_decode_pool: "decode_pool ex_pool_chain ex_pool_name ex_pool_account ex_mint_name = Inr ex_pool"
proof (rule decode_pool_ok [OF _ ex_pool_account_bytes ex_pool_length ex_pool_split(1) _ ex_check_layout _ _ _ _ ex_pool_of_layout])
  show "ch_parse_address ex_pool_chain ex_pool_name = Some (replicate 32 7)"
    unfolding ex_pool_name_def by (rule ex_parse_show)
  show "lb_pair_layout (drop 8 (DISCRIMINATOR @ concat ex_pool_fields)) =
      Some (the (lb_pair_layout (concat ex_pool_fields)))"
    unfolding ex_pool_split(2) ex_layout by simp
  show "ch_parse_address ex_pool_chain DLMM_PROGRAM = Some (map (\<lambda>c. of_nat (of_char c)) DLMM_PROGRAM)"
    by (rule ex_pool_chain_simps)
qed (simp_all only: ex_layout option.sel LbPairLayout.simps ex_replicate not_False_eq_True
    ex_pool_chain_simps(1) ex_mint_name_def)

definition ex_pool_evidence :: EvidenceRef where
  "ex_pool_evidence = \<lparr>ev_rpc_id = 0, ev_pointer = ''/value/0'', ev_slot = 5\<rparr>"

definition ex_vault :: StressEntity where
  "ex_vault = (ex_entity ex_mint_name ''7'')
     \<lparr>se_authority := ex_pool_name, se_authority_model := ProgramOwnedAuthority,
      se_authority_observation := \<lparr>ao_is_on_curve = True, ao_account_exists = True,
        ao_runtime_owner = Some DLMM_PROGRAM, ao_executable = Some False, ao_multisig = None\<rparr>,
      se_classification_reason :=
        ''Authority account has a non-System runtime owner; signing program and protocol role remain unknown'',
      se_authority_evidence := Some ex_pool_evidence\<rparr>"

definition ex_pool_capture :: Capture where
  "ex_pool_capture = ex_capture\<lparr>cap_mint := ex_mint_name, cap_observations :=
     [ex_observation ''getMultipleAccounts'' JNull (ex_response (JArray [ex_pool_account]))]\<rparr>"

definition ex_authority_env :: authority_env where
  "ex_authority_env = \<lparr>ae_capture_bytes = (\<lambda>_. Inr []), ae_plan_len = (\<lambda>_. Inr 0),
     ae_report_len = (\<lambda>_. Inr 0), ae_plan_digest = (\<lambda>_. Inr ''p'')\<rparr>"

definition ex_vault_selection :: AuthoritySelection where
  "ex_vault_selection = \<lparr>asl_token_account = ex_mint_name, asl_recorded_authority = ex_pool_name,
     asl_initial_classification = ProgramOwnedAuthority, asl_observed_balance_raw = ''7'',
     asl_control_type_hint = hint ex_vault, asl_selection_reason = ''NewControlType''\<rparr>"

lemma ex_vault_simps:
  "se_token_account ex_vault = ex_mint_name" "se_authority ex_vault = ex_pool_name"
  "se_authority_model ex_vault = ProgramOwnedAuthority" "se_authority_resolution ex_vault = Resolved"
  "ta_raw_balance (se_state ex_vault) = ''7''" "se_authority_evidence ex_vault = Some ex_pool_evidence"
  "ao_runtime_owner (se_authority_observation ex_vault) = Some DLMM_PROGRAM"
  by (simp_all add: ex_vault_def ex_entity_def)

lemma ex_vault_balance: "entity_balance ex_vault = Inr 7"
proof -
  have "''7'' = show_nat (unat (7 :: u64))" using ex_strings by simp
  then show ?thesis unfolding entity_balance_def ex_vault_simps by (simp only: parse_uint_show ok_or.simps)
qed

lemma ex_raw_authority: "raw_authority ex_pool_capture ex_vault = Inr ex_pool_account"
proof -
  have "json_pointer (ex_response (JArray [ex_pool_account])) ''/value/0'' = Some ex_pool_account"
  proof -
    have "show_nat (unat (0 :: u64)) = ''0''" using ex_strings by simp
    then have "parse_uint ''0'' = Some (0 :: u64)" using parse_uint_show [of "0 :: u64"] by simp
    then have i: "pointer_index ''0'' = Some 0" by (simp add: pointer_index_def)
    show ?thesis by (simp add: json_pointer_def ex_response_def i)
  qed
  then show ?thesis
    by (simp add: raw_authority_def ex_vault_simps ex_pool_evidence_def ex_pool_capture_def ex_observation_def)
qed

lemma ex_check_classification: "check_classification ex_pool_chain ex_vault ex_pool_account = Inr ()"
proof -
  have a: "ex_pool_account \<noteq> JNull" "as_str (json_at ex_pool_account ''owner'') = Some DLMM_PROGRAM"
    "as_bool (json_at ex_pool_account ''executable'') = Some False"
    by (simp_all add: ex_pool_account_def json_at_def)
  obtain x y where p: "ch_parse_address ex_pool_chain ex_pool_name = Some x"
    "ch_parse_address ex_pool_chain DLMM_PROGRAM = Some y"
    using ex_pool_chain_simps(3) by blast
  show ?thesis
    by (simp add: check_classification_def classify_authority_def ex_vault_simps p a ex_pool_bytes
        ex_pool_chain_simps(2) Let_def) (simp add: ex_vault_def)
qed

lemma resolve_one_ok:
  assumes "asl_recorded_authority sel = se_authority e" "asl_initial_classification sel = se_authority_model e"
    "asl_observed_balance_raw sel = ta_raw_balance (se_state e)" "se_authority_resolution e = Resolved"
    "raw_authority c e = Inr raw" "raw \<noteq> JNull" "check_classification chain e raw = Inr ()"
    "raw_account_bytes chain raw = Inr bytes" "as_u64 (json_at raw ''lamports'') = Some n"
    "control_of chain e (Some raw) mint = Inr (r, cv, why, path)" "ch_parse_address chain (se_authority e) = Some a"
  shows "\<exists>k. resolve_one chain sel e c mint = Inr k \<and> ac_resolution k = r"
  using assms by (simp add: resolve_one_def Let_def)

lemma ex_resolve_one:
  "\<exists>k. resolve_one ex_pool_chain ex_vault_selection ex_vault ex_pool_capture ex_mint_name = Inr k \<and>
     ac_resolution k = ResolvedProtocolInternal"
proof -
  have "ch_show_address ex_pool_chain (fst (dp_vaults ex_pool)) = se_token_account ex_vault"
    "ch_show_address ex_pool_chain (fst (dp_mints ex_pool)) = ex_mint_name"
    by (simp_all add: ex_pool_def ex_pool_chain_simps(1) ex_vault_simps ex_mint_name_def)
  then obtain why path where "control_of ex_pool_chain ex_vault (Some ex_pool_account) ex_mint_name =
      Inr (ResolvedProtocolInternal, Unsupported, why, path)"
    using ex_decode_pool
    by (simp add: control_of_def dlmm_resolve_def dlmm_can_resolve_def ex_vault_simps Let_def)
  then show ?thesis
    by (intro resolve_one_ok [OF _ _ _ _ ex_raw_authority _ ex_check_classification ex_pool_bytes])
      (simp_all add: ex_vault_selection_def ex_vault_simps ex_pool_account_def json_at_def ex_pool_chain_simps(3))
qed

text \<open>An observation with the vault as its only account.\<close>

definition ex_vault_observation :: "PopulationObservation \<Rightarrow> PopulationObservation" where
  "ex_vault_observation obs = obs\<lparr>po_entities := [ex_vault], po_mint := ex_mint_name,
     po_capture_sha256 := ''digest''\<rparr>"

lemma ex_plan_authorities:
  "\<exists>plan. plan_authorities ex_authority_env (ex_vault_observation obs) = Inr plan \<and>
     ap_selected plan = [ex_vault_selection]"
proof -
  have "candidates (ex_vault_observation obs) = [ex_vault]"
    by (simp add: candidates_def positive_entities_def ex_vault_observation_def ex_vault_simps)
  moreover have "choices 20 [ex_vault] = [(ex_vault, ''NewControlType'')]" by (simp add: choices_def Let_def)
  moreover have "show_nat (unat (7 :: u64)) = ''7''" using ex_strings by simp
  then have "select_authority (ex_vault, ''NewControlType'') = Inr ex_vault_selection"
    by (simp add: select_authority_def ex_vault_balance ex_vault_selection_def ex_vault_simps)
  ultimately show ?thesis
    by (simp add: plan_authorities_def ex_authority_env_def authority_budget_def Let_def)
qed

lemma add_group_ok:
  assumes "(case bt_get m k of Some g \<Rightarrow> g | None \<Rightarrow> empty_balance_group) = empty_balance_group"
  shows "\<exists>m'. add_group m k amount = Inr m'"
proof -
  have "parse_uint (show_nat (unat (0 :: u128))) = Some (0 :: u128)" by (rule parse_uint_show)
  moreover have "show_nat (unat (0 :: u128)) = ''0''" by code_simp
  ultimately have p: "parse_uint (bg_public_balance_raw empty_balance_group) = Some (0 :: u128)" by (simp add: empty_balance_group_def)
  have "unat (ucast amount :: u128) < 2 ^ LENGTH(128)" by (rule unat_less_pow)
  then have "checked_add (0 :: u128) (ucast amount) = Some (ucast amount)"
    by (simp add: checked_add_def)
  then show ?thesis unfolding add_group_def assms Let_def p by simp
qed

lemma resolve_authority_ok:
  assumes "ap_budget plan = authority_budget" "ae_capture_bytes env c = Inr bytes"
    "ch_sha256 chain bytes = po_capture_sha256 obs" "plan_authorities env obs = Inr plan"
    "resolve_cases chain c (ap_mint plan) (bt_collect (map (\<lambda>e. (se_token_account e, e)) (po_entities obs)))
       (ap_selected plan) \<lparr>rv_cases = [], rv_initial = [],
         rv_resolved = zero_groups [''ResolvedExecutable'', ''ResolvedExecutionUnsupported'',
           ''ResolvedNeedsPrivateAuthorization'', ''ResolvedProtocolInternal'',
           ''PartiallyResolved'', ''StillUnresolved'']\<rparr> = Inr s"
    "group_population (map asl_token_account (ap_selected plan)) (positive_entities obs)
       \<lparr>un_population = zero_groups [''ProgramOwnedAuthority'', ''TokenMultisig'', ''Unknown'', ''Unresolved''],
        un_count = 0, un_raw = 0\<rparr> = Inr u"
    "ae_plan_digest env plan = Inr h" "\<And>r. ae_report_len env r = Inr 0"
  shows "\<exists>report. resolve_authority chain env plan obs c = Inr report \<and> ar_cases report = rv_cases s"
  using assms by (simp add: resolve_authority_def Let_def authority_budget_validate_def)

lemma ex_report:
  "\<exists>plan report. resolve_authority ex_pool_chain ex_authority_env plan (ex_vault_observation obs) ex_pool_capture =
     Inr report \<and> map ac_resolution (ar_cases report) = [ResolvedProtocolInternal]"
proof -
  obtain plan where p: "plan_authorities ex_authority_env (ex_vault_observation obs) = Inr plan"
    "ap_selected plan = [ex_vault_selection]"
    using ex_plan_authorities [of obs] by (elim exE conjE)
  note pp = plan_authorities_Inr(2,3) [OF p(1)]
  obtain k where k: "resolve_one ex_pool_chain ex_vault_selection ex_vault ex_pool_capture ex_mint_name = Inr k"
    "ac_resolution k = ResolvedProtocolInternal"
    using ex_resolve_one by (elim exE conjE)
  have ns: "\<not> ac_signer_assumed_locally k" "\<not> ac_execution_supported k"
    using resolve_one_Inr(1) [OF k(1)] by (simp_all add: no_control_def)
  let ?zero = "zero_groups [''ResolvedExecutable'', ''ResolvedExecutionUnsupported'',
    ''ResolvedNeedsPrivateAuthorization'', ''ResolvedProtocolInternal'', ''PartiallyResolved'', ''StillUnresolved'']"
  have z: "(case bt_get (zero_groups ks) k of Some g \<Rightarrow> g | None \<Rightarrow> empty_balance_group) = empty_balance_group" for ks k
    unfolding zero_groups_def bt_collect_get by (auto split: option.splits dest!: map_of_SomeD)
  obtain i r u where a: "add_group [] (entity_type_name (asl_initial_classification ex_vault_selection)) 7 = Inr i"
    "add_group ?zero (outcome_key (ac_resolution k)) 7 = Inr r"
    "add_group (zero_groups [''ProgramOwnedAuthority'', ''TokenMultisig'', ''Unknown'', ''Unresolved''])
       (entity_type_name ProgramOwnedAuthority) 7 = Inr u"
    using add_group_ok [of "[]"] add_group_ok [OF z] by (metis bt_get_def map_of.simps(1) option.case(1))
  have "bt_get (bt_collect [(ex_mint_name, ex_vault)]) ex_mint_name = Some ex_vault"
    by (simp add: bt_collect_get)
  then have rc: "resolve_cases ex_pool_chain ex_pool_capture ex_mint_name
      (bt_collect (map (\<lambda>e. (se_token_account e, e)) [ex_vault])) [ex_vault_selection]
      \<lparr>rv_cases = [], rv_initial = [], rv_resolved = ?zero\<rparr> =
      Inr \<lparr>rv_cases = [k], rv_initial = i, rv_resolved = r\<rparr>"
    using a k(1) ns by (simp add: ex_vault_simps ex_vault_balance ex_vault_selection_def)
  have gp: "group_population [ex_mint_name] [ex_vault]
      \<lparr>un_population = zero_groups [''ProgramOwnedAuthority'', ''TokenMultisig'', ''Unknown'', ''Unresolved''],
       un_count = 0, un_raw = 0\<rparr> = Inr \<lparr>un_population = u, un_count = 0, un_raw = 0\<rparr>"
    using a(3) by (simp add: ex_vault_simps ex_vault_balance)
  have o: "po_entities (ex_vault_observation obs) = [ex_vault]" "po_mint (ex_vault_observation obs) = ex_mint_name"
    "positive_entities (ex_vault_observation obs) = [ex_vault]" "po_capture_sha256 (ex_vault_observation obs) = ''digest''"
    by (simp_all add: ex_vault_observation_def positive_entities_def ex_vault_simps)
  have sel: "map asl_token_account [ex_vault_selection] = [ex_mint_name]" by (simp add: ex_vault_selection_def)
  have env: "ae_capture_bytes ex_authority_env c = Inr []" "ae_report_len ex_authority_env x = Inr 0"
    "ae_plan_digest ex_authority_env y = Inr ''p''" "ch_sha256 ex_pool_chain b = ''digest''" for c x y b
    by (simp_all add: ex_authority_env_def ex_pool_chain_simps)
  have "\<exists>report. resolve_authority ex_pool_chain ex_authority_env plan (ex_vault_observation obs) ex_pool_capture =
      Inr report \<and> ar_cases report = [k]"
    using resolve_authority_ok [OF pp(1) env(1) _ p(1), of ex_pool_chain ex_pool_capture
        "\<lparr>rv_cases = [k], rv_initial = i, rv_resolved = r\<rparr>" "\<lparr>un_population = u, un_count = 0, un_raw = 0\<rparr>" "''p''"]
    unfolding o p(2) sel pp(2) env rc gp by simp
  then obtain report where "resolve_authority ex_pool_chain ex_authority_env plan (ex_vault_observation obs)
      ex_pool_capture = Inr report" "ar_cases report = [k]" by (elim exE conjE)
  then show ?thesis using k(2) by (intro exI [of _ plan] exI [of _ report]) simp
qed

lemma ex_vault_distinct: "distinct (map se_token_account (po_entities (ex_vault_observation obs)))"
  by (simp add: ex_vault_observation_def)

lemma ex_chain_inj: "inj (ch_show_address ex_pool_chain)"
  unfolding ex_pool_chain_simps(1) by (rule ex_show_inj)

theorem authority_plan_ordered_witness:
  "\<exists>obs plan. plan_authorities ex_authority_env obs = Inr plan \<and> ap_selected plan \<noteq> [] \<and>
     distinct (map asl_token_account (ap_selected plan))"
proof -
  fix obs
  obtain plan where p: "plan_authorities ex_authority_env (ex_vault_observation obs) = Inr plan"
    "ap_selected plan = [ex_vault_selection]"
    using ex_plan_authorities [of obs] by (elim exE conjE)
  from authority_plan_ordered [OF ex_vault_distinct p(1)] have "distinct (map asl_token_account (ap_selected plan))"
    by (elim conjE)
  with p show ?thesis by (intro exI [of _ "ex_vault_observation obs"] exI [of _ plan]) simp
qed

theorem authority_grants_nothing_witness:
  "\<exists>plan obs report. resolve_authority ex_pool_chain ex_authority_env plan obs ex_pool_capture = Inr report \<and>
     map ac_resolution (ar_cases report) = [ResolvedProtocolInternal] \<and>
     list_all (no_control ex_pool_chain (po_mint obs)) (ar_cases report)"
proof -
  fix obs
  obtain plan report where r: "resolve_authority ex_pool_chain ex_authority_env plan (ex_vault_observation obs)
      ex_pool_capture = Inr report" "map ac_resolution (ar_cases report) = [ResolvedProtocolInternal]"
    using ex_report [of obs] by (elim exE conjE)
  from authority_grants_nothing [OF r(1) ex_vault_distinct ex_chain_inj] r show ?thesis
    by (intro exI [of _ plan] exI [of _ "ex_vault_observation obs"] exI [of _ report]) (elim conjE, intro conjI)
qed


end
