(* ===== verification/Spec2Isabelle.thy ===== *)
theory Spec2Isabelle
  imports LendingProperties LendingBuilds ConversionProperties Impact ClusterProperties ShrinkProperties
    PackageProperties StressReplay AuthorityProperties
begin

text \<open>
  A verification library for Eplyx, a tool that replays on-chain positions against two builds of a
  program, or against a proposed asset conversion, and reports what changes.

  The program has four layers, and the theories follow them.

  \<^bold>\<open>On-chain programs.\<close> The fixture lending program is \<open>interface/src/lib.rs\<close>
  (\<open>LendingInterface\<close>: wire format, account records, error codes, reference risk arithmetic) and
  \<open>programs/fixture-lending/src\<close> (\<open>LendingMath\<close>: the risk arithmetic of builds v1 and v2;
  \<open>LendingProcessor\<close>: one function per handler, every guard and early return in the code's
  order). A handler maps the store of accounts to an error or a new store; the store is a map from
  addresses, so that two account arguments with the same key alias, as they do in the runtime, and
  an error is a transaction rolled back. \<open>LendingSafety\<close> and \<open>LendingInvariant\<close> hold the facts,
  \<open>LendingProperties\<close> what each instruction guarantees, the wire formats, and the invariant of
  the step relation over successful and failed programs and price updates; \<open>LendingBuilds\<close>
  compares the builds. The candidate conversion program \<open>programs/eplyx-demo-conversion/src/lib.rs\<close>
  is \<open>DemoConversion\<close>, with its theorems in \<open>ConversionProperties\<close>.

  \<^bold>\<open>Comparison of two builds.\<close> \<open>Money\<close> (\<open>engine/src/money.rs\<close>), \<open>Fixtures\<close>
  (\<open>types.rs\<close>, \<open>hexfmt.rs\<close>), \<open>Interpret\<close> (\<open>interpret.rs\<close>), \<open>Diff\<close> (\<open>diff.rs\<close>), \<open>Impact\<close>
  (\<open>impact.rs\<close>), \<open>Cluster\<close> (\<open>cluster.rs\<close>) and \<open>Shrink\<close> (\<open>shrink.rs\<close>): from the execution results
  of the two builds to classified differences, their economic impact, clusters of affected
  fixtures and minimised counterexamples. The \<open>Properties\<close> theory of each component holds its theorems.

  \<^bold>\<open>Conversion assurance.\<close> \<open>Json\<close> (\<open>numfmt.rs\<close> and the accessors of JSON values),
  \<open>ConversionPlan\<close> (\<open>conversion/mod.rs\<close>), \<open>Package\<close> (\<open>conversion/package.rs\<close>).

  \<^bold>\<open>Population stress.\<close> \<open>Decimals\<close> and \<open>LifecycleTypes\<close> (\<open>lifecycle/\<close>, \<open>expansion/mod.rs\<close>),
  \<open>TokenState\<close> (mints, token accounts and their extensions, \<open>lifecycle/decode.rs\<close>), \<open>Stress\<close>,
  \<open>StressClassify\<close>, \<open>StressPopulation\<close> and \<open>StressSelect\<close> (\<open>stress/\<close>: budget, state shapes,
  population records, the frozen plan), with \<open>StressProperties\<close>. \<open>StressRecord\<close> takes a population
  capture over a provider and a clock and \<open>StressCapture\<close> rebuilds the population from its raw
  responses (\<open>stress/population.rs\<close>): \<open>StressReplay\<close> proves that what the one records the other
  accepts, \<open>PopulationProperties\<close> that rows and authorities are those of the capture, and
  \<open>PlanProperties\<close> what that means for the cases of a plan.

  \<^bold>\<open>Conventions.\<close> \<open>Prelude\<close> has Rust's integers as words with their checked, saturating and
  narrowing operations, results as sums with \<open>and_then\<close> for the question mark operator, and
  little-endian bytes; \<open>RustStrings\<close> the trimming, formatting and parsing of strings; \<open>OrderedMap\<close>
  the ordered maps and sets behind a locale that grouping and counting are proved from;
  \<open>SolanaRuntime\<close> accounts, stores and system transfers. A panic of the code is an error value of
  its own type. Strings are byte strings; a non-ASCII literal is its UTF-8 encoding. Error values
  of the host are the messages of the code, without the context chains \<open>anyhow\<close> adds.

  \<^bold>\<open>Parameters.\<close> What is not in this repository is an argument: the runtime (program
  addresses, rent, clock), the token programs a conversion invokes (nothing at all is assumed of
  them in the safety theorem; the liveness theorem names the one behaviour it needs), base 58 and
  base 64, SHA-256 and canonical JSON, SPL account layouts, and the virtual machine that runs a
  candidate during minimisation.

  \<^bold>\<open>Termination.\<close> All definitions are total. The loops of the minimiser recurse on the probes
  still allowed and need no fuel; minimisation returns whenever every execution does.

  \<^bold>\<open>A finding.\<close> The lending decoder drops the version byte from the decoded fields and from the
  raw comparison, so a build that changes it alone is reported as unchanged; the lemma
  \<open>version_change_unreported\<close> of \<open>DiffProperties\<close> exhibits it.

  \<^bold>\<open>Not modelled.\<close> Command lines, file and network I/O, the virtual machine, reports and the
  dashboard, the cloud client and server, the adapters to third-party programs; and, planned, the
  package gate, resolution and readiness aggregation and the search.
\<close>

end
